(* ===== verification/Prelude.thy ===== *)
theory Prelude
  imports Main
begin

text \<open>
  The shared vocabulary of the development.  It holds the exception classes of psv as one
  datatype, the two effect shapes every component is written in, and the lemmas that let
  the simplifier take a successful run of such code apart.

  \<^item> \<open>'a result\<close> is the value of a Python expression that may raise: \<open>Inl e\<close> is the
    raised exception, \<open>Inr x\<close> the value.
  \<^item> \<open>('s, 'a) op\<close> is a Python method of an object with state \<open>'s\<close>: it returns the
    value or the exception together with the state left behind, because a method that
    raises keeps the mutations it made before.

  An exception carries the fixed text of its message; values interpolated into a message
  by the source are left out (no branch of psv reads a message).
\<close>

section \<open>Exceptions\<close>

datatype exn =
    ValueError string
  | TypeError string
  | KeyError string
  | RpcError string
  | ChainEvidenceError string
  | ReconciliationError string
  | SettlementSafetyError string
  | SutAdapterError string
  | SvmEvidenceError string
  | RuntimeError string
  | ProviderUnavailableError string
  | CaptureError string
  | OSError string
  | FileExistsError string
  | ArgumentTypeError string
  | ConfigurationError string
  | OtherException string

text \<open>
  The class tests of the source's \<^verbatim>\<open>except\<close> clauses: \<open>ChainEvidenceError\<close> derives from
  \<open>RpcError\<close>; \<open>ReconciliationError\<close>, \<open>SutAdapterError\<close> and \<open>SvmEvidenceError\<close> derive from
  \<open>ValueError\<close>; \<open>FileExistsError\<close> derives from \<open>OSError\<close>.
\<close>

fun is_rpc_error :: "exn \<Rightarrow> bool" where
  "is_rpc_error (RpcError m) = True"
| "is_rpc_error (ChainEvidenceError m) = True"
| "is_rpc_error _ = False"

fun is_value_error :: "exn \<Rightarrow> bool" where
  "is_value_error (ValueError m) = True"
| "is_value_error (ReconciliationError m) = True"
| "is_value_error (SutAdapterError m) = True"
| "is_value_error (SvmEvidenceError m) = True"
| "is_value_error _ = False"

fun is_reconciliation_error :: "exn \<Rightarrow> bool" where
  "is_reconciliation_error (ReconciliationError m) = True"
| "is_reconciliation_error _ = False"

fun is_os_error :: "exn \<Rightarrow> bool" where
  "is_os_error (OSError m) = True"
| "is_os_error (FileExistsError m) = True"
| "is_os_error _ = False"

section \<open>Code that may raise\<close>

named_theorems ok_iff \<open>what a successful run of fallible code says about its steps\<close>
named_theorems err_iff \<open>what a raising run of fallible code says about its steps\<close>

type_synonym 'a result = "exn + 'a"
type_synonym ('s, 'a) op = "'s \<Rightarrow> 'a result \<times> 's"

definition bindR :: "'a result \<Rightarrow> ('a \<Rightarrow> 'b result) \<Rightarrow> 'b result" where
  "bindR m f = (case m of Inl e \<Rightarrow> Inl e | Inr x \<Rightarrow> f x)"

definition guardR :: "bool \<Rightarrow> exn \<Rightarrow> unit result" where
  "guardR c e = (if c then Inr () else Inl e)"

text \<open>
  A loop whose body may raise, collecting one value per element; the first failing element
  ends it.
\<close>

fun traverseR :: "('a \<Rightarrow> 'b result) \<Rightarrow> 'a list \<Rightarrow> 'b list result" where
  "traverseR f [] = Inr []"
| "traverseR f (x # xs) = bindR (f x) (\<lambda>y. bindR (traverseR f xs) (\<lambda>ys. Inr (y # ys)))"

definition mapErrR :: "(exn \<Rightarrow> exn) \<Rightarrow> 'a result \<Rightarrow> 'a result" where
  "mapErrR h m = (case m of Inl e \<Rightarrow> Inl (h e) | Inr x \<Rightarrow> Inr x)"

lemma bindR_simps [simp]:
  "bindR (Inr x) f = f x"
  "bindR (Inl e) f = Inl e"
  by (simp_all add: bindR_def)

lemma bindR_ok [ok_iff]: "bindR m f = Inr y \<longleftrightarrow> (\<exists>x. m = Inr x \<and> f x = Inr y)"
  by (cases m) simp_all

lemma bindR_err [err_iff]:
  "bindR m f = Inl e \<longleftrightarrow> m = Inl e \<or> (\<exists>x. m = Inr x \<and> f x = Inl e)"
  by (cases m) simp_all

lemma guardR_simps [simp]:
  "guardR True e = Inr ()"
  "guardR False e = Inl e"
  by (simp_all add: guardR_def)

lemma guardR_ok [ok_iff]: "guardR c e = Inr u \<longleftrightarrow> c"
  by (simp add: guardR_def)

lemma guardR_err [err_iff]: "guardR c e = Inl e' \<longleftrightarrow> \<not> c \<and> e' = e"
  by (auto simp: guardR_def)

lemma mapErrR_simps [simp]:
  "mapErrR h (Inr x) = Inr x"
  "mapErrR h (Inl e) = Inl (h e)"
  by (simp_all add: mapErrR_def)

lemma mapErrR_ok [ok_iff]: "mapErrR h m = Inr y \<longleftrightarrow> m = Inr y"
  by (cases m) simp_all

lemma mapErrR_err [err_iff]: "mapErrR h m = Inl e \<longleftrightarrow> (\<exists>e'. m = Inl e' \<and> e = h e')"
  by (cases m) auto

lemma if_raise_ok [ok_iff]: "(if c then Inl e else k) = Inr y \<longleftrightarrow> \<not> c \<and> k = Inr y"
  by simp

lemma single_ok [ok_iff]:
  "(case xs of [x] \<Rightarrow> f x | _ \<Rightarrow> Inl e) = Inr r \<longleftrightarrow> (\<exists>x. xs = [x] \<and> f x = Inr r)"
  by (auto split: list.splits)

lemma traverseR_ok [ok_iff]:
  "traverseR f xs = Inr ys \<longleftrightarrow> list_all2 (\<lambda>x y. f x = Inr y) xs ys"
  by (induction xs arbitrary: ys) (auto simp: ok_iff list_all2_Cons1)

lemma traverseR_err [err_iff]:
  "traverseR f xs = Inl e \<Longrightarrow> \<exists>x\<in>set xs. f x = Inl e"
  by (induction xs) (auto simp: err_iff ok_iff)

lemma traverseR_length: "traverseR f xs = Inr ys \<Longrightarrow> length ys = length xs"
  by (auto simp: traverseR_ok dest: list_all2_lengthD)

lemma traverseR_set: "traverseR f xs = Inr ys \<Longrightarrow> set ys = {y. \<exists>x\<in>set xs. f x = Inr y}"
proof (induction xs arbitrary: ys)
  case Nil
  then show ?case by simp
next
  case (Cons x xs)
  then show ?case by (fastforce simp: ok_iff simp del: traverseR_ok)
qed

lemma traverseR_total: "(\<And>x. x \<in> set xs \<Longrightarrow> \<exists>y. f x = Inr y) \<Longrightarrow> \<exists>ys. traverseR f xs = Inr ys"
  by (induction xs) fastforce+

section \<open>Methods of an object with state\<close>

definition retS :: "'a \<Rightarrow> ('s, 'a) op" where
  "retS x = (\<lambda>s. (Inr x, s))"

definition raiseS :: "exn \<Rightarrow> ('s, 'a) op" where
  "raiseS e = (\<lambda>s. (Inl e, s))"

definition liftS :: "'a result \<Rightarrow> ('s, 'a) op" where
  "liftS m = (\<lambda>s. (m, s))"

definition bindS :: "('s, 'a) op \<Rightarrow> ('a \<Rightarrow> ('s, 'b) op) \<Rightarrow> ('s, 'b) op" where
  "bindS m f = (\<lambda>s. case m s of (Inl e, t) \<Rightarrow> (Inl e, t) | (Inr x, t) \<Rightarrow> f x t)"

lemma op_simps [simp]:
  "retS x s = (Inr x, s)"
  "raiseS e s = (Inl e, s)"
  "liftS m s = (m, s)"
  by (simp_all add: retS_def raiseS_def liftS_def)

lemma bindS_ok [ok_iff]:
  "bindS m f s = (Inr y, u) \<longleftrightarrow> (\<exists>x t. m s = (Inr x, t) \<and> f x t = (Inr y, u))"
  by (auto simp: bindS_def split: prod.splits sum.splits)

lemma bindS_err [err_iff]:
  "bindS m f s = (Inl e, u) \<longleftrightarrow>
     m s = (Inl e, u) \<or> (\<exists>x t. m s = (Inr x, t) \<and> f x t = (Inl e, u))"
  by (auto simp: bindS_def split: prod.splits sum.splits)

lemma bindS_step:
  "m s = (Inr x, t) \<Longrightarrow> bindS m f s = f x t"
  "m s = (Inl e, t) \<Longrightarrow> bindS m f s = (Inl e, t)"
  by (simp_all add: bindS_def)

lemma bindS_pure [simp]:
  "bindS (retS x) f = f x"
  "bindS (liftS (Inr x)) f = f x"
  "bindS (liftS (Inl e)) f = raiseS e"
  "bindS (raiseS e) f = raiseS e"
  by (auto simp: bindS_def fun_eq_iff)

lemma if_raiseS_ok [ok_iff]:
  "(if c then raiseS e else k) s = (Inr y, u) \<longleftrightarrow> \<not> c \<and> k s = (Inr y, u)"
  by simp

text \<open>
  A relation between the states before and after that holds of every step holds of a
  composed method, on the raising path too.
\<close>

definition keepsS :: "('s \<Rightarrow> 's \<Rightarrow> bool) \<Rightarrow> ('s, 'a) op \<Rightarrow> bool" where
  "keepsS R m \<longleftrightarrow> (\<forall>s. R s (snd (m s)))"

lemma keepsS_D: "keepsS R m \<Longrightarrow> m s = (r, t) \<Longrightarrow> R s t"
  by (metis keepsS_def snd_conv)

lemma keepsS_pure:
  assumes "\<And>s. R s s"
  shows "keepsS R (retS x)" "keepsS R (raiseS e)" "keepsS R (liftS m)"
  using assms by (simp_all add: keepsS_def)

lemma keepsS_bind:
  assumes trans: "\<And>a b c. R a b \<Longrightarrow> R b c \<Longrightarrow> R a c"
    and m: "keepsS R m" and f: "\<And>x. keepsS R (f x)"
  shows "keepsS R (bindS m f)"
proof (unfold keepsS_def, rule allI)
  fix s
  obtain r t where ms: "m s = (r, t)" by fastforce
  then have "R s t" using m by (simp add: keepsS_D)
  then show "R s (snd (bindS m f s))"
    using f ms trans by (cases r) (auto simp: bindS_def keepsS_def)
qed

lemma keepsS_if: "(c \<Longrightarrow> keepsS R a) \<Longrightarrow> (\<not> c \<Longrightarrow> keepsS R b) \<Longrightarrow> keepsS R (if c then a else b)"
  by simp

text \<open>Every exception an operation can raise satisfies \<open>P\<close>.\<close>

definition raisesR :: "(exn \<Rightarrow> bool) \<Rightarrow> 'a result \<Rightarrow> bool" where
  "raisesR P m \<longleftrightarrow> (\<forall>e. m = Inl e \<longrightarrow> P e)"

definition raisesS :: "(exn \<Rightarrow> bool) \<Rightarrow> ('s, 'a) op \<Rightarrow> bool" where
  "raisesS P m \<longleftrightarrow> (\<forall>s e t. m s = (Inl e, t) \<longrightarrow> P e)"

lemma raisesR_intros:
  "raisesR P (Inr x)"
  "P e \<Longrightarrow> raisesR P (Inl e)"
  "raisesR P m \<Longrightarrow> (\<And>x. m = Inr x \<Longrightarrow> raisesR P (f x)) \<Longrightarrow> raisesR P (bindR m f)"
  "(c \<Longrightarrow> raisesR P a) \<Longrightarrow> (\<not> c \<Longrightarrow> raisesR P b) \<Longrightarrow> raisesR P (if c then a else b)"
  "(\<And>x. x \<in> set xs \<Longrightarrow> raisesR P (g x)) \<Longrightarrow> raisesR P (traverseR g xs)"
  by (auto simp: raisesR_def bindR_err dest: traverseR_err)

lemma raisesS_bind:
  "raisesS P m \<Longrightarrow> (\<And>x. raisesS P (f x)) \<Longrightarrow> raisesS P (bindS m f)"
  unfolding raisesS_def bindS_err by blast

lemma raisesS_intros:
  "raisesS P (retS x)"
  "P e \<Longrightarrow> raisesS P (raiseS e)"
  "raisesR P r \<Longrightarrow> raisesS P (liftS r)"
  "(c \<Longrightarrow> raisesS P a) \<Longrightarrow> (\<not> c \<Longrightarrow> raisesS P b) \<Longrightarrow> raisesS P (if c then a else b)"
  by (auto simp: raisesS_def raisesR_def)

section \<open>Lists\<close>

lemma map_cong_id: "(\<And>x. x \<in> set xs \<Longrightarrow> f x = x) \<Longrightarrow> map f xs = xs"
  by (induction xs) auto

lemma drop_append_exact: "length xs = n \<Longrightarrow> drop n (xs @ ys) = ys"
  by simp

lemma take_append_exact: "length xs = n \<Longrightarrow> take n (xs @ ys) = xs"
  by simp

lemma distinct_keys_unique:
  assumes "distinct (map f xs)" "x \<in> set xs" "y \<in> set xs" "f x = f y"
  shows "x = y"
  using assms by (meson distinct_map inj_onD)


section \<open>Interface: a text encoding and its decoder\<close>

text \<open>
  Several components write a value as text and read it back strictly: JSON-RPC quantities,
  ABI words, indexed topics, base-unit amounts.  What a client relies on is that decoding
  undoes encoding on the valid values; a \<^emph>\<open>canonical\<close> decoder in addition accepts nothing
  but the encodings, up to the normalisation \<open>norm\<close> (letter case).
\<close>

locale codec =
  fixes enc :: "'a \<Rightarrow> string"
    and dec :: "string \<Rightarrow> 'a result"
    and valid :: "'a \<Rightarrow> bool"
  assumes dec_enc: "valid x \<Longrightarrow> dec (enc x) = Inr x"
begin

lemma enc_eq_iff: "valid x \<Longrightarrow> valid y \<Longrightarrow> enc x = enc y \<longleftrightarrow> x = y"
  by (metis dec_enc sum.inject(2))

lemma inj_on_enc: "inj_on enc (Collect valid)"
  by (simp add: inj_on_def enc_eq_iff)

lemma traverse_dec_enc: "list_all valid xs \<Longrightarrow> traverseR dec (map enc xs) = Inr xs"
  by (induction xs) (simp_all add: dec_enc)

end

locale canonical_codec = codec +
  fixes norm :: "string \<Rightarrow> string"
  assumes enc_dec: "dec s = Inr x \<Longrightarrow> valid x \<and> enc x = norm s"
begin

lemma dec_unique: "dec s = Inr x \<Longrightarrow> dec t = Inr x \<Longrightarrow> norm s = norm t"
  by (metis enc_dec)

lemma dec_enc_norm: "dec s = Inr x \<Longrightarrow> dec (norm s) = Inr x"
  by (metis dec_enc enc_dec)

lemma dec_range: "(\<exists>s. dec s = Inr x) \<longleftrightarrow> valid x"
  by (metis dec_enc enc_dec)

end

end
