(* ===== verification/Py_Strings.thy ===== *)
theory Py_Strings
  imports Prelude
begin

text \<open>
  The part of Python's \<^verbatim>\<open>str\<close>, \<^verbatim>\<open>int\<close> and \<^verbatim>\<open>bytes\<close> that psv uses, as total functions.

  A Python string is a \<open>string\<close> with one \<open>char\<close> per code point, so the model covers the
  code points below 256, and \<open>lower\<close>, the digit tests and \<open>int\<close> follow Python on all
  of them (a superscript two is a digit for \<^verbatim>\<open>isdigit\<close> and none for \<^verbatim>\<open>int\<close>).  The few
  literals of the source with other characters are only printed or compared; they are
  written as their UTF-8 bytes.  Python integers are unbounded, hence \<open>int\<close>.
\<close>

section \<open>Characters\<close>

definition hex_chars :: string where
  "hex_chars = ''0123456789abcdefABCDEF''"

definition is_hex :: "char \<Rightarrow> bool" where
  "is_hex c \<longleftrightarrow> c \<in> set hex_chars"

definition is_dec :: "char \<Rightarrow> bool" where
  "is_dec c \<longleftrightarrow> c \<in> set ''0123456789''"

definition code :: "char \<Rightarrow> int" where
  "code c = of_char c"

definition lower_char :: "char \<Rightarrow> char" where
  "lower_char c =
     (if 65 \<le> code c \<and> code c \<le> 90 \<or> 192 \<le> code c \<and> code c \<le> 222 \<and> code c \<noteq> 215
      then char_of (code c + 32) else c)"

definition lower :: "string \<Rightarrow> string" where
  "lower s = map lower_char s"

definition hex_val :: "char \<Rightarrow> int" where
  "hex_val c =
     (if code c < 58 then code c - 48 else if code c < 71 then code c - 55 else code c - 87)"

text \<open>\<open>str.isdigit\<close>: the decimal digits and, below 256, the three superscripts.\<close>

definition py_isdigit :: "string \<Rightarrow> bool" where
  "py_isdigit s \<longleftrightarrow> s \<noteq> [] \<and> (\<forall>c\<in>set s. is_dec c \<or> code c \<in> {178, 179, 185})"

definition py_isascii :: "string \<Rightarrow> bool" where
  "py_isascii s \<longleftrightarrow> (\<forall>c\<in>set s. code c < 128)"

definition py_isdecimal :: "string \<Rightarrow> bool" where
  "py_isdecimal s \<longleftrightarrow> s \<noteq> [] \<and> (\<forall>c\<in>set s. is_dec c)"

section \<open>Substrings, padding\<close>

definition startswith :: "string \<Rightarrow> string \<Rightarrow> bool" where
  "startswith s p \<longleftrightarrow> take (length p) s = p"

definition removeprefix :: "string \<Rightarrow> string \<Rightarrow> string" where
  "removeprefix s p = (if startswith s p then drop (length p) s else s)"

definition last_chars :: "nat \<Rightarrow> string \<Rightarrow> string" where
  "last_chars n s = drop (length s - n) s"

definition rjust :: "nat \<Rightarrow> char \<Rightarrow> string \<Rightarrow> string" where
  "rjust n c s = replicate (n - length s) c @ s"

definition ljust :: "nat \<Rightarrow> char \<Rightarrow> string \<Rightarrow> string" where
  "ljust n c s = s @ replicate (n - length s) c"

text \<open>\<^verbatim>\<open>s.strip()\<close>, and \<^verbatim>\<open>t in s\<close>.\<close>

definition py_isspace :: "char \<Rightarrow> bool" where
  "py_isspace c \<longleftrightarrow> 9 \<le> code c \<and> code c \<le> 13 \<or> 28 \<le> code c \<and> code c \<le> 32 \<or> code c = 133 \<or> code c = 160"

definition py_strip :: "string \<Rightarrow> string" where
  "py_strip s = rev (dropWhile py_isspace (rev (dropWhile py_isspace s)))"

fun contains :: "string \<Rightarrow> string \<Rightarrow> bool" where
  "contains t [] \<longleftrightarrow> t = []"
| "contains t (c # cs) \<longleftrightarrow> startswith (c # cs) t \<or> contains t cs"

section \<open>The regular expressions of the source\<close>

text \<open>\<^verbatim>\<open>fullmatch\<close> of \<^verbatim>\<open>0x[0-9a-fA-F]{n}\<close>.\<close>

definition match_hex :: "nat \<Rightarrow> string \<Rightarrow> bool" where
  "match_hex n s \<longleftrightarrow> startswith s ''0x'' \<and> length s = n + 2 \<and> (\<forall>c\<in>set (drop 2 s). is_hex c)"

text \<open>\<^verbatim>\<open>fullmatch\<close> of \<^verbatim>\<open>0x(?:0|[1-9a-fA-F][0-9a-fA-F]*)\<close>: a canonical quantity.\<close>

definition match_quantity :: "string \<Rightarrow> bool" where
  "match_quantity s \<longleftrightarrow>
     startswith s ''0x'' \<and>
     (drop 2 s = ''0'' \<or>
      drop 2 s \<noteq> [] \<and> hd (drop 2 s) \<noteq> CHR ''0'' \<and> (\<forall>c\<in>set (drop 2 s). is_hex c))"

text \<open>\<^verbatim>\<open>fullmatch\<close> of \<^verbatim>\<open>0x(?:[0-9a-fA-F]{2})*\<close>: even-length data.\<close>

definition match_data :: "string \<Rightarrow> bool" where
  "match_data s \<longleftrightarrow>
     startswith s ''0x'' \<and> even (length s) \<and> (\<forall>c\<in>set (drop 2 s). is_hex c)"

section \<open>Numbers as text\<close>

text \<open>The value of a digit string in base \<open>b\<close>, most significant digit first.\<close>

definition digits_val :: "int \<Rightarrow> string \<Rightarrow> int" where
  "digits_val b s = foldl (\<lambda>acc c. acc * b + hex_val c) 0 s"

text \<open>
  \<^verbatim>\<open>int(s, base)\<close> for base 10 and 16, \<open>None\<close> for \<^verbatim>\<open>ValueError\<close>: white space around the
  number, one sign, in base 16 an optional \<^verbatim>\<open>0x\<close> prefix with at most one underscore after
  it, then digits with single underscores between them.  An ASCII string is scanned with C's
  white space; other strings have every Unicode space replaced first.  A base-10 number of
  more than 4300 digits is refused by the interpreter's conversion limit.
\<close>

definition int_space :: "string \<Rightarrow> char \<Rightarrow> bool" where
  "int_space s c \<longleftrightarrow>
     9 \<le> code c \<and> code c \<le> 13 \<or> code c = 32 \<or>
     \<not> py_isascii s \<and> (28 \<le> code c \<and> code c \<le> 31 \<or> code c = 133 \<or> code c = 160)"

definition digit_ok :: "int \<Rightarrow> char \<Rightarrow> bool" where
  "digit_ok b c \<longleftrightarrow> is_hex c \<and> hex_val c < b"

fun us_digits :: "int \<Rightarrow> bool \<Rightarrow> int \<Rightarrow> string \<Rightarrow> int option" where
  "us_digits b us acc [] = (if us then None else Some acc)"
| "us_digits b us acc (c # cs) =
     (if c = CHR ''_'' then (if us then None else us_digits b True acc cs)
      else if digit_ok b c then us_digits b False (acc * b + hex_val c) cs
      else None)"

definition strip_space :: "string \<Rightarrow> string" where
  "strip_space s = rev (dropWhile (int_space s) (rev (dropWhile (int_space s) s)))"

definition unsigned_int :: "int \<Rightarrow> string \<Rightarrow> int option" where
  "unsigned_int b s =
     (if b = 16 \<and> (startswith s ''0x'' \<or> startswith s ''0X'')
      then us_digits b True 0 (if startswith (drop 2 s) ''_'' then drop 3 s else drop 2 s)
      else if b = 10 \<and> 4300 < length (filter (\<lambda>c. c \<noteq> CHR ''_'') s) then None
      else us_digits b True 0 s)"

definition py_int :: "int \<Rightarrow> string \<Rightarrow> int option" where
  "py_int b s =
     (let t = strip_space s in
      if startswith t ''-'' then map_option uminus (unsigned_int b (drop 1 t))
      else if startswith t ''+'' then unsigned_int b (drop 1 t)
      else unsigned_int b t)"

text \<open>Digits of a non-negative number, and \<^verbatim>\<open>str\<close>, \<^verbatim>\<open>hex\<close> and \<^verbatim>\<open>f"{n:064x}"\<close> of integers.\<close>

definition digit_char :: "int \<Rightarrow> char" where
  "digit_char d = ''0123456789abcdef'' ! nat d"

function digits_of :: "int \<Rightarrow> int \<Rightarrow> string" where
  "digits_of b n =
     (if n < b \<or> b < 2 then [digit_char n]
      else digits_of b (n div b) @ [digit_char (n mod b)])"
  by pat_completeness auto
termination
proof (relation "measure (\<lambda>(b, n). nat n)")
  fix b n :: int
  assume "\<not> (n < b \<or> b < 2)"
  then have "n div b < n" "0 \<le> n div b" by (auto simp: int_div_less_self pos_imp_zdiv_nonneg_iff)
  then show "((b, n div b), (b, n)) \<in> measure (\<lambda>(b, n). nat n)" by simp
qed simp

declare digits_of.simps [simp del]

definition py_str_int :: "int \<Rightarrow> string" where
  "py_str_int n = (if n < 0 then ''-'' @ digits_of 10 (- n) else digits_of 10 n)"

text \<open>The format \<^verbatim>\<open>+d\<close>: the sign is always written.\<close>

definition py_signed_int :: "int \<Rightarrow> string" where
  "py_signed_int n = (if n < 0 then py_str_int n else ''+'' @ py_str_int n)"

definition py_hex :: "int \<Rightarrow> string" where
  "py_hex n = (if n < 0 then ''-0x'' @ digits_of 16 (- n) else ''0x'' @ digits_of 16 n)"

section \<open>\<^verbatim>\<open>bytes.fromhex\<close>\<close>

text \<open>
  ASCII white space is skipped before every byte and at the end; then two hexadecimal
  digits are needed.  \<open>None\<close> is \<^verbatim>\<open>ValueError\<close>.
\<close>

definition ascii_space :: "char \<Rightarrow> bool" where
  "ascii_space c \<longleftrightarrow> 9 \<le> code c \<and> code c \<le> 13 \<or> code c = 32"

fun bytes_fromhex :: "string \<Rightarrow> int list option" where
  "bytes_fromhex [] = Some []"
| "bytes_fromhex [a] = (if ascii_space a then Some [] else None)"
| "bytes_fromhex (a # b # s) =
     (if ascii_space a then bytes_fromhex (b # s)
      else if is_hex a \<and> is_hex b
      then map_option ((#) (hex_val a * 16 + hex_val b)) (bytes_fromhex s)
      else None)"

text \<open>\<^verbatim>\<open>int(s, base)\<close> as an expression that may raise.\<close>

definition int_base :: "int \<Rightarrow> string \<Rightarrow> int result" where
  "int_base b s =
     (case py_int b s of
        None \<Rightarrow> Inl (ValueError ''invalid literal for int()'')
      | Some n \<Rightarrow> Inr n)"

text \<open>The number a \<^verbatim>\<open>0x\<close>-prefixed string of hexadecimal digits denotes.\<close>

definition hex_num :: "string \<Rightarrow> int" where
  "hex_num s = digits_val 16 (drop 2 s)"

section \<open>Facts about characters\<close>

lemma code_bounds: "0 \<le> code c" "code c < 256"
proof -
  have "code c = int (of_char c)" by (simp add: code_def of_nat_of_char)
  moreover have "(of_char c :: nat) < 256" by (rule nat_of_char_less_256)
  ultimately show "0 \<le> code c" "code c < 256" by simp_all
qed

lemma code_char_of: "0 \<le> n \<Longrightarrow> n < 256 \<Longrightarrow> code (char_of n) = n"
  by (simp add: code_def)

lemma lower_char_idem [simp]: "lower_char (lower_char c) = lower_char c"
  using code_bounds[of c] by (auto simp: lower_char_def code_char_of)

lemma lower_idem [simp]: "lower (lower s) = lower s"
  by (simp add: lower_def)

lemma lower_length [simp]: "length (lower s) = length s"
  by (simp add: lower_def)

lemma lower_append [simp]: "lower (s @ t) = lower s @ lower t"
  by (simp add: lower_def)

lemma lower_take_drop: "lower (drop n s) = drop n (lower s)" "lower (take n s) = take n (lower s)"
  by (simp_all add: lower_def drop_map take_map)

lemma hex_table:
  "\<forall>c\<in>set hex_chars. is_hex (lower_char c) \<and> hex_val (lower_char c) = hex_val c \<and>
     0 \<le> hex_val c \<and> hex_val c < 16 \<and> c \<notin> set ''_xX-+:'' \<and> \<not> ascii_space c \<and>
     48 \<le> code c \<and> code c < 128"
  by code_simp

lemma dec_table: "\<forall>c\<in>set ''0123456789''. is_hex c \<and> 0 \<le> hex_val c \<and> hex_val c < 10"
  by code_simp

lemma is_hex_lower [simp]: "is_hex c \<Longrightarrow> is_hex (lower_char c)"
  using hex_table by (simp add: is_hex_def)

lemma hex_val_lower [simp]: "is_hex c \<Longrightarrow> hex_val (lower_char c) = hex_val c"
  using hex_table by (simp add: is_hex_def)

lemma hex_val_bounds: "is_hex c \<Longrightarrow> 0 \<le> hex_val c \<and> hex_val c < 16"
  using hex_table by (simp add: is_hex_def)

lemma is_dec_hex: "is_dec c \<Longrightarrow> is_hex c"
  using dec_table by (simp only: is_dec_def)

lemma hex_val_dec: "is_dec c \<Longrightarrow> 0 \<le> hex_val c \<and> hex_val c < 10"
  using dec_table by (simp only: is_dec_def)

lemma is_hex_code: "is_hex c \<Longrightarrow> 48 \<le> code c \<and> code c < 128"
  using hex_table by (simp add: is_hex_def)

lemma is_hex_plain:
  assumes "is_hex c"
  shows "c \<noteq> CHR ''_''" "c \<noteq> CHR ''x''" "c \<noteq> CHR ''X''" "c \<noteq> CHR ''-''" "c \<noteq> CHR ''+''"
    "c \<noteq> CHR '':''" "\<not> ascii_space c"
  using assms hex_table by (auto simp only: is_hex_def list.set)

lemma hex_literals [simp]:
  "is_hex (CHR ''0'')" "\<not> is_hex (CHR ''x'')" "\<not> is_hex (CHR ''X'')" "\<not> is_hex (CHR ''-'')"
  "\<not> is_hex (CHR ''+'')" "\<not> is_hex (CHR ''_'')" "\<not> is_hex (CHR '' '')" "\<not> is_hex (CHR '':'')"
  by code_simp+

lemma code_literals [simp]: "code (CHR ''0'') = 48" "code (CHR ''x'') = 120"
  by code_simp+

lemma not_int_space:
  assumes "\<forall>d\<in>set s. 48 \<le> code d \<and> code d < 128" "c \<in> set s"
  shows "\<not> int_space s c"
  using assms by (fastforce simp: int_space_def py_isascii_def)

lemma digit_ok_16 [simp]: "digit_ok 16 c \<longleftrightarrow> is_hex c"
  using hex_val_bounds[of c] by (auto simp: digit_ok_def)

lemma digit_ok_10: "is_dec c \<Longrightarrow> digit_ok 10 c"
  using hex_val_dec[of c] by (simp add: digit_ok_def is_dec_hex)

section \<open>Facts about prefixes\<close>

lemma startswith_append: "startswith s p \<longleftrightarrow> (\<exists>t. s = p @ t)"
  by (metis append_eq_conv_conj append_take_drop_id startswith_def)

lemma startswith_simps [simp]:
  "startswith s []"
  "startswith [] (c # p) = False"
  "startswith (d # s) (c # p) = (c = d \<and> startswith s p)"
  by (auto simp: startswith_def)

lemma match_hex_iff:
  "match_hex n s \<longleftrightarrow> (\<exists>t. s = ''0x'' @ t \<and> length t = n \<and> (\<forall>c\<in>set t. is_hex c))"
  by (auto simp: match_hex_def startswith_append)

lemma lower_0x: "lower (CHR ''0'' # CHR ''x'' # t) = CHR ''0'' # CHR ''x'' # lower t"
  by (simp add: lower_def lower_char_def code_def)

lemma match_hex_lower [simp]: "match_hex n s \<Longrightarrow> match_hex n (lower s)"
  by (auto simp: match_hex_iff lower_0x) (auto simp: lower_def)

lemma match_data_iff:
  "match_data s \<longleftrightarrow> (\<exists>t. s = ''0x'' @ t \<and> even (length t) \<and> (\<forall>c\<in>set t. is_hex c))"
  by (auto simp: match_data_def startswith_append)

lemma match_hex_data: "even n \<Longrightarrow> match_hex n s \<Longrightarrow> match_data s"
  by (auto simp: match_hex_iff match_data_iff)

section \<open>Facts about digit strings\<close>

lemma digits_val_Nil [simp]: "digits_val b [] = 0"
  by (simp add: digits_val_def)

lemma foldl_digits:
  "foldl (\<lambda>acc c. acc * b + hex_val c) a s = a * b ^ length s + digits_val b s"
proof (induction s arbitrary: a)
  case Nil
  then show ?case by (simp add: digits_val_def)
next
  case (Cons c s)
  have "digits_val b (c # s) = foldl (\<lambda>acc c. acc * b + hex_val c) (hex_val c) s"
    by (simp add: digits_val_def)
  then show ?case using Cons.IH by (simp add: algebra_simps)
qed

lemma digits_val_append:
  "digits_val b (s @ t) = digits_val b s * b ^ length t + digits_val b t"
  using foldl_digits[of b "digits_val b s" t] by (simp add: digits_val_def)

lemma digits_val_single [simp]: "digits_val b [c] = hex_val c"
  by (simp add: digits_val_def)

lemma digits_val_Cons: "digits_val b (c # s) = hex_val c * b ^ length s + digits_val b s"
  using digits_val_append[of b "[c]" s] by simp

lemma digits_val_zeros [simp]: "digits_val b (replicate k (CHR ''0'') @ s) = digits_val b s"
  by (induction k) (simp_all add: digits_val_Cons hex_val_def code_def)

lemma digits_val_bounds:
  assumes "2 \<le> b" "\<And>c. c \<in> set s \<Longrightarrow> 0 \<le> hex_val c \<and> hex_val c < b"
  shows "0 \<le> digits_val b s \<and> digits_val b s < b ^ length s"
  using assms(2)
proof (induction s)
  case Nil
  then show ?case by simp
next
  case (Cons c s)
  then have IH: "0 \<le> digits_val b s" "digits_val b s < b ^ length s"
    and c: "0 \<le> hex_val c" "hex_val c \<le> b - 1" by (auto simp: less_diff_eq)
  have "hex_val c * b ^ length s \<le> (b - 1) * b ^ length s"
    using c(2) assms(1) by (intro mult_right_mono) auto
  with IH c assms(1) show ?case by (auto simp: digits_val_Cons algebra_simps)
qed

lemma hex_digits_bounds:
  "\<forall>c\<in>set s. is_hex c \<Longrightarrow> 0 \<le> digits_val 16 s \<and> digits_val 16 s < 16 ^ length s"
  by (rule digits_val_bounds) (auto simp: hex_val_bounds)

lemma hex_num_bounds: "match_hex n s \<Longrightarrow> 0 \<le> hex_num s \<and> hex_num s < 16 ^ n"
  using hex_digits_bounds by (auto simp: match_hex_iff hex_num_def)

lemma hex_num_lower [simp]:
  assumes "match_hex n s"
  shows "hex_num (lower s) = hex_num s"
proof -
  have *: "\<forall>c\<in>set t. is_hex c \<Longrightarrow> digits_val 16 (lower t) = digits_val 16 t" for t
    by (induction t) (auto simp: digits_val_Cons lower_def)
  from assms show ?thesis
    by (auto simp: match_hex_iff hex_num_def * lower_take_drop[symmetric])
qed

section \<open>\<open>int\<close> on digit strings\<close>

lemma us_digits_hex:
  "\<forall>c\<in>set s. digit_ok b c \<Longrightarrow> s \<noteq> [] \<or> \<not> us \<Longrightarrow>
     us_digits b us acc s = Some (foldl (\<lambda>acc c. acc * b + hex_val c) acc s)"
  by (induction b us acc s rule: us_digits.induct) (auto simp: digit_ok_def is_hex_plain)

lemma strip_space_id:
  assumes "\<And>c. c \<in> set s \<Longrightarrow> \<not> int_space s c"
  shows "strip_space s = s"
proof -
  have "dropWhile (int_space s) s = s" "dropWhile (int_space s) (rev s) = rev s"
    using assms by (cases s, simp_all) (cases "rev s"; simp; metis list.set_intros(1) set_rev)
  then show ?thesis by (simp add: strip_space_def)
qed

lemma py_int_prefixed:
  assumes "\<forall>c\<in>set t. is_hex c" "t \<noteq> []"
  shows "py_int 16 (''0x'' @ t) = Some (digits_val 16 t)"
proof -
  have "strip_space (''0x'' @ t) = ''0x'' @ t"
    using assms(1) by (intro strip_space_id not_int_space) (auto simp: is_hex_code)
  moreover have "\<not> startswith t ''_''" using assms by (cases t) (auto simp: is_hex_plain)
  ultimately show ?thesis
    using assms by (simp add: py_int_def unsigned_int_def us_digits_hex digits_val_def)
qed

lemma py_int_bare_hex:
  assumes "\<forall>c\<in>set t. is_hex c" "t \<noteq> []"
  shows "py_int 16 t = Some (digits_val 16 t)"
proof -
  have "strip_space t = t"
    using assms(1) by (intro strip_space_id not_int_space) (auto simp: is_hex_code)
  moreover have "\<not> startswith t ''0x''" "\<not> startswith t ''0X''" "\<not> startswith t ''-''"
    "\<not> startswith t ''+''"
    using assms by (auto simp: startswith_append is_hex_plain)
  ultimately show ?thesis
    using assms by (simp add: py_int_def unsigned_int_def us_digits_hex digits_val_def)
qed

lemma int_base_hex [simp]: "match_hex n s \<Longrightarrow> 0 < n \<Longrightarrow> int_base 16 s = Inr (hex_num s)"
  by (auto simp: match_hex_iff int_base_def hex_num_def py_int_prefixed[simplified])

lemma match_quantity_digits:
  "match_quantity s \<Longrightarrow> \<exists>t. s = ''0x'' @ t \<and> t \<noteq> [] \<and> (\<forall>c\<in>set t. is_hex c)"
  by (auto simp: match_quantity_def startswith_append)

lemma int_base_quantity [simp]: "match_quantity s \<Longrightarrow> int_base 16 s = Inr (hex_num s)"
proof -
  assume "match_quantity s"
  then obtain t where "s = ''0x'' @ t" "t \<noteq> []" "\<forall>c\<in>set t. is_hex c"
    using match_quantity_digits by blast
  then show ?thesis using py_int_prefixed[of t] by (simp add: int_base_def hex_num_def)
qed

lemma hex_num_nonneg: "match_quantity s \<Longrightarrow> 0 \<le> hex_num s"
  using match_quantity_digits[of s] hex_digits_bounds by (auto simp: hex_num_def)

section \<open>Printing\<close>

lemma print_table:
  "\<forall>d\<in>set [0..15]. is_hex (digit_char d) \<and> hex_val (digit_char d) = d \<and>
     lower_char (digit_char d) = digit_char d \<and>
     (d < 10 \<longrightarrow> is_dec (digit_char d)) \<and>
     (digit_char d = CHR ''0'' \<longrightarrow> d = 0)"
  by code_simp

lemma print_digit:
  assumes "0 \<le> d" "d < 16"
  shows "is_hex (digit_char d)" "hex_val (digit_char d) = d"
    "lower_char (digit_char d) = digit_char d"
    "d < 10 \<Longrightarrow> is_dec (digit_char d)"
    "digit_char d = CHR ''0'' \<Longrightarrow> d = 0"
  using assms print_table[unfolded set_upto, THEN bspec, of d] by auto

lemma digits_of_step:
  assumes "2 \<le> b" "\<not> n < b"
  shows "digits_of b n = digits_of b (n div b) @ [digit_char (n mod b)]"
  using assms by (simp add: digits_of.simps[of b n])

lemma digits_of_last:
  assumes "n < b"
  shows "digits_of b n = [digit_char n]"
  using assms by (simp add: digits_of.simps[of b n])

lemma mod_digit: "2 \<le> (b::int) \<Longrightarrow> b \<le> 16 \<Longrightarrow> 0 \<le> n mod b \<and> n mod b < b \<and> n mod b < 16"
  using pos_mod_bound[of b n] pos_mod_sign[of b n] by linarith

lemma digits_of_val:
  assumes "2 \<le> b" "b \<le> 16" "0 \<le> n"
  shows "digits_val b (digits_of b n) = n"
  using assms
proof (induction b n rule: digits_of.induct)
  case (1 b n)
  show ?case
  proof (cases "n < b")
    case True
    with "1.prems" show ?thesis by (simp add: digits_of_last print_digit)
  next
    case False
    with "1" have "digits_val b (digits_of b (n div b)) = n div b"
      by (simp add: pos_imp_zdiv_nonneg_iff)
    moreover have "0 \<le> n mod b" "n mod b < 16"
      using "1.prems" mod_digit by auto
    ultimately show ?thesis
      using "1.prems" False by (simp add: digits_of_step digits_val_append print_digit)
  qed
qed

lemma digits_of_chars:
  assumes "2 \<le> b" "b \<le> 16" "0 \<le> n" "c \<in> set (digits_of b n)"
  shows "is_hex c \<and> lower_char c = c \<and> (b \<le> 10 \<longrightarrow> is_dec c)"
  using assms
proof (induction b n rule: digits_of.induct)
  case (1 b n)
  show ?case
  proof (cases "n < b")
    case True
    with "1.prems" show ?thesis by (auto simp: digits_of_last print_digit)
  next
    case False
    have m: "0 \<le> n mod b" "n mod b < b" "n mod b < 16" using "1.prems" mod_digit by auto
    have "c \<in> set (digits_of b (n div b)) \<or> c = digit_char (n mod b)"
      using "1.prems" False by (auto simp: digits_of_step)
    moreover have "b \<le> 10 \<Longrightarrow> is_dec (digit_char (n mod b))"
      using m by (intro print_digit(4)) linarith+
    ultimately show ?thesis
      using "1" False m by (auto simp: pos_imp_zdiv_nonneg_iff print_digit(1-3))
  qed
qed

lemma digits_of_nonempty [simp]: "digits_of b n \<noteq> []"
  by (subst digits_of.simps) simp

lemma digits_of_leading:
  assumes "2 \<le> b" "b \<le> 16" "0 < n"
  shows "hd (digits_of b n) \<noteq> CHR ''0''"
  using assms
proof (induction b n rule: digits_of.induct)
  case (1 b n)
  show ?case
  proof (cases "n < b")
    case True
    with "1.prems" show ?thesis using print_digit(5)[of n] by (auto simp: digits_of_last)
  next
    case False
    with "1.prems" have "0 < n div b" by (simp add: pos_imp_zdiv_pos_iff)
    with "1" False show ?thesis by (simp add: digits_of_step)
  qed
qed

lemma digits_of_zero [simp]: "2 \<le> b \<Longrightarrow> digits_of b 0 = ''0''"
  by (simp add: digits_of_last digit_char_def)

lemma digits_of_length:
  assumes "2 \<le> b" "0 \<le> n" "n < b ^ k" "0 < k"
  shows "length (digits_of b n) \<le> k"
  using assms
proof (induction b n arbitrary: k rule: digits_of.induct)
  case (1 b n)
  show ?case
  proof (cases "n < b")
    case True
    with "1.prems" show ?thesis by (simp add: digits_of_last)
  next
    case False
    with "1.prems" obtain j where k: "k = Suc j" "0 < j"
      by (metis bot_nat_0.not_eq_extremum gr0_implies_Suc power_one_right One_nat_def)
    have "\<not> b ^ j \<le> n div b"
    proof
      assume "b ^ j \<le> n div b"
      then have "b ^ j * b \<le> n div b * b" using "1.prems" by (intro mult_right_mono) auto
      also have "\<dots> \<le> n" using "1.prems" 
        by (simp add: minus_mod_eq_div_mult[symmetric])
      finally show False using "1.prems" k by (simp add: mult.commute)
    qed
    then have "n div b < b ^ j" "0 \<le> n div b"
      using "1.prems" by (auto simp: pos_imp_zdiv_nonneg_iff)
    with "1.IH"[of j] "1.prems" False k show ?thesis by (simp add: digits_of_step)
  qed
qed

lemma match_quantity_py_hex: "0 \<le> n \<Longrightarrow> match_quantity (py_hex n)"
  using digits_of_chars[of 16 n] digits_of_leading[of 16 n]
  by (cases "n = 0") (auto simp: match_quantity_def py_hex_def)

lemma hex_num_py_hex [simp]: "0 \<le> n \<Longrightarrow> hex_num (py_hex n) = n"
  by (simp add: hex_num_def py_hex_def digits_of_val)

lemma digits_val_inj:
  assumes "length s = length t" "\<forall>c\<in>set s. is_hex c" "\<forall>c\<in>set t. is_hex c"
    and "digits_val 16 s = digits_val 16 t"
  shows "lower s = lower t"
  using assms
proof (induction s t rule: list_induct2)
  case Nil
  then show ?case by simp
next
  case (Cons c s d t)
  let ?B = "16 ^ length t :: int"
  have b: "0 \<le> digits_val 16 s" "digits_val 16 s < ?B" "0 \<le> digits_val 16 t" "digits_val 16 t < ?B"
    using Cons.prems Cons.hyps hex_digits_bounds[of s] hex_digits_bounds[of t] by auto
  have eq: "hex_val c * ?B + digits_val 16 s = hex_val d * ?B + digits_val 16 t"
    using Cons.prems Cons.hyps by (simp add: digits_val_Cons)
  have "(hex_val c * ?B + digits_val 16 s) div ?B = hex_val c"
    "(hex_val d * ?B + digits_val 16 t) div ?B = hex_val d"
    using b by (simp_all add: div_pos_pos_trivial)
  with eq have v: "hex_val c = hex_val d" by simp
  with eq have "digits_val 16 s = digits_val 16 t" by simp
  with Cons have "lower s = lower t" by simp
  moreover have "\<forall>c\<in>set hex_chars. \<forall>d\<in>set hex_chars. hex_val c = hex_val d \<longrightarrow> lower_char c = lower_char d"
    by code_simp
  then have "lower_char c = lower_char d" using Cons.prems v by (auto simp: is_hex_def)
  ultimately show ?case by (simp add: lower_def)
qed

lemma digits_inj:
  assumes "0 \<le> m" "0 \<le> n" "py_str_int m = py_str_int n"
  shows "m = n"
proof -
  have "digits_of 10 m = digits_of 10 n" using assms by (simp add: py_str_int_def)
  then have "digits_val 10 (digits_of 10 m) = digits_val 10 (digits_of 10 n)" by simp
  then show ?thesis using assms(1,2) by (simp add: digits_of_val)
qed

end
