(* ===== verification/Py_Values.thy ===== *)
theory Py_Values
  imports Py_Strings
begin

text \<open>
  The values psv receives from outside: what \<^verbatim>\<open>json.loads\<close> or an injected transport
  returns, annotated \<^verbatim>\<open>object\<close> or \<^verbatim>\<open>Any\<close> in the source.  Arguments whose annotation is a
  concrete type have that type in the model, so that the source's type tests on them hold
  by construction; only values of type \<open>pyval\<close> need the tests written out.
\<close>

section \<open>Values\<close>

datatype pyfloat = Finite int int | PosInf | NegInf | NaN

datatype pyval =
    PNone
  | PBool bool
  | PInt int
  | PFloat pyfloat
  | PStr string
  | PList "pyval list"
  | PDict "(pyval \<times> pyval) list"
  | POther string

type_synonym pydict = "(pyval \<times> pyval) list"

text \<open>
  \<open>Finite m e\<close> is the float \<open>m * 2 ^ e\<close>; \<open>POther\<close> is an object of any other class,
  by its class name.  A dict keeps its entries in insertion order.
\<close>

definition is_str :: "pyval \<Rightarrow> bool" where
  "is_str v \<longleftrightarrow> (case v of PStr s \<Rightarrow> True | _ \<Rightarrow> False)"

definition is_dict :: "pyval \<Rightarrow> bool" where
  "is_dict v \<longleftrightarrow> (case v of PDict d \<Rightarrow> True | _ \<Rightarrow> False)"

definition str_of :: "pyval \<Rightarrow> string" where
  "str_of v = (case v of PStr s \<Rightarrow> s | _ \<Rightarrow> [])"

text \<open>\<^verbatim>\<open>f < 0\<close> for a float.\<close>

fun float_neg :: "pyfloat \<Rightarrow> bool" where
  "float_neg (Finite m e) = (m < 0)"
| "float_neg NegInf = True"
| "float_neg _ = False"

lemma str_case_ok [ok_iff]:
  "(case v of PStr s \<Rightarrow> f s | _ \<Rightarrow> raiseS e) c = (Inr y, c') \<longleftrightarrow> (\<exists>s. v = PStr s \<and> f s c = (Inr y, c'))"
  by (cases v) auto

section \<open>Dictionaries\<close>

text \<open>\<^verbatim>\<open>d.get(k)\<close>, \<^verbatim>\<open>k in d\<close> and \<^verbatim>\<open>d[k]\<close> for a string key \<open>k\<close>.\<close>

definition dict_get :: "pydict \<Rightarrow> string \<Rightarrow> pyval" where
  "dict_get d k = (case map_of d (PStr k) of None \<Rightarrow> PNone | Some v \<Rightarrow> v)"

definition has_key :: "pydict \<Rightarrow> string \<Rightarrow> bool" where
  "has_key d k \<longleftrightarrow> map_of d (PStr k) \<noteq> None"

definition dict_item :: "pydict \<Rightarrow> string \<Rightarrow> pyval result" where
  "dict_item d k =
     (case map_of d (PStr k) of None \<Rightarrow> Inl (KeyError k) | Some v \<Rightarrow> Inr v)"

text \<open>\<^verbatim>\<open>d[k] = v\<close>: an existing key keeps its place.\<close>

fun dict_set :: "pydict \<Rightarrow> string \<Rightarrow> pyval \<Rightarrow> pydict" where
  "dict_set [] k v = [(PStr k, v)]"
| "dict_set ((a, b) # d) k v = (if a = PStr k then (a, v) # d else (a, b) # dict_set d k v)"

definition obj :: "(string \<times> pyval) list \<Rightarrow> pydict" where
  "obj kvs = map (\<lambda>(k, v). (PStr k, v)) kvs"

lemma map_of_dict_set: "map_of (dict_set d k v) = (map_of d)(PStr k \<mapsto> v)"
  by (induction d k v rule: dict_set.induct) (auto simp: fun_eq_iff)

lemma dict_set_fresh: "map_of d (PStr k) = None \<Longrightarrow> dict_set d k v = d @ [(PStr k, v)]"
  by (induction d k v rule: dict_set.induct) (auto split: if_splits)

lemma dict_item_ok [ok_iff]: "dict_item d k = Inr v \<longleftrightarrow> map_of d (PStr k) = Some v"
  by (auto simp: dict_item_def split: option.splits)

lemma has_key_get: "has_key d k \<longleftrightarrow> (\<exists>v. map_of d (PStr k) = Some v)"
  by (auto simp: has_key_def)

lemma dict_get_eq: "map_of d (PStr k) = Some v \<Longrightarrow> dict_get d k = v"
  by (simp add: dict_get_def)

lemma map_of_obj: "map_of (obj kvs) (PStr k) = map_of kvs k"
  by (induction kvs) (auto simp: obj_def)

lemma dict_get_obj: "dict_get (obj kvs) k = (case map_of kvs k of None \<Rightarrow> PNone | Some v \<Rightarrow> v)"
  by (simp add: dict_get_def map_of_obj)

section \<open>Interface: building an object from its members\<close>

text \<open>
  Three modules decode JSON objects with a hook that refuses a repeated member name, each
  with an exception of its own.  The loop is shared; what a decoder relies on is that the
  object is exactly the member list and that no member name occurs twice.
\<close>

fun unique_members :: "exn \<Rightarrow> pydict \<Rightarrow> (string \<times> pyval) list \<Rightarrow> pydict result" where
  "unique_members e res [] = Inr res"
| "unique_members e res ((k, v) # kvs) =
     (if has_key res k then Inl e else unique_members e (dict_set res k v) kvs)"

lemma unique_members_ok:
  "unique_members e res kvs = Inr d \<longleftrightarrow>
     distinct (map fst kvs) \<and> (\<forall>k\<in>set (map fst kvs). \<not> has_key res k) \<and> d = res @ obj kvs"
proof (induction e res kvs rule: unique_members.induct)
  case (1 e res)
  then show ?case by (auto simp: obj_def)
next
  case (2 e res k v kvs)
  show ?case
  proof (cases "has_key res k")
    case True
    then show ?thesis by simp
  next
    case False
    then have "dict_set res k v = res @ [(PStr k, v)]"
      by (simp add: dict_set_fresh has_key_def)
    moreover have "has_key (res @ [(PStr k, v)]) j \<longleftrightarrow> has_key res j \<or> j = k" for j
      by (auto simp: has_key_def map_add_def split: option.splits)
    ultimately show ?thesis using False 2 by (auto simp: obj_def)
  qed
qed

locale object_hook =
  fixes hook :: "(string \<times> pyval) list \<Rightarrow> pydict result"
    and dup :: exn
  assumes hook_ok: "hook kvs = Inr d \<longleftrightarrow> distinct (map fst kvs) \<and> d = obj kvs"
    and hook_err: "hook kvs = Inl e \<Longrightarrow> e = dup"
begin

lemma hook_rejects: "\<not> distinct (map fst kvs) \<Longrightarrow> hook kvs = Inl dup"
  by (metis hook_err hook_ok sum.exhaust)

lemma hook_lookup:
  "hook kvs = Inr d \<Longrightarrow> (k, v) \<in> set kvs \<Longrightarrow> map_of d (PStr k) = Some v"
  by (simp add: hook_ok map_of_obj)

lemma hook_no_invention:
  "hook kvs = Inr d \<Longrightarrow> map_of d (PStr k) = Some v \<Longrightarrow> (k, v) \<in> set kvs"
  by (auto simp: hook_ok map_of_obj dest: map_of_SomeD)

end

end
