(* ===== verification/Anvil.thy ===== *)
theory Anvil
  imports Py_Values
begin

text \<open>
  \<^verbatim>\<open>psv/anvil.py\<close>: the strict JSON-RPC client.  The node behind the transport is not under
  the program's control, so the transport is a parameter of the client: a function from the
  request to the response or the exception it raises.  Every request carries a fresh id, so
  a function of the request covers nodes that answer the same question differently over
  time.  The state of a client is its request counter.

  The HTTP transport is in \<open>Http_Transport\<close>, the Anvil process in \<open>Anvil_Process\<close>.
\<close>

section \<open>Bounds and scalars\<close>

definition reject_duplicate_keys :: "(string \<times> pyval) list \<Rightarrow> pydict result" where
  "reject_duplicate_keys pairs = unique_members (ValueError ''duplicate JSON field'') [] pairs"

fun bounded_json :: "string \<Rightarrow> int \<Rightarrow> pyval \<Rightarrow> unit result"
  and bounded_items :: "string \<Rightarrow> int \<Rightarrow> pyval list \<Rightarrow> unit result"
  and bounded_fields :: "string \<Rightarrow> int \<Rightarrow> pydict \<Rightarrow> unit result" where
  "bounded_json what depth v =
     (if depth > 16 then Inl (RpcError (what @ '': JSON nesting exceeds 16''))
      else case v of
        PStr s \<Rightarrow> if int (length s) > 2097152
                  then Inl (RpcError (what @ '': string exceeds size limit'')) else Inr ()
      | PFloat (Finite m e) \<Rightarrow> Inr ()
      | PFloat f \<Rightarrow> Inl (RpcError (what @ '': non-finite JSON number''))
      | PNone \<Rightarrow> Inr ()
      | PBool b \<Rightarrow> Inr ()
      | PInt n \<Rightarrow> Inr ()
      | PList xs \<Rightarrow> if int (length xs) > 10000
                    then Inl (RpcError (what @ '': list exceeds item limit''))
                    else bounded_items what (depth + 1) xs
      | PDict kvs \<Rightarrow> if int (length kvs) > 256
                    then Inl (RpcError (what @ '': object exceeds field limit''))
                    else bounded_fields what (depth + 1) kvs
      | POther t \<Rightarrow> Inl (RpcError (what @ '': unsupported JSON value'')))"
| "bounded_items what depth [] = Inr ()"
| "bounded_items what depth (x # xs) =
     bindR (bounded_json what depth x) (\<lambda>_. bounded_items what depth xs)"
| "bounded_fields what depth [] = Inr ()"
| "bounded_fields what depth ((k, x) # kvs) =
     (if \<not> is_str k then Inl (RpcError (what @ '': object key is not a string''))
      else bindR (bounded_json what depth x) (\<lambda>_. bounded_fields what depth kvs))"

definition anvil_quantity :: "string \<Rightarrow> pyval \<Rightarrow> int result" where
  "anvil_quantity what v =
     (case v of
        PStr s \<Rightarrow> if match_quantity s then int_base 16 s
                  else Inl (RpcError (what @ '': expected canonical hex quantity''))
      | _ \<Rightarrow> Inl (RpcError (what @ '': expected canonical hex quantity'')))"

definition anvil_data :: "string \<Rightarrow> pyval \<Rightarrow> string result" where
  "anvil_data what v =
     (case v of
        PStr s \<Rightarrow> if match_data s then Inr s
                  else Inl (RpcError (what @ '': expected even-length hex data''))
      | _ \<Rightarrow> Inl (RpcError (what @ '': expected even-length hex data'')))"

definition anvil_hash :: "string \<Rightarrow> pyval \<Rightarrow> string result" where
  "anvil_hash what v =
     (case v of
        PStr s \<Rightarrow> if match_hex 64 s then Inr s
                  else Inl (RpcError (what @ '': expected a 32-byte hash''))
      | _ \<Rightarrow> Inl (RpcError (what @ '': expected a 32-byte hash'')))"

definition anvil_address :: "string \<Rightarrow> bool \<Rightarrow> pyval \<Rightarrow> string option result" where
  "anvil_address what nullable v =
     (if v = PNone \<and> nullable then Inr None
      else case v of
        PStr s \<Rightarrow> if match_hex 40 s then Inr (Some s)
                  else Inl (RpcError (what @ '': expected a 20-byte address''))
      | _ \<Rightarrow> Inl (RpcError (what @ '': expected a 20-byte address'')))"

datatype block_sel = BlockNumber int | BlockTag string

definition block_tags :: "string list" where
  "block_tags = [''earliest'', ''latest'', ''pending'', ''safe'', ''finalized'']"

definition block_param :: "block_sel \<Rightarrow> string result" where
  "block_param b =
     (case b of
        BlockNumber n \<Rightarrow> if n \<ge> 0 then Inr (py_hex n) else Inl (ValueError ''invalid block selector'')
      | BlockTag t \<Rightarrow> if t \<in> set block_tags then Inr t
                      else Inl (ValueError ''invalid block selector''))"

section \<open>Logs and receipts\<close>

definition require_fields :: "exn \<Rightarrow> string list \<Rightarrow> pydict \<Rightarrow> unit result" where
  "require_fields e fields d = (if \<forall>f\<in>set fields. has_key d f then Inr () else Inl e)"

definition log_fields :: "string list" where
  "log_fields = [''address'', ''topics'', ''data'', ''blockNumber'', ''transactionHash'',
     ''transactionIndex'', ''blockHash'', ''logIndex'', ''removed'']"

definition validate_topics :: "string \<Rightarrow> pyval \<Rightarrow> string list result" where
  "validate_topics what v =
     (case v of
        PList ts \<Rightarrow> if int (length ts) > 16
                    then Inl (RpcError (what @ ''.topics: expected a bounded list''))
                    else traverseR (anvil_hash (what @ ''.topics'')) ts
      | _ \<Rightarrow> Inl (RpcError (what @ ''.topics: expected a bounded list'')))"

definition validate_log :: "string \<Rightarrow> pyval \<Rightarrow> pydict result" where
  "validate_log what v =
     (case v of
        PDict d \<Rightarrow>
          bindR (require_fields (RpcError (what @ '': log missing fields'')) log_fields d) (\<lambda>_.
          bindR (anvil_address (what @ ''.address'') False (dict_get d ''address'')) (\<lambda>_.
          bindR (validate_topics what (dict_get d ''topics'')) (\<lambda>_.
          bindR (anvil_data (what @ ''.data'') (dict_get d ''data'')) (\<lambda>_.
          bindR (anvil_quantity (what @ ''.blockNumber'') (dict_get d ''blockNumber'')) (\<lambda>_.
          bindR (anvil_hash (what @ ''.transactionHash'') (dict_get d ''transactionHash'')) (\<lambda>_.
          bindR (anvil_quantity (what @ ''.transactionIndex'') (dict_get d ''transactionIndex'')) (\<lambda>_.
          bindR (anvil_hash (what @ ''.blockHash'') (dict_get d ''blockHash'')) (\<lambda>_.
          bindR (anvil_quantity (what @ ''.logIndex'') (dict_get d ''logIndex'')) (\<lambda>_.
          (case dict_get d ''removed'' of
             PBool b \<Rightarrow> Inr d
           | _ \<Rightarrow> Inl (RpcError (what @ ''.removed: expected boolean''))))))))))))
      | _ \<Rightarrow> Inl (RpcError (what @ '': expected log object'')))"

definition receipt_fields :: "string list" where
  "receipt_fields = [''transactionHash'', ''blockHash'', ''blockNumber'', ''status'', ''logs'']"

definition optional_quantities :: "string \<Rightarrow> pydict \<Rightarrow> int list result" where
  "optional_quantities what d =
     traverseR (\<lambda>key. anvil_quantity (what @ ''.'' @ key) (dict_get d key))
       (filter (has_key d) [''transactionIndex'', ''cumulativeGasUsed'', ''gasUsed'', ''type''])"

definition validate_receipt :: "string \<Rightarrow> pyval \<Rightarrow> pydict result" where
  "validate_receipt what v =
     (case v of
        PDict d \<Rightarrow>
          bindR (require_fields (RpcError (what @ '': receipt missing fields'')) receipt_fields d) (\<lambda>_.
          bindR (anvil_hash (what @ ''.transactionHash'') (dict_get d ''transactionHash'')) (\<lambda>_.
          bindR (anvil_hash (what @ ''.blockHash'') (dict_get d ''blockHash'')) (\<lambda>_.
          bindR (anvil_quantity (what @ ''.blockNumber'') (dict_get d ''blockNumber'')) (\<lambda>_.
          bindR (anvil_quantity (what @ ''.status'') (dict_get d ''status'')) (\<lambda>status.
          if status \<noteq> 0 \<and> status \<noteq> 1 then Inl (RpcError (what @ ''.status: expected 0 or 1''))
          else bindR
            (case dict_get d ''logs'' of
               PList logs \<Rightarrow> if int (length logs) > 10000
                 then Inl (RpcError (what @ ''.logs: expected a bounded list''))
                 else traverseR (validate_log (what @ ''.logs'')) logs
             | _ \<Rightarrow> Inl (RpcError (what @ ''.logs: expected a bounded list''))) (\<lambda>_.
          bindR (optional_quantities what d) (\<lambda>_.
          bindR (if has_key d ''from'' then anvil_address (what @ ''.from'') False (dict_get d ''from'')
                 else Inr None) (\<lambda>_.
          bindR (if has_key d ''to'' then anvil_address (what @ ''.to'') True (dict_get d ''to'')
                 else Inr None) (\<lambda>_.
          Inr d)))))))))
      | _ \<Rightarrow> Inl (RpcError (what @ '': expected receipt object'')))"

section \<open>The client\<close>

type_synonym transport = "pyval \<Rightarrow> pyval result"

record rpc_client =
  rpc_id :: int
  rpc_transport :: transport

type_synonym 'a rpc = "(rpc_client, 'a) op"

definition rpc_request :: "int \<Rightarrow> string \<Rightarrow> pyval list \<Rightarrow> pyval" where
  "rpc_request request_id meth params =
     PDict [(PStr ''jsonrpc'', PStr ''2.0''), (PStr ''id'', PInt request_id),
            (PStr ''method'', PStr meth), (PStr ''params'', PList params)]"

text \<open>Lines 361 to 382 of \<^verbatim>\<open>call\<close>: the checks on the response.\<close>

definition check_envelope :: "string \<Rightarrow> int \<Rightarrow> pyval \<Rightarrow> pyval result" where
  "check_envelope meth request_id response =
     bindR (bounded_json (meth @ '' response'') 0 response) (\<lambda>_.
     case response of
       PDict d \<Rightarrow>
         if dict_get d ''jsonrpc'' \<noteq> PStr ''2.0''
         then Inl (RpcError (meth @ '': response has invalid jsonrpc version''))
         else if dict_get d ''id'' \<noteq> PInt request_id
         then Inl (RpcError (meth @ '': response id does not match request''))
         else if has_key d ''result'' = has_key d ''error''
         then Inl (RpcError (meth @ '': response must contain exactly one of result/error''))
         else if has_key d ''error''
         then (case dict_get d ''error'' of
                 PDict err \<Rightarrow>
                   (case (dict_get err ''code'', dict_get err ''message'') of
                      (PInt c, PStr m) \<Rightarrow> Inl (RpcError (meth @ '': RPC error''))
                    | _ \<Rightarrow> Inl (RpcError (meth @ '': malformed error object'')))
               | _ \<Rightarrow> Inl (RpcError (meth @ '': malformed error object'')))
         else Inr (dict_get d ''result'')
     | _ \<Rightarrow> Inl (RpcError (meth @ '': response must be a JSON object'')))"

definition call :: "string \<Rightarrow> pyval list \<Rightarrow> pyval rpc" where
  "call meth params = (\<lambda>c.
     let request_id = rpc_id c + 1;
         sent = mapErrR (\<lambda>e. if is_rpc_error e then e else RpcError (meth @ '': transport failure''))
                  (rpc_transport c (rpc_request request_id meth params))
     in (bindR sent (check_envelope meth request_id), c\<lparr>rpc_id := request_id\<rparr>))"

definition snapshot :: "string rpc" where
  "snapshot =
     bindS (call ''evm_snapshot'' []) (\<lambda>result.
     bindS (liftS (anvil_quantity ''evm_snapshot result'' result)) (\<lambda>_.
     retS (str_of result)))"

definition revert :: "string \<Rightarrow> bool rpc" where
  "revert snapshot_id =
     bindS (liftS (anvil_quantity ''snapshot id'' (PStr snapshot_id))) (\<lambda>_.
     bindS (call ''evm_revert'' [PStr snapshot_id]) (\<lambda>result.
     case result of
       PBool b \<Rightarrow> retS b
     | _ \<Rightarrow> raiseS (RpcError ''evm_revert result: expected boolean'')))"

fun mine_loop :: "nat \<Rightarrow> unit rpc" where
  "mine_loop 0 = retS ()"
| "mine_loop (Suc n) =
     bindS (call ''evm_mine'' []) (\<lambda>result.
     bindS (if result \<noteq> PNone then liftS (anvil_quantity ''evm_mine result'' result) else retS 0) (\<lambda>_.
     mine_loop n))"

definition mine :: "int \<Rightarrow> unit rpc" where
  "mine blocks =
     (if \<not> (1 \<le> blocks \<and> blocks \<le> 1000000)
      then raiseS (ValueError ''blocks must be an integer within [1, 1000000]'')
      else mine_loop (nat blocks))"

definition increase_time :: "int \<Rightarrow> unit rpc" where
  "increase_time seconds =
     (if seconds < 0 then raiseS (ValueError ''seconds must be a non-negative integer'')
      else bindS (call ''evm_increaseTime'' [PInt seconds]) (\<lambda>result.
           bindS (liftS (anvil_quantity ''evm_increaseTime result'' result)) (\<lambda>_. mine 1)))"

definition set_automine :: "bool \<Rightarrow> unit rpc" where
  "set_automine on =
     bindS (call ''evm_setAutomine'' [PBool on]) (\<lambda>result.
     case result of
       PNone \<Rightarrow> retS ()
     | PBool b \<Rightarrow> retS ()
     | _ \<Rightarrow> raiseS (RpcError ''evm_setAutomine result: expected boolean or null''))"

definition block_number :: "int rpc" where
  "block_number =
     bindS (call ''eth_blockNumber'' []) (\<lambda>result.
     liftS (anvil_quantity ''eth_blockNumber result'' result))"

definition chain_id :: "int rpc" where
  "chain_id =
     bindS (call ''eth_chainId'' []) (\<lambda>result.
     bindS (liftS (anvil_quantity ''eth_chainId result'' result)) (\<lambda>n.
     if n \<le> 0 then raiseS (RpcError ''eth_chainId result: chain id must be positive'')
     else retS n))"

text \<open>Lines 441 to 459 of \<^verbatim>\<open>get_block\<close>: the checks on the returned block.\<close>

definition check_block :: "bool \<Rightarrow> pyval \<Rightarrow> pydict result" where
  "check_block full_transactions result =
     (case result of
        PDict d \<Rightarrow>
          bindR (traverseR (\<lambda>key.
                   if \<not> has_key d key then Inl (RpcError (''eth_getBlockByNumber result: missing '' @ key))
                   else anvil_quantity (''block.'' @ key) (dict_get d key))
                 [''number'', ''timestamp'']) (\<lambda>_.
          bindR (traverseR (\<lambda>key.
                   if \<not> has_key d key then Inl (RpcError (''eth_getBlockByNumber result: missing '' @ key))
                   else anvil_hash (''block.'' @ key) (dict_get d key))
                 [''hash'', ''parentHash'']) (\<lambda>_.
          (case dict_get d ''transactions'' of
             PList txs \<Rightarrow>
               if int (length txs) > 10000
               then Inl (RpcError ''block.transactions: expected a bounded list'')
               else if \<not> full_transactions
               then bindR (traverseR (anvil_hash ''block.transactions'') txs) (\<lambda>_. Inr d)
               else if \<exists>tx\<in>set txs. \<not> is_dict tx
               then Inl (RpcError ''block.transactions: expected transaction objects'')
               else Inr d
           | _ \<Rightarrow> Inl (RpcError ''block.transactions: expected a bounded list''))))
      | _ \<Rightarrow> Inl (RpcError ''eth_getBlockByNumber result: expected block object''))"

definition get_block :: "block_sel \<Rightarrow> bool \<Rightarrow> pydict rpc" where
  "get_block block full_transactions =
     bindS (liftS (block_param block)) (\<lambda>p.
     bindS (call ''eth_getBlockByNumber'' [PStr p, PBool full_transactions]) (\<lambda>result.
     liftS (check_block full_transactions result)))"

definition topic_val :: "string option \<Rightarrow> pyval" where
  "topic_val t = (case t of None \<Rightarrow> PNone | Some s \<Rightarrow> PStr s)"

text \<open>Lines 483 to 485 of \<^verbatim>\<open>get_logs\<close>: the checks on the returned logs.\<close>

definition check_logs :: "pyval \<Rightarrow> pydict list result" where
  "check_logs result =
     (case result of
        PList logs \<Rightarrow> if int (length logs) > 10000
                      then Inl (RpcError ''eth_getLogs result: expected a bounded list'')
                      else traverseR (validate_log ''eth_getLogs result'') logs
      | _ \<Rightarrow> Inl (RpcError ''eth_getLogs result: expected a bounded list''))"

definition get_logs ::
  "string \<Rightarrow> string option list \<Rightarrow> block_sel \<Rightarrow> block_sel \<Rightarrow> pydict list rpc" where
  "get_logs address topics from_block to_block =
     bindS (liftS (anvil_address ''eth_getLogs address'' False (PStr address))) (\<lambda>_.
     if int (length topics) > 16
     then raiseS (ValueError ''topics must be a list with at most 16 entries'')
     else
     bindS (liftS (traverseR (\<lambda>t. case t of None \<Rightarrow> Inr []
                                 | Some s \<Rightarrow> anvil_hash ''eth_getLogs topic'' (PStr s)) topics)) (\<lambda>_.
     bindS (liftS (block_param from_block)) (\<lambda>from.
     bindS (liftS (block_param to_block)) (\<lambda>to.
     bindS (call ''eth_getLogs''
              [PDict [(PStr ''address'', PStr address), (PStr ''topics'', PList (map topic_val topics)),
                      (PStr ''fromBlock'', PStr from), (PStr ''toBlock'', PStr to)]]) (\<lambda>result.
     liftS (check_logs result))))))"

definition eth_call :: "string \<Rightarrow> string \<Rightarrow> block_sel \<Rightarrow> string rpc" where
  "eth_call to data block =
     bindS (liftS (anvil_address ''eth_call to'' False (PStr to))) (\<lambda>_.
     bindS (liftS (anvil_data ''eth_call data'' (PStr data))) (\<lambda>_.
     bindS (liftS (block_param block)) (\<lambda>p.
     bindS (call ''eth_call'' [PDict [(PStr ''to'', PStr to), (PStr ''data'', PStr data)], PStr p]) (\<lambda>result.
     liftS (anvil_data ''eth_call result'' result)))))"

definition get_code :: "string \<Rightarrow> block_sel \<Rightarrow> string rpc" where
  "get_code address block =
     bindS (liftS (anvil_address ''eth_getCode address'' False (PStr address))) (\<lambda>_.
     bindS (liftS (block_param block)) (\<lambda>p.
     bindS (call ''eth_getCode'' [PStr address, PStr p]) (\<lambda>result.
     liftS (anvil_data ''eth_getCode result'' result))))"

definition send_raw_transaction :: "string \<Rightarrow> string rpc" where
  "send_raw_transaction raw =
     bindS (liftS (anvil_data ''raw transaction'' (PStr raw))) (\<lambda>_.
     bindS (call ''eth_sendRawTransaction'' [PStr raw]) (\<lambda>result.
     liftS (anvil_hash ''eth_sendRawTransaction result'' result)))"

definition get_transaction_receipt :: "string \<Rightarrow> pydict rpc" where
  "get_transaction_receipt tx_hash =
     bindS (liftS (anvil_hash ''transaction hash'' (PStr tx_hash))) (\<lambda>_.
     bindS (call ''eth_getTransactionReceipt'' [PStr tx_hash]) (\<lambda>receipt.
     if receipt = PNone then raiseS (RpcError ''no receipt'')
     else liftS (validate_receipt ''eth_getTransactionReceipt result'' receipt)))"

fun wait_loop :: "string \<Rightarrow> nat \<Rightarrow> pydict rpc" where
  "wait_loop tx_hash 0 = raiseS (RpcError ''no receipt after all tries'')"
| "wait_loop tx_hash (Suc n) =
     bindS (call ''eth_getTransactionReceipt'' [PStr tx_hash]) (\<lambda>receipt.
     if receipt \<noteq> PNone
     then liftS (validate_receipt ''eth_getTransactionReceipt result'' receipt)
     else wait_loop tx_hash n)"

definition wait_for_receipt :: "string \<Rightarrow> int \<Rightarrow> pyfloat \<Rightarrow> pydict rpc" where
  "wait_for_receipt tx_hash tries delay =
     bindS (liftS (anvil_hash ''transaction hash'' (PStr tx_hash))) (\<lambda>_.
     if tries \<le> 0 then raiseS (ValueError ''tries must be a positive integer'')
     else if float_neg delay then raiseS (ValueError ''delay must be non-negative'')
     else wait_loop tx_hash (nat tries))"

section \<open>Scalars: what the validators accept\<close>

lemma anvil_quantity_ok [ok_iff]:
  "anvil_quantity what v = Inr n \<longleftrightarrow> (\<exists>s. v = PStr s \<and> match_quantity s \<and> n = hex_num s)"
  by (auto simp: anvil_quantity_def split: pyval.splits)

lemma anvil_data_ok [ok_iff]: "anvil_data what v = Inr s \<longleftrightarrow> v = PStr s \<and> match_data s"
  by (auto simp: anvil_data_def split: pyval.splits)

lemma anvil_hash_ok [ok_iff]: "anvil_hash what v = Inr s \<longleftrightarrow> v = PStr s \<and> match_hex 64 s"
  by (auto simp: anvil_hash_def split: pyval.splits)

lemma anvil_address_ok [ok_iff]:
  "anvil_address what nullable v = Inr r \<longleftrightarrow>
     (v = PNone \<and> nullable \<and> r = None) \<or> (\<exists>s. v = PStr s \<and> match_hex 40 s \<and> r = Some s)"
  by (auto simp: anvil_address_def split: pyval.splits)

lemma require_fields_ok [ok_iff]:
  "require_fields e fs d = Inr u \<longleftrightarrow> (\<forall>f\<in>set fs. has_key d f)"
  by (auto simp: require_fields_def)

lemma block_param_ok [ok_iff]:
  "block_param b = Inr p \<longleftrightarrow>
     (\<exists>n. b = BlockNumber n \<and> 0 \<le> n \<and> p = py_hex n) \<or> (b = BlockTag p \<and> p \<in> set block_tags)"
  by (auto simp: block_param_def split: block_sel.splits)

lemma anvil_scalars_raise [intro]:
  "raisesR is_rpc_error (anvil_quantity what v)"
  "raisesR is_rpc_error (anvil_data what v)"
  "raisesR is_rpc_error (anvil_hash what v)"
  "raisesR is_rpc_error (anvil_address what nullable v)"
  by (auto simp: raisesR_def anvil_quantity_def anvil_data_def anvil_hash_def anvil_address_def
      split: pyval.splits if_splits)

subsection \<open>Quantities are a canonical encoding of the non-negative integers\<close>

lemma digit_char_hex_val: "is_hex c \<Longrightarrow> digit_char (hex_val c) = lower_char c"
proof -
  have "\<forall>c\<in>set hex_chars. digit_char (hex_val c) = lower_char c" by code_simp
  then show "is_hex c \<Longrightarrow> ?thesis" by (simp add: is_hex_def)
qed

lemma digits_of_canonical:
  assumes "\<forall>c\<in>set t. is_hex c" "t \<noteq> []" "hd t \<noteq> CHR ''0'' \<or> length t = 1"
  shows "digits_of 16 (digits_val 16 t) = lower t"
  using assms
proof (induction t rule: rev_induct)
  case Nil
  then show ?case by simp
next
  case (snoc c t)
  have c: "0 \<le> hex_val c" "hex_val c < 16" using snoc.prems hex_val_bounds by auto
  show ?case
  proof (cases "t = []")
    case True
    with c snoc.prems show ?thesis
      by (simp add: digits_of_last digit_char_hex_val lower_def)
  next
    case False
    then have t: "\<forall>c\<in>set t. is_hex c" "hd t \<noteq> CHR ''0''" using snoc.prems by auto
    have eq: "digits_val 16 (t @ [c]) = digits_val 16 t * 16 + hex_val c"
      by (simp add: digits_val_append)
    have "hex_val (hd t) \<noteq> 0"
    proof -
      have "\<forall>c\<in>set hex_chars. hex_val c = 0 \<longrightarrow> c = CHR ''0''" by code_simp
      then show ?thesis using t False by (auto simp: is_hex_def)
    qed
    moreover have "0 \<le> hex_val (hd t)" using t False hex_val_bounds by auto
    moreover have "0 \<le> digits_val 16 (tl t)"
      using t hex_digits_bounds[of "tl t"] False by (cases t) auto
    moreover have "digits_val 16 t = hex_val (hd t) * 16 ^ length (tl t) + digits_val 16 (tl t)"
      using False digits_val_Cons[of 16 "hd t" "tl t"] by simp
    ultimately have pos: "0 < digits_val 16 t" by (simp add: add_pos_nonneg)
    have "\<not> digits_val 16 (t @ [c]) < 16" using pos c eq by linarith
    moreover have "digits_val 16 (t @ [c]) div 16 = digits_val 16 t"
      "digits_val 16 (t @ [c]) mod 16 = hex_val c"
      using c eq by (auto simp: div_pos_pos_trivial)
    ultimately show ?thesis
      using snoc False t by (simp add: digits_of_step digit_char_hex_val lower_def)
  qed
qed

lemma py_hex_hex_num: "match_quantity s \<Longrightarrow> py_hex (hex_num s) = lower s"
proof -
  assume q: "match_quantity s"
  then obtain t where t: "s = ''0x'' @ t" "t \<noteq> []" "\<forall>c\<in>set t. is_hex c"
    using match_quantity_digits by blast
  then have "hd t \<noteq> CHR ''0'' \<or> length t = 1" using q by (auto simp: match_quantity_def)
  with t have "digits_of 16 (digits_val 16 t) = lower t" by (intro digits_of_canonical) auto
  moreover have "0 \<le> digits_val 16 t" using t hex_digits_bounds by auto
  ultimately show ?thesis using t by (simp add: hex_num_def py_hex_def lower_0x)
qed

interpretation quantity: canonical_codec py_hex "\<lambda>s. anvil_quantity what (PStr s)" "\<lambda>n. 0 \<le> n" lower
  by unfold_locales (auto simp: ok_iff match_quantity_py_hex py_hex_hex_num hex_num_nonneg)

interpretation rpc_object: object_hook reject_duplicate_keys "ValueError ''duplicate JSON field''"
proof
  fix kvs d
  show "reject_duplicate_keys kvs = Inr d \<longleftrightarrow> distinct (map fst kvs) \<and> d = obj kvs"
    by (simp add: reject_duplicate_keys_def unique_members_ok has_key_def)
next
  fix kvs e
  have "unique_members x r kvs = Inl e \<Longrightarrow> e = x" for x r
    by (induction x r kvs rule: unique_members.induct) (auto split: if_splits)
  then show "reject_duplicate_keys kvs = Inl e \<Longrightarrow> e = ValueError ''duplicate JSON field''"
    by (simp add: reject_duplicate_keys_def)
qed

section \<open>The size bound on responses\<close>

text \<open>
  The specification of \<open>bounded_json\<close>: \<open>occurs_at v n w\<close> says that \<open>w\<close> is found inside
  \<open>v\<close> under \<open>n\<close> levels of lists and objects, and \<open>node_ok\<close> is what is asked of each
  value found.
\<close>

inductive occurs_at :: "pyval \<Rightarrow> nat \<Rightarrow> pyval \<Rightarrow> bool" where
  here: "occurs_at v 0 v"
| item: "x \<in> set xs \<Longrightarrow> occurs_at x n w \<Longrightarrow> occurs_at (PList xs) (Suc n) w"
| field: "(k, x) \<in> set kvs \<Longrightarrow> occurs_at x n w \<Longrightarrow> occurs_at (PDict kvs) (Suc n) w"

definition node_ok :: "pyval \<Rightarrow> bool" where
  "node_ok w \<longleftrightarrow>
     (case w of
        PStr s \<Rightarrow> int (length s) \<le> 2097152
      | PFloat f \<Rightarrow> f \<notin> {PosInf, NegInf, NaN}
      | PList xs \<Rightarrow> int (length xs) \<le> 10000
      | PDict kvs \<Rightarrow> int (length kvs) \<le> 256 \<and> (\<forall>(k, x)\<in>set kvs. is_str k)
      | POther t \<Rightarrow> False
      | _ \<Rightarrow> True)"

definition json_within :: "int \<Rightarrow> pyval \<Rightarrow> bool" where
  "json_within d v \<longleftrightarrow> (\<forall>n w. occurs_at v n w \<longrightarrow> d + int n \<le> 16 \<and> node_ok w)"

inductive_cases occurs_at_list: "occurs_at (PList xs) n w"
inductive_cases occurs_at_dict: "occurs_at (PDict kvs) n w"

inductive_simps occurs_at_leaf:
  "occurs_at PNone n w" "occurs_at (PBool b) n w" "occurs_at (PInt i) n w"
  "occurs_at (PFloat f) n w" "occurs_at (PStr s) n w" "occurs_at (POther t) n w"

lemma json_within_leaf:
  assumes "\<And>xs. v \<noteq> PList xs" "\<And>kvs. v \<noteq> PDict kvs"
  shows "json_within d v \<longleftrightarrow> d \<le> 16 \<and> node_ok v"
  using assms by (cases v) (auto simp: json_within_def occurs_at_leaf)

lemma json_within_list:
  "json_within d (PList xs) \<longleftrightarrow>
     d \<le> 16 \<and> int (length xs) \<le> 10000 \<and> (\<forall>x\<in>set xs. json_within (d + 1) x)"
proof (intro iffI conjI ballI)
  assume L: "json_within d (PList xs)"
  then show "d \<le> 16" "int (length xs) \<le> 10000"
    using occurs_at.here[of "PList xs"] by (fastforce simp: json_within_def node_ok_def)+
  fix x assume "x \<in> set xs"
  then show "json_within (d + 1) x"
    using L occurs_at.item by (fastforce simp: json_within_def)
next
  assume R: "d \<le> 16 \<and> int (length xs) \<le> 10000 \<and> (\<forall>x\<in>set xs. json_within (d + 1) x)"
  show "json_within d (PList xs)"
    unfolding json_within_def
  proof (intro allI impI)
    fix n w assume "occurs_at (PList xs) n w"
    then show "d + int n \<le> 16 \<and> node_ok w"
      using R by (elim occurs_at_list) (fastforce simp: json_within_def node_ok_def)+
  qed
qed

lemma json_within_dict:
  "json_within d (PDict kvs) \<longleftrightarrow>
     d \<le> 16 \<and> int (length kvs) \<le> 256 \<and> (\<forall>(k, x)\<in>set kvs. is_str k \<and> json_within (d + 1) x)"
proof (intro iffI conjI)
  assume L: "json_within d (PDict kvs)"
  then show "d \<le> 16" "int (length kvs) \<le> 256"
    using occurs_at.here[of "PDict kvs"] by (fastforce simp: json_within_def node_ok_def)+
  have "is_str k" if "(k, x) \<in> set kvs" for k x
    using L occurs_at.here[of "PDict kvs"] that by (fastforce simp: json_within_def node_ok_def)
  moreover have "json_within (d + 1) x" if "(k, x) \<in> set kvs" for k x
    using L occurs_at.field that by (fastforce simp: json_within_def)
  ultimately show "\<forall>(k, x)\<in>set kvs. is_str k \<and> json_within (d + 1) x" by blast
next
  assume R: "d \<le> 16 \<and> int (length kvs) \<le> 256 \<and> (\<forall>(k, x)\<in>set kvs. is_str k \<and> json_within (d + 1) x)"
  show "json_within d (PDict kvs)"
    unfolding json_within_def
  proof (intro allI impI)
    fix n w assume "occurs_at (PDict kvs) n w"
    then show "d + int n \<le> 16 \<and> node_ok w"
      using R by (elim occurs_at_dict) (fastforce simp: json_within_def node_ok_def)+
  qed
qed

lemma bounded_json_iff: "bounded_json what d v = Inr () \<longleftrightarrow> json_within d v"
  and bounded_items_iff: "bounded_items what d xs = Inr () \<longleftrightarrow> (\<forall>x\<in>set xs. json_within d x)"
  and bounded_fields_iff:
    "bounded_fields what d kvs = Inr () \<longleftrightarrow> (\<forall>(k, x)\<in>set kvs. is_str k \<and> json_within d x)"
proof (induction what d v and what d xs and what d kvs
    rule: bounded_json_bounded_items_bounded_fields.induct)
  case (1 what d v)
  then show ?case
    by (cases v)
      (auto simp: json_within_leaf json_within_list json_within_dict node_ok_def
        simp del: bounded_items.simps bounded_fields.simps split: pyfloat.splits)
qed (auto simp: ok_iff simp del: bounded_json.simps)

lemma bounded_json_raises:
  "raisesR is_rpc_error (bounded_json what d v)"
  "raisesR is_rpc_error (bounded_items what d xs)"
  "raisesR is_rpc_error (bounded_fields what d kvs)"
proof (induction what d v and what d xs and what d kvs
    rule: bounded_json_bounded_items_bounded_fields.induct)
  case (1 what d v)
  then show ?case
    by (cases v) (auto simp: raisesR_def simp del: bounded_items.simps bounded_fields.simps
        split: pyfloat.splits if_splits)
qed (auto intro!: raisesR_intros simp del: bounded_json.simps)

section \<open>One call\<close>

lemma bounded_json_ok [ok_iff]: "bounded_json what d v = Inr u \<longleftrightarrow> json_within d v"
  using bounded_json_iff[of what d v] by (cases u) simp

declare bounded_json.simps [simp del]

lemma check_envelope_ok [ok_iff]:
  "check_envelope meth i r = Inr v \<longleftrightarrow>
     (\<exists>d. r = PDict d \<and> json_within 0 r \<and> dict_get d ''jsonrpc'' = PStr ''2.0'' \<and>
          dict_get d ''id'' = PInt i \<and> map_of d (PStr ''result'') = Some v \<and> \<not> has_key d ''error'')"
  unfolding check_envelope_def
  by (cases r)
    (auto simp: ok_iff has_key_def dict_get_def split: pyval.splits if_splits option.splits)

lemma check_envelope_raises: "raisesR is_rpc_error (check_envelope meth i r)"
  unfolding check_envelope_def
  by (rule raisesR_intros, rule bounded_json_raises)
    (auto simp: raisesR_def split: pyval.splits if_splits)

lemma call_state: "snd (call meth params c) = c\<lparr>rpc_id := rpc_id c + 1\<rparr>"
  by (simp add: call_def Let_def)

lemma call_ok [ok_iff]:
  "call meth params c = (Inr v, c') \<longleftrightarrow>
     c' = c\<lparr>rpc_id := rpc_id c + 1\<rparr> \<and>
     (\<exists>d. rpc_transport c (rpc_request (rpc_id c + 1) meth params) = Inr (PDict d) \<and>
          json_within 0 (PDict d) \<and> dict_get d ''jsonrpc'' = PStr ''2.0'' \<and>
          dict_get d ''id'' = PInt (rpc_id c + 1) \<and> map_of d (PStr ''result'') = Some v \<and>
          \<not> has_key d ''error'')"
  by (auto simp: call_def Let_def ok_iff)

lemma call_raises: "raisesS is_rpc_error (call meth params)"
  using check_envelope_raises
  by (auto simp: raisesS_def raisesR_def call_def Let_def err_iff)

text \<open>What every method of the client keeps: the transport, and a counter that only grows.\<close>

definition rpc_mono :: "rpc_client \<Rightarrow> rpc_client \<Rightarrow> bool" where
  "rpc_mono c c' \<longleftrightarrow> rpc_transport c' = rpc_transport c \<and> rpc_id c \<le> rpc_id c'"

lemma rpc_mono_refl [simp]: "rpc_mono c c"
  by (simp add: rpc_mono_def)

lemma rpc_mono_trans: "rpc_mono a b \<Longrightarrow> rpc_mono b c \<Longrightarrow> rpc_mono a c"
  by (auto simp: rpc_mono_def)

lemma keeps_call [intro]: "keepsS rpc_mono (call meth params)"
  by (simp add: keepsS_def call_state rpc_mono_def)

lemmas rpc_keeps =
  keepsS_pure[of rpc_mono, OF rpc_mono_refl] keepsS_bind[of rpc_mono, OF rpc_mono_trans]
  keepsS_if keeps_call

lemma keeps_loops:
  "keepsS rpc_mono (mine_loop n)" "keepsS rpc_mono (wait_loop h n)"
  by (induction n) (auto intro!: rpc_keeps)

lemma client_keeps:
  "keepsS rpc_mono snapshot" "keepsS rpc_mono (revert sid)"
  "keepsS rpc_mono (set_automine on)" "keepsS rpc_mono block_number" "keepsS rpc_mono chain_id"
  "keepsS rpc_mono (get_block b full)" "keepsS rpc_mono (get_logs a ts f t)"
  "keepsS rpc_mono (eth_call to data b)" "keepsS rpc_mono (get_code a b)"
  "keepsS rpc_mono (send_raw_transaction raw)" "keepsS rpc_mono (get_transaction_receipt h)"
  by (unfold snapshot_def revert_def set_automine_def block_number_def chain_id_def get_block_def
      get_logs_def eth_call_def get_code_def send_raw_transaction_def get_transaction_receipt_def)
    (auto intro!: rpc_keeps split: pyval.splits)

lemma client_keeps2:
  "keepsS rpc_mono (mine blocks)" "keepsS rpc_mono (increase_time secs)"
  "keepsS rpc_mono (wait_for_receipt h tries delay)"
  by (auto simp: mine_def increase_time_def wait_for_receipt_def intro!: rpc_keeps keeps_loops)

section \<open>Validated logs and receipts\<close>

definition hash_field :: "pydict \<Rightarrow> string \<Rightarrow> bool" where
  "hash_field d k \<longleftrightarrow> (\<exists>s. dict_get d k = PStr s \<and> match_hex 64 s)"

definition quantity_field :: "pydict \<Rightarrow> string \<Rightarrow> bool" where
  "quantity_field d k \<longleftrightarrow> (\<exists>s. dict_get d k = PStr s \<and> match_quantity s)"

definition log_shape :: "pydict \<Rightarrow> bool" where
  "log_shape d \<longleftrightarrow>
     (\<forall>f\<in>set log_fields. has_key d f) \<and>
     (\<exists>a. dict_get d ''address'' = PStr a \<and> match_hex 40 a) \<and>
     (\<exists>ts. dict_get d ''topics'' = PList (map PStr ts) \<and> length ts \<le> 16 \<and> (\<forall>t\<in>set ts. match_hex 64 t)) \<and>
     (\<exists>s. dict_get d ''data'' = PStr s \<and> match_data s) \<and>
     quantity_field d ''blockNumber'' \<and> hash_field d ''transactionHash'' \<and>
     quantity_field d ''transactionIndex'' \<and> hash_field d ''blockHash'' \<and>
     quantity_field d ''logIndex'' \<and> (\<exists>b. dict_get d ''removed'' = PBool b)"

lemma traverse_hashes:
  "traverseR (anvil_hash what) vs = Inr ts \<longleftrightarrow> vs = map PStr ts \<and> (\<forall>t\<in>set ts. match_hex 64 t)"
  by (induction vs arbitrary: ts) (auto simp: ok_iff list_all2_Cons1)

lemma validate_topics_ok [ok_iff]:
  "validate_topics what v = Inr ts \<longleftrightarrow>
     v = PList (map PStr ts) \<and> length ts \<le> 16 \<and> (\<forall>t\<in>set ts. match_hex 64 t)"
  by (auto simp: validate_topics_def traverse_hashes split: pyval.splits)

lemma validate_log_ok [ok_iff]:
  "validate_log what v = Inr d \<longleftrightarrow> v = PDict d \<and> log_shape d"
  by (cases v)
    (auto simp: validate_log_def log_shape_def hash_field_def quantity_field_def ok_iff
      simp del: traverseR_ok split: pyval.splits)

definition receipt_shape :: "pydict \<Rightarrow> bool" where
  "receipt_shape d \<longleftrightarrow>
     (\<forall>f\<in>set receipt_fields. has_key d f) \<and>
     hash_field d ''transactionHash'' \<and> hash_field d ''blockHash'' \<and> quantity_field d ''blockNumber'' \<and>
     (\<exists>s. dict_get d ''status'' = PStr s \<and> match_quantity s \<and> (hex_num s = 0 \<or> hex_num s = 1)) \<and>
     (\<exists>logs. dict_get d ''logs'' = PList (map PDict logs) \<and> length logs \<le> 10000 \<and>
             (\<forall>log\<in>set logs. log_shape log))"

lemma traverse_validate_log:
  "traverseR (validate_log what) vs = Inr ds \<longleftrightarrow> vs = map PDict ds \<and> (\<forall>d\<in>set ds. log_shape d)"
  by (induction vs arbitrary: ds) (auto simp: ok_iff list_all2_Cons1)

lemma validate_receipt_shape:
  assumes "validate_receipt what v = Inr d"
  shows "v = PDict d \<and> receipt_shape d"
  using assms
  by (cases v)
    (auto simp: validate_receipt_def receipt_shape_def hash_field_def quantity_field_def ok_iff
      traverse_validate_log simp del: traverseR_ok split: pyval.splits if_splits)

lemma get_transaction_receipt_shape:
  "get_transaction_receipt h c = (Inr d, c') \<Longrightarrow> receipt_shape d \<and> match_hex 64 h"
  by (auto simp: get_transaction_receipt_def ok_iff dest: validate_receipt_shape split: if_splits)

lemma check_logs_shape: "check_logs v = Inr ds \<Longrightarrow> \<forall>d\<in>set ds. log_shape d"
  by (cases v) (auto simp: check_logs_def traverse_validate_log split: if_splits)

lemma get_logs_shape:
  "get_logs a ts f t c = (Inr ds, c') \<Longrightarrow> \<forall>d\<in>set ds. log_shape d"
  by (auto simp: get_logs_def ok_iff simp del: traverseR_ok call_ok split: if_splits
      dest!: check_logs_shape)

lemma check_block_shape:
  assumes "check_block full v = Inr d"
  shows "v = PDict d \<and> quantity_field d ''number'' \<and> hash_field d ''hash''"
proof (cases v)
  case (PDict e)
  with assms show ?thesis
    by (cases "dict_get e ''transactions''")
      (auto simp: check_block_def ok_iff quantity_field_def hash_field_def split: if_splits)
qed (use assms in \<open>simp_all add: check_block_def\<close>)

lemma get_block_shape:
  "get_block b full c = (Inr d, c') \<Longrightarrow> quantity_field d ''number'' \<and> hash_field d ''hash''"
  by (auto simp: get_block_def ok_iff simp del: call_ok dest!: check_block_shape)

section \<open>What the node answered\<close>

text \<open>
  \<open>answered c c' meth params v\<close>: between the client states \<open>c\<close> and \<open>c'\<close> the node was asked
  for \<open>meth params\<close> under a fresh id and its well-formed response to that id was \<open>v\<close>.
  Verdicts about the chain are stated as facts of this kind.
\<close>

definition answered :: "rpc_client \<Rightarrow> rpc_client \<Rightarrow> string \<Rightarrow> pyval list \<Rightarrow> pyval \<Rightarrow> bool" where
  "answered c c' meth params v \<longleftrightarrow>
     (\<exists>i d. rpc_id c < i \<and> i \<le> rpc_id c' \<and>
            rpc_transport c (rpc_request i meth params) = Inr (PDict d) \<and>
            dict_get d ''id'' = PInt i \<and> map_of d (PStr ''result'') = Some v \<and> \<not> has_key d ''error'')"

lemma call_answered: "call meth params c = (Inr v, c') \<Longrightarrow> answered c c' meth params v"
  unfolding call_ok answered_def by (intro exI[of _ "rpc_id c + 1"]) auto

lemma answered_mono:
  assumes "answered b c meth params v" "rpc_mono a b" "rpc_mono c d"
  shows "answered a d meth params v"
proof -
  obtain i e where "rpc_id b < i" "i \<le> rpc_id c"
    "rpc_transport b (rpc_request i meth params) = Inr (PDict e)"
    "dict_get e ''id'' = PInt i" "map_of e (PStr ''result'') = Some v" "\<not> has_key e ''error''"
    using assms(1) by (auto simp: answered_def)
  then show ?thesis
    using assms(2,3) unfolding answered_def rpc_mono_def
    by (intro exI[of _ i] exI[of _ e]) auto
qed

text \<open>A block with this number and this (lowercased) hash was returned for a selector.\<close>

definition quantity_is :: "pydict \<Rightarrow> string \<Rightarrow> int \<Rightarrow> bool" where
  "quantity_is d k n \<longleftrightarrow> (\<exists>s. dict_get d k = PStr s \<and> match_quantity s \<and> n = hex_num s)"

definition hash_is :: "pydict \<Rightarrow> string \<Rightarrow> string \<Rightarrow> bool" where
  "hash_is d k h \<longleftrightarrow> (\<exists>s. dict_get d k = PStr s \<and> match_hex 64 s \<and> h = lower s)"

definition block_answer :: "rpc_client \<Rightarrow> rpc_client \<Rightarrow> string \<Rightarrow> int \<Rightarrow> string \<Rightarrow> bool" where
  "block_answer c c' sel n h \<longleftrightarrow>
     (\<exists>d. answered c c' ''eth_getBlockByNumber'' [PStr sel, PBool False] (PDict d) \<and>
          quantity_is d ''number'' n \<and> hash_is d ''hash'' h)"

definition receipt_answer :: "rpc_client \<Rightarrow> rpc_client \<Rightarrow> string \<Rightarrow> pydict \<Rightarrow> bool" where
  "receipt_answer c c' tx d \<longleftrightarrow>
     answered c c' ''eth_getTransactionReceipt'' [PStr tx] (PDict d) \<and> receipt_shape d"

lemma answers_mono:
  assumes "rpc_mono a b" "rpc_mono c d"
  shows "block_answer b c sel n h \<Longrightarrow> block_answer a d sel n h"
    "receipt_answer b c tx r \<Longrightarrow> receipt_answer a d tx r"
  using assms answered_mono by (fastforce simp: block_answer_def receipt_answer_def)+

lemma get_block_answered:
  assumes "get_block b False c = (Inr d, c')"
  shows "\<exists>sel. block_param b = Inr sel \<and>
    answered c c' ''eth_getBlockByNumber'' [PStr sel, PBool False] (PDict d)"
  using assms
  by (auto simp: get_block_def bindS_ok dest!: check_block_shape call_answered)

lemma get_transaction_receipt_answered:
  assumes "get_transaction_receipt h c = (Inr d, c')"
  shows "receipt_answer c c' h d"
  using assms
  by (auto simp: get_transaction_receipt_def bindS_ok receipt_answer_def
      dest!: validate_receipt_shape call_answered split: if_splits)

section \<open>Operations that only read\<close>

text \<open>
  The methods that change nothing on a chain.  An operation \<open>reads_only\<close> when its outcome is
  the same on every two nodes that answer these methods alike: it neither calls nor observes
  any other method.
\<close>

definition read_methods :: "string list" where
  "read_methods = [''eth_chainId'', ''eth_blockNumber'', ''eth_getBlockByNumber'', ''eth_getLogs'',
     ''eth_call'', ''eth_getCode'', ''eth_getStorageAt'', ''eth_getTransactionReceipt'']"

definition same_reads :: "rpc_client \<Rightarrow> rpc_client \<Rightarrow> bool" where
  "same_reads c d \<longleftrightarrow> rpc_id c = rpc_id d \<and>
     (\<forall>i meth params. meth \<in> set read_methods \<longrightarrow>
        rpc_transport c (rpc_request i meth params) = rpc_transport d (rpc_request i meth params))"

definition reads_only :: "'a rpc \<Rightarrow> bool" where
  "reads_only m \<longleftrightarrow> (\<forall>c d. same_reads c d \<longrightarrow>
     fst (m c) = fst (m d) \<and> same_reads (snd (m c)) (snd (m d)))"

lemma reads_only_call: "meth \<in> set read_methods \<Longrightarrow> reads_only (call meth params)"
  by (simp add: reads_only_def same_reads_def call_def Let_def)

lemma reads_only_bind:
  assumes "reads_only m" "\<And>x. reads_only (f x)"
  shows "reads_only (bindS m f)"
  unfolding reads_only_def
proof (intro allI impI)
  fix c d assume cd: "same_reads c d"
  obtain r c' d' where m: "m c = (r, c')" "m d = (r, d')" "same_reads c' d'"
    using assms(1) cd unfolding reads_only_def by (metis prod.collapse)
  show "fst (bindS m f c) = fst (bindS m f d) \<and> same_reads (snd (bindS m f c)) (snd (bindS m f d))"
    using m assms(2) by (cases r) (auto simp: bindS_def reads_only_def)
qed

lemma reads_only_pure: "reads_only (retS x)" "reads_only (raiseS e)" "reads_only (liftS r)"
  by (simp_all add: reads_only_def)

lemma reads_only_if: "(b \<Longrightarrow> reads_only m) \<Longrightarrow> (\<not> b \<Longrightarrow> reads_only n) \<Longrightarrow> reads_only (if b then m else n)"
  by simp

lemmas reads_only_intros = reads_only_pure reads_only_bind reads_only_if reads_only_call

lemma client_reads_only:
  "reads_only block_number" "reads_only chain_id" "reads_only (get_block b full)"
  "reads_only (get_logs a ts f t)" "reads_only (eth_call to data b)" "reads_only (get_code a b)"
  "reads_only (get_transaction_receipt h)"
  by (unfold block_number_def chain_id_def get_block_def get_logs_def eth_call_def get_code_def
      get_transaction_receipt_def)
    (auto intro!: reads_only_intros simp: read_methods_def)

section \<open>Waiting for a receipt\<close>

lemma wait_loop_answered:
  "wait_loop h n c = (Inr d, c') \<Longrightarrow>
     receipt_answer c c' h d \<and> rpc_mono c c' \<and> rpc_id c' \<le> rpc_id c + int n"
proof (induction n arbitrary: c)
  case 0
  then show ?case by simp
next
  case (Suc n)
  from Suc.prems obtain v c1 where 1: "call ''eth_getTransactionReceipt'' [PStr h] c = (Inr v, c1)"
    and rest: "(if v \<noteq> PNone then liftS (validate_receipt ''eth_getTransactionReceipt result'' v)
      else wait_loop h n) c1 = (Inr d, c')"
    by (auto simp: bindS_ok simp del: call_ok)
  have id1: "rpc_id c1 = rpc_id c + 1" using 1 by (auto simp: call_ok)
  note k = keepsS_D[OF keeps_call 1]
  show ?case
  proof (cases "v = PNone")
    case True
    then have "wait_loop h n c1 = (Inr d, c')" using rest by simp
    then have IH: "receipt_answer c1 c' h d" "rpc_mono c1 c'" "rpc_id c' \<le> rpc_id c1 + int n"
      using Suc.IH by blast+
    then show ?thesis using answers_mono(2)[OF k rpc_mono_refl IH(1)] rpc_mono_trans[OF k IH(2)] id1 by simp
  next
    case False
    then have v: "validate_receipt ''eth_getTransactionReceipt result'' v = Inr d" "c' = c1"
      using rest by auto
    then show ?thesis
      using validate_receipt_shape[OF v(1)] call_answered[OF 1] k id1 by (simp add: receipt_answer_def)
  qed
qed

lemma wait_for_receipt_answered:
  "wait_for_receipt h tries delay c = (Inr d, c') \<Longrightarrow> receipt_answer c c' h d \<and> rpc_mono c c'"
  using wait_loop_answered by (fastforce simp: wait_for_receipt_def bindS_ok split: if_splits)

lemma wait_loop_bound: "rpc_id (snd (wait_loop h n c)) \<le> rpc_id c + int n"
proof (induction n arbitrary: c)
  case 0
  then show ?case by simp
next
  case (Suc n)
  obtain r c1 where 1: "call ''eth_getTransactionReceipt'' [PStr h] c = (r, c1)" by fastforce
  have "rpc_id c1 = rpc_id c + 1" using call_state[of "''eth_getTransactionReceipt''" "[PStr h]" c] 1 by simp
  then show ?case using 1 Suc.IH[of c1] by (cases r) (auto simp: bindS_def)
qed

section \<open>What the client raises\<close>

definition client_error :: "exn \<Rightarrow> bool" where
  "client_error e \<longleftrightarrow> is_rpc_error e \<or> is_value_error e"

lemma raises_weaken: "raisesR P m \<Longrightarrow> (\<And>e. P e \<Longrightarrow> Q e) \<Longrightarrow> raisesR Q m"
  "raisesS P n \<Longrightarrow> (\<And>e. P e \<Longrightarrow> Q e) \<Longrightarrow> raisesS Q n"
  unfolding raisesR_def raisesS_def by blast+

lemma validators_raise:
  "raisesR client_error (anvil_quantity what v)" "raisesR client_error (anvil_data what v)"
  "raisesR client_error (anvil_hash what v)" "raisesR client_error (anvil_address what nullable v)"
  "raisesR client_error (require_fields (RpcError m) fs d)" "raisesR client_error (block_param b)"
proof -
  show "raisesR client_error (anvil_quantity what v)" "raisesR client_error (anvil_data what v)"
    "raisesR client_error (anvil_hash what v)" "raisesR client_error (anvil_address what nullable v)"
    by (rule raises_weaken(1), rule anvil_scalars_raise, simp add: client_error_def)+
  show "raisesR client_error (require_fields (RpcError m) fs d)" "raisesR client_error (block_param b)"
    by (auto simp: client_error_def raisesR_def require_fields_def block_param_def
        split: if_splits block_sel.splits)
qed

lemma raises_case:
  "(\<And>d. raisesR P (f d)) \<Longrightarrow> P e \<Longrightarrow> raisesR P (case v of PDict d \<Rightarrow> f d | _ \<Rightarrow> Inl e)"
  "(\<And>xs. raisesR P (g xs)) \<Longrightarrow> P e \<Longrightarrow> raisesR P (case v of PList xs \<Rightarrow> g xs | _ \<Rightarrow> Inl e)"
  "(\<And>b. raisesR P (h b)) \<Longrightarrow> P e \<Longrightarrow> raisesR P (case v of PBool b \<Rightarrow> h b | _ \<Rightarrow> Inl e)"
  by (cases v; simp add: raisesR_intros)+

lemma client_error_simps [simp]: "client_error (RpcError m)" "client_error (ValueError m)"
  by (simp_all add: client_error_def)

lemma validate_log_raises: "raisesR client_error (validate_log what v)"
  unfolding validate_log_def validate_topics_def
  by (intro raisesR_intros validators_raise raises_case client_error_simps)

lemma validate_receipt_raises: "raisesR client_error (validate_receipt what v)"
  unfolding validate_receipt_def optional_quantities_def
  by (intro raisesR_intros validators_raise raises_case validate_log_raises client_error_simps)

lemma check_raises: "raisesR client_error (check_block full v)" "raisesR client_error (check_logs v)"
  unfolding check_block_def check_logs_def
  by (intro raisesR_intros validators_raise raises_case validate_log_raises client_error_simps)+

lemma call_client_error: "raisesS client_error (call meth params)"
  using raises_weaken(2)[OF call_raises] by (simp add: client_error_def)

lemmas client_raises = raisesS_intros raisesS_bind raisesR_intros validators_raise call_client_error
  validate_receipt_raises check_raises

section \<open>Properties\<close>

text \<open>
  A call succeeds exactly when the transport returned, for a request under a fresh id, a
  JSON object within the size bounds, with protocol version 2.0, the same id, a result and no
  error; the value is that result.  The only change of the client is its counter.
\<close>

theorem call_accepts_exact_envelope:
  "call meth params c = (Inr v, c') \<longleftrightarrow>
     c' = c\<lparr>rpc_id := rpc_id c + 1\<rparr> \<and>
     (\<exists>d. rpc_transport c (rpc_request (rpc_id c + 1) meth params) = Inr (PDict d) \<and>
          json_within 0 (PDict d) \<and> dict_get d ''jsonrpc'' = PStr ''2.0'' \<and>
          dict_get d ''id'' = PInt (rpc_id c + 1) \<and> map_of d (PStr ''result'') = Some v \<and>
          \<not> has_key d ''error'')"
  by (rule call_ok)

text \<open>
  C36: The recursive bound on responses is the intended one: a value is accepted exactly when
  every value found inside it lies at most 16 levels deep and is within its own limits
  (string size, list items, object fields with string keys, no infinite or undefined number,
  no foreign object).
\<close>

theorem bounded_json_exact:
  "bounded_json what 0 v = Inr () \<longleftrightarrow>
     (\<forall>n w. occurs_at v n w \<longrightarrow> int n \<le> 16 \<and> node_ok w)"
  by (simp add: bounded_json_iff json_within_def)

theorem bounded_json_exact_witness:
  "occurs_at (PList [PInt 1, PStr ''x'']) 1 (PStr ''x'') \<and> node_ok (PStr ''x'')
    \<and> (\<exists>n w. occurs_at (PList [POther ''object'']) n w \<and> \<not> (int n \<le> 16 \<and> node_ok w))"
proof -
  have inside: "occurs_at (PList [PInt 1, PStr ''x'']) 1 (PStr ''x'')"
    using occurs_at.item[OF _ occurs_at.here, of "PStr ''x''" "[PInt 1, PStr ''x'']"] by simp
  have "bounded_json ''r'' 0 (PList [PInt 1, PStr ''x'']) = Inr ()" by code_simp
  with inside have "node_ok (PStr ''x'')" using bounded_json_exact by blast
  moreover have "bounded_json ''r'' 0 (PList [POther ''object'']) \<noteq> Inr ()" by code_simp
  then have "\<exists>n w. occurs_at (PList [POther ''object'']) n w \<and> \<not> (int n \<le> 16 \<and> node_ok w)"
    by (simp only: bounded_json_exact) blast
  ultimately show ?thesis using inside by blast
qed

text \<open>
  C37: Waiting for a receipt always ends, after at most the given number of requests; what it
  returns is a validated receipt that the node gave for that hash.
\<close>

theorem wait_for_receipt_bounded:
  assumes "0 < tries"
  shows "rpc_id (snd (wait_for_receipt h tries delay c)) \<le> rpc_id c + tries \<and>
    (\<forall>d. fst (wait_for_receipt h tries delay c) = Inr d \<longrightarrow>
       receipt_answer c (snd (wait_for_receipt h tries delay c)) h d)"
proof
  show "rpc_id (snd (wait_for_receipt h tries delay c)) \<le> rpc_id c + tries"
    using wait_loop_bound[of h "nat tries" c] assms
    by (cases "anvil_hash ''transaction hash'' (PStr h)") (auto simp: wait_for_receipt_def)
  show "\<forall>d. fst (wait_for_receipt h tries delay c) = Inr d \<longrightarrow>
      receipt_answer c (snd (wait_for_receipt h tries delay c)) h d"
    using wait_for_receipt_answered by (metis prod.collapse)
qed

theorem wait_for_receipt_bounded_witness:
  "rpc_id (snd (wait_for_receipt (''0x'' @ replicate 64 (CHR ''e'')) 3 (Finite 0 0)
     \<lparr>rpc_id = 0, rpc_transport = \<lambda>_. Inl (RpcError ''down'')\<rparr>)) \<le> 0 + 3"
  using wait_for_receipt_bounded[of 3 "''0x'' @ replicate 64 (CHR ''e'')" "Finite 0 0"
      "\<lparr>rpc_id = 0, rpc_transport = \<lambda>_. Inl (RpcError ''down'')\<rparr>"] by simp

text \<open>
  Whatever the transport does, the methods of the client raise nothing but \<open>RpcError\<close>
  (for the node's answers) and \<open>ValueError\<close> (for the caller's arguments).
\<close>

theorem client_raises_only:
  "raisesS client_error (call meth params) \<and> raisesS client_error snapshot \<and>
   raisesS client_error (revert sid) \<and> raisesS client_error (set_automine on) \<and>
   raisesS client_error block_number \<and> raisesS client_error chain_id \<and>
   raisesS client_error (get_block b full) \<and> raisesS client_error (get_logs a ts f t) \<and>
   raisesS client_error (eth_call to data b) \<and> raisesS client_error (get_code a b) \<and>
   raisesS client_error (send_raw_transaction raw) \<and> raisesS client_error (get_transaction_receipt h) \<and>
   raisesS client_error (wait_for_receipt h tries delay)"
proof -
  have w: "raisesS client_error (wait_loop h n)" for n
  proof (induction n)
    case 0
    show ?case unfolding wait_loop.simps by (rule raisesS_intros) (simp add: client_error_def)
  next
    case (Suc n)
    then show ?case unfolding wait_loop.simps by (intro client_raises)
  qed
  have "raisesS client_error snapshot" unfolding snapshot_def by (intro client_raises)
  moreover have "raisesS client_error (revert sid)" "raisesS client_error (set_automine on)"
    unfolding revert_def set_automine_def
    by (auto intro!: client_raises simp: client_error_def split: pyval.splits)
  moreover have "raisesS client_error block_number" "raisesS client_error chain_id"
    "raisesS client_error (get_block b full)" "raisesS client_error (eth_call to data b)"
    "raisesS client_error (get_code a b)" "raisesS client_error (send_raw_transaction raw)"
    "raisesS client_error (get_transaction_receipt h)" "raisesS client_error (wait_for_receipt h tries delay)"
    unfolding block_number_def chain_id_def get_block_def eth_call_def get_code_def send_raw_transaction_def
      get_transaction_receipt_def wait_for_receipt_def
    by (auto intro!: client_raises w simp: client_error_def)
  moreover have "raisesS client_error (get_logs a ts f t)"
    unfolding get_logs_def
    by (intro client_raises) (auto intro!: raisesR_intros validators_raise simp: client_error_def split: option.splits)
  ultimately show ?thesis using call_client_error by simp
qed

end
