(* ===== verification/Chain.thy ===== *)
theory Chain
  imports Anvil
begin

text \<open>
  \<^verbatim>\<open>psv/chain.py\<close>: exact ABI words, the token handle and the settlement truth.  A
  \<open>token_view\<close> is the token address; the RPC client it reads through is the state of the
  operations.
\<close>

section \<open>Constants\<close>

definition sel_balance_of :: string where
  "sel_balance_of = ''70a08231''"

definition sel_authorization_state :: string where
  "sel_authorization_state = ''e94a0102''"

definition sel_transfer_with_authorization :: string where
  "sel_transfer_with_authorization = ''cf092995''"

definition sel_set_event_mode :: string where
  "sel_set_event_mode = ''2a030f44''"

definition sel_set_fee_bps :: string where
  "sel_set_fee_bps = ''023b1fc9''"

definition sel_mint :: string where
  "sel_mint = ''40c10f19''"

definition sel_event_mode :: string where
  "sel_event_mode = ''0ce978e2''"

definition topic_transfer :: string where
  "topic_transfer = ''0xddf252ad1be2c89b69c2b068fc378daa952ba7f163c4a11628f55a4df523b3ef''"

definition topic_transfer_v2 :: string where
  "topic_transfer_v2 = ''0x58f9acac7a1c69c84dff9a713e28686566926c704ffaaa5562e8225bdf50911b''"

definition topic_authorization_used :: string where
  "topic_authorization_used = ''0x98de503528ee59b575ef0c0a2576a82497bfc029a5685b209e9ec333479b10a5''"

definition uint256_max :: int where
  "uint256_max = 2 ^ 256 - 1"

definition uint256 :: "int \<Rightarrow> bool" where
  "uint256 n \<longleftrightarrow> 0 \<le> n \<and> n \<le> uint256_max"

section \<open>ABI words\<close>

definition word_to_int :: "string \<Rightarrow> string \<Rightarrow> int result" where
  "word_to_int what result =
     (if match_hex 64 result then int_base 16 result
      else Inl (RpcError (what @ '': malformed 32-byte ABI result'')))"

definition slot_addr :: "string \<Rightarrow> string result" where
  "slot_addr addr =
     (if match_hex 40 addr then Inr (rjust 64 (CHR ''0'') (lower (drop 2 addr)))
      else Inl (ValueError ''not a 20-byte address''))"

text \<open>The format \<^verbatim>\<open>064x\<close> of a non-negative number.\<close>

definition hex64 :: "int \<Rightarrow> string" where
  "hex64 v = rjust 64 (CHR ''0'') (digits_of 16 v)"

definition slot_uint :: "int \<Rightarrow> string result" where
  "slot_uint v = (if uint256 v then Inr (hex64 v) else Inl (ValueError ''uint256 out of range''))"

definition slot_bytes32 :: "string \<Rightarrow> string result" where
  "slot_bytes32 v =
     (if match_hex 64 v then Inr (lower (drop 2 v)) else Inl (ValueError ''not a bytes32 value''))"

definition chain_topic_addr :: "string \<Rightarrow> string result" where
  "chain_topic_addr addr = bindR (slot_addr addr) (\<lambda>w. Inr (''0x'' @ w))"

definition topic_bytes32 :: "string \<Rightarrow> string result" where
  "topic_bytes32 v = bindR (slot_bytes32 v) (\<lambda>w. Inr (''0x'' @ w))"

section \<open>The token handle\<close>

record token_view =
  address :: string

definition token_view_init :: "string \<Rightarrow> token_view result" where
  "token_view_init addr = bindR (slot_addr addr) (\<lambda>_. Inr \<lparr>address = addr\<rparr>)"

definition balance_of :: "token_view \<Rightarrow> string \<Rightarrow> block_sel \<Rightarrow> int rpc" where
  "balance_of tok who block =
     bindS (liftS (slot_addr who)) (\<lambda>w.
     bindS (eth_call (address tok) (''0x'' @ sel_balance_of @ w) block) (\<lambda>result.
     liftS (word_to_int ''balanceOf'' result)))"

definition authorization_used :: "token_view \<Rightarrow> string \<Rightarrow> string \<Rightarrow> block_sel \<Rightarrow> bool rpc" where
  "authorization_used tok authorizer nonce block =
     bindS (liftS (slot_addr authorizer)) (\<lambda>a.
     bindS (liftS (slot_bytes32 nonce)) (\<lambda>n.
     bindS (eth_call (address tok) (''0x'' @ sel_authorization_state @ a @ n) block) (\<lambda>result.
     bindS (liftS (word_to_int ''authorizationState'' result)) (\<lambda>r.
     if r \<noteq> 0 \<and> r \<noteq> 1 then raiseS (RpcError ''authorizationState: expected ABI boolean'')
     else retS (r = 1)))))"

definition event_mode :: "token_view \<Rightarrow> block_sel \<Rightarrow> int rpc" where
  "event_mode tok block =
     bindS (eth_call (address tok) (''0x'' @ sel_event_mode) block) (\<lambda>result.
     liftS (word_to_int ''eventMode'' result))"

text \<open>An empty authorizer string is falsy, so it selects no authorizer.\<close>

definition authorization_used_logs ::
  "token_view \<Rightarrow> string option \<Rightarrow> block_sel \<Rightarrow> block_sel \<Rightarrow> pydict list rpc" where
  "authorization_used_logs tok authorizer from_block to_block =
     bindS (liftS (case authorizer of
              None \<Rightarrow> Inr None
            | Some a \<Rightarrow> if a = [] then Inr None else bindR (chain_topic_addr a) (\<lambda>t. Inr (Some t)))) (\<lambda>t.
     get_logs (address tok) [Some topic_authorization_used, t] from_block to_block)"

section \<open>Calldata\<close>

definition settle_calldata ::
  "string \<Rightarrow> string \<Rightarrow> int \<Rightarrow> int \<Rightarrow> int \<Rightarrow> string \<Rightarrow> string \<Rightarrow> string result" where
  "settle_calldata from_addr to value valid_after valid_before nonce signature =
     bindR (slot_addr from_addr) (\<lambda>from_slot.
     bindR (slot_addr to) (\<lambda>to_slot.
     bindR (int_base 16 (drop 2 from_addr)) (\<lambda>f.
     bindR (if f = 0 then Inr 0 else int_base 16 (drop 2 to)) (\<lambda>t.
     if f = 0 \<or> t = 0 then Inl (ValueError ''from_addr and to must be non-zero addresses'')
     else if \<not> (1 \<le> value \<and> value \<le> uint256_max)
     then Inl (ValueError ''value must be a positive uint256'')
     else if \<not> (0 \<le> valid_after \<and> valid_after \<le> uint256_max)
     then Inl (ValueError ''valid_after must be a uint256'')
     else if \<not> (1 \<le> valid_before \<and> valid_before \<le> uint256_max)
     then Inl (ValueError ''valid_before must be a positive uint256'')
     else if valid_after \<ge> valid_before
     then Inl (ValueError ''valid_after must be less than valid_before'')
     else
     bindR (slot_bytes32 nonce) (\<lambda>nonce_slot.
     if \<not> match_hex 130 signature
     then Inl (ValueError ''signature must be exactly 65 bytes of 0x-prefixed hex'')
     else
     bindR (slot_uint value) (\<lambda>v.
     bindR (slot_uint valid_after) (\<lambda>va.
     bindR (slot_uint valid_before) (\<lambda>vb.
     bindR (slot_uint (7 * 32)) (\<lambda>offset.
     bindR (slot_uint 65) (\<lambda>len.
     let sig_hex = lower (drop 2 signature);
         head = sel_transfer_with_authorization @ from_slot @ to_slot @ v @ va @ vb @ nonce_slot @ offset;
         tail = len @ ljust (3 * 64) (CHR ''0'') sig_hex
     in Inr (''0x'' @ head @ tail)))))))))))"

definition set_event_mode_calldata :: "int \<Rightarrow> string result" where
  "set_event_mode_calldata mode =
     (if mode \<noteq> 0 \<and> mode \<noteq> 1 then Inl (ValueError ''mode must be 0 or 1'')
      else bindR (slot_uint mode) (\<lambda>w. Inr (''0x'' @ sel_set_event_mode @ w)))"

definition set_fee_bps_calldata :: "int \<Rightarrow> string result" where
  "set_fee_bps_calldata bps =
     (if \<not> (0 \<le> bps \<and> bps \<le> 10000)
      then Inl (ValueError ''bps must be an integer within [0, 10000]'')
      else bindR (slot_uint bps) (\<lambda>w. Inr (''0x'' @ sel_set_fee_bps @ w)))"

definition mint_calldata :: "string \<Rightarrow> int \<Rightarrow> string result" where
  "mint_calldata to amount =
     (if \<not> (1 \<le> amount \<and> amount \<le> uint256_max)
      then Inl (ValueError ''amount must be a positive uint256'')
      else bindR (slot_addr to) (\<lambda>t.
           bindR (slot_uint amount) (\<lambda>a. Inr (''0x'' @ sel_mint @ t @ a))))"

section \<open>Settlement truth\<close>

record settlement_truth =
  nonce_consumed :: bool
  payer_balance_after :: int
  payee_balance_after :: int
  payer_delta :: int
  payee_delta :: int

definition funds_moved :: "settlement_truth \<Rightarrow> bool" where
  "funds_moved t \<longleftrightarrow> nonce_consumed t \<and> payee_delta t > 0 \<and> payer_delta t < 0"

section \<open>Facts about words\<close>

lemma uint256_iff: "uint256 n \<longleftrightarrow> 0 \<le> n \<and> n < 16 ^ 64"
  by (auto simp: uint256_def uint256_max_def)

lemma slot_addr_ok [ok_iff]:
  "slot_addr a = Inr w \<longleftrightarrow> match_hex 40 a \<and> w = rjust 64 (CHR ''0'') (lower (drop 2 a))"
  by (auto simp: slot_addr_def)

lemma slot_bytes32_ok [ok_iff]:
  "slot_bytes32 a = Inr w \<longleftrightarrow> match_hex 64 a \<and> w = lower (drop 2 a)"
  by (auto simp: slot_bytes32_def)

lemma slot_uint_ok [ok_iff]: "slot_uint v = Inr w \<longleftrightarrow> uint256 v \<and> w = hex64 v"
  by (auto simp: slot_uint_def)

lemma word_to_int_ok [ok_iff]:
  "word_to_int what r = Inr n \<longleftrightarrow> match_hex 64 r \<and> n = hex_num r"
  by (auto simp: word_to_int_def)

lemma rjust_length: "length s \<le> n \<Longrightarrow> length (rjust n c s) = n"
  by (simp add: rjust_def)

lemma hex64_word:
  assumes "uint256 v"
  shows "match_hex 64 (''0x'' @ hex64 v)" "digits_val 16 (hex64 v) = v" "lower (hex64 v) = hex64 v"
    "length (hex64 v) = 64"
proof -
  have v: "0 \<le> v" "v < 16 ^ 64" using assms by (simp_all add: uint256_iff)
  then have len: "length (digits_of 16 v) \<le> 64" by (intro digits_of_length) auto
  have dig: "\<And>c. c \<in> set (digits_of 16 v) \<Longrightarrow> is_hex c \<and> lower_char c = c"
    using digits_of_chars[of 16 v] v by auto
  have z: "lower_char (CHR ''0'') = CHR ''0''" by code_simp
  show "length (hex64 v) = 64" using len by (simp add: hex64_def rjust_length)
  then show "match_hex 64 (''0x'' @ hex64 v)"
    using dig by (auto simp: match_hex_iff hex64_def rjust_def)
  show "digits_val 16 (hex64 v) = v" using v by (simp add: hex64_def rjust_def digits_of_val)
  show "lower (hex64 v) = hex64 v"
    unfolding lower_def by (rule map_cong_id) (use dig z in \<open>auto simp: hex64_def rjust_def\<close>)
qed

interpretation abi_word: canonical_codec "\<lambda>v. ''0x'' @ hex64 v" "word_to_int what" uint256 lower
proof
  show "word_to_int what (''0x'' @ hex64 x) = Inr x" if "uint256 x" for x
    using hex64_word[OF that] by (simp add: ok_iff hex_num_def)
  show "uint256 x \<and> ''0x'' @ hex64 x = lower s" if w: "word_to_int what s = Inr x" for s x
  proof -
    from w obtain t where t: "s = ''0x'' @ t" "length t = 64" "\<forall>c\<in>set t. is_hex c"
      "x = digits_val 16 t" by (auto simp: ok_iff match_hex_iff hex_num_def)
    then have u: "uint256 x" using hex_digits_bounds[of t] by (simp add: uint256_iff)
    have "lower (hex64 x) = lower t"
      using hex64_word[OF u] t
      by (intro digits_val_inj) (auto simp: match_hex_iff)
    then show ?thesis using u hex64_word(3)[OF u] t by (simp add: lower_0x)
  qed
qed

lemma slot_addr_word:
  assumes "slot_addr a = Inr w"
  shows "length w = 64" "digits_val 16 w = hex_num a" "\<forall>c\<in>set w. is_hex c"
    "last_chars 40 w = lower (drop 2 a)"
proof -
  from assms obtain t where t: "a = ''0x'' @ t" "length t = 40" "\<forall>c\<in>set t. is_hex c"
    and w: "w = replicate 24 (CHR ''0'') @ lower t"
    by (auto simp: ok_iff match_hex_iff rjust_def)
  have "\<forall>c\<in>set (lower t). is_hex c" using t by (auto simp: lower_def)
  then show "length w = 64" "\<forall>c\<in>set w. is_hex c" "last_chars 40 w = lower (drop 2 a)"
    using t w by (auto simp: last_chars_def)
  show "digits_val 16 w = hex_num a"
    using hex_num_lower[of 40 a] t w by (simp add: hex_num_def match_hex_iff lower_0x)
qed

section \<open>The layout of settlement calldata\<close>

definition addr_word :: "string \<Rightarrow> string" where
  "addr_word a = rjust 64 (CHR ''0'') (lower (drop 2 a))"

definition settle_args_ok ::
  "string \<Rightarrow> string \<Rightarrow> int \<Rightarrow> int \<Rightarrow> int \<Rightarrow> string \<Rightarrow> string \<Rightarrow> bool" where
  "settle_args_ok f t v va vb n sig \<longleftrightarrow>
     match_hex 40 f \<and> match_hex 40 t \<and> hex_num f \<noteq> 0 \<and> hex_num t \<noteq> 0 \<and>
     1 \<le> v \<and> uint256 v \<and> uint256 va \<and> uint256 vb \<and> va < vb \<and> match_hex 64 n \<and> match_hex 130 sig"

definition settle_layout ::
  "string \<Rightarrow> string \<Rightarrow> int \<Rightarrow> int \<Rightarrow> int \<Rightarrow> string \<Rightarrow> string \<Rightarrow> string" where
  "settle_layout f t v va vb n sig =
     ''0xcf092995'' @ addr_word f @ addr_word t @ hex64 v @ hex64 va @ hex64 vb @ lower (drop 2 n) @
     hex64 224 @ hex64 65 @ lower (drop 2 sig) @ replicate 62 (CHR ''0'')"

lemma int_base_address: "match_hex 40 a \<Longrightarrow> int_base 16 (drop 2 a) = Inr (hex_num a)"
  using py_int_bare_hex[of "drop 2 a"] by (auto simp: match_hex_iff int_base_def hex_num_def)

lemma uint256_literals: "uint256 224" "uint256 65"
  by (simp_all add: uint256_iff)

lemma settle_calldata_ok [ok_iff]:
  "settle_calldata f t v va vb n sig = Inr s \<longleftrightarrow>
     settle_args_ok f t v va vb n sig \<and> s = settle_layout f t v va vb n sig"
proof -
  have sig: "ljust 192 (CHR ''0'') (lower (drop 2 sig)) = lower (drop 2 sig) @ replicate 62 (CHR ''0'')"
    if "match_hex 130 sig" using that by (auto simp: ljust_def match_hex_iff)
  show ?thesis
    unfolding settle_calldata_def settle_args_ok_def settle_layout_def
    by (cases "match_hex 40 f \<and> match_hex 40 t")
      (auto simp: ok_iff int_base_address addr_word_def sel_transfer_with_authorization_def sig
        uint256_def uint256_literals[unfolded uint256_def] Let_def split: if_splits)
qed

lemma addr_word_facts:
  assumes "match_hex 40 a"
  shows "length (addr_word a) = 64" "digits_val 16 (addr_word a) = hex_num a"
    "\<forall>c\<in>set (addr_word a). is_hex c" "drop 24 (addr_word a) = lower (drop 2 a)"
proof -
  have "slot_addr a = Inr (addr_word a)" using assms by (simp add: ok_iff addr_word_def)
  note w = slot_addr_word[OF this]
  show "length (addr_word a) = 64" "digits_val 16 (addr_word a) = hex_num a"
    "\<forall>c\<in>set (addr_word a). is_hex c" by (fact w)+
  show "drop 24 (addr_word a) = lower (drop 2 a)" using w(1,4) by (simp add: last_chars_def)
qed

lemma settle_layout_lengths:
  assumes "settle_args_ok f t v va vb n sig"
  shows "length (addr_word f) = 64" "length (addr_word t) = 64" "length (hex64 v) = 64"
    "length (hex64 va) = 64" "length (hex64 vb) = 64" "length (lower (drop 2 n)) = 64"
    "length (hex64 224) = 64" "length (hex64 65) = 64" "length (lower (drop 2 sig)) = 130"
  using assms
  by (auto simp: settle_args_ok_def addr_word_facts hex64_word uint256_literals match_hex_iff)

lemma settle_layout_inj:
  assumes 1: "settle_args_ok f t v va vb n sig" and 2: "settle_args_ok f' t' v' va' vb' n' sig'"
    and eq: "settle_layout f t v va vb n sig = settle_layout f' t' v' va' vb' n' sig'"
  shows "lower f = lower f' \<and> lower t = lower t' \<and> v = v' \<and> va = va' \<and> vb = vb' \<and>
         lower n = lower n' \<and> lower sig = lower sig'"
proof -
  note l = settle_layout_lengths[OF 1] settle_layout_lengths[OF 2]
  have parts: "addr_word f = addr_word f'" "addr_word t = addr_word t'" "hex64 v = hex64 v'"
    "hex64 va = hex64 va'" "hex64 vb = hex64 vb'" "lower (drop 2 n) = lower (drop 2 n')"
    "lower (drop 2 sig) = lower (drop 2 sig')"
    using eq l by (simp_all add: settle_layout_def)
  have low: "lower x = lower y"
    if "match_hex k x" "match_hex k y" "lower (drop 2 x) = lower (drop 2 y)" for k x y
    using that by (auto simp: match_hex_iff lower_0x)
  have num: "x = y" if "uint256 x" "uint256 y" "hex64 x = hex64 y" for x y
    using that abi_word.enc_eq_iff by simp
  show ?thesis
    using 1 2 parts low num addr_word_facts(4) unfolding settle_args_ok_def by metis
qed

lemma settle_layout_data:
  assumes "settle_args_ok f t v va vb n sig"
  shows "length (settle_layout f t v va vb n sig) = 714" "match_data (settle_layout f t v va vb n sig)"
proof -
  show len: "length (settle_layout f t v va vb n sig) = 714"
    using settle_layout_lengths[OF assms] by (simp add: settle_layout_def)
  have sel: "\<forall>c\<in>set ''cf092995''. is_hex c" by code_simp
  have hex: "\<forall>c\<in>set (lower (drop 2 s)). is_hex c" if "match_hex k s" for k s
    using match_hex_lower[OF that] by (auto simp: match_hex_def lower_take_drop)
  have w: "\<forall>c\<in>set (hex64 x). is_hex c" if "uint256 x" for x
    using hex64_word(1)[OF that] by (simp add: match_hex_iff)
  show "match_data (settle_layout f t v va vb n sig)"
    unfolding match_data_def
  proof (intro conjI)
    show "even (length (settle_layout f t v va vb n sig))" using len by simp
    show "startswith (settle_layout f t v va vb n sig) ''0x''" by (simp add: settle_layout_def)
    show "\<forall>c\<in>set (drop 2 (settle_layout f t v va vb n sig)). is_hex c"
      using assms sel hex w addr_word_facts(3) uint256_literals
      by (auto simp: settle_layout_def settle_args_ok_def)
  qed
qed

section \<open>Reads of the token\<close>

definition balance_answer ::
  "rpc_client \<Rightarrow> rpc_client \<Rightarrow> string \<Rightarrow> string \<Rightarrow> int \<Rightarrow> int \<Rightarrow> bool" where
  "balance_answer c c' tok who n b \<longleftrightarrow>
     (\<exists>w. answered c c' ''eth_call''
            [PDict [(PStr ''to'', PStr tok), (PStr ''data'', PStr (''0x70a08231'' @ addr_word who))],
             PStr (py_hex n)] (PStr w) \<and> match_hex 64 w \<and> hex_num w = b)"

definition nonce_answer ::
  "rpc_client \<Rightarrow> rpc_client \<Rightarrow> string \<Rightarrow> string \<Rightarrow> string \<Rightarrow> int \<Rightarrow> bool \<Rightarrow> bool" where
  "nonce_answer c c' tok who nonce n used \<longleftrightarrow>
     (\<exists>w. answered c c' ''eth_call''
            [PDict [(PStr ''to'', PStr tok),
                    (PStr ''data'', PStr (''0xe94a0102'' @ addr_word who @ lower (drop 2 nonce)))],
             PStr (py_hex n)] (PStr w) \<and> match_hex 64 w \<and> hex_num w = (if used then 1 else 0))"

lemma token_answers_mono:
  assumes "rpc_mono a b" "rpc_mono c d"
  shows "balance_answer b c tok who n v \<Longrightarrow> balance_answer a d tok who n v"
    "nonce_answer b c tok who nonce n used \<Longrightarrow> nonce_answer a d tok who nonce n used"
  using assms answered_mono by (fastforce simp: balance_answer_def nonce_answer_def)+

lemma eth_call_answered:
  assumes "eth_call to data (BlockNumber n) c = (Inr s, c')"
  shows "answered c c' ''eth_call''
    [PDict [(PStr ''to'', PStr to), (PStr ''data'', PStr data)], PStr (py_hex n)] (PStr s)"
  using assms
  by (auto simp: eth_call_def bindS_ok anvil_data_ok block_param_ok dest!: call_answered)

lemma balance_of_answered:
  "balance_of tok who (BlockNumber n) c = (Inr b, c') \<Longrightarrow> balance_answer c c' (address tok) who n b"
  by (auto simp: balance_of_def bindS_ok slot_addr_ok word_to_int_ok balance_answer_def
      sel_balance_of_def addr_word_def dest!: eth_call_answered)

lemma authorization_used_answered:
  "authorization_used tok who nonce (BlockNumber n) c = (Inr b, c') \<Longrightarrow>
     nonce_answer c c' (address tok) who nonce n b"
  by (auto simp: authorization_used_def bindS_ok slot_addr_ok slot_bytes32_ok word_to_int_ok
      nonce_answer_def sel_authorization_state_def addr_word_def dest!: eth_call_answered
      split: if_splits)

lemma token_keeps:
  "keepsS rpc_mono (balance_of tok who b)" "keepsS rpc_mono (authorization_used tok who nonce b)"
  "keepsS rpc_mono (event_mode tok b)"
  by (auto simp: balance_of_def authorization_used_def event_mode_def intro!: rpc_keeps client_keeps)

lemma token_reads_only:
  "reads_only (balance_of tok who b)" "reads_only (authorization_used tok who nonce b)"
  "reads_only (event_mode tok b)" "reads_only (authorization_used_logs tok a f t)"
  by (unfold balance_of_def authorization_used_def event_mode_def authorization_used_logs_def)
    (intro reads_only_intros client_reads_only)+

section \<open>Properties\<close>

text \<open>
  C35: Settlement calldata is unambiguous.  Whenever it is produced it is well-formed data of
  the fixed ABI length, and two argument tuples that give the same calldata are the same up
  to letter case: no two different authorizations share their encoding.
\<close>

theorem settle_calldata_injective:
  assumes "settle_calldata f t v va vb n sig = Inr s" "settle_calldata f' t' v' va' vb' n' sig' = Inr s"
  shows "lower f = lower f' \<and> lower t = lower t' \<and> v = v' \<and> va = va' \<and> vb = vb' \<and>
    lower n = lower n' \<and> lower sig = lower sig' \<and> length s = 714 \<and> match_data s"
  using assms settle_layout_inj settle_layout_data by (simp add: settle_calldata_ok) metis

abbreviation "demo_settle c \<equiv> settle_calldata (''0x'' @ replicate 40 (CHR ''1'')) (''0x'' @ replicate 40 c)
  1000 0 99 (''0x'' @ replicate 64 (CHR ''d'')) (''0x'' @ replicate 130 (CHR ''5''))"

theorem settle_calldata_injective_witness:
  "\<exists>s. demo_settle (CHR ''A'') = Inr s \<and> demo_settle (CHR ''a'') = Inr s \<and> length s = 714"
proof -
  have "demo_settle (CHR ''A'') = demo_settle (CHR ''a'')" by code_simp
  moreover obtain s where "demo_settle (CHR ''A'') = Inr s"
  proof -
    have "\<not> isl (demo_settle (CHR ''A''))" by code_simp
    then show ?thesis using that by (cases "demo_settle (CHR ''A'')") auto
  qed
  ultimately show ?thesis using settle_calldata_injective by metis
qed

text \<open>
  ABI words and JSON-RPC quantities are canonical encodings: each number of the domain is
  read back from its encoding, and what is accepted is, up to letter case, the encoding of
  the number returned.
\<close>

theorem words_and_quantities_canonical:
  "(uint256 v \<longrightarrow> word_to_int what (''0x'' @ hex64 v) = Inr v) \<and>
   (word_to_int what s = Inr v \<longrightarrow> uint256 v \<and> ''0x'' @ hex64 v = lower s) \<and>
   (0 \<le> q \<longrightarrow> anvil_quantity what (PStr (py_hex q)) = Inr q) \<and>
   (anvil_quantity what (PStr s) = Inr q \<longrightarrow> 0 \<le> q \<and> py_hex q = lower s)"
  using abi_word.dec_enc[of v what] abi_word.enc_dec[of what s v] quantity.dec_enc[of q what]
    quantity.enc_dec[of what s q] by blast

theorem words_and_quantities_canonical_witness:
  "anvil_quantity ''q'' (PStr (py_hex 255)) = Inr 255"
  using words_and_quantities_canonical[of 0 "''q''" "[]" 255] by simp

end
