(* ===== verification/Divergence.thy ===== *)
theory Divergence
  imports Chain
begin

text \<open>
  \<^verbatim>\<open>psv/divergence.py\<close>: the comparison of chain truth with the belief of the system under
  test, for the exact and the metered scheme.
\<close>

section \<open>Verdicts\<close>

datatype divergence_kind =
    CONSISTENT_PAID
  | CONSISTENT_UNPAID
  | SILENT_LOSS
  | PHANTOM_CREDIT
  | UNDERPAID_CREDIT
  | OVER_AUTHORIZED_SETTLEMENT

datatype severity = OK | CRITICAL

record divergence =
  kind :: divergence_kind
  severity :: severity
  message :: string

definition is_failure :: "divergence \<Rightarrow> bool" where
  "is_failure d \<longleftrightarrow> severity d = CRITICAL"

definition kind_value :: "divergence_kind \<Rightarrow> string" where
  "kind_value k =
     (case k of
        CONSISTENT_PAID \<Rightarrow> ''consistent_paid''
      | CONSISTENT_UNPAID \<Rightarrow> ''consistent_unpaid''
      | SILENT_LOSS \<Rightarrow> ''silent_loss''
      | PHANTOM_CREDIT \<Rightarrow> ''phantom_credit''
      | UNDERPAID_CREDIT \<Rightarrow> ''underpaid_credit''
      | OVER_AUTHORIZED_SETTLEMENT \<Rightarrow> ''over_authorized_settlement'')"

definition severity_value :: "severity \<Rightarrow> string" where
  "severity_value s = (case s of OK \<Rightarrow> ''ok'' | CRITICAL \<Rightarrow> ''critical'')"

definition em_dash :: string where
  "em_dash = [CHR 0xE2, CHR 0x80, CHR 0x94]"

definition py_bool :: "bool \<Rightarrow> string" where
  "py_bool b = (if b then ''True'' else ''False'')"

section \<open>The exact scheme\<close>

definition detect_payment_divergence ::
  "settlement_truth \<Rightarrow> bool \<Rightarrow> int option \<Rightarrow> divergence" where
  "detect_payment_divergence chain sut_believes_paid required_amount =
     (let moved = funds_moved chain in
      if moved \<and> sut_believes_paid then
        (case required_amount of
           Some required \<Rightarrow>
             if payee_delta chain < required then
               (let short = required - payee_delta chain in
                \<lparr>kind = UNDERPAID_CREDIT, severity = CRITICAL,
                 message = ''UNDERPAID CREDIT: the SUT credited the order as paid, but the merchant '' @
                   ''received '' @ py_str_int (payee_delta chain) @ '' on-chain against a required '' @
                   py_str_int required @ '' '' @ em_dash @ '' short by '' @ py_str_int short @
                   ''. The order is handed out for '' @
                   ''less than its price: a partial payment, or a fee-on-transfer / rebasing '' @
                   ''token skimming the difference, waved through as full settlement.''\<rparr>)
             else
               \<lparr>kind = CONSISTENT_PAID, severity = OK,
                message = ''Funds moved on-chain and the SUT correctly registered the payment.'' @
                  '' Received '' @ py_str_int (payee_delta chain) @ '' >= required '' @
                  py_str_int required @ ''.''\<rparr>
         | None \<Rightarrow>
             \<lparr>kind = CONSISTENT_PAID, severity = OK,
              message = ''Funds moved on-chain and the SUT correctly registered the payment.''\<rparr>)
      else if \<not> moved \<and> \<not> sut_believes_paid then
        \<lparr>kind = CONSISTENT_UNPAID, severity = OK,
         message = ''No funds moved and the SUT correctly treats the order as unpaid.''\<rparr>
      else if moved \<and> \<not> sut_believes_paid then
        \<lparr>kind = SILENT_LOSS, severity = CRITICAL,
         message = ''SILENT LOSS: the payer was debited and the merchant credited on-chain '' @
           ''(payer '' @ py_signed_int (payer_delta chain) @ '', payee '' @
           py_signed_int (payee_delta chain) @ '', nonce '' @
           ''consumed='' @ py_bool (nonce_consumed chain) @ ''), but the SUT believes the order is '' @
           ''unpaid. The customer paid and gets nothing '' @ em_dash @ '' the classic SC1 symptom of '' @
           ''a settlement event the system stopped recognizing.''\<rparr>
      else
        \<lparr>kind = PHANTOM_CREDIT, severity = CRITICAL,
         message = ''PHANTOM CREDIT: the SUT believes the order is paid, but no funds moved '' @
           ''on-chain (nonce consumed='' @ py_bool (nonce_consumed chain) @ '', payee delta '' @
           py_signed_int (payee_delta chain) @ ''). The resource is handed out for free.''\<rparr>)"

section \<open>The metered scheme\<close>

definition detect_metered_divergence ::
  "settlement_truth \<Rightarrow> bool \<Rightarrow> int \<Rightarrow> divergence result" where
  "detect_metered_divergence chain sut_believes_paid authorized_max =
     (if authorized_max < 0
      then Inl (ValueError ''authorized_max must be a non-negative integer (token base units)'')
      else Inr (let moved = funds_moved chain in
        if moved \<and> sut_believes_paid then
          (if payee_delta chain > authorized_max then
             (let over = payee_delta chain - authorized_max in
              \<lparr>kind = OVER_AUTHORIZED_SETTLEMENT, severity = CRITICAL,
               message = ''OVER-AUTHORIZED SETTLEMENT: the SUT credited an upto (metered) order, but '' @
                 ''the merchant received '' @ py_str_int (payee_delta chain) @
                 '' on-chain against an authorized '' @
                 ''maximum of '' @ py_str_int authorized_max @ '' '' @ em_dash @ '' over by '' @
                 py_str_int over @ ''. The facilitator settled '' @
                 ''beyond the client's cap; an upto authorization MUST settle at most the '' @
                 ''authorized maximum.''\<rparr>)
           else
             \<lparr>kind = CONSISTENT_PAID, severity = OK,
              message = ''Funds moved on-chain ('' @ py_str_int (payee_delta chain) @
                '') within the authorized maximum '' @ py_str_int authorized_max @
                '', and the SUT correctly registered the metered payment.''\<rparr>)
        else if \<not> moved \<and> \<not> sut_believes_paid then
          \<lparr>kind = CONSISTENT_UNPAID, severity = OK,
           message = ''No funds moved and the SUT correctly treats the metered order as unpaid.''\<rparr>
        else if moved \<and> \<not> sut_believes_paid then
          \<lparr>kind = SILENT_LOSS, severity = CRITICAL,
           message = ''SILENT LOSS: the payer was debited and the merchant credited on-chain '' @
             ''(payer '' @ py_signed_int (payer_delta chain) @ '', payee '' @
             py_signed_int (payee_delta chain) @ '', nonce '' @
             ''consumed='' @ py_bool (nonce_consumed chain) @
             ''), but the SUT believes the metered order is '' @
             ''unpaid. The customer paid and gets nothing.''\<rparr>
        else
          \<lparr>kind = PHANTOM_CREDIT, severity = CRITICAL,
           message = ''PHANTOM CREDIT: the SUT believes the metered order is paid, but no funds moved '' @
             ''on-chain (nonce consumed='' @ py_bool (nonce_consumed chain) @ '', payee delta '' @
             py_signed_int (payee_delta chain) @ ''). Either nothing settled, or a consumed upto '' @
             ''authorization was replayed and credited again. The resource is handed out free.''\<rparr>))"

definition settlement_truth_from_balances ::
  "bool \<Rightarrow> int \<Rightarrow> int \<Rightarrow> int \<Rightarrow> int \<Rightarrow> settlement_truth" where
  "settlement_truth_from_balances consumed payer_before payer_after payee_before payee_after =
     \<lparr>nonce_consumed = consumed, payer_balance_after = payer_after, payee_balance_after = payee_after,
      payer_delta = payer_after - payer_before, payee_delta = payee_after - payee_before\<rparr>"

section \<open>Interface: a detector of divergences\<close>

text \<open>
  What the users of a detector rely on (differential runs, the command line, the reports):
  the verdict is one of the two failures of a wrong belief exactly when belief and moved
  funds differ; when both say paid, the amount rule of the scheme decides.
\<close>

locale divergence_detector =
  fixes grade :: "settlement_truth \<Rightarrow> bool \<Rightarrow> divergence result"
    and bad_amount :: "settlement_truth \<Rightarrow> bool"
    and bad_kind :: divergence_kind
  assumes bad_kind: "bad_kind \<in> {UNDERPAID_CREDIT, OVER_AUTHORIZED_SETTLEMENT}"
    and grade_kind: "grade t b = Inr d \<Longrightarrow> kind d =
      (if funds_moved t \<and> b then (if bad_amount t then bad_kind else CONSISTENT_PAID)
       else if funds_moved t then SILENT_LOSS
       else if b then PHANTOM_CREDIT else CONSISTENT_UNPAID)"
    and grade_severity: "grade t b = Inr d \<Longrightarrow> severity d =
      (if kind d \<in> {CONSISTENT_PAID, CONSISTENT_UNPAID} then OK else CRITICAL)"
begin

lemma failure_iff:
  "grade t b = Inr d \<Longrightarrow>
     is_failure d \<longleftrightarrow> funds_moved t \<noteq> b \<or> (funds_moved t \<and> b \<and> bad_amount t)"
  using bad_kind grade_kind[of t b d] grade_severity[of t b d]
  by (auto simp: is_failure_def split: if_splits)

text \<open>On one chain fact two different beliefs cannot both be accepted.\<close>

lemma disagreement_fails:
  "grade t b = Inr d \<Longrightarrow> grade t b' = Inr d' \<Longrightarrow> b \<noteq> b' \<Longrightarrow> is_failure d \<or> is_failure d'"
  by (auto simp: failure_iff)

lemma accepted_belief: "grade t b = Inr d \<Longrightarrow> \<not> is_failure d \<Longrightarrow> b = funds_moved t"
  by (auto simp: failure_iff)

lemma paid_verdict_iff:
  "grade t b = Inr d \<Longrightarrow> kind d = CONSISTENT_PAID \<longleftrightarrow> funds_moved t \<and> b \<and> \<not> bad_amount t"
  using bad_kind grade_kind[of t b d] by (auto split: if_splits)

end

definition underpaid :: "int option \<Rightarrow> settlement_truth \<Rightarrow> bool" where
  "underpaid required t \<longleftrightarrow> (case required of None \<Rightarrow> False | Some r \<Rightarrow> payee_delta t < r)"

interpretation exact: divergence_detector "\<lambda>t b. Inr (detect_payment_divergence t b required)"
  "underpaid required" UNDERPAID_CREDIT
  by unfold_locales
    (auto simp: detect_payment_divergence_def underpaid_def Let_def split: option.splits)

interpretation metered: divergence_detector "\<lambda>t b. detect_metered_divergence t b cap"
  "\<lambda>t. cap < payee_delta t" OVER_AUTHORIZED_SETTLEMENT
  by unfold_locales (auto simp: detect_metered_divergence_def Let_def split: if_splits)

section \<open>Properties\<close>

text \<open>
  C5: The verdict table of the exact scheme.  For every chain fact, belief and required
  amount the kind is decided by whether funds moved, whether the system believes it was paid
  and, when both hold, whether the payee received less than required; exactly the two
  consistent kinds are not failures.
\<close>

theorem exact_verdict_table:
  "kind (detect_payment_divergence t believes required) =
     (if funds_moved t
      then if \<not> believes then SILENT_LOSS
           else (case required of
                   None \<Rightarrow> CONSISTENT_PAID
                 | Some r \<Rightarrow> if payee_delta t < r then UNDERPAID_CREDIT else CONSISTENT_PAID)
      else if believes then PHANTOM_CREDIT else CONSISTENT_UNPAID)
   \<and> (is_failure (detect_payment_divergence t believes required) \<longleftrightarrow>
        kind (detect_payment_divergence t believes required) \<in> {SILENT_LOSS, PHANTOM_CREDIT, UNDERPAID_CREDIT})"
  using exact.grade_kind[OF refl, of t believes required] exact.grade_severity[OF refl, of t believes required]
  by (cases required) (auto simp: underpaid_def is_failure_def)

text \<open>
  The verdict table of the metered scheme: a negative cap is refused, otherwise the kind is
  decided as in the exact scheme, with a settlement above the cap as the amount failure.
\<close>

theorem metered_verdict_table:
  "(case detect_metered_divergence t believes cap of
      Inl e \<Rightarrow> cap < 0 \<and> is_value_error e
    | Inr d \<Rightarrow> 0 \<le> cap \<and>
        kind d = (if funds_moved t
                  then if \<not> believes then SILENT_LOSS
                       else if cap < payee_delta t then OVER_AUTHORIZED_SETTLEMENT else CONSISTENT_PAID
                  else if believes then PHANTOM_CREDIT else CONSISTENT_UNPAID) \<and>
        (is_failure d \<longleftrightarrow> kind d \<in> {SILENT_LOSS, PHANTOM_CREDIT, OVER_AUTHORIZED_SETTLEMENT}))"
proof (cases "detect_metered_divergence t believes cap")
  case (Inl e)
  then show ?thesis by (auto simp: detect_metered_divergence_def split: if_splits)
next
  case (Inr d)
  then have "0 \<le> cap" by (auto simp: detect_metered_divergence_def split: if_splits)
  then show ?thesis
    using Inr metered.grade_kind[OF Inr] metered.grade_severity[OF Inr] by (auto simp: is_failure_def)
qed

text \<open>
  The metered cap is checked on what the payee received, not on what left the payer: with
  a fee-on-transfer token the payer can be debited more than the authorized maximum and the
  verdict is still a consistent payment.
\<close>

theorem metered_cap_ignores_debit:
  "\<exists>t d. detect_metered_divergence t True 100 = Inr d \<and> payer_delta t < - 100 \<and>
     kind d = CONSISTENT_PAID \<and> \<not> is_failure d"
proof -
  let ?t = "\<lparr>nonce_consumed = True, payer_balance_after = 0, payee_balance_after = 100,
    payer_delta = - 110, payee_delta = 100\<rparr>"
  show ?thesis
    by (rule exI[of _ ?t]) (simp add: detect_metered_divergence_def funds_moved_def Let_def is_failure_def)
qed

end
