(* ===== verification/Reconciliation.thy ===== *)
theory Reconciliation
  imports Chain "HOL-Library.AList" "HOL-Library.Char_ord" "HOL-Library.List_Lexorder"
    "HOL-Library.Product_Lexorder" "HOL-Library.Multiset"
begin

text \<open>
  \<^verbatim>\<open>psv/reconciliation.py\<close>: exact settlement identities, the strict decoder of \<open>Transfer\<close>
  logs and the reconciliation of a log snapshot with a ledger.
\<close>

section \<open>Strict scalars\<close>

definition recon_exact_hex :: "string \<Rightarrow> nat \<Rightarrow> pyval \<Rightarrow> string result" where
  "recon_exact_hex what n v =
     (case v of
        PStr s \<Rightarrow>
          if \<not> startswith s ''0x'' \<or> length s \<noteq> 2 + n * 2
          then Inl (ReconciliationError (what @ '' must be 0x-prefixed hex''))
          else (case bytes_fromhex (drop 2 s) of
                  None \<Rightarrow> Inl (ReconciliationError (what @ '' must be 0x-prefixed hex''))
                | Some raw \<Rightarrow> Inr (lower s))
      | _ \<Rightarrow> Inl (ReconciliationError (what @ '' must be 0x-prefixed hex'')))"

definition recon_quantity :: "string \<Rightarrow> pyval \<Rightarrow> int result" where
  "recon_quantity what v =
     (case v of
        PStr s \<Rightarrow>
          if \<not> startswith s ''0x'' \<or> s = ''0x'' \<or> (length s > 3 \<and> s ! 2 = CHR ''0'')
          then Inl (ReconciliationError (what @ '' must be a canonical JSON-RPC hex quantity''))
          else (case py_int 16 (drop 2 s) of
                  None \<Rightarrow> Inl (ReconciliationError (what @ '' must be a canonical JSON-RPC hex quantity''))
                | Some n \<Rightarrow> if uint256 n then Inr n
                            else Inl (ReconciliationError (what @ '' is outside uint256'')))
      | _ \<Rightarrow> Inl (ReconciliationError (what @ '' must be a canonical JSON-RPC hex quantity'')))"

definition recon_address :: "string \<Rightarrow> pyval \<Rightarrow> string result" where
  "recon_address what v = recon_exact_hex what 20 v"

definition topic_addr :: "string \<Rightarrow> string result" where
  "topic_addr addr =
     bindR (recon_address ''address'' (PStr addr)) (\<lambda>exact.
     Inr (''0x'' @ replicate 24 (CHR ''0'') @ drop 2 exact))"

definition addr_from_topic :: "string \<Rightarrow> pyval \<Rightarrow> string result" where
  "addr_from_topic what topic =
     bindR (recon_exact_hex what 32 topic) (\<lambda>exact.
     if take 24 (drop 2 exact) \<noteq> replicate 24 (CHR ''0'')
     then Inl (ReconciliationError (what @ '' is not a canonically padded address topic''))
     else Inr (''0x'' @ last_chars 40 exact))"

section \<open>Identities and credits\<close>

datatype settlement_identity =
  SettlementIdentity (si_chain_id: int) (si_asset: string) (si_tx_hash: string) (si_log_index: int)

text \<open>The dataclass is declared with \<^verbatim>\<open>order=True\<close>: it is ordered as the tuple of its fields.\<close>

definition identity_key :: "settlement_identity \<Rightarrow> int \<times> string \<times> string \<times> int" where
  "identity_key i = (si_chain_id i, si_asset i, si_tx_hash i, si_log_index i)"

lemma identity_key_inj [simp]: "identity_key a = identity_key b \<longleftrightarrow> a = b"
  by (cases a; cases b) (simp add: identity_key_def)

instantiation settlement_identity :: linorder
begin

definition less_eq_settlement_identity :: "settlement_identity \<Rightarrow> settlement_identity \<Rightarrow> bool" where
  "a \<le> b \<longleftrightarrow> identity_key a \<le> identity_key b"

definition less_settlement_identity :: "settlement_identity \<Rightarrow> settlement_identity \<Rightarrow> bool" where
  "a < b \<longleftrightarrow> identity_key a < identity_key b"

instance
  by standard
    (auto simp: less_eq_settlement_identity_def less_settlement_identity_def less_le_not_le
      intro: order_trans dest: order_antisym)

end

definition mk_identity :: "int \<Rightarrow> string \<Rightarrow> string \<Rightarrow> int \<Rightarrow> settlement_identity result" where
  "mk_identity cid asset tx_hash log_index =
     (if cid \<le> 0 then Inl (ReconciliationError ''chain_id must be positive'')
      else
      bindR (recon_address ''asset'' (PStr asset)) (\<lambda>asset'.
      bindR (recon_exact_hex ''tx hash'' 32 (PStr tx_hash)) (\<lambda>tx'.
      if \<not> uint256 log_index then Inl (ReconciliationError ''log_index is outside uint256'')
      else Inr (SettlementIdentity cid asset' tx' log_index))))"

record on_chain_credit =
  oc_identity :: settlement_identity
  oc_block_hash :: string
  oc_block_number :: int
  oc_payer :: string
  oc_payee :: string
  oc_value :: int
  oc_removed :: bool

definition mk_credit ::
  "settlement_identity \<Rightarrow> string \<Rightarrow> int \<Rightarrow> string \<Rightarrow> string \<Rightarrow> int \<Rightarrow> bool \<Rightarrow> on_chain_credit result" where
  "mk_credit ident bh bn payer payee value removed =
     bindR (recon_exact_hex ''block hash'' 32 (PStr bh)) (\<lambda>bh'.
     bindR (recon_address ''payer'' (PStr payer)) (\<lambda>payer'.
     bindR (recon_address ''payee'' (PStr payee)) (\<lambda>payee'.
     if \<not> uint256 bn then Inl (ReconciliationError ''block_number is outside uint256'')
     else if \<not> uint256 value then Inl (ReconciliationError ''value is outside uint256'')
     else Inr \<lparr>oc_identity = ident, oc_block_hash = bh', oc_block_number = bn, oc_payer = payer',
               oc_payee = payee', oc_value = value, oc_removed = removed\<rparr>)))"

definition oc_chain_id :: "on_chain_credit \<Rightarrow> int" where
  "oc_chain_id c = si_chain_id (oc_identity c)"

definition oc_asset :: "on_chain_credit \<Rightarrow> string" where
  "oc_asset c = si_asset (oc_identity c)"

definition oc_tx_hash :: "on_chain_credit \<Rightarrow> string" where
  "oc_tx_hash c = si_tx_hash (oc_identity c)"

definition oc_log_index :: "on_chain_credit \<Rightarrow> int" where
  "oc_log_index c = si_log_index (oc_identity c)"

section \<open>Decoding a log\<close>

definition decode_transfer_log :: "int \<Rightarrow> pydict \<Rightarrow> on_chain_credit result" where
  "decode_transfer_log cid log =
     (if cid \<le> 0 then Inl (ReconciliationError ''chain_id must be positive'')
      else case dict_get log ''topics'' of
        PList [topic0, topic1, topic2] \<Rightarrow>
          bindR (recon_exact_hex ''topic0'' 32 topic0) (\<lambda>t0.
          if t0 \<noteq> topic_transfer
          then Inl (ReconciliationError ''log topic0 is not Transfer(address,address,uint256)'')
          else
          bindR (recon_exact_hex ''Transfer data'' 32 (dict_get log ''data'')) (\<lambda>data.
          bindR (case dict_get log ''removed'' of
                   PBool b \<Rightarrow> Inr b
                 | _ \<Rightarrow> Inl (ReconciliationError ''removed must be a boolean'')) (\<lambda>removed.
          bindR (recon_address ''log address'' (dict_get log ''address'')) (\<lambda>asset.
          bindR (recon_exact_hex ''transaction hash'' 32 (dict_get log ''transactionHash'')) (\<lambda>tx_hash.
          bindR (recon_quantity ''log index'' (dict_get log ''logIndex'')) (\<lambda>log_index.
          bindR (recon_exact_hex ''block hash'' 32 (dict_get log ''blockHash'')) (\<lambda>bh.
          bindR (recon_quantity ''block number'' (dict_get log ''blockNumber'')) (\<lambda>bn.
          bindR (mk_identity cid asset tx_hash log_index) (\<lambda>ident.
          bindR (addr_from_topic ''payer topic'' topic1) (\<lambda>payer.
          bindR (addr_from_topic ''payee topic'' topic2) (\<lambda>payee.
          bindR (int_base 16 data) (\<lambda>value.
          mk_credit ident bh bn payer payee value removed))))))))))))
      | _ \<Rightarrow> Inl (ReconciliationError ''Transfer log must contain exactly three topics''))"

section \<open>Reconciliation with a ledger\<close>

datatype ledger_entry = LedgerIdentity settlement_identity | LedgerCredit on_chain_credit

fun entry_identity :: "ledger_entry \<Rightarrow> settlement_identity" where
  "entry_identity (LedgerIdentity i) = i"
| "entry_identity (LedgerCredit c) = oc_identity c"

type_synonym observations = "(settlement_identity \<times> on_chain_credit) list"

definition optional_address :: "string \<Rightarrow> string option \<Rightarrow> string option result" where
  "optional_address what a =
     (case a of
        None \<Rightarrow> Inr None
      | Some s \<Rightarrow> if s = [] then Inr None
                  else bindR (recon_address what (PStr s)) (\<lambda>x. Inr (Some x)))"

fun observe ::
  "int \<Rightarrow> string option \<Rightarrow> string option \<Rightarrow> observations \<Rightarrow> pydict list \<Rightarrow> observations result" where
  "observe cid asset payee obs [] = Inr obs"
| "observe cid asset payee obs (log # logs) =
     bindR (decode_transfer_log cid log) (\<lambda>credit.
     if asset \<noteq> None \<and> asset \<noteq> Some (oc_asset credit)
     then Inl (ReconciliationError ''cross-asset log'')
     else if payee \<noteq> None \<and> payee \<noteq> Some (oc_payee credit)
     then Inl (ReconciliationError ''cross-recipient log'')
     else if map_of obs (oc_identity credit) \<noteq> None \<and>
             map_of obs (oc_identity credit) \<noteq> Some credit
     then Inl (ReconciliationError ''conflicting observations for settlement'')
     else observe cid asset payee (AList.update (oc_identity credit) credit obs) logs)"

definition credit_key :: "on_chain_credit \<Rightarrow> int \<times> int \<times> string \<times> string" where
  "credit_key c = (oc_block_number c, oc_log_index c, oc_tx_hash c, oc_asset c)"

definition find_unreconciled ::
  "pydict list \<Rightarrow> ledger_entry set \<Rightarrow> int \<Rightarrow> string option \<Rightarrow> string option \<Rightarrow> on_chain_credit list result" where
  "find_unreconciled transfers ledger_entries cid expected_asset expected_payee =
     (let known = entry_identity ` ledger_entries in
      bindR (optional_address ''expected asset'' expected_asset) (\<lambda>asset.
      bindR (optional_address ''expected payee'' expected_payee) (\<lambda>payee.
      bindR (observe cid asset payee [] transfers) (\<lambda>obs.
      Inr (sort_key credit_key
             [credit. (ident, credit) \<leftarrow> obs, \<not> oc_removed credit \<and> ident \<notin> known])))))"

definition reconcile_asset_scoped ::
  "pydict list \<Rightarrow> ledger_entry set \<Rightarrow> int \<Rightarrow> string \<Rightarrow> string option \<Rightarrow> on_chain_credit list result" where
  "reconcile_asset_scoped transfers ledger_entries cid expected_asset expected_payee =
     bindR (recon_address ''expected asset'' (PStr expected_asset)) (\<lambda>asset.
     bindR (traverseR (\<lambda>log. bindR (decode_transfer_log cid log) (\<lambda>c. Inr (log, oc_asset c = asset)))
              transfers) (\<lambda>marked.
     find_unreconciled [log. (log, ours) \<leftarrow> marked, ours] ledger_entries cid (Some asset) expected_payee))"

section \<open>Facts about the scalars\<close>

lemma bytes_fromhex_hex:
  "\<forall>c\<in>set s. is_hex c \<Longrightarrow> even (length s) \<Longrightarrow> \<exists>raw. bytes_fromhex s = Some raw"
  by (induction s rule: bytes_fromhex.induct) (auto simp: is_hex_plain)

lemma recon_exact_hex_hex:
  assumes "match_hex (2 * n) s"
  shows "recon_exact_hex what n (PStr s) = Inr (lower s)"
proof -
  obtain raw where "bytes_fromhex (drop 2 s) = Some raw"
    using bytes_fromhex_hex[of "drop 2 s"] assms by (auto simp: match_hex_def)
  then show ?thesis using assms by (simp add: recon_exact_hex_def match_hex_def)
qed

lemma recon_exact_hex_ok:
  assumes "recon_exact_hex what n v = Inr r"
  shows "\<exists>s. v = PStr s \<and> r = lower s \<and> length s = 2 + n * 2 \<and> startswith s ''0x''"
  using assms by (auto simp: recon_exact_hex_def split: pyval.splits if_splits option.splits)

lemma recon_exact_hex_raises: "recon_exact_hex what n v = Inl e \<Longrightarrow> is_reconciliation_error e"
  by (auto simp: recon_exact_hex_def split: pyval.splits if_splits option.splits)

lemma recon_exact_hex_idem:
  assumes "recon_exact_hex what n v = Inr r"
  shows "lower r = r" "length r = 2 + n * 2"
  using recon_exact_hex_ok[OF assms] by auto

lemma recon_quantity_ok:
  assumes "recon_quantity what v = Inr n"
  shows "uint256 n"
  using assms by (auto simp: recon_quantity_def split: pyval.splits if_splits option.splits)

lemma recon_quantity_canonical:
  assumes "match_quantity s" "uint256 (hex_num s)"
  shows "recon_quantity what (PStr s) = Inr (hex_num s)"
proof -
  obtain t where t: "s = ''0x'' @ t" "t \<noteq> []" "\<forall>c\<in>set t. is_hex c"
    using match_quantity_digits[OF assms(1)] by blast
  have "\<not> (length s > 3 \<and> s ! 2 = CHR ''0'')"
    using assms(1) t by (cases t) (auto simp: match_quantity_def)
  moreover have "py_int 16 t = Some (hex_num s)"
    using t py_int_bare_hex[of t] by (simp add: hex_num_def)
  ultimately show ?thesis using t assms(2) by (auto simp: recon_quantity_def)
qed

section \<open>Topics are an encoding of addresses\<close>

definition norm_address :: "string \<Rightarrow> bool" where
  "norm_address a \<longleftrightarrow> match_hex 40 a \<and> lower a = a"

definition padded_topic :: "string \<Rightarrow> string" where
  "padded_topic a = ''0x'' @ replicate 24 (CHR ''0'') @ drop 2 a"

lemma lower_zero: "lower_char (CHR ''0'') = CHR ''0''"
  by code_simp

lemma padded_topic_word:
  assumes "match_hex 40 a"
  shows "match_hex 64 (padded_topic a)" "lower (padded_topic a) = padded_topic (lower a)"
  using assms
  by (auto simp: match_hex_iff padded_topic_def lower_0x) (simp add: lower_def lower_zero)

lemma topic_addr_hex: "match_hex 40 a \<Longrightarrow> topic_addr a = Inr (padded_topic (lower a))"
  using recon_exact_hex_hex[of 20 a] by (simp add: topic_addr_def recon_address_def padded_topic_def)

lemma addr_from_padded:
  assumes "match_hex 40 a"
  shows "addr_from_topic what (PStr (padded_topic a)) = Inr (lower a)"
proof -
  have hex: "recon_exact_hex what 32 (PStr (padded_topic a)) = Inr (padded_topic (lower a))"
    using recon_exact_hex_hex[of 32 "padded_topic a"] padded_topic_word[OF assms] by simp
  obtain t where "lower a = ''0x'' @ t" "length t = 40"
    using match_hex_lower[OF assms] by (auto simp: match_hex_iff)
  then show ?thesis
    unfolding addr_from_topic_def hex by (simp add: padded_topic_def last_chars_def)
qed

interpretation topic: codec padded_topic "\<lambda>s. addr_from_topic what (PStr s)" norm_address
  by unfold_locales (auto simp: norm_address_def addr_from_padded)

section \<open>What a decoded credit says about its log\<close>

lemma addr_from_topic_ok:
  assumes "addr_from_topic what v = Inr a"
  shows "\<exists>t. v = PStr t \<and> length t = 66 \<and> a = ''0x'' @ last_chars 40 (lower t)"
  using assms by (auto simp: addr_from_topic_def ok_iff dest!: recon_exact_hex_ok split: if_splits)

lemma mk_identity_ok:
  assumes "mk_identity cid a tx li = Inr i"
  shows "i = SettlementIdentity cid (lower a) (lower tx) li \<and> 0 < cid \<and> uint256 li"
  using assms
  by (auto simp: mk_identity_def recon_address_def ok_iff dest!: recon_exact_hex_ok split: if_splits)

lemma mk_credit_ok:
  assumes "mk_credit i bh bn payer payee v rm = Inr c"
  shows "c = \<lparr>oc_identity = i, oc_block_hash = lower bh, oc_block_number = bn, oc_payer = lower payer,
              oc_payee = lower payee, oc_value = v, oc_removed = rm\<rparr> \<and> uint256 bn \<and> uint256 v"
  using assms
  by (auto simp: mk_credit_def recon_address_def ok_iff dest!: recon_exact_hex_ok split: if_splits)

definition log_str :: "pydict \<Rightarrow> string \<Rightarrow> string" where
  "log_str log k = str_of (dict_get log k)"

definition log_topic :: "pydict \<Rightarrow> nat \<Rightarrow> string" where
  "log_topic log n =
     (case dict_get log ''topics'' of
        PList ts \<Rightarrow> if n < length ts then str_of (ts ! n) else []
      | _ \<Rightarrow> [])"

lemma exact_hex_str:
  "recon_exact_hex what n v = Inr r \<Longrightarrow> v = PStr (str_of v) \<and> r = lower (str_of v)"
  using recon_exact_hex_ok by (fastforce simp: str_of_def)

lemma addr_from_topic_str:
  "addr_from_topic what v = Inr a \<Longrightarrow> a = ''0x'' @ last_chars 40 (lower (str_of v))"
  using addr_from_topic_ok by (fastforce simp: str_of_def)

lemma lower_addr: "lower (''0x'' @ last_chars n (lower t)) = ''0x'' @ last_chars n (lower t)"
  by (simp add: lower_0x last_chars_def lower_take_drop)

lemma decode_fields:
  assumes "decode_transfer_log cid log = Inr c"
  shows "0 < cid" and "oc_chain_id c = cid"
    and "lower (log_topic log 0) = topic_transfer"
    and "oc_asset c = lower (log_str log ''address'')"
    and "oc_tx_hash c = lower (log_str log ''transactionHash'')"
    and "oc_block_hash c = lower (log_str log ''blockHash'')"
    and "recon_quantity ''log index'' (dict_get log ''logIndex'') = Inr (oc_log_index c)"
    and "recon_quantity ''block number'' (dict_get log ''blockNumber'') = Inr (oc_block_number c)"
    and "oc_payer c = ''0x'' @ last_chars 40 (lower (log_topic log 1))"
    and "oc_payee c = ''0x'' @ last_chars 40 (lower (log_topic log 2))"
    and "int_base 16 (lower (log_str log ''data'')) = Inr (oc_value c)"
    and "dict_get log ''removed'' = PBool (oc_removed c)"
    and "uint256 (oc_value c)"
proof -
  obtain v0 v1 v2 where ts: "dict_get log ''topics'' = PList [v0, v1, v2]" and cid: "0 < cid"
    using assms by (auto simp: decode_transfer_log_def split: pyval.splits list.splits if_splits)
  have "0 < cid \<and> oc_chain_id c = cid \<and> lower (str_of v0) = topic_transfer \<and>
    oc_asset c = lower (log_str log ''address'') \<and>
    oc_tx_hash c = lower (log_str log ''transactionHash'') \<and>
    oc_block_hash c = lower (log_str log ''blockHash'') \<and>
    recon_quantity ''log index'' (dict_get log ''logIndex'') = Inr (oc_log_index c) \<and>
    recon_quantity ''block number'' (dict_get log ''blockNumber'') = Inr (oc_block_number c) \<and>
    oc_payer c = ''0x'' @ last_chars 40 (lower (str_of v1)) \<and>
    oc_payee c = ''0x'' @ last_chars 40 (lower (str_of v2)) \<and>
    int_base 16 (lower (log_str log ''data'')) = Inr (oc_value c) \<and>
    dict_get log ''removed'' = PBool (oc_removed c) \<and> uint256 (oc_value c)"
    using assms cid
    by (auto simp: decode_transfer_log_def ts ok_iff recon_address_def log_str_def oc_chain_id_def
        oc_asset_def oc_tx_hash_def oc_log_index_def lower_addr[simplified]
        dest!: exact_hex_str addr_from_topic_str mk_identity_ok mk_credit_ok
        split: if_splits pyval.splits)
  with ts show "0 < cid" and "oc_chain_id c = cid"
    and "lower (log_topic log 0) = topic_transfer"
    and "oc_asset c = lower (log_str log ''address'')"
    and "oc_tx_hash c = lower (log_str log ''transactionHash'')"
    and "oc_block_hash c = lower (log_str log ''blockHash'')"
    and "recon_quantity ''log index'' (dict_get log ''logIndex'') = Inr (oc_log_index c)"
    and "recon_quantity ''block number'' (dict_get log ''blockNumber'') = Inr (oc_block_number c)"
    and "oc_payer c = ''0x'' @ last_chars 40 (lower (log_topic log 1))"
    and "oc_payee c = ''0x'' @ last_chars 40 (lower (log_topic log 2))"
    and "int_base 16 (lower (log_str log ''data'')) = Inr (oc_value c)"
    and "dict_get log ''removed'' = PBool (oc_removed c)"
    and "uint256 (oc_value c)"
    by (simp_all add: log_topic_def)
qed

section \<open>The observation loop\<close>

definition accepts :: "string option \<Rightarrow> string option \<Rightarrow> on_chain_credit \<Rightarrow> bool" where
  "accepts asset payee c \<longleftrightarrow>
     (asset = None \<or> asset = Some (oc_asset c)) \<and> (payee = None \<or> payee = Some (oc_payee c))"

definition obs_inv :: "observations \<Rightarrow> bool" where
  "obs_inv obs \<longleftrightarrow> distinct (map fst obs) \<and> (\<forall>(i, c)\<in>set obs. i = oc_identity c)"

definition obs_credits :: "observations \<Rightarrow> on_chain_credit set" where
  "obs_credits obs = snd ` set obs"

lemma obs_inv_Nil [simp]: "obs_inv []" "obs_credits [] = {}"
  by (simp_all add: obs_inv_def obs_credits_def)

lemma obs_inv_lookup:
  assumes "obs_inv obs"
  shows "map_of obs i = Some c \<longleftrightarrow> c \<in> obs_credits obs \<and> i = oc_identity c"
proof -
  have "map_of obs i = Some c \<longleftrightarrow> (i, c) \<in> set obs"
    using assms by (simp add: obs_inv_def map_of_eq_Some_iff)
  then show ?thesis using assms by (force simp: obs_inv_def obs_credits_def)
qed

lemma obs_inv_inj: "obs_inv obs \<Longrightarrow> inj_on oc_identity (obs_credits obs)"
  by (metis (mono_tags, lifting) inj_onI obs_inv_lookup option.inject)

lemma obs_inv_update:
  assumes "obs_inv obs" "map_of obs (oc_identity c) = None \<or> map_of obs (oc_identity c) = Some c"
  shows "obs_inv (AList.update (oc_identity c) c obs)"
    "obs_credits (AList.update (oc_identity c) c obs) = insert c (obs_credits obs)"
proof -
  let ?o = "AList.update (oc_identity c) c obs"
  have d: "distinct (map fst ?o)" using assms(1) by (simp add: obs_inv_def distinct_update)
  have m: "map_of ?o = (map_of obs)(oc_identity c \<mapsto> c)" by (rule update_conv')
  have mem: "(i, x) \<in> set ?o \<longleftrightarrow> (i = oc_identity c \<and> x = c) \<or> (i \<noteq> oc_identity c \<and> map_of obs i = Some x)" for i x
    using d m by (auto simp flip: map_of_eq_Some_iff[OF d] split: if_splits)
  have look: "map_of obs i = Some x \<longleftrightarrow> x \<in> obs_credits obs \<and> i = oc_identity x" for i x
    using assms(1) by (rule obs_inv_lookup)
  show "obs_inv ?o" using d mem look by (auto simp: obs_inv_def)
  have "x \<in> obs_credits ?o \<longleftrightarrow> (\<exists>i. (i, x) \<in> set ?o)" for x by (force simp: obs_credits_def)
  moreover have "x = c" if "x \<in> obs_credits obs" "oc_identity x = oc_identity c" for x
    using look[of "oc_identity c" x] assms(2) that by auto
  ultimately show "obs_credits ?o = insert c (obs_credits obs)"
    using mem look by auto
qed

lemma observe_sound:
  assumes "observe cid asset payee obs logs = Inr obs'" "obs_inv obs"
  shows "obs_inv obs' \<and> (\<exists>cs. traverseR (decode_transfer_log cid) logs = Inr cs \<and>
           (\<forall>c\<in>set cs. accepts asset payee c) \<and> obs_credits obs' = obs_credits obs \<union> set cs)"
  using assms
proof (induction cid asset payee obs logs rule: observe.induct)
  case (1 cid asset payee obs)
  then show ?case by auto
next
  case (2 cid asset payee obs log logs)
  from "2.prems"(1) obtain c where c: "decode_transfer_log cid log = Inr c"
    and acc: "accepts asset payee c"
    and free: "map_of obs (oc_identity c) = None \<or> map_of obs (oc_identity c) = Some c"
    and rest: "observe cid asset payee (AList.update (oc_identity c) c obs) logs = Inr obs'"
    by (auto simp: bindR_ok accepts_def split: if_splits)
  note up = obs_inv_update[OF "2.prems"(2) free]
  have "obs_inv obs' \<and> (\<exists>cs. traverseR (decode_transfer_log cid) logs = Inr cs \<and>
      (\<forall>c\<in>set cs. accepts asset payee c) \<and>
      obs_credits obs' = obs_credits (AList.update (oc_identity c) c obs) \<union> set cs)"
    using "2.IH"[of c] acc free rest up(1) by (auto simp: accepts_def)
  then show ?case using c acc up(2) by auto
qed

lemma observe_total:
  assumes "traverseR (decode_transfer_log cid) logs = Inr cs" "\<forall>c\<in>set cs. accepts asset payee c"
    and "inj_on oc_identity (obs_credits obs \<union> set cs)" "obs_inv obs"
  shows "\<exists>obs'. observe cid asset payee obs logs = Inr obs'"
  using assms
proof (induction cid asset payee obs logs arbitrary: cs rule: observe.induct)
  case (1 cid asset payee obs)
  then show ?case by simp
next
  case (2 cid asset payee obs log logs)
  from "2.prems"(1) obtain c ds where c: "decode_transfer_log cid log = Inr c"
    and ds: "traverseR (decode_transfer_log cid) logs = Inr ds" "cs = c # ds"
    by (auto simp: bindR_ok)
  have free: "map_of obs (oc_identity c) = None \<or> map_of obs (oc_identity c) = Some c"
  proof (cases "map_of obs (oc_identity c)")
    case (Some d)
    then have "d \<in> obs_credits obs" "oc_identity d = oc_identity c"
      using obs_inv_lookup[OF "2.prems"(4)] by auto
    then have "d = c" using ds(2) by (intro inj_onD[OF "2.prems"(3)]) auto
    with Some show ?thesis by simp
  qed simp
  note up = obs_inv_update[OF "2.prems"(4) free]
  have acc: "accepts asset payee c" using "2.prems"(2) ds(2) by simp
  have "\<exists>obs'. observe cid asset payee (AList.update (oc_identity c) c obs) logs = Inr obs'"
    using "2.IH"[of c, OF _ _ _ ds(1)] acc free up "2.prems"(2,3) ds(2) by (auto simp: accepts_def)
  then show ?case using c acc free by (auto simp: accepts_def)
qed

section \<open>What reconciliation returns\<close>

lemma optional_address_total: "optional_address what None = Inr None"
  by (simp add: optional_address_def)

lemma set_unreconciled:
  assumes "obs_inv obs"
  shows "set [credit. (ident, credit) \<leftarrow> obs, \<not> oc_removed credit \<and> ident \<notin> known] =
    {c \<in> obs_credits obs. \<not> oc_removed c \<and> oc_identity c \<notin> known}"
  using assms by (force simp: obs_inv_def obs_credits_def)

lemma distinct_unreconciled:
  assumes "obs_inv obs"
  shows "distinct (map oc_identity [credit. (ident, credit) \<leftarrow> obs, \<not> oc_removed credit \<and> ident \<notin> known])"
  using assms
proof (induction obs)
  case Nil
  then show ?case by simp
next
  case (Cons p obs)
  then have IH: "distinct (map oc_identity [credit. (ident, credit) \<leftarrow> obs, \<not> oc_removed credit \<and> ident \<notin> known])"
    and p: "fst p = oc_identity (snd p)" "fst p \<notin> fst ` set obs" and inv: "obs_inv obs"
    by (auto simp: obs_inv_def)
  have "oc_identity ` obs_credits obs \<subseteq> fst ` set obs"
    using inv by (force simp: obs_inv_def obs_credits_def)
  then have "oc_identity (snd p) \<notin>
      oc_identity ` set [credit. (ident, credit) \<leftarrow> obs, \<not> oc_removed credit \<and> ident \<notin> known]"
    using p set_unreconciled[OF inv, of known] by auto
  with IH p show ?case by (cases p) auto
qed

lemma find_unreconciled_sound:
  assumes "find_unreconciled logs ledger cid asset payee = Inr res"
  obtains a p cs where
    "optional_address ''expected asset'' asset = Inr a" "optional_address ''expected payee'' payee = Inr p"
    "traverseR (decode_transfer_log cid) logs = Inr cs" "\<forall>c\<in>set cs. accepts a p c"
    "inj_on oc_identity (set cs)"
    "set res = {c \<in> set cs. \<not> oc_removed c \<and> oc_identity c \<notin> entry_identity ` ledger}"
    "distinct (map oc_identity res)" "sorted (map credit_key res)"
proof -
  from assms obtain a p obs where a: "optional_address ''expected asset'' asset = Inr a"
    and p: "optional_address ''expected payee'' payee = Inr p"
    and obs: "observe cid a p [] logs = Inr obs"
    and res: "res = sort_key credit_key
      [credit. (ident, credit) \<leftarrow> obs, \<not> oc_removed credit \<and> ident \<notin> entry_identity ` ledger]"
    by (auto simp: find_unreconciled_def bindR_ok Let_def)
  from observe_sound[OF obs] obtain cs where inv: "obs_inv obs"
    and cs: "traverseR (decode_transfer_log cid) logs = Inr cs" "\<forall>c\<in>set cs. accepts a p c"
    "obs_credits obs = set cs" by auto
  have "distinct (map oc_identity res)"
    using distinct_unreconciled[OF inv, of "entry_identity ` ledger"] unfolding res distinct_map
    by (simp only: distinct_sort set_sort)
  moreover have "sorted (map credit_key res)" unfolding res by simp
  moreover have "set res = {c \<in> set cs. \<not> oc_removed c \<and> oc_identity c \<notin> entry_identity ` ledger}"
    unfolding res set_sort by (subst set_unreconciled[OF inv]) (simp add: cs)
  ultimately show thesis using that a p cs obs_inv_inj[OF inv] by simp
qed

lemma find_unreconciled_total:
  assumes "optional_address ''expected asset'' asset = Inr a" "optional_address ''expected payee'' payee = Inr p"
    and "traverseR (decode_transfer_log cid) logs = Inr cs" "\<forall>c\<in>set cs. accepts a p c"
    and "inj_on oc_identity (set cs)"
  shows "\<exists>res. find_unreconciled logs ledger cid asset payee = Inr res"
  using observe_total[of cid logs cs a p "[]"] assms
  by (auto simp: find_unreconciled_def Let_def)

text \<open>Credits of one chain are determined by their identity, and so by their sort key.\<close>

lemma credit_key_identity:
  "oc_chain_id c = oc_chain_id d \<Longrightarrow> credit_key c = credit_key d \<Longrightarrow> oc_identity c = oc_identity d"
  by (cases "oc_identity c"; cases "oc_identity d")
    (simp add: credit_key_def oc_chain_id_def oc_log_index_def oc_tx_hash_def oc_asset_def)

lemma sorted_unique:
  assumes "set xs = set ys" "sorted (map f xs)" "sorted (map f ys)"
    and "distinct xs" "distinct ys" "inj_on f (set xs)"
  shows "xs = ys"
proof -
  have d: "distinct (map f xs)" "distinct (map f ys)" using assms by (simp_all add: distinct_map)
  have "set (map f xs) = set (map f ys)" using assms(1) by simp
  with d assms(2,3) have "map f xs = map f ys" by (intro sorted_distinct_set_unique)
  then show ?thesis using assms(1,6) by (intro map_inj_on[of f]) simp_all
qed

lemma list_all2_in_set1: "list_all2 P xs ys \<Longrightarrow> x \<in> set xs \<Longrightarrow> \<exists>y\<in>set ys. P x y"
  by (induction rule: list_all2_induct) auto

lemma traverseR_mset:
  assumes "mset xs = mset ys" "traverseR f xs = Inr as"
  shows "\<exists>bs. traverseR f ys = Inr bs \<and> set bs = set as"
proof -
  have s: "set ys = set xs" using assms(1) by (metis set_mset_mset)
  have "\<exists>y. f x = Inr y" if "x \<in> set ys" for x
    using that s assms(2) unfolding traverseR_ok by (auto dest: list_all2_in_set1)
  then obtain bs where bs: "traverseR f ys = Inr bs" using traverseR_total by blast
  have "set bs = set as" unfolding traverseR_set[OF bs] traverseR_set[OF assms(2)] s ..
  with bs show ?thesis by blast
qed

section \<open>Interface: a reconciler\<close>

text \<open>
  What the users of reconciliation rely on (the reference merchant's recovery job): with the
  identifying facts of a snapshot fixed, the outcome is a function of the set of logs, it is
  the unknown live credits without repetition and in block order, and whether it succeeds
  does not depend on the ledger.
\<close>

definition log_credits :: "int \<Rightarrow> pydict set \<Rightarrow> on_chain_credit set" where
  "log_credits cid logs = {c. \<exists>log\<in>logs. decode_transfer_log cid log = Inr c}"

definition unknown_live :: "ledger_entry set \<Rightarrow> on_chain_credit set \<Rightarrow> on_chain_credit set" where
  "unknown_live ledger cs = {c \<in> cs. \<not> oc_removed c \<and> oc_identity c \<notin> entry_identity ` ledger}"

locale reconciler =
  fixes recon :: "pydict list \<Rightarrow> ledger_entry set \<Rightarrow> on_chain_credit list result"
    and evidence_ok :: "pydict set \<Rightarrow> bool"
    and credits :: "pydict set \<Rightarrow> on_chain_credit set"
  assumes succeeds: "(\<exists>res. recon logs ledger = Inr res) \<longleftrightarrow> evidence_ok (set logs)"
    and found: "recon logs ledger = Inr res \<Longrightarrow> set res = unknown_live ledger (credits (set logs))"
    and no_repeat: "recon logs ledger = Inr res \<Longrightarrow> distinct (map oc_identity res)"
    and in_order: "recon logs ledger = Inr res \<Longrightarrow> sorted (map credit_key res)"
    and one_chain: "c \<in> credits ls \<Longrightarrow> d \<in> credits ls \<Longrightarrow> oc_chain_id c = oc_chain_id d"
begin

lemma key_inj:
  assumes "recon logs ledger = Inr res"
  shows "inj_on credit_key (set res)"
proof (rule inj_onI)
  fix c d assume cd: "c \<in> set res" "d \<in> set res" "credit_key c = credit_key d"
  then have "oc_identity c = oc_identity d"
    using one_chain found[OF assms] by (intro credit_key_identity) (auto simp: unknown_live_def)
  then show "c = d" using cd no_repeat[OF assms] by (metis distinct_map inj_onD)
qed

lemma determined:
  assumes "recon logs ledger = Inr res" "recon logs' ledger' = Inr res'"
    and "unknown_live ledger (credits (set logs)) = unknown_live ledger' (credits (set logs'))"
  shows "res = res'"
proof (rule sorted_unique[of res res' credit_key])
  show "set res = set res'" using assms found by simp
  show "distinct res" "distinct res'" using assms(1,2) no_repeat by (auto simp: distinct_map)
qed (use assms in_order key_inj in auto)

lemma order_independent:
  assumes "set logs = set logs'"
  shows "recon logs ledger = Inr res \<longleftrightarrow> recon logs' ledger = Inr res"
  using assms succeeds[of logs ledger] succeeds[of logs' ledger] determined by metis

lemma same_success: "recon logs ledger = Inr res \<Longrightarrow> \<exists>res'. recon logs ledger' = Inr res'"
  using succeeds by metis

text \<open>Recording what a run returned makes the next run over the same evidence return nothing.\<close>

lemma heals:
  assumes "recon logs ledger = Inr res" "oc_identity ` set res \<subseteq> entry_identity ` ledger'"
    and "ledger \<subseteq> ledger'"
  shows "recon logs ledger' = Inr []"
proof -
  obtain res' where r: "recon logs ledger' = Inr res'" using same_success[OF assms(1)] by blast
  have "c \<notin> set res'" for c
  proof
    assume "c \<in> set res'"
    then have c: "c \<in> credits (set logs)" "\<not> oc_removed c" "oc_identity c \<notin> entry_identity ` ledger'"
      using found[OF r] by (auto simp: unknown_live_def)
    then have "oc_identity c \<notin> entry_identity ` ledger" using assms(3) by blast
    with c have "c \<in> set res" using found[OF assms(1)] by (simp add: unknown_live_def)
    with c(3) assms(2) show False by blast
  qed
  then have "set res' = {}" by (simp add: set_eq_iff)
  with r show ?thesis by simp
qed

end

definition recon_evidence_ok :: "int \<Rightarrow> string option \<Rightarrow> string option \<Rightarrow> pydict set \<Rightarrow> bool" where
  "recon_evidence_ok cid asset payee logs \<longleftrightarrow>
     (\<exists>a p. optional_address ''expected asset'' asset = Inr a \<and>
            optional_address ''expected payee'' payee = Inr p \<and>
            (\<forall>log\<in>logs. \<exists>c. decode_transfer_log cid log = Inr c \<and> accepts a p c)) \<and>
     inj_on oc_identity (log_credits cid logs)"

lemma traverse_log_credits:
  "traverseR (decode_transfer_log cid) logs = Inr cs \<Longrightarrow> set cs = log_credits cid (set logs)"
  using traverseR_set by (simp add: log_credits_def)

lemma find_unreconciled_succeeds:
  "(\<exists>res. find_unreconciled logs ledger cid asset payee = Inr res) \<longleftrightarrow>
     recon_evidence_ok cid asset payee (set logs)" (is "?run \<longleftrightarrow> ?ok")
proof
  assume ?run
  then obtain res where "find_unreconciled logs ledger cid asset payee = Inr res" ..
  then obtain a p cs where "optional_address ''expected asset'' asset = Inr a"
    "optional_address ''expected payee'' payee = Inr p"
    and cs: "traverseR (decode_transfer_log cid) logs = Inr cs" "\<forall>c\<in>set cs. accepts a p c"
    "inj_on oc_identity (set cs)"
    by (rule find_unreconciled_sound)
  moreover have "\<exists>c\<in>set cs. decode_transfer_log cid log = Inr c" if "log \<in> set logs" for log
    using cs(1) that unfolding traverseR_ok by (rule list_all2_in_set1)
  ultimately show ?ok
    using cs(2,3) unfolding recon_evidence_ok_def traverse_log_credits[OF cs(1), symmetric] by blast
next
  assume ok: ?ok
  then obtain a p where ap: "optional_address ''expected asset'' asset = Inr a"
    "optional_address ''expected payee'' payee = Inr p"
    and all: "\<forall>log\<in>set logs. \<exists>c. decode_transfer_log cid log = Inr c \<and> accepts a p c"
    by (auto simp: recon_evidence_ok_def)
  then obtain cs where cs: "traverseR (decode_transfer_log cid) logs = Inr cs"
    using traverseR_total[of logs "decode_transfer_log cid"] by blast
  have "\<forall>c\<in>set cs. accepts a p c"
    using all unfolding traverse_log_credits[OF cs] by (auto simp: log_credits_def)
  then show ?run
    using find_unreconciled_total[OF ap cs] ok traverse_log_credits[OF cs]
    by (simp add: recon_evidence_ok_def)
qed

lemma log_credits_chain: "c \<in> log_credits cid ls \<Longrightarrow> oc_chain_id c = cid"
  by (auto simp: log_credits_def decode_fields(2))

interpretation snapshot_recon: reconciler "\<lambda>logs ledger. find_unreconciled logs ledger cid asset payee"
  "recon_evidence_ok cid asset payee" "log_credits cid"
proof
  fix logs ledger res
  assume r: "find_unreconciled logs ledger cid asset payee = Inr res"
  show "set res = unknown_live ledger (log_credits cid (set logs))"
    using r by (rule find_unreconciled_sound) (auto simp: unknown_live_def dest!: traverse_log_credits)
  show "distinct (map oc_identity res)" "sorted (map credit_key res)"
    using r by (rule find_unreconciled_sound, simp)+
qed (auto simp: find_unreconciled_succeeds log_credits_chain)

section \<open>Scoping to one asset\<close>

definition asset_logs :: "int \<Rightarrow> string \<Rightarrow> pydict set \<Rightarrow> pydict set" where
  "asset_logs cid asset logs =
     {log \<in> logs. \<exists>c. decode_transfer_log cid log = Inr c \<and> oc_asset c = asset}"

definition scoped_evidence_ok :: "int \<Rightarrow> string \<Rightarrow> string option \<Rightarrow> pydict set \<Rightarrow> bool" where
  "scoped_evidence_ok cid asset payee logs \<longleftrightarrow>
     (\<exists>a. recon_address ''expected asset'' (PStr asset) = Inr a) \<and>
     (\<forall>log\<in>logs. \<exists>c. decode_transfer_log cid log = Inr c) \<and>
     recon_evidence_ok cid (Some (lower asset)) payee (asset_logs cid (lower asset) logs)"

lemma mark_logs:
  assumes "traverseR (\<lambda>log. bindR (decode_transfer_log cid log) (\<lambda>c. Inr (log, oc_asset c = asset)))
    logs = Inr marked"
  shows "set [log. (log, ours) \<leftarrow> marked, ours] = asset_logs cid asset (set logs)"
    "\<forall>log\<in>set logs. \<exists>c. decode_transfer_log cid log = Inr c"
proof -
  show "\<forall>log\<in>set logs. \<exists>c. decode_transfer_log cid log = Inr c"
    using assms unfolding traverseR_ok by (auto simp: ok_iff dest!: list_all2_in_set1)
  show "set [log. (log, ours) \<leftarrow> marked, ours] = asset_logs cid asset (set logs)"
    using traverseR_set[OF assms] by (auto simp: asset_logs_def ok_iff)
qed

lemma mark_logs_total:
  assumes "\<forall>log\<in>set logs. \<exists>c. decode_transfer_log cid log = Inr c"
  shows "\<exists>marked. traverseR (\<lambda>log. bindR (decode_transfer_log cid log) (\<lambda>c. Inr (log, oc_asset c = asset)))
    logs = Inr marked"
  using assms by (intro traverseR_total) (auto simp: ok_iff)

lemma scoped_run:
  "reconcile_asset_scoped logs ledger cid asset payee = Inr res \<longleftrightarrow>
     (\<exists>a. recon_address ''expected asset'' (PStr asset) = Inr a) \<and>
     (\<forall>log\<in>set logs. \<exists>c. decode_transfer_log cid log = Inr c) \<and>
     (\<exists>ours. set ours = asset_logs cid (lower asset) (set logs) \<and>
        find_unreconciled ours ledger cid (Some (lower asset)) payee = Inr res)" (is "?L \<longleftrightarrow> ?R")
proof -
  have low: "a = lower asset" if "recon_address ''expected asset'' (PStr asset) = Inr a" for a
    using that by (auto simp: recon_address_def dest!: recon_exact_hex_ok)
  show ?thesis
  proof
    assume ?L
    then show ?R
      unfolding reconcile_asset_scoped_def bindR_ok
      by (elim exE conjE) (use low mark_logs in blast)
  next
    assume R: ?R
    then obtain marked where m: "traverseR
        (\<lambda>log. bindR (decode_transfer_log cid log) (\<lambda>c. Inr (log, oc_asset c = lower asset))) logs = Inr marked"
      using mark_logs_total by blast
    from R obtain ours where "set ours = set [log. (log, own) \<leftarrow> marked, own]"
      "find_unreconciled ours ledger cid (Some (lower asset)) payee = Inr res"
      using mark_logs(1)[OF m] by auto
    then have "find_unreconciled [log. (log, own) \<leftarrow> marked, own] ledger cid (Some (lower asset)) payee = Inr res"
      by (rule snapshot_recon.order_independent[THEN iffD1])
    moreover obtain a where "recon_address ''expected asset'' (PStr asset) = Inr a" using R by blast
    ultimately show ?L using m low[of a] by (simp add: reconcile_asset_scoped_def)
  qed
qed

lemma scoped_credits:
  "log_credits cid (asset_logs cid a logs) = {c \<in> log_credits cid logs. oc_asset c = a}"
  by (auto simp: log_credits_def asset_logs_def)

lemma finite_asset_logs: "\<exists>ours. set ours = asset_logs cid a (set logs)"
  by (rule finite_list) (simp add: asset_logs_def)

interpretation asset_recon: reconciler "\<lambda>logs ledger. reconcile_asset_scoped logs ledger cid asset payee"
  "scoped_evidence_ok cid asset payee" "\<lambda>ls. {c \<in> log_credits cid ls. oc_asset c = lower asset}"
proof
  fix logs ledger res
  assume r: "reconcile_asset_scoped logs ledger cid asset payee = Inr res"
  then obtain ours where o: "set ours = asset_logs cid (lower asset) (set logs)"
    "find_unreconciled ours ledger cid (Some (lower asset)) payee = Inr res"
    by (auto simp: scoped_run)
  show "set res = unknown_live ledger {c \<in> log_credits cid (set logs). oc_asset c = lower asset}"
    using snapshot_recon.found[OF o(2)] by (simp add: o(1) scoped_credits)
  show "distinct (map oc_identity res)" "sorted (map credit_key res)"
    using snapshot_recon.no_repeat[OF o(2)] snapshot_recon.in_order[OF o(2)] by simp_all
next
  fix logs ledger
  show "(\<exists>res. reconcile_asset_scoped logs ledger cid asset payee = Inr res) \<longleftrightarrow>
      scoped_evidence_ok cid asset payee (set logs)"
    using finite_asset_logs[of cid "lower asset" logs] find_unreconciled_succeeds
    unfolding scoped_run scoped_evidence_ok_def by metis
qed (auto simp: log_credits_chain)

section \<open>A concrete snapshot\<close>

definition sample_address :: "char \<Rightarrow> string" where
  "sample_address c = ''0x'' @ replicate 40 c"

definition sample_hash :: "char \<Rightarrow> string" where
  "sample_hash c = ''0x'' @ replicate 64 c"

definition sample_log :: "string \<Rightarrow> string \<Rightarrow> string \<Rightarrow> string \<Rightarrow> pydict" where
  "sample_log asset payer payee index = obj
     [(''address'', PStr asset),
      (''topics'', PList [PStr topic_transfer, PStr (padded_topic payer), PStr (padded_topic payee)]),
      (''data'', PStr (''0x'' @ hex64 1000)), (''blockNumber'', PStr ''0x10''),
      (''transactionHash'', PStr (sample_hash (CHR ''e''))), (''transactionIndex'', PStr ''0x0''),
      (''blockHash'', PStr (sample_hash (CHR ''b''))), (''logIndex'', PStr index),
      (''removed'', PBool False)]"

definition sample_log1 :: pydict where
  "sample_log1 = sample_log (sample_address (CHR ''A'')) (sample_address (CHR ''1''))
     (sample_address (CHR ''2'')) ''0x3''"

definition sample_log2 :: pydict where
  "sample_log2 = sample_log (sample_address (CHR ''a'')) (sample_address (CHR ''4''))
     (sample_address (CHR ''2'')) ''0x1''"

definition sample_foreign :: pydict where
  "sample_foreign = sample_log (sample_address (CHR ''c'')) (sample_address (CHR ''4''))
     (sample_address (CHR ''2'')) ''0x2''"

definition sample_credit :: "string \<Rightarrow> int \<Rightarrow> on_chain_credit" where
  "sample_credit payer index =
     \<lparr>oc_identity = SettlementIdentity 8453 (sample_address (CHR ''a'')) (sample_hash (CHR ''e'')) index,
      oc_block_hash = sample_hash (CHR ''b''), oc_block_number = 16, oc_payer = payer,
      oc_payee = sample_address (CHR ''2''), oc_value = 1000, oc_removed = False\<rparr>"

lemma sample_run:
  "find_unreconciled [sample_log1, sample_log2, sample_log1] {} 8453 None None =
     Inr [sample_credit (sample_address (CHR ''4'')) 1, sample_credit (sample_address (CHR ''1'')) 3]"
  by code_simp

lemma sample_scoped_run:
  "reconcile_asset_scoped [sample_log1, sample_foreign] {} 8453 (sample_address (CHR ''A'')) None =
     Inr [sample_credit (sample_address (CHR ''1'')) 3]"
  by code_simp

section \<open>Properties\<close>

text \<open>
  C4: Reconciliation returns exactly the credits that the snapshot proves, that no reorg
  removed and that the ledger does not hold under their exact identity; each once, ordered
  by block, log index, transaction and asset.
\<close>

theorem find_unreconciled_exact:
  assumes "find_unreconciled transfers ledger cid asset payee = Inr res"
  shows "set res = {c. (\<exists>log\<in>set transfers. decode_transfer_log cid log = Inr c) \<and>
             \<not> oc_removed c \<and> oc_identity c \<notin> entry_identity ` ledger}
         \<and> distinct (map oc_identity res) \<and> sorted (map credit_key res)"
  using snapshot_recon.found[OF assms] snapshot_recon.no_repeat[OF assms]
    snapshot_recon.in_order[OF assms]
  by (simp add: unknown_live_def log_credits_def)

theorem find_unreconciled_exact_witness:
  "sample_credit (sample_address (CHR ''4'')) 1 \<in>
     {c. (\<exists>log\<in>set [sample_log1, sample_log2, sample_log1]. decode_transfer_log 8453 log = Inr c) \<and>
         \<not> oc_removed c \<and> oc_identity c \<notin> entry_identity ` {}}"
  using find_unreconciled_exact[OF sample_run] by (metis list.set_intros(1))

text \<open>
  C27: Reconciliation fails closed and only then: it returns a result exactly when every log
  of the snapshot decodes strictly and lies in the expected asset and recipient scope, and
  no two different observations carry the same identity.  The ledger plays no part in it.
\<close>

theorem find_unreconciled_fails_closed:
  "(\<exists>res. find_unreconciled transfers ledger cid asset payee = Inr res) \<longleftrightarrow>
     (\<exists>a p. optional_address ''expected asset'' asset = Inr a \<and>
            optional_address ''expected payee'' payee = Inr p \<and>
            (\<forall>log\<in>set transfers. \<exists>c. decode_transfer_log cid log = Inr c \<and>
               (a = None \<or> a = Some (oc_asset c)) \<and> (p = None \<or> p = Some (oc_payee c)))) \<and>
     (\<forall>l1\<in>set transfers. \<forall>l2\<in>set transfers. \<forall>c1 c2.
        decode_transfer_log cid l1 = Inr c1 \<and> decode_transfer_log cid l2 = Inr c2 \<and>
        oc_identity c1 = oc_identity c2 \<longrightarrow> c1 = c2)"
proof -
  have inj: "inj_on oc_identity (log_credits cid (set transfers)) \<longleftrightarrow>
    (\<forall>l1\<in>set transfers. \<forall>l2\<in>set transfers. \<forall>c1 c2.
        decode_transfer_log cid l1 = Inr c1 \<and> decode_transfer_log cid l2 = Inr c2 \<and>
        oc_identity c1 = oc_identity c2 \<longrightarrow> c1 = c2)"
    unfolding inj_on_def log_credits_def by blast
  show ?thesis
    unfolding find_unreconciled_succeeds recon_evidence_ok_def accepts_def inj ..
qed

theorem find_unreconciled_fails_closed_witness:
  "\<exists>a p. optional_address ''expected asset'' None = Inr a \<and>
      optional_address ''expected payee'' None = Inr p \<and>
      (\<forall>log\<in>set [sample_log1, sample_log2, sample_log1]. \<exists>c. decode_transfer_log 8453 log = Inr c \<and>
         (a = None \<or> a = Some (oc_asset c)) \<and> (p = None \<or> p = Some (oc_payee c)))"
  using find_unreconciled_fails_closed[THEN iffD1, OF exI, OF sample_run] by blast

text \<open>
  C33: The verdict does not depend on the order in which a node lists its logs, nor on how
  often it repeats one: two snapshots with the same logs give the same list of credits.
\<close>

theorem find_unreconciled_order_independent:
  assumes "set transfers = set transfers'"
  shows "find_unreconciled transfers ledger cid asset payee = Inr res \<longleftrightarrow>
         find_unreconciled transfers' ledger cid asset payee = Inr res"
  using assms by (rule snapshot_recon.order_independent)

theorem find_unreconciled_order_independent_witness:
  "find_unreconciled [sample_log2, sample_log1] {} 8453 None None =
     Inr [sample_credit (sample_address (CHR ''4'')) 1, sample_credit (sample_address (CHR ''1'')) 3]"
  by (rule find_unreconciled_order_independent[THEN iffD1, OF _ sample_run]) auto

text \<open>
  Reconciliation heals: once the returned credits are recorded, by identity or as
  credits, the same evidence yields no credit again, so nothing is credited twice.
\<close>

theorem find_unreconciled_heals:
  assumes "find_unreconciled transfers ledger cid asset payee = Inr res"
  shows "find_unreconciled transfers (ledger \<union> LedgerIdentity ` oc_identity ` set res) cid asset payee = Inr []
         \<and> find_unreconciled transfers (ledger \<union> LedgerCredit ` set res) cid asset payee = Inr []"
  by (intro conjI snapshot_recon.heals[OF assms]) (auto simp: image_iff image_Un)

theorem find_unreconciled_heals_witness:
  "find_unreconciled [sample_log1, sample_log2, sample_log1]
     ({} \<union> LedgerCredit ` set [sample_credit (sample_address (CHR ''4'')) 1,
        sample_credit (sample_address (CHR ''1'')) 3]) 8453 None None = Inr []"
  using find_unreconciled_heals[OF sample_run] by blast

text \<open>
  C34: Asset-scoped reconciliation over a snapshot that mixes tokens returns exactly the
  unknown live credits of the selected asset: a transfer of another token is neither
  credited nor does it hide one of the selected token.
\<close>

theorem reconcile_asset_scoped_exact:
  assumes "reconcile_asset_scoped transfers ledger cid expected_asset payee = Inr res"
  shows "set res = {c. (\<exists>log\<in>set transfers. decode_transfer_log cid log = Inr c) \<and>
             oc_asset c = lower expected_asset \<and> \<not> oc_removed c \<and>
             oc_identity c \<notin> entry_identity ` ledger}
         \<and> distinct (map oc_identity res)"
  using asset_recon.found[OF assms] asset_recon.no_repeat[OF assms]
  by (simp add: unknown_live_def log_credits_def conj_assoc)

theorem reconcile_asset_scoped_exact_witness:
  "{c. (\<exists>log\<in>set [sample_log1, sample_foreign]. decode_transfer_log 8453 log = Inr c) \<and>
       oc_asset c = lower (sample_address (CHR ''A'')) \<and> \<not> oc_removed c \<and>
       oc_identity c \<notin> entry_identity ` {}} =
   {sample_credit (sample_address (CHR ''1'')) 3}"
  using reconcile_asset_scoped_exact[OF sample_scoped_run]
  by (simp only: list.set list.simps simp_thms)

text \<open>
  The strict scalars of the decoder are looser than their messages say.  A 32-byte hash
  written as 31 bytes and two blanks is accepted and reaches the identity as it stands, and
  a quantity with a sign or a digit separator is accepted as canonical.
\<close>

theorem evidence_scalars_not_canonical:
  "recon_exact_hex ''block hash'' 32 (PStr (''0x'' @ replicate 62 (CHR ''a'') @ ''  '')) =
     Inr (''0x'' @ replicate 62 (CHR ''a'') @ ''  '')
   \<and> recon_quantity ''log index'' (PStr ''0x+5'') = Inr 5
   \<and> recon_quantity ''log index'' (PStr ''0x1_0'') = Inr 16"
  by code_simp

end
