(* ===== verification/Rails.thy ===== *)
theory Rails
  imports Divergence Reconciliation
begin

text \<open>
  \<^verbatim>\<open>psv/rails.py\<close>: the reviewed identity of a payment rail, the drift check of a live rail
  and \<^verbatim>\<open>reconcile_live\<close>, which proves one settlement from one pinned snapshot.

  SHA-256 is the parameter \<open>sha256\<close> (bytes to lowercase hex digest).  The RPC client that
  a token handle reads through is the state of the operations.  The registry of rails is in
  the theory \<open>Known_Rails\<close>.
\<close>

section \<open>Reviewed metadata\<close>

type_synonym date = "int \<times> int \<times> int"

definition proxy_kinds :: "string list" where
  "proxy_kinds = [''none'', ''fiat-token-proxy'', ''vendor-proxy'', ''erc1967-proxy'', ''unknown'']"

record finality_policy =
  fp_block_tag :: string
  fp_minimum_confirmations :: int

definition mk_finality_policy :: "string \<Rightarrow> int \<Rightarrow> finality_policy result" where
  "mk_finality_policy tag confs =
     (if tag \<notin> set [''latest'', ''safe'', ''finalized'']
      then Inl (ValueError ''unsupported finality block tag'')
      else if confs < 1 then Inl (ValueError ''minimum_confirmations must be positive'')
      else Inr \<lparr>fp_block_tag = tag, fp_minimum_confirmations = confs\<rparr>)"

record rail_attestation =
  at_version :: string
  at_reviewed_on :: date
  at_authoritative_sources :: "string list"
  at_interface :: string
  at_network_class :: string
  at_proxy_kind :: string
  at_expected_decimals :: int
  at_domain_name :: "string option"
  at_domain_version :: "string option"
  at_reviewed_block_number :: "int option"
  at_reviewed_block_hash :: "string option"
  at_implementation_address :: "string option"
  at_expected_code_sha256 :: "string option"
  at_proxy_implementation_slot :: "string option"
  at_implementation_code_sha256 :: "string option"
  at_calibrated :: bool

text \<open>The regular expression \<^verbatim>\<open>[0-9a-f]{64}\<close>.\<close>

definition match_sha256 :: "string \<Rightarrow> bool" where
  "match_sha256 s \<longleftrightarrow> length s = 64 \<and> (\<forall>c\<in>set s. c \<in> set ''0123456789abcdef'')"

definition all_opt :: "('a \<Rightarrow> bool) \<Rightarrow> 'a option \<Rightarrow> bool" where
  "all_opt P v = (case v of None \<Rightarrow> True | Some x \<Rightarrow> P x)"

definition mk_attestation :: "rail_attestation \<Rightarrow> rail_attestation result" where
  "mk_attestation a =
     (if at_version a = [] \<or> at_authoritative_sources a = []
      then Inl (ValueError ''rail attestation needs a version and authoritative source'')
      else if at_interface a \<noteq> ''eip3009''
      then Inl (ValueError ''only the attested eip3009 interface is supported'')
      else if at_network_class a \<notin> set [''local'', ''testnet'', ''mainnet'']
      then Inl (ValueError ''invalid network classification'')
      else if at_proxy_kind a \<notin> set proxy_kinds then Inl (ValueError ''unknown proxy_kind'')
      else if \<not> (0 \<le> at_expected_decimals a \<and> at_expected_decimals a \<le> 36)
      then Inl (ValueError ''attested decimals must be within [0, 36]'')
      else if (at_reviewed_block_number a = None) \<noteq> (at_reviewed_block_hash a = None)
      then Inl (ValueError ''reviewed block number/hash must be set together'')
      else if \<not> all_opt (\<lambda>n. \<not> n < 0) (at_reviewed_block_number a)
      then Inl (ValueError ''reviewed block number cannot be negative'')
      else if \<not> all_opt (match_hex 64) (at_reviewed_block_hash a)
      then Inl (ValueError ''reviewed_block_hash must be an exact hash'')
      else if \<not> all_opt match_sha256 (at_expected_code_sha256 a)
      then Inl (ValueError ''expected_code_sha256 must be lowercase SHA-256 hex'')
      else if \<not> all_opt (match_hex 40) (at_implementation_address a)
      then Inl (ValueError ''implementation_address must be an exact EVM address'')
      else if \<not> all_opt (match_hex 64) (at_proxy_implementation_slot a)
      then Inl (ValueError ''proxy_implementation_slot must be an exact bytes32 slot'')
      else if \<not> all_opt match_sha256 (at_implementation_code_sha256 a)
      then Inl (ValueError ''implementation_code_sha256 must be lowercase SHA-256 hex'')
      else if at_network_class a = ''mainnet'' \<and> at_calibrated a \<and>
        (at_reviewed_block_number a = None \<or> at_expected_code_sha256 a = None \<or>
         at_proxy_kind a \<noteq> ''none'' \<and>
           (at_implementation_address a = None \<or> at_proxy_implementation_slot a = None \<or>
            at_implementation_code_sha256 a = None))
      then Inl (ValueError ''calibrated mainnet rails require pinned code/proxy identity'')
      else Inr a)"

record rail_config =
  rail_key :: string
  rail_label :: string
  rail_chain_id :: int
  rail_token_address :: string
  rail_decimals :: int
  rail_token_name :: "string option"
  rail_token_version :: "string option"
  rail_finality :: finality_policy
  rail_attestation :: rail_attestation
  rail_signing_enabled :: bool

definition mk_rail_config :: "rail_config \<Rightarrow> rail_config result" where
  "mk_rail_config r =
     (if rail_chain_id r \<le> 0 then Inl (ValueError ''rail chain_id must be positive'')
      else if \<not> match_hex 40 (rail_token_address r)
      then Inl (ValueError ''rail token_address must be an exact EVM address'')
      else if \<not> (0 \<le> rail_decimals r \<and> rail_decimals r \<le> 36)
      then Inl (ValueError ''rail decimals must be within [0, 36]'')
      else if rail_signing_enabled r
      then Inl (ValueError ''signing is disabled for every reconciliation rail'')
      else if at_expected_decimals (rail_attestation r) \<noteq> rail_decimals r
      then Inl (ValueError ''rail decimals differ from the reviewed attestation'')
      else if at_domain_name (rail_attestation r) \<noteq> rail_token_name r \<or>
              at_domain_version (rail_attestation r) \<noteq> rail_token_version r
      then Inl (ValueError ''rail domain differs from the reviewed attestation'')
      else Inr r)"

definition token_for_rail :: "rail_config \<Rightarrow> token_view result" where
  "token_for_rail rail = token_view_init (rail_token_address rail)"

section \<open>Evidence\<close>

record chain_evidence =
  ev_chain_id :: int
  ev_finality_block_number :: int
  ev_finality_block_hash :: string
  ev_finality_block_tag :: string
  ev_confirmations :: int
  ev_settlement_block_number :: int
  ev_settlement_block_hash :: string
  ev_transaction_hash :: string
  ev_receipt_status :: int
  ev_log_index :: "int option"
  ev_authorization_log_index :: "int option"
  ev_token_address :: string
  ev_token_code_sha256 :: string
  ev_implementation_address :: "string option"
  ev_implementation_code_sha256 :: "string option"
  ev_rail_attestation_version :: string
  ev_payer :: string
  ev_payee :: string
  ev_nonce :: string
  ev_event_value :: "int option"
  ev_required_amount :: int
  ev_received_amount :: int
  ev_payer_balance_before :: int
  ev_payer_balance_after :: int
  ev_payee_balance_before :: int
  ev_payee_balance_after :: int
  ev_nonce_consumed :: bool
  ev_removed :: bool

record live_reconciliation =
  lr_divergence :: divergence
  lr_evidence :: chain_evidence

definition lr_kind :: "live_reconciliation \<Rightarrow> divergence_kind" where
  "lr_kind r = kind (lr_divergence r)"

definition lr_severity :: "live_reconciliation \<Rightarrow> severity" where
  "lr_severity r = severity (lr_divergence r)"

definition lr_message :: "live_reconciliation \<Rightarrow> string" where
  "lr_message r = message (lr_divergence r)"

definition lr_is_failure :: "live_reconciliation \<Rightarrow> bool" where
  "lr_is_failure r = is_failure (lr_divergence r)"

record rail_drift_check =
  dc_rail_key :: string
  dc_chain_id :: int
  dc_block_number :: int
  dc_block_hash :: string
  dc_code_sha256 :: string
  dc_expected_code_sha256 :: "string option"
  dc_implementation_address :: "string option"
  dc_implementation_code_sha256 :: "string option"
  dc_attestation_version :: string
  dc_calibrated :: bool
  dc_matches :: bool
  dc_reason :: string

definition opt_str :: "string option \<Rightarrow> pyval" where
  "opt_str v = (case v of None \<Rightarrow> PNone | Some s \<Rightarrow> PStr s)"

definition drift_as_dict :: "rail_drift_check \<Rightarrow> pydict" where
  "drift_as_dict d = obj
     [(''railKey'', PStr (dc_rail_key d)),
      (''chainId'', PInt (dc_chain_id d)),
      (''blockNumber'', PInt (dc_block_number d)),
      (''blockHash'', PStr (dc_block_hash d)),
      (''codeSha256'', PStr (dc_code_sha256 d)),
      (''expectedCodeSha256'', opt_str (dc_expected_code_sha256 d)),
      (''implementationAddress'', opt_str (dc_implementation_address d)),
      (''implementationCodeSha256'', opt_str (dc_implementation_code_sha256 d)),
      (''attestationVersion'', PStr (dc_attestation_version d)),
      (''calibrated'', PBool (dc_calibrated d)),
      (''matches'', PBool (dc_matches d)),
      (''reason'', PStr (dc_reason d)),
      (''readOnly'', PBool True)]"

section \<open>Scalars of the evidence\<close>

definition rails_quantity :: "string \<Rightarrow> pyval \<Rightarrow> int result" where
  "rails_quantity what v =
     (case v of
        PStr s \<Rightarrow> if match_quantity s then int_base 16 s
                  else Inl (ChainEvidenceError (what @ '' is not a canonical hex quantity''))
      | _ \<Rightarrow> Inl (ChainEvidenceError (what @ '' is not a canonical hex quantity'')))"

definition exact_hash :: "string \<Rightarrow> pyval \<Rightarrow> string result" where
  "exact_hash what v =
     (case v of
        PStr s \<Rightarrow> if match_hex 64 s then Inr (lower s)
                  else Inl (ChainEvidenceError (what @ '' is not an exact 32-byte hash''))
      | _ \<Rightarrow> Inl (ChainEvidenceError (what @ '' is not an exact 32-byte hash'')))"

definition block_identity :: "string \<Rightarrow> pydict \<Rightarrow> (int \<times> string) result" where
  "block_identity what block =
     bindR (rails_quantity (what @ '' number'') (dict_get block ''number'')) (\<lambda>n.
     bindR (exact_hash (what @ '' hash'') (dict_get block ''hash'')) (\<lambda>h.
     Inr (n, h)))"

type_synonym hash_fun = "int list \<Rightarrow> string"

definition code_fingerprint :: "hash_fun \<Rightarrow> string \<Rightarrow> string result" where
  "code_fingerprint sha256 bytecode =
     (if \<not> startswith bytecode ''0x'' \<or> bytecode = ''0x''
      then Inl (ChainEvidenceError ''rail token has no deployed runtime bytecode'')
      else case bytes_fromhex (drop 2 bytecode) of
        None \<Rightarrow> Inl (ChainEvidenceError ''rail token returned malformed runtime bytecode'')
      | Some raw \<Rightarrow>
          if raw = [] then Inl (ChainEvidenceError ''rail token has no deployed runtime bytecode'')
          else Inr (sha256 raw))"

definition implementation_identity ::
  "hash_fun \<Rightarrow> rail_config \<Rightarrow> int \<Rightarrow> (string option \<times> string option) rpc" where
  "implementation_identity sha256 rail number =
     (let a = rail_attestation rail in
      if at_proxy_kind a = ''none'' then retS (None, None)
      else case (at_proxy_implementation_slot a, at_implementation_address a,
                 at_implementation_code_sha256 a) of
        (Some slot, Some expected_address, Some expected_hash) \<Rightarrow>
          bindS (call ''eth_getStorageAt'' [PStr (rail_token_address rail), PStr slot, PStr (py_hex number)]) (\<lambda>v.
          case v of
            PStr word \<Rightarrow>
              if \<not> match_hex 64 word
              then raiseS (ChainEvidenceError ''proxy implementation slot returned a malformed word'')
              else if take 24 (drop 2 word) \<noteq> replicate 24 (CHR ''0'')
              then raiseS (ChainEvidenceError ''proxy implementation slot is not an address word'')
              else
                let observed = ''0x'' @ lower (last_chars 40 word) in
                if observed \<noteq> lower expected_address
                then raiseS (ChainEvidenceError ''proxy implementation drift'')
                else
                  bindS (get_code observed (BlockNumber number)) (\<lambda>bytecode.
                  bindS (liftS (code_fingerprint sha256 bytecode)) (\<lambda>implementation_hash.
                  if implementation_hash \<noteq> expected_hash
                  then raiseS (ChainEvidenceError ''proxy implementation runtime code differs from attestation'')
                  else retS (Some observed, Some implementation_hash)))
          | _ \<Rightarrow> raiseS (ChainEvidenceError ''proxy implementation slot returned a malformed word''))
      | _ \<Rightarrow> raiseS (ChainEvidenceError ''proxy implementation identity is not calibrated''))"

definition verify_review_anchor :: "rail_config \<Rightarrow> unit rpc" where
  "verify_review_anchor rail =
     (let a = rail_attestation rail in
      if \<not> at_calibrated a then retS ()
      else case at_reviewed_block_number a of
        None \<Rightarrow> retS ()
      | Some n \<Rightarrow>
          bindS (get_block (BlockNumber n) False) (\<lambda>reviewed.
          bindS (liftS (block_identity ''reviewed attestation block'' reviewed)) (\<lambda>(number, block_hash).
          if number \<noteq> n \<or> Some block_hash \<noteq> at_reviewed_block_hash a
          then raiseS (ChainEvidenceError ''reviewed rail-attestation block is not canonical'')
          else retS ())))"

section \<open>The drift check\<close>

definition zero_address :: string where
  "zero_address = ''0x'' @ replicate 40 (CHR ''0'')"

definition zero_bytes32 :: string where
  "zero_bytes32 = ''0x'' @ replicate 64 (CHR ''0'')"

definition drift_verdict :: "rail_attestation \<Rightarrow> string \<Rightarrow> bool \<times> string" where
  "drift_verdict a code_sha =
     (if at_network_class a = ''local'' \<and> at_calibrated a
      then (True, ''ephemeral local deployment exposes the required pinned interface'')
      else if \<not> at_calibrated a \<or> at_expected_code_sha256 a = None
      then (False, ''rail is uncalibrated: reviewed code/proxy identity is not pinned'')
      else if Some code_sha \<noteq> at_expected_code_sha256 a
      then (False, ''runtime code hash differs from the reviewed attestation'')
      else (True, ''runtime interface and code identity match the reviewed attestation''))"

definition check_rail_drift :: "hash_fun \<Rightarrow> rail_config \<Rightarrow> rail_drift_check rpc" where
  "check_rail_drift sha256 rail =
     bindS chain_id (\<lambda>live_chain.
     if live_chain \<noteq> rail_chain_id rail then raiseS (ChainEvidenceError ''RPC chain mismatch'')
     else
     bindS (verify_review_anchor rail) (\<lambda>_.
     bindS (get_block (BlockTag (fp_block_tag (rail_finality rail))) False) (\<lambda>block.
     bindS (liftS (block_identity ''drift-check block'' block)) (\<lambda>(number, block_hash).
     bindS (get_code (rail_token_address rail) (BlockNumber number)) (\<lambda>bytecode.
     bindS (liftS (code_fingerprint sha256 bytecode)) (\<lambda>code_sha.
     bindS (implementation_identity sha256 rail number) (\<lambda>(implementation_address, implementation_hash).
     bindS (liftS (token_view_init (rail_token_address rail))) (\<lambda>view.
     bindS (balance_of view zero_address (BlockNumber number)) (\<lambda>_.
     bindS (authorization_used view zero_address zero_bytes32 (BlockNumber number)) (\<lambda>_.
     let a = rail_attestation rail;
         (matches, reason) = drift_verdict a code_sha
     in retS \<lparr>dc_rail_key = rail_key rail, dc_chain_id = live_chain, dc_block_number = number,
              dc_block_hash = block_hash, dc_code_sha256 = code_sha,
              dc_expected_code_sha256 = at_expected_code_sha256 a,
              dc_implementation_address = implementation_address,
              dc_implementation_code_sha256 = implementation_hash,
              dc_attestation_version = at_version a, dc_calibrated = at_calibrated a,
              dc_matches = matches, dc_reason = reason\<rparr>))))))))))"

section \<open>Attribution of one transfer\<close>

text \<open>
  \<^verbatim>\<open>str(raw.get("address", ""))\<close> of a value that is not a string is never an address; \<open>str_of\<close>
  gives the empty string there.
\<close>

fun authorization_matches :: "string \<Rightarrow> pyval \<Rightarrow> pyval list \<Rightarrow> int list result" where
  "authorization_matches token expected_topics [] = Inr []"
| "authorization_matches token expected_topics (v # vs) =
     (case v of
        PDict raw \<Rightarrow>
          if lower (str_of (dict_get raw ''address'')) \<noteq> lower token
          then authorization_matches token expected_topics vs
          else if dict_get raw ''topics'' = expected_topics
          then if dict_get raw ''removed'' \<noteq> PBool False
               then Inl (ChainEvidenceError ''authorization evidence was removed by a reorg'')
               else bindR (rails_quantity ''authorization log index'' (dict_get raw ''logIndex'')) (\<lambda>i.
                    bindR (authorization_matches token expected_topics vs) (\<lambda>is. Inr (i # is)))
          else authorization_matches token expected_topics vs
      | _ \<Rightarrow> Inl (ChainEvidenceError ''receipt contains a malformed log''))"

definition authorization_log_index :: "pydict \<Rightarrow> string \<Rightarrow> string \<Rightarrow> string \<Rightarrow> int result" where
  "authorization_log_index receipt token payer nonce =
     bindR (topic_addr payer) (\<lambda>payer_topic.
     case dict_get receipt ''logs'' of
       PList logs \<Rightarrow>
         bindR (authorization_matches token
                  (PList [PStr topic_authorization_used, PStr payer_topic, PStr (lower nonce)]) logs) (\<lambda>matches.
         case matches of
           [i] \<Rightarrow> Inr i
         | _ \<Rightarrow> Inl (ChainEvidenceError ''expected one exact AuthorizationUsed log''))
     | _ \<Rightarrow> Inl (ChainEvidenceError ''receipt logs are missing''))"

fun select_logs :: "int \<Rightarrow> pyval list \<Rightarrow> pydict list result" where
  "select_logs log_index [] = Inr []"
| "select_logs log_index (v # vs) =
     (case v of
        PDict raw \<Rightarrow>
          bindR (rails_quantity ''receipt log index'' (dict_get raw ''logIndex'')) (\<lambda>i.
          bindR (select_logs log_index vs) (\<lambda>rest.
          Inr (if i = log_index then raw # rest else rest)))
      | _ \<Rightarrow> Inl (ChainEvidenceError ''receipt contains a malformed log''))"

definition as_evidence_error :: "string \<Rightarrow> exn \<Rightarrow> exn" where
  "as_evidence_error what e = (if is_reconciliation_error e then ChainEvidenceError what else e)"

definition selected_transfer :: "pydict \<Rightarrow> int \<Rightarrow> int \<Rightarrow> string \<Rightarrow> on_chain_credit result" where
  "selected_transfer receipt cid log_index token =
     (case dict_get receipt ''logs'' of
        PList logs \<Rightarrow>
          bindR (select_logs log_index logs) (\<lambda>selected.
          case selected of
            [raw] \<Rightarrow>
              bindR (mapErrR (as_evidence_error ''selected receipt log is not an exact Transfer'')
                       (decode_transfer_log cid raw)) (\<lambda>credit.
              if oc_asset credit \<noteq> lower token
              then Inl (ChainEvidenceError ''selected Transfer was emitted by a different token'')
              else Inr credit)
          | _ \<Rightarrow> Inl (ChainEvidenceError ''receipt has no unique logIndex''))
      | _ \<Rightarrow> Inl (ChainEvidenceError ''receipt logs are missing''))"

definition race_identities :: "int \<Rightarrow> pydict list \<Rightarrow> (string \<times> int) list result" where
  "race_identities cid logs =
     traverseR (\<lambda>raw.
       bindR (mapErrR (as_evidence_error ''malformed same-block Transfer evidence'')
                (decode_transfer_log cid raw)) (\<lambda>observed.
       if oc_removed observed
       then Inl (ChainEvidenceError ''same-block Transfer evidence includes a removed log'')
       else Inr (oc_tx_hash observed, oc_log_index observed))) logs"

definition ensure_no_same_block_race ::
  "token_view \<Rightarrow> on_chain_credit \<Rightarrow> string \<Rightarrow> string \<Rightarrow> unit rpc" where
  "ensure_no_same_block_race tok credit payer payee =
     bindS (liftS (topic_addr payee)) (\<lambda>payee_topic.
     bindS (get_logs (address tok) [Some topic_transfer, None, Some payee_topic]
              (BlockNumber (oc_block_number credit)) (BlockNumber (oc_block_number credit))) (\<lambda>inbound.
     bindS (liftS (topic_addr payer)) (\<lambda>payer_topic.
     bindS (get_logs (address tok) [Some topic_transfer, Some payer_topic, None]
              (BlockNumber (oc_block_number credit)) (BlockNumber (oc_block_number credit))) (\<lambda>outbound.
     bindS (liftS (race_identities (oc_chain_id credit) (inbound @ outbound))) (\<lambda>identities.
     if set identities \<noteq> {(oc_tx_hash credit, oc_log_index credit)}
     then raiseS (ChainEvidenceError ''same-block payer/payee transfer race makes attribution inconclusive'')
     else retS ())))))"

section \<open>Live reconciliation\<close>

text \<open>
  \<^verbatim>\<open>reconcile_live\<close> is one long method; it is composed here of its five stages, in the order of
  the source: argument checks, pinned reads, attribution, recheck, evidence.
\<close>

definition check_live_args ::
  "token_view \<Rightarrow> rail_config \<Rightarrow> string \<Rightarrow> string \<Rightarrow> int \<Rightarrow> int \<Rightarrow> int \<Rightarrow> int \<Rightarrow> string result" where
  "check_live_args tok rail nonce transaction_hash log_index required_amount payer_before payee_before =
     (if lower (address tok) \<noteq> lower (rail_token_address rail)
      then Inl (ChainEvidenceError ''token handle does not match the selected rail'')
      else
      bindR (exact_hash ''transaction hash'' (PStr transaction_hash)) (\<lambda>tx_hash.
      if \<not> match_hex 64 nonce
      then Inl (ValueError ''nonce must be exactly 32 bytes of 0x-prefixed hex'')
      else if \<not> uint256 log_index then Inl (ValueError ''log_index must be a uint256'')
      else if \<not> (1 \<le> required_amount \<and> required_amount \<le> uint256_max)
      then Inl (ValueError ''required_amount must be a positive uint256'')
      else if \<not> uint256 payer_before then Inl (ValueError ''payer_before must be a uint256'')
      else if \<not> uint256 payee_before then Inl (ValueError ''payee_before must be a uint256'')
      else Inr tx_hash))"

record pinned_snapshot =
  pin_chain :: int
  pin_finality_number :: int
  pin_finality_hash :: string
  pin_receipt :: pydict
  pin_number :: int
  pin_hash :: string
  pin_status :: int
  pin_confirmations :: int
  pin_token_code :: string
  pin_implementation_address :: "string option"
  pin_implementation_hash :: "string option"
  pin_payer_parent :: int
  pin_payee_parent :: int
  pin_payer_after :: int
  pin_payee_after :: int
  pin_nonce_consumed :: bool

text \<open>Lines 866 to 897: the chain, the finality block, the receipt and its canonical block.\<close>

record settlement_anchor =
  sa_chain :: int
  sa_finality_number :: int
  sa_finality_hash :: string
  sa_receipt :: pydict
  sa_number :: int
  sa_hash :: string
  sa_status :: int
  sa_confirmations :: int

definition read_anchor :: "rail_config \<Rightarrow> string \<Rightarrow> settlement_anchor rpc" where
  "read_anchor rail tx_hash =
     bindS chain_id (\<lambda>live_chain.
     if live_chain \<noteq> rail_chain_id rail then raiseS (ChainEvidenceError ''RPC chain mismatch'')
     else if at_network_class (rail_attestation rail) = ''mainnet'' \<and>
             \<not> at_calibrated (rail_attestation rail)
     then raiseS (ChainEvidenceError ''live rail is uncalibrated: reviewed block/code/proxy identity is not pinned'')
     else
     bindS (verify_review_anchor rail) (\<lambda>_.
     bindS (get_block (BlockTag (fp_block_tag (rail_finality rail))) False) (\<lambda>finality_block.
     bindS (liftS (block_identity ''finality block'' finality_block)) (\<lambda>(finality_number, finality_hash).
     bindS (get_transaction_receipt tx_hash) (\<lambda>receipt.
     bindS (liftS (exact_hash ''receipt transaction hash'' (dict_get receipt ''transactionHash''))) (\<lambda>receipt_tx.
     if receipt_tx \<noteq> tx_hash
     then raiseS (ChainEvidenceError ''receipt transaction hash does not match the requested settlement'')
     else
     bindS (liftS (rails_quantity ''receipt block number'' (dict_get receipt ''blockNumber''))) (\<lambda>settlement_number.
     bindS (liftS (exact_hash ''receipt block hash'' (dict_get receipt ''blockHash''))) (\<lambda>settlement_hash.
     bindS (liftS (rails_quantity ''receipt status'' (dict_get receipt ''status''))) (\<lambda>receipt_status.
     let confs = finality_number - settlement_number + 1 in
     if confs < fp_minimum_confirmations (rail_finality rail)
     then raiseS (ChainEvidenceError ''settlement has too few confirmations'')
     else
     bindS (get_block (BlockNumber settlement_number) False) (\<lambda>canonical.
     bindS (liftS (block_identity ''settlement block'' canonical)) (\<lambda>(canonical_number, canonical_hash).
     if canonical_number \<noteq> settlement_number \<or> canonical_hash \<noteq> settlement_hash
     then raiseS (ChainEvidenceError ''receipt block is no longer canonical'')
     else retS \<lparr>sa_chain = live_chain, sa_finality_number = finality_number,
                sa_finality_hash = finality_hash, sa_receipt = receipt, sa_number = settlement_number,
                sa_hash = settlement_hash, sa_status = receipt_status, sa_confirmations = confs\<rparr>)))))))))))"

text \<open>Lines 898 to 915: code identity and the pinned balances.\<close>

definition read_pinned ::
  "hash_fun \<Rightarrow> token_view \<Rightarrow> rail_config \<Rightarrow> string \<Rightarrow> string \<Rightarrow> string \<Rightarrow> string \<Rightarrow> int \<Rightarrow> int \<Rightarrow>
     pinned_snapshot rpc" where
  "read_pinned sha256 tok rail tx_hash payer payee nonce payer_before payee_before =
     bindS (read_anchor rail tx_hash) (\<lambda>sa.
     bindS (get_code (address tok) (BlockNumber (sa_number sa))) (\<lambda>bytecode.
     bindS (liftS (code_fingerprint sha256 bytecode)) (\<lambda>token_code.
     if \<not> all_opt (\<lambda>expected. token_code = expected) (at_expected_code_sha256 (rail_attestation rail))
     then raiseS (ChainEvidenceError ''rail token runtime code does not match its attestation'')
     else
     bindS (implementation_identity sha256 rail (sa_number sa)) (\<lambda>(implementation_address, implementation_hash).
     let parent_block = sa_number sa - 1 in
     if parent_block < 0
     then raiseS (ChainEvidenceError ''genesis-block settlements cannot be attributed safely'')
     else
     bindS (balance_of tok payer (BlockNumber parent_block)) (\<lambda>payer_parent.
     bindS (balance_of tok payee (BlockNumber parent_block)) (\<lambda>payee_parent.
     bindS (balance_of tok payer (BlockNumber (sa_number sa))) (\<lambda>payer_after.
     bindS (balance_of tok payee (BlockNumber (sa_number sa))) (\<lambda>payee_after.
     bindS (authorization_used tok payer nonce (BlockNumber (sa_number sa))) (\<lambda>consumed.
     if payer_before \<noteq> payer_parent \<or> payee_before \<noteq> payee_parent
     then raiseS (ChainEvidenceError ''caller before-balances do not match the pinned parent block'')
     else retS \<lparr>pin_chain = sa_chain sa, pin_finality_number = sa_finality_number sa,
                pin_finality_hash = sa_finality_hash sa, pin_receipt = sa_receipt sa,
                pin_number = sa_number sa, pin_hash = sa_hash sa, pin_status = sa_status sa,
                pin_confirmations = sa_confirmations sa, pin_token_code = token_code,
                pin_implementation_address = implementation_address,
                pin_implementation_hash = implementation_hash, pin_payer_parent = payer_parent,
                pin_payee_parent = payee_parent, pin_payer_after = payer_after,
                pin_payee_after = payee_after, pin_nonce_consumed = consumed\<rparr>)))))))))"

record attribution =
  ab_selected_log :: "on_chain_credit option"
  ab_auth_log_index :: "int option"
  ab_event_value :: "int option"
  ab_received_amount :: int
  ab_truth :: settlement_truth

definition attribute_settlement ::
  "token_view \<Rightarrow> string \<Rightarrow> string \<Rightarrow> string \<Rightarrow> string \<Rightarrow> int \<Rightarrow> pinned_snapshot \<Rightarrow> attribution rpc" where
  "attribute_settlement tok payer payee nonce tx_hash log_index p =
     (if pin_status p = 1 then
        bindS (liftS (selected_transfer (pin_receipt p) (pin_chain p) log_index (address tok))) (\<lambda>selected.
        if oc_removed selected
        then raiseS (ChainEvidenceError ''selected Transfer was removed by a reorg'')
        else if oc_tx_hash selected \<noteq> tx_hash \<or> oc_block_hash selected \<noteq> pin_hash p \<or>
                oc_block_number selected \<noteq> pin_number p \<or> oc_payer selected \<noteq> lower payer \<or>
                oc_payee selected \<noteq> lower payee
        then raiseS (ChainEvidenceError ''selected Transfer does not match the requested payment'')
        else
        bindS (liftS (authorization_log_index (pin_receipt p) (address tok) payer nonce)) (\<lambda>auth_index.
        if \<not> pin_nonce_consumed p
        then raiseS (ChainEvidenceError ''receipt emitted AuthorizationUsed but pinned nonce state is false'')
        else
        bindS (ensure_no_same_block_race tok selected payer payee) (\<lambda>_.
        let event_value = oc_value selected;
            payer_change = pin_payer_after p - pin_payer_parent p;
            received = pin_payee_after p - pin_payee_parent p
        in
        if payer_change \<noteq> - event_value \<or> \<not> (0 < received \<and> received \<le> event_value)
        then raiseS (ChainEvidenceError
               ''pinned balance changes cannot be attributed uniquely to the selected Transfer'')
        else retS \<lparr>ab_selected_log = Some selected, ab_auth_log_index = Some auth_index,
                   ab_event_value = Some event_value, ab_received_amount = received,
                   ab_truth = \<lparr>nonce_consumed = True, payer_balance_after = pin_payer_after p,
                               payee_balance_after = pin_payee_after p, payer_delta = payer_change,
                               payee_delta = received\<rparr>\<rparr>)))
      else if pin_nonce_consumed p
      then raiseS (ChainEvidenceError
             ''reverted receipt but nonce is consumed by another settlement; attribution is inconclusive'')
      else retS \<lparr>ab_selected_log = None, ab_auth_log_index = None, ab_event_value = None,
                 ab_received_amount = 0,
                 ab_truth = \<lparr>nonce_consumed = False, payer_balance_after = pin_payer_after p,
                             payee_balance_after = pin_payee_after p, payer_delta = 0,
                             payee_delta = 0\<rparr>\<rparr>)"

definition recheck_settlement :: "string \<Rightarrow> int \<Rightarrow> string \<Rightarrow> unit rpc" where
  "recheck_settlement tx_hash settlement_number settlement_hash =
     bindS (get_transaction_receipt tx_hash) (\<lambda>receipt_after.
     bindS (get_block (BlockNumber settlement_number) False) (\<lambda>canonical_after.
     bindS (liftS (block_identity ''rechecked settlement block'' canonical_after)) (\<lambda>(_, canonical_hash_after).
     bindS (liftS (exact_hash ''rechecked receipt block hash'' (dict_get receipt_after ''blockHash''))) (\<lambda>h.
     if h \<noteq> settlement_hash \<or> canonical_hash_after \<noteq> settlement_hash
     then raiseS (ChainEvidenceError ''settlement was reorged or replaced during observation'')
     else retS ()))))"

definition live_evidence ::
  "token_view \<Rightarrow> rail_config \<Rightarrow> string \<Rightarrow> string \<Rightarrow> string \<Rightarrow> string \<Rightarrow> int \<Rightarrow>
     pinned_snapshot \<Rightarrow> attribution \<Rightarrow> chain_evidence" where
  "live_evidence tok rail payer payee nonce tx_hash required_amount p ab =
     \<lparr>ev_chain_id = pin_chain p,
      ev_finality_block_number = pin_finality_number p,
      ev_finality_block_hash = pin_finality_hash p,
      ev_finality_block_tag = fp_block_tag (rail_finality rail),
      ev_confirmations = pin_confirmations p,
      ev_settlement_block_number = pin_number p,
      ev_settlement_block_hash = pin_hash p,
      ev_transaction_hash = tx_hash,
      ev_receipt_status = pin_status p,
      ev_log_index = map_option oc_log_index (ab_selected_log ab),
      ev_authorization_log_index = ab_auth_log_index ab,
      ev_token_address = lower (address tok),
      ev_token_code_sha256 = pin_token_code p,
      ev_implementation_address = pin_implementation_address p,
      ev_implementation_code_sha256 = pin_implementation_hash p,
      ev_rail_attestation_version = at_version (rail_attestation rail),
      ev_payer = lower payer,
      ev_payee = lower payee,
      ev_nonce = lower nonce,
      ev_event_value = ab_event_value ab,
      ev_required_amount = required_amount,
      ev_received_amount = ab_received_amount ab,
      ev_payer_balance_before = pin_payer_parent p,
      ev_payer_balance_after = pin_payer_after p,
      ev_payee_balance_before = pin_payee_parent p,
      ev_payee_balance_after = pin_payee_after p,
      ev_nonce_consumed = pin_nonce_consumed p,
      ev_removed = (case ab_selected_log ab of None \<Rightarrow> False | Some l \<Rightarrow> oc_removed l)\<rparr>"

definition reconcile_live ::
  "hash_fun \<Rightarrow> token_view \<Rightarrow> rail_config \<Rightarrow> string \<Rightarrow> string \<Rightarrow> string \<Rightarrow> string \<Rightarrow> int \<Rightarrow> int \<Rightarrow> int \<Rightarrow>
     int \<Rightarrow> bool \<Rightarrow> live_reconciliation rpc" where
  "reconcile_live sha256 tok rail payer payee nonce transaction_hash log_index required_amount
       payer_before payee_before sut_believes_paid =
     bindS (liftS (check_live_args tok rail nonce transaction_hash log_index required_amount
                     payer_before payee_before)) (\<lambda>tx_hash.
     bindS (read_pinned sha256 tok rail tx_hash payer payee nonce payer_before payee_before) (\<lambda>p.
     bindS (attribute_settlement tok payer payee nonce tx_hash log_index p) (\<lambda>ab.
     bindS (recheck_settlement tx_hash (pin_number p) (pin_hash p)) (\<lambda>_.
     retS \<lparr>lr_divergence = detect_payment_divergence (ab_truth ab) sut_believes_paid (Some required_amount),
           lr_evidence = live_evidence tok rail payer payee nonce tx_hash required_amount p ab\<rparr>))))"

end
