(* ===== verification/Live_Evidence.thy ===== *)
theory Live_Evidence
  imports Rails
begin

text \<open>
  What \<^verbatim>\<open>psv/rails.py\<close> establishes: for each stage of live reconciliation and of the drift
  check, the facts about the node's answers that a successful run rests on; and that these
  operations call no method that changes a chain.
\<close>

section \<open>What the scalars accept\<close>

lemma rails_quantity_ok [ok_iff]:
  "rails_quantity what v = Inr n \<longleftrightarrow> (\<exists>s. v = PStr s \<and> match_quantity s \<and> n = hex_num s)"
  by (auto simp: rails_quantity_def split: pyval.splits)

lemma exact_hash_ok [ok_iff]:
  "exact_hash what v = Inr h \<longleftrightarrow> (\<exists>s. v = PStr s \<and> match_hex 64 s \<and> h = lower s)"
  by (auto simp: exact_hash_def split: pyval.splits)

lemma block_identity_ok:
  "block_identity what d = Inr (n, h) \<longleftrightarrow> quantity_is d ''number'' n \<and> hash_is d ''hash'' h"
  by (auto simp: block_identity_def ok_iff quantity_is_def hash_is_def)

lemma rails_keeps:
  "keepsS rpc_mono (implementation_identity sha rail n)" "keepsS rpc_mono (verify_review_anchor rail)"
  "keepsS rpc_mono (ensure_no_same_block_race tok credit payer payee)"
  by (unfold implementation_identity_def verify_review_anchor_def ensure_no_same_block_race_def Let_def)
    (auto intro!: rpc_keeps client_keeps split: pyval.splits option.splits)

lemma read_block_answered:
  assumes "get_block b False c = (Inr d, c')" "block_identity what d = Inr (n, h)"
  shows "\<exists>sel. block_param b = Inr sel \<and> block_answer c c' sel n h \<and> rpc_mono c c'"
  using get_block_answered[OF assms(1)] assms(2) keepsS_D[OF client_keeps(6) assms(1)]
  by (auto simp: block_identity_ok block_answer_def)

section \<open>What the stages of live reconciliation establish\<close>

lemma read_anchor_sound:
  assumes "read_anchor rail tx c = (Inr sa, c')"
  shows "rpc_mono c c'" and "sa_chain sa = rail_chain_id rail"
    and "at_network_class (rail_attestation rail) = ''mainnet'' \<Longrightarrow> at_calibrated (rail_attestation rail)"
    and "block_answer c c' (fp_block_tag (rail_finality rail)) (sa_finality_number sa) (sa_finality_hash sa)"
    and "receipt_answer c c' tx (sa_receipt sa)"
    and "hash_is (sa_receipt sa) ''transactionHash'' tx"
    and "quantity_is (sa_receipt sa) ''blockNumber'' (sa_number sa)"
    and "hash_is (sa_receipt sa) ''blockHash'' (sa_hash sa)"
    and "quantity_is (sa_receipt sa) ''status'' (sa_status sa)"
    and "sa_confirmations sa = sa_finality_number sa - sa_number sa + 1"
    and "fp_minimum_confirmations (rail_finality rail) \<le> sa_confirmations sa"
    and "block_answer c c' (py_hex (sa_number sa)) (sa_number sa) (sa_hash sa)"
proof -
  obtain c1 c2 c3 c4 fb fn fh r cb
    where 1: "chain_id c = (Inr (rail_chain_id rail), c1)"
      and net: "\<not> (at_network_class (rail_attestation rail) = ''mainnet'' \<and> \<not> at_calibrated (rail_attestation rail))"
      and 2: "verify_review_anchor rail c1 = (Inr (), c2)"
      and 3: "get_block (BlockTag (fp_block_tag (rail_finality rail))) False c2 = (Inr fb, c3)"
      and fb: "block_identity ''finality block'' fb = Inr (fn, fh)"
      and 4: "get_transaction_receipt tx c3 = (Inr r, c4)"
      and 5: "get_block (BlockNumber (sa_number sa)) False c4 = (Inr cb, c')"
      and cb: "block_identity ''settlement block'' cb = Inr (sa_number sa, sa_hash sa)"
      and r: "exact_hash ''receipt transaction hash'' (dict_get r ''transactionHash'') = Inr tx"
        "rails_quantity ''receipt block number'' (dict_get r ''blockNumber'') = Inr (sa_number sa)"
        "exact_hash ''receipt block hash'' (dict_get r ''blockHash'') = Inr (sa_hash sa)"
        "rails_quantity ''receipt status'' (dict_get r ''status'') = Inr (sa_status sa)"
      and sa: "sa_chain sa = rail_chain_id rail" "sa_finality_number sa = fn" "sa_finality_hash sa = fh"
        "sa_receipt sa = r" "sa_confirmations sa = fn - sa_number sa + 1"
        "fp_minimum_confirmations (rail_finality rail) \<le> sa_confirmations sa"
    using assms
    by (auto simp: read_anchor_def bindS_ok Let_def split: prod.splits if_splits)
  note m = keepsS_D[OF client_keeps(5) 1] keepsS_D[OF rails_keeps(2) 2] keepsS_D[OF client_keeps(6) 3]
    keepsS_D[OF client_keeps(11) 4] keepsS_D[OF client_keeps(6) 5]
  show "rpc_mono c c'" using m rpc_mono_trans by blast
  show "block_answer c c' (fp_block_tag (rail_finality rail)) (sa_finality_number sa) (sa_finality_hash sa)"
    using read_block_answered[OF 3 fb] sa m rpc_mono_trans answers_mono(1) by (metis block_param_ok block_sel.distinct(1) block_sel.inject(2))
  show "receipt_answer c c' tx (sa_receipt sa)"
    using get_transaction_receipt_answered[OF 4] sa m rpc_mono_trans answers_mono(2) by metis
  show "block_answer c c' (py_hex (sa_number sa)) (sa_number sa) (sa_hash sa)"
    using read_block_answered[OF 5 cb] m rpc_mono_trans rpc_mono_refl answers_mono(1)
    by (metis block_param_ok block_sel.distinct(1) block_sel.inject(1))
  show "sa_chain sa = rail_chain_id rail"
    "sa_confirmations sa = sa_finality_number sa - sa_number sa + 1"
    "fp_minimum_confirmations (rail_finality rail) \<le> sa_confirmations sa" using sa by simp_all
  show "at_network_class (rail_attestation rail) = ''mainnet'' \<Longrightarrow> at_calibrated (rail_attestation rail)"
    using net by blast
  show "hash_is (sa_receipt sa) ''transactionHash'' tx" "hash_is (sa_receipt sa) ''blockHash'' (sa_hash sa)"
    "quantity_is (sa_receipt sa) ''blockNumber'' (sa_number sa)"
    "quantity_is (sa_receipt sa) ''status'' (sa_status sa)"
    using r sa by (auto simp: ok_iff quantity_is_def hash_is_def)
qed


lemma read_pinned_sound:
  assumes "read_pinned sha tok rail tx payer payee nonce pb qb c = (Inr p, c')"
  obtains sa c1 where "read_anchor rail tx c = (Inr sa, c1)" and "rpc_mono c1 c'"
    and "pin_chain p = sa_chain sa" "pin_receipt p = sa_receipt sa" "pin_number p = sa_number sa"
      "pin_hash p = sa_hash sa" "pin_status p = sa_status sa" "pin_confirmations p = sa_confirmations sa"
      "pin_finality_number p = sa_finality_number sa"
    and "0 < pin_number p" "pin_payer_parent p = pb" "pin_payee_parent p = qb"
    and "balance_answer c c' (address tok) payer (pin_number p - 1) pb"
    and "balance_answer c c' (address tok) payee (pin_number p - 1) qb"
    and "balance_answer c c' (address tok) payer (pin_number p) (pin_payer_after p)"
    and "balance_answer c c' (address tok) payee (pin_number p) (pin_payee_after p)"
    and "nonce_answer c c' (address tok) payer nonce (pin_number p) (pin_nonce_consumed p)"
    and "\<exists>h. at_expected_code_sha256 (rail_attestation rail) = Some h \<Longrightarrow>
      at_expected_code_sha256 (rail_attestation rail) = Some (pin_token_code p)"
proof -
  obtain sa c1 c2 c3 c4 c5 c6 c7 bc ia ih
    where 1: "read_anchor rail tx c = (Inr sa, c1)"
      and 2: "get_code (address tok) (BlockNumber (sa_number sa)) c1 = (Inr bc, c2)"
      and code: "all_opt (\<lambda>e. pin_token_code p = e) (at_expected_code_sha256 (rail_attestation rail))"
      and 3: "implementation_identity sha rail (sa_number sa) c2 = (Inr (ia, ih), c3)"
      and gen: "\<not> sa_number sa - 1 < 0"
      and 4: "balance_of tok payer (BlockNumber (sa_number sa - 1)) c3 = (Inr pb, c4)"
      and 5: "balance_of tok payee (BlockNumber (sa_number sa - 1)) c4 = (Inr qb, c5)"
      and 6: "balance_of tok payer (BlockNumber (sa_number sa)) c5 = (Inr (pin_payer_after p), c6)"
      and 7: "balance_of tok payee (BlockNumber (sa_number sa)) c6 = (Inr (pin_payee_after p), c7)"
      and 8: "authorization_used tok payer nonce (BlockNumber (sa_number sa)) c7 =
        (Inr (pin_nonce_consumed p), c')"
      and p: "pin_chain p = sa_chain sa" "pin_receipt p = sa_receipt sa" "pin_number p = sa_number sa"
        "pin_hash p = sa_hash sa" "pin_status p = sa_status sa" "pin_confirmations p = sa_confirmations sa"
        "pin_finality_number p = sa_finality_number sa" "pin_payer_parent p = pb" "pin_payee_parent p = qb"
    using assms
    by (auto simp: read_pinned_def bindS_ok Let_def split: prod.splits if_splits)
  note m = read_anchor_sound(1)[OF 1] keepsS_D[OF client_keeps(9) 2] keepsS_D[OF rails_keeps(1) 3]
    keepsS_D[OF token_keeps(1) 4] keepsS_D[OF token_keeps(1) 5] keepsS_D[OF token_keeps(1) 6]
    keepsS_D[OF token_keeps(1) 7] keepsS_D[OF token_keeps(2) 8]
  have r: "rpc_mono c c3" "rpc_mono c1 c'" "rpc_mono c4 c'" "rpc_mono c5 c'" "rpc_mono c6 c'" "rpc_mono c7 c'"
    "rpc_mono c c4" "rpc_mono c c5" "rpc_mono c c6" "rpc_mono c c7"
    using m rpc_mono_trans by meson+
  show thesis
  proof (rule that[OF 1 r(2) p(1-7) _ p(8-9)])
    show "balance_answer c c' (address tok) payer (pin_number p - 1) pb"
      using token_answers_mono(1)[OF r(1,3) balance_of_answered[OF 4]] p by simp
    show "balance_answer c c' (address tok) payee (pin_number p - 1) qb"
      using token_answers_mono(1)[OF r(7,4) balance_of_answered[OF 5]] p by simp
    show "balance_answer c c' (address tok) payer (pin_number p) (pin_payer_after p)"
      using token_answers_mono(1)[OF r(8,5) balance_of_answered[OF 6]] p by simp
    show "balance_answer c c' (address tok) payee (pin_number p) (pin_payee_after p)"
      using token_answers_mono(1)[OF r(9,6) balance_of_answered[OF 7]] p by simp
    show "nonce_answer c c' (address tok) payer nonce (pin_number p) (pin_nonce_consumed p)"
      using token_answers_mono(2)[OF r(10) rpc_mono_refl authorization_used_answered[OF 8]] p by simp
  qed (use gen p code in \<open>auto simp: all_opt_def\<close>)
qed


section \<open>Attribution\<close>

definition receipt_log :: "pydict \<Rightarrow> pydict \<Rightarrow> bool" where
  "receipt_log receipt raw \<longleftrightarrow>
     (\<exists>logs. dict_get receipt ''logs'' = PList logs \<and> PDict raw \<in> set logs)"

text \<open>The log at a position of the receipt's list.\<close>

definition log_at :: "pydict \<Rightarrow> nat \<Rightarrow> pydict \<Rightarrow> bool" where
  "log_at receipt k raw \<longleftrightarrow>
     (\<exists>logs. dict_get receipt ''logs'' = PList logs \<and> k < length logs \<and> logs ! k = PDict raw)"

lemma receipt_log_at: "receipt_log receipt raw \<longleftrightarrow> (\<exists>k. log_at receipt k raw)"
  by (auto simp: receipt_log_def log_at_def in_set_conv_nth)

text \<open>If a filter keeps one element, exactly one position of the list passes it.\<close>

lemma filter_one_position:
  assumes "filter P xs = [x]"
  shows "\<exists>!k. k < length xs \<and> P (xs ! k)"
proof -
  have "card {k. k < length xs \<and> P (xs ! k)} = 1"
    using assms length_filter_conv_card[of P xs] by simp
  then obtain k where k: "{k. k < length xs \<and> P (xs ! k)} = {k}" by (rule card_1_singletonE)
  have "j < length xs \<and> P (xs ! j) \<longleftrightarrow> j = k" for j using k by (simp add: set_eq_iff)
  then show ?thesis by (intro ex1I[of _ k]) simp_all
qed

definition log_with :: "(pydict \<Rightarrow> bool) \<Rightarrow> pyval \<Rightarrow> bool" where
  "log_with P v \<longleftrightarrow> (\<exists>raw. v = PDict raw \<and> P raw)"

lemma select_logs_filter:
  "select_logs li vs = Inr ds \<Longrightarrow> map PDict ds = filter (log_with (\<lambda>raw. quantity_is raw ''logIndex'' li)) vs"
proof (induction li vs arbitrary: ds rule: select_logs.induct)
  case (2 li v vs)
  from "2.prems" obtain raw i rest where v: "v = PDict raw"
    and i: "rails_quantity ''receipt log index'' (dict_get raw ''logIndex'') = Inr i"
    and rest: "select_logs li vs = Inr rest" "ds = (if i = li then raw # rest else rest)"
    by (cases v) (auto simp: bindR_ok)
  have "quantity_is raw ''logIndex'' li \<longleftrightarrow> i = li" using i by (auto simp: ok_iff quantity_is_def)
  then show ?case using "2.IH"[OF v rest(1)] v rest(2) by (simp add: log_with_def)
qed simp

lemma select_logs_ok:
  assumes "select_logs li vs = Inr ds"
  shows "\<forall>raw. raw \<in> set ds \<longleftrightarrow> PDict raw \<in> set vs \<and> quantity_is raw ''logIndex'' li"
proof -
  have "PDict ` set ds = set (filter (log_with (\<lambda>raw. quantity_is raw ''logIndex'' li)) vs)"
    using select_logs_filter[OF assms] by (metis set_map)
  then show ?thesis by (auto simp: log_with_def image_iff set_eq_iff)
qed

lemma decode_log_index:
  assumes "decode_transfer_log cid raw = Inr credit" "quantity_is raw ''logIndex'' li"
  shows "oc_log_index credit = li"
proof -
  have d: "recon_quantity ''log index'' (dict_get raw ''logIndex'') = Inr (oc_log_index credit)"
    by (rule decode_fields(7)[OF assms(1)])
  obtain s where s: "dict_get raw ''logIndex'' = PStr s" "match_quantity s" "li = hex_num s"
    using assms(2) by (auto simp: quantity_is_def)
  obtain t where t: "s = ''0x'' @ t" "t \<noteq> []" "\<forall>c\<in>set t. is_hex c"
    using match_quantity_digits[OF s(2)] by blast
  then have "py_int 16 (drop 2 s) = Some (hex_num s)" using py_int_bare_hex[of t] by (simp add: hex_num_def)
  with d s show ?thesis by (auto simp: recon_quantity_def split: if_splits)
qed

lemma selected_transfer_sound:
  assumes "selected_transfer receipt cid li token = Inr credit"
  obtains raw where "receipt_log receipt raw" "quantity_is raw ''logIndex'' li"
    "decode_transfer_log cid raw = Inr credit" "oc_asset credit = lower token" "oc_log_index credit = li"
    "\<And>raw'. receipt_log receipt raw' \<Longrightarrow> quantity_is raw' ''logIndex'' li \<Longrightarrow> raw' = raw"
    "\<exists>!k. \<exists>raw'. log_at receipt k raw' \<and> quantity_is raw' ''logIndex'' li"
proof -
  from assms obtain logs raw where l: "dict_get receipt ''logs'' = PList logs"
    and sel: "select_logs li logs = Inr [raw]" and d: "decode_transfer_log cid raw = Inr credit"
    and a: "oc_asset credit = lower token"
    by (cases "dict_get receipt ''logs''") (auto simp: selected_transfer_def ok_iff split: if_splits)
  have raw: "x = raw \<longleftrightarrow> PDict x \<in> set logs \<and> quantity_is x ''logIndex'' li" for x
    using select_logs_ok[OF sel] by simp
  then have q: "PDict raw \<in> set logs" "quantity_is raw ''logIndex'' li" by blast+
  have "\<exists>!k. k < length logs \<and> log_with (\<lambda>raw. quantity_is raw ''logIndex'' li) (logs ! k)"
    using select_logs_filter[OF sel] by (intro filter_one_position[of _ _ "PDict raw"]) simp
  then have "\<exists>!k. \<exists>raw'. log_at receipt k raw' \<and> quantity_is raw' ''logIndex'' li"
    using l by (simp add: log_at_def log_with_def)
  then show thesis
    by (intro that[of raw]) (use l q d a raw decode_log_index[OF d q(2)] in \<open>auto simp: receipt_log_def\<close>)
qed

text \<open>A live \<open>AuthorizationUsed\<close> log of this payer and nonce.\<close>

definition authorization_used_log :: "string \<Rightarrow> string \<Rightarrow> string \<Rightarrow> pydict \<Rightarrow> bool" where
  "authorization_used_log token payer nonce raw \<longleftrightarrow>
     lower (log_str raw ''address'') = lower token \<and>
     dict_get raw ''topics'' =
       PList [PStr topic_authorization_used, PStr (padded_topic (lower payer)), PStr (lower nonce)] \<and>
     dict_get raw ''removed'' = PBool False"

lemma authorization_matches_filter:
  assumes "authorization_matches token (PList [PStr topic_authorization_used, PStr (padded_topic (lower payer)), PStr (lower nonce)]) vs = Inr is"
  shows "list_all2 (\<lambda>v i. \<exists>raw. v = PDict raw \<and> quantity_is raw ''logIndex'' i)
    (filter (log_with (authorization_used_log token payer nonce)) vs) is"
  using assms
proof (induction token "PList [PStr topic_authorization_used, PStr (padded_topic (lower payer)), PStr (lower nonce)]" vs
    arbitrary: "is" rule: authorization_matches.induct)
  case (2 token v vs)
  then show ?case
    by (cases v) (fastforce simp: ok_iff quantity_is_def log_with_def authorization_used_log_def log_str_def split: if_splits)+
qed simp

lemma authorization_log_index_sound:
  assumes "authorization_log_index receipt token payer nonce = Inr i"
  shows "\<exists>!k. \<exists>raw. log_at receipt k raw \<and> authorization_used_log token payer nonce raw"
    and "\<exists>raw. receipt_log receipt raw \<and> authorization_used_log token payer nonce raw \<and> quantity_is raw ''logIndex'' i"
proof -
  let ?P = "log_with (authorization_used_log token payer nonce)"
  from assms obtain logs t where l: "dict_get receipt ''logs'' = PList logs"
    and t: "topic_addr payer = Inr t"
    and m: "authorization_matches token
      (PList [PStr topic_authorization_used, PStr t, PStr (lower nonce)]) logs = Inr [i]"
    by (cases "dict_get receipt ''logs''") (auto simp: authorization_log_index_def ok_iff)
  have "t = padded_topic (lower payer)"
    using t by (auto simp: topic_addr_def recon_address_def ok_iff padded_topic_def dest!: recon_exact_hex_ok)
  with m have "list_all2 (\<lambda>v i. \<exists>raw. v = PDict raw \<and> quantity_is raw ''logIndex'' i) (filter ?P logs) [i]"
    by (intro authorization_matches_filter) simp
  then obtain raw where f: "filter ?P logs = [PDict raw]" and q: "quantity_is raw ''logIndex'' i"
    by (auto simp: list_all2_Cons2)
  have "\<exists>!k. k < length logs \<and> ?P (logs ! k)" using f by (rule filter_one_position)
  then show "\<exists>!k. \<exists>raw. log_at receipt k raw \<and> authorization_used_log token payer nonce raw"
    using l by (simp add: log_at_def log_with_def)
  have "PDict raw \<in> set (filter ?P logs)" using f by simp
  then show "\<exists>raw. receipt_log receipt raw \<and> authorization_used_log token payer nonce raw \<and> quantity_is raw ''logIndex'' i"
    using l q by (auto simp: receipt_log_def log_with_def)
qed

section \<open>Same-block races\<close>

definition transfers_answer ::
  "rpc_client \<Rightarrow> rpc_client \<Rightarrow> string \<Rightarrow> string option list \<Rightarrow> int \<Rightarrow> pydict list \<Rightarrow> bool" where
  "transfers_answer c c' tok topics n logs \<longleftrightarrow>
     answered c c' ''eth_getLogs''
       [PDict [(PStr ''address'', PStr tok), (PStr ''topics'', PList (map topic_val topics)),
               (PStr ''fromBlock'', PStr (py_hex n)), (PStr ''toBlock'', PStr (py_hex n))]]
       (PList (map PDict logs))"

lemma transfers_answer_mono:
  "transfers_answer b c tok ts n logs \<Longrightarrow> rpc_mono a b \<Longrightarrow> rpc_mono c d \<Longrightarrow> transfers_answer a d tok ts n logs"
  unfolding transfers_answer_def by (rule answered_mono)

lemma get_logs_answered:
  assumes "get_logs tok ts (BlockNumber n) (BlockNumber n) c = (Inr logs, c')"
  shows "transfers_answer c c' tok ts n logs"
proof -
  have check: "v = PList (map PDict ds)" if "check_logs v = Inr ds" for v ds
    using that by (auto simp: check_logs_def traverse_validate_log split: pyval.splits if_splits)
  show ?thesis
    using assms
    by (auto simp: get_logs_def bindS_ok block_param_ok transfers_answer_def dest!: check call_answered
        split: if_splits)
qed

lemma race_identities_sound:
  assumes "race_identities cid logs = Inr ids"
  shows "\<forall>raw\<in>set logs. \<exists>t. decode_transfer_log cid raw = Inr t \<and> \<not> oc_removed t \<and>
           (oc_tx_hash t, oc_log_index t) \<in> set ids"
proof
  fix raw assume "raw \<in> set logs"
  then show "\<exists>t. decode_transfer_log cid raw = Inr t \<and> \<not> oc_removed t \<and>
      (oc_tx_hash t, oc_log_index t) \<in> set ids"
    using assms unfolding race_identities_def traverseR_ok
    by (auto simp: bindR_ok mapErrR_ok dest!: list_all2_in_set1 split: if_splits)
qed

definition only_transfer :: "int \<Rightarrow> on_chain_credit \<Rightarrow> pydict list \<Rightarrow> bool" where
  "only_transfer cid credit logs \<longleftrightarrow>
     logs \<noteq> [] \<and> (\<forall>raw\<in>set logs. \<exists>t. decode_transfer_log cid raw = Inr t \<and> \<not> oc_removed t \<and>
        oc_tx_hash t = oc_tx_hash credit \<and> oc_log_index t = oc_log_index credit)"

lemma ensure_no_race_sound:
  assumes "ensure_no_same_block_race tok credit payer payee c = (Inr u, c')"
  shows "\<exists>inb out. only_transfer (oc_chain_id credit) credit (inb @ out) \<and>
    transfers_answer c c' (address tok) [Some topic_transfer, None, Some (padded_topic (lower payee))]
      (oc_block_number credit) inb \<and>
    transfers_answer c c' (address tok) [Some topic_transfer, Some (padded_topic (lower payer)), None]
      (oc_block_number credit) out"
proof -
  have top: "t = padded_topic (lower a)" if "topic_addr a = Inr t" for a t
    using that by (auto simp: topic_addr_def recon_address_def ok_iff padded_topic_def dest!: recon_exact_hex_ok)
  let ?n = "oc_block_number credit"
  obtain inb out c1 ids
    where 1: "get_logs (address tok) [Some topic_transfer, None, Some (padded_topic (lower payee))]
        (BlockNumber ?n) (BlockNumber ?n) c = (Inr inb, c1)"
      and 2: "get_logs (address tok) [Some topic_transfer, Some (padded_topic (lower payer)), None]
        (BlockNumber ?n) (BlockNumber ?n) c1 = (Inr out, c')"
      and ids: "race_identities (oc_chain_id credit) (inb @ out) = Inr ids"
        "set ids = {(oc_tx_hash credit, oc_log_index credit)}"
    using assms by (auto simp: ensure_no_same_block_race_def bindS_ok split: if_splits dest!: top intro!: that)
  have "inb @ out \<noteq> []" using ids by (auto simp: race_identities_def)
  then have "only_transfer (oc_chain_id credit) credit (inb @ out)"
    using race_identities_sound[OF ids(1)] ids(2) by (simp add: only_transfer_def)
  then show ?thesis
    using transfers_answer_mono[OF get_logs_answered[OF 1] rpc_mono_refl keepsS_D[OF client_keeps(7) 2]]
      transfers_answer_mono[OF get_logs_answered[OF 2] keepsS_D[OF client_keeps(7) 1] rpc_mono_refl]
    by blast
qed

lemma recheck_sound:
  assumes "recheck_settlement tx n h c = (Inr u, c')"
  shows "rpc_mono c c'" "\<exists>m. block_answer c c' (py_hex n) m h"
    "\<exists>d. receipt_answer c c' tx d \<and> hash_is d ''blockHash'' h"
proof -
  obtain r c1 b m where 1: "get_transaction_receipt tx c = (Inr r, c1)"
    and 2: "get_block (BlockNumber n) False c1 = (Inr b, c')"
    and b: "block_identity ''rechecked settlement block'' b = Inr (m, h)"
    and r: "exact_hash ''rechecked receipt block hash'' (dict_get r ''blockHash'') = Inr h"
    using assms by (auto simp: recheck_settlement_def bindS_ok split: prod.splits if_splits)
  note k = keepsS_D[OF client_keeps(11) 1] keepsS_D[OF client_keeps(6) 2]
  show "rpc_mono c c'" using rpc_mono_trans[OF k] .
  show "\<exists>m. block_answer c c' (py_hex n) m h"
    using read_block_answered[OF 2 b] answers_mono(1)[OF k(1) rpc_mono_refl[of c']]
    by (auto simp: block_param_ok)
  show "\<exists>d. receipt_answer c c' tx d \<and> hash_is d ''blockHash'' h"
    using answers_mono(2)[OF rpc_mono_refl k(2) get_transaction_receipt_answered[OF 1]] r
    by (auto simp: ok_iff hash_is_def)
qed

lemma attribute_paid_sound:
  assumes "attribute_settlement tok payer payee nonce tx li p c = (Inr ab, c')" "pin_status p = 1"
  obtains credit where
    "selected_transfer (pin_receipt p) (pin_chain p) li (address tok) = Inr credit"
    "\<not> oc_removed credit" "oc_tx_hash credit = tx" "oc_block_hash credit = pin_hash p"
    "oc_block_number credit = pin_number p" "oc_payer credit = lower payer" "oc_payee credit = lower payee"
    "ensure_no_same_block_race tok credit payer payee c = (Inr (), c')"
    "\<exists>i. authorization_log_index (pin_receipt p) (address tok) payer nonce = Inr i \<and>
       ab_auth_log_index ab = Some i"
    "pin_nonce_consumed p" "ab_selected_log ab = Some credit" "ab_event_value ab = Some (oc_value credit)"
    "pin_payer_after p = pin_payer_parent p - oc_value credit"
    "pin_payee_after p = pin_payee_parent p + ab_received_amount ab"
    "0 < ab_received_amount ab" "ab_received_amount ab \<le> oc_value credit"
    "ab_truth ab = \<lparr>nonce_consumed = True, payer_balance_after = pin_payer_after p,
       payee_balance_after = pin_payee_after p, payer_delta = - oc_value credit,
       payee_delta = ab_received_amount ab\<rparr>"
  using assms
  by (auto simp: attribute_settlement_def bindS_ok Let_def split: if_splits)

lemma attribute_reverted_sound:
  assumes "attribute_settlement tok payer payee nonce tx li p c = (Inr ab, c')" "pin_status p \<noteq> 1"
  shows "c' = c" "\<not> pin_nonce_consumed p" "\<not> funds_moved (ab_truth ab)" "ab_received_amount ab = 0"
    "ab_selected_log ab = None" "ab_event_value ab = None"
  using assms by (auto simp: attribute_settlement_def funds_moved_def split: if_splits)

lemma attribute_keeps: "keepsS rpc_mono (attribute_settlement tok payer payee nonce tx li p)"
  by (unfold attribute_settlement_def Let_def) (intro rpc_keeps rails_keeps)

lemma attribute_moved:
  assumes "attribute_settlement tok payer payee nonce tx li p c = (Inr ab, c')"
  shows "funds_moved (ab_truth ab) \<longleftrightarrow> pin_status p = 1"
    "payee_delta (ab_truth ab) = ab_received_amount ab"
  using assms
  by (auto simp: attribute_settlement_def funds_moved_def bindS_ok Let_def split: if_splits)

section \<open>Code identity\<close>

definition code_answer :: "hash_fun \<Rightarrow> rpc_client \<Rightarrow> rpc_client \<Rightarrow> string \<Rightarrow> int \<Rightarrow> string \<Rightarrow> bool" where
  "code_answer sha256 c c' who n h \<longleftrightarrow>
     (\<exists>bytecode raw. answered c c' ''eth_getCode'' [PStr who, PStr (py_hex n)] (PStr bytecode) \<and>
        bytes_fromhex (drop 2 bytecode) = Some raw \<and> raw \<noteq> [] \<and> h = sha256 raw)"

definition slot_answer :: "rpc_client \<Rightarrow> rpc_client \<Rightarrow> string \<Rightarrow> string \<Rightarrow> int \<Rightarrow> string \<Rightarrow> bool" where
  "slot_answer c c' tok slot n impl \<longleftrightarrow>
     (\<exists>w. answered c c' ''eth_getStorageAt'' [PStr tok, PStr slot, PStr (py_hex n)] (PStr w) \<and>
        match_hex 64 w \<and> lower w = padded_topic impl)"

lemma code_answers_mono:
  assumes "rpc_mono a b" "rpc_mono c d"
  shows "code_answer sha b c who n h \<Longrightarrow> code_answer sha a d who n h"
    "slot_answer b c tok slot n impl \<Longrightarrow> slot_answer a d tok slot n impl"
  using assms answered_mono by (fastforce simp: code_answer_def slot_answer_def)+

lemma get_code_answered:
  assumes "get_code who (BlockNumber n) c = (Inr bc, c')" "code_fingerprint sha bc = Inr h"
  shows "code_answer sha c c' who n h"
  using assms
  by (auto simp: get_code_def bindS_ok anvil_data_ok block_param_ok code_answer_def code_fingerprint_def
      dest!: call_answered split: if_splits option.splits)

lemma word_address:
  assumes "match_hex 64 w" "take 24 (drop 2 w) = replicate 24 (CHR ''0'')"
  shows "lower w = padded_topic (''0x'' @ lower (last_chars 40 w))"
proof -
  obtain t where t: "w = ''0x'' @ t" "length t = 64" using assms(1) by (auto simp: match_hex_iff)
  have "t = take 24 t @ drop 24 t" by simp
  then have "lower t = lower (take 24 t) @ lower (drop 24 t)" by (metis lower_append)
  moreover have "lower (take 24 t) = replicate 24 (CHR ''0'')"
    using assms(2) t by (simp add: lower_def lower_zero)
  moreover have "last_chars 40 w = drop 24 t" using t by (simp add: last_chars_def)
  ultimately show ?thesis using t by (simp add: padded_topic_def lower_0x)
qed

lemma implementation_identity_sound:
  assumes "implementation_identity sha rail n c = (Inr (ia, ih), c')"
    and "at_proxy_kind (rail_attestation rail) \<noteq> ''none''"
  shows "\<exists>slot impl h. at_proxy_implementation_slot (rail_attestation rail) = Some slot \<and>
    at_implementation_address (rail_attestation rail) = Some impl \<and>
    at_implementation_code_sha256 (rail_attestation rail) = Some h \<and>
    ia = Some (lower impl) \<and> ih = Some h \<and>
    slot_answer c c' (rail_token_address rail) slot n (lower impl) \<and>
    code_answer sha c c' (lower impl) n h"
proof -
  let ?a = "rail_attestation rail"
  obtain slot impl h where a: "at_proxy_implementation_slot ?a = Some slot"
    "at_implementation_address ?a = Some impl" "at_implementation_code_sha256 ?a = Some h"
    using assms by (auto simp: implementation_identity_def Let_def split: option.splits)
  obtain w c1 bc where 1: "call ''eth_getStorageAt''
      [PStr (rail_token_address rail), PStr slot, PStr (py_hex n)] c = (Inr (PStr w), c1)"
    and w: "match_hex 64 w" "take 24 (drop 2 w) = replicate 24 (CHR ''0'')"
    "''0x'' @ lower (last_chars 40 w) = lower impl"
    and 2: "get_code (lower impl) (BlockNumber n) c1 = (Inr bc, c')"
    and h: "code_fingerprint sha bc = Inr h" "ia = Some (lower impl)" "ih = Some h"
    using assms a
    by (auto simp: implementation_identity_def Let_def bindS_ok str_case_ok split: if_splits)
  have "slot_answer c c1 (rail_token_address rail) slot n (lower impl)"
    using call_answered[OF 1] w word_address[OF w(1,2)] by (auto simp: slot_answer_def)
  then show ?thesis
    using a h code_answers_mono keepsS_D[OF keeps_call 1] keepsS_D[OF client_keeps(9) 2]
      get_code_answered[OF 2 h(1)] rpc_mono_refl by blast
qed

lemma review_anchor_sound:
  assumes "verify_review_anchor rail c = (Inr u, c')" "at_calibrated (rail_attestation rail)"
    and "at_reviewed_block_number (rail_attestation rail) = Some n"
  shows "\<exists>h. at_reviewed_block_hash (rail_attestation rail) = Some h \<and> block_answer c c' (py_hex n) n h"
proof -
  obtain b h where 1: "get_block (BlockNumber n) False c = (Inr b, c')"
    and "block_identity ''reviewed attestation block'' b = Inr (n, h)"
    "at_reviewed_block_hash (rail_attestation rail) = Some h"
    using assms by (auto simp: verify_review_anchor_def Let_def bindS_ok split: if_splits prod.splits)
  then show ?thesis using read_block_answered[OF 1] by (auto simp: block_param_ok)
qed

lemma check_rail_drift_sound:
  assumes "check_rail_drift sha rail c = (Inr d, c')"
  obtains c1 c2 c3 where "rpc_mono c c1" "rpc_mono c1 c2" "rpc_mono c2 c3" "rpc_mono c3 c'"
    "dc_chain_id d = rail_chain_id rail"
    "verify_review_anchor rail c1 = (Inr (), c2)"
    "code_answer sha c2 c3 (rail_token_address rail) (dc_block_number d) (dc_code_sha256 d)"
    "\<exists>c4. implementation_identity sha rail (dc_block_number d) c3 =
       (Inr (dc_implementation_address d, dc_implementation_code_sha256 d), c4) \<and> rpc_mono c4 c'"
    "dc_matches d = fst (drift_verdict (rail_attestation rail) (dc_code_sha256 d))"
    "block_answer c2 c3 (fp_block_tag (rail_finality rail)) (dc_block_number d) (dc_block_hash d)"
proof -
  obtain c1 c2 c3 c4 c5 c6 b bc tv x y
    where 1: "chain_id c = (Inr (rail_chain_id rail), c1)"
      and 2: "verify_review_anchor rail c1 = (Inr (), c2)"
      and 3: "get_block (BlockTag (fp_block_tag (rail_finality rail))) False c2 = (Inr b, c3)"
      and b: "block_identity ''drift-check block'' b = Inr (dc_block_number d, dc_block_hash d)"
      and 4: "get_code (rail_token_address rail) (BlockNumber (dc_block_number d)) c3 = (Inr bc, c4)"
      and h: "code_fingerprint sha bc = Inr (dc_code_sha256 d)"
      and 5: "implementation_identity sha rail (dc_block_number d) c4 =
        (Inr (dc_implementation_address d, dc_implementation_code_sha256 d), c5)"
      and 6: "balance_of tv zero_address (BlockNumber (dc_block_number d)) c5 = (Inr x, c6)"
      and 7: "authorization_used tv zero_address zero_bytes32 (BlockNumber (dc_block_number d)) c6 = (Inr y, c')"
      and d: "dc_chain_id d = rail_chain_id rail"
        "dc_matches d = fst (drift_verdict (rail_attestation rail) (dc_code_sha256 d))"
    using assms
    by (auto simp: check_rail_drift_def bindS_ok Let_def case_prod_beta split: if_splits)
  note m = keepsS_D[OF client_keeps(5) 1] keepsS_D[OF rails_keeps(2) 2] keepsS_D[OF client_keeps(6) 3]
    keepsS_D[OF client_keeps(9) 4] keepsS_D[OF rails_keeps(1) 5] keepsS_D[OF token_keeps(1) 6]
    keepsS_D[OF token_keeps(2) 7]
  show thesis
  proof (rule that[OF m(1,2) rpc_mono_trans[OF m(3,4)] _ d(1) 2 _ _ d(2)])
    show "rpc_mono c4 c'" using m rpc_mono_trans by blast
    show "code_answer sha c2 c4 (rail_token_address rail) (dc_block_number d) (dc_code_sha256 d)"
      using code_answers_mono(1)[OF m(3) rpc_mono_refl get_code_answered[OF 4 h]] .
    show "\<exists>c5. implementation_identity sha rail (dc_block_number d) c4 =
       (Inr (dc_implementation_address d, dc_implementation_code_sha256 d), c5) \<and> rpc_mono c5 c'"
      using 5 rpc_mono_trans[OF m(6,7)] by blast
    show "block_answer c2 c4 (fp_block_tag (rail_finality rail)) (dc_block_number d) (dc_block_hash d)"
      using read_block_answered[OF 3 b] answers_mono(1)[OF rpc_mono_refl m(4)]
      by (auto simp: block_param_ok)
  qed
qed

section \<open>Reading only\<close>

lemma rails_reads_only:
  "reads_only (implementation_identity sha rail n)" "reads_only (verify_review_anchor rail)"
  "reads_only (ensure_no_same_block_race tok credit payer payee)"
  by (unfold implementation_identity_def verify_review_anchor_def ensure_no_same_block_race_def Let_def)
    (auto intro!: reads_only_intros client_reads_only simp: read_methods_def
      split: pyval.splits option.splits)

lemmas read_intros = reads_only_intros client_reads_only token_reads_only rails_reads_only

lemma live_reads_only:
  "reads_only (read_anchor rail tx)"
  "reads_only (attribute_settlement tok payer payee nonce tx li p)"
  "reads_only (recheck_settlement tx n h)"
  by (unfold read_anchor_def attribute_settlement_def recheck_settlement_def Let_def)
    (auto intro!: read_intros split: prod.splits)

lemma read_pinned_reads_only: "reads_only (read_pinned sha tok rail tx payer payee nonce pb qb)"
  by (unfold read_pinned_def Let_def) (auto intro!: read_intros live_reads_only split: prod.splits)

end
