(* ===== verification/Sample_Node.thy ===== *)
theory Sample_Node
  imports Rails
begin

text \<open>
  One concrete node: a settlement of 1000 units of the token \<open>0xaa..\<close> in block 16 of chain
  8453, behind a calibrated proxy rail.  It instantiates the transport and the hash function
  in the concrete instances of the properties.  The parameter \<open>status\<close> is the receipt status:
  with \<open>0x1\<close> the payment settled, with \<open>0x0\<close> it reverted.
\<close>

definition sample_rail :: rail_config where
  "sample_rail =
     \<lparr>rail_key = ''sample'', rail_label = ''sample rail'', rail_chain_id = 8453,
      rail_token_address = sample_address (CHR ''A''), rail_decimals = 6, rail_token_name = Some ''USDC'',
      rail_token_version = Some ''2'',
      rail_finality = \<lparr>fp_block_tag = ''latest'', fp_minimum_confirmations = 2\<rparr>,
      rail_attestation =
        \<lparr>at_version = ''1'', at_reviewed_on = (2026, 7, 18), at_authoritative_sources = [''source''],
         at_interface = ''eip3009'', at_network_class = ''testnet'', at_proxy_kind = ''fiat-token-proxy'',
         at_expected_decimals = 6, at_domain_name = Some ''USDC'', at_domain_version = Some ''2'',
         at_reviewed_block_number = Some 7, at_reviewed_block_hash = Some (sample_hash (CHR ''7'')),
         at_implementation_address = Some (sample_address (CHR ''9'')),
         at_expected_code_sha256 = Some (replicate 64 (CHR ''c'')),
         at_proxy_implementation_slot = Some (sample_hash (CHR ''5'')),
         at_implementation_code_sha256 = Some (replicate 64 (CHR ''c'')), at_calibrated = True\<rparr>,
      rail_signing_enabled = False\<rparr>"

definition sample_block :: "int \<Rightarrow> char \<Rightarrow> pyval" where
  "sample_block n h = PDict (obj
     [(''number'', PStr (py_hex n)), (''timestamp'', PStr ''0x1''), (''hash'', PStr (sample_hash h)),
      (''parentHash'', PStr (sample_hash (CHR ''0''))), (''transactions'', PList [])])"

definition sample_auth_log :: pydict where
  "sample_auth_log = obj
     [(''address'', PStr (sample_address (CHR ''A''))),
      (''topics'', PList [PStr topic_authorization_used, PStr (padded_topic (sample_address (CHR ''1''))),
         PStr (sample_hash (CHR ''d''))]),
      (''data'', PStr ''0x''), (''blockNumber'', PStr ''0x10''),
      (''transactionHash'', PStr (sample_hash (CHR ''e''))), (''transactionIndex'', PStr ''0x0''),
      (''blockHash'', PStr (sample_hash (CHR ''b''))), (''logIndex'', PStr ''0x2''),
      (''removed'', PBool False)]"

definition sample_receipt :: "string \<Rightarrow> pydict" where
  "sample_receipt status = obj
     [(''transactionHash'', PStr (sample_hash (CHR ''e''))), (''blockHash'', PStr (sample_hash (CHR ''b''))),
      (''blockNumber'', PStr ''0x10''), (''status'', PStr status),
      (''logs'', PList (if status = ''0x1'' then [PDict sample_auth_log, PDict sample_log1] else []))]"

definition sample_call :: "string \<Rightarrow> pyval list \<Rightarrow> pyval" where
  "sample_call status params =
     (case params of
        [PDict d, PStr block] \<Rightarrow>
          let data = str_of (dict_get d ''data''); paid = block = ''0x10'' \<and> status = ''0x1'' in
          PStr (''0x'' @ hex64
            (if take 10 data = ''0xe94a0102'' then (if paid then 1 else 0)
             else if last_chars 1 data = ''1'' then (if paid then 4000 else 5000)
             else if last_chars 1 data = ''2'' then (if paid then 1000 else 0)
             else 0))
      | _ \<Rightarrow> PNone)"

definition sample_answer :: "string \<Rightarrow> string \<Rightarrow> pyval list \<Rightarrow> pyval" where
  "sample_answer status meth params =
     (if meth = ''eth_chainId'' then PStr ''0x2105''
      else if meth = ''eth_getBlockByNumber''
      then (if hd params = PStr ''0x10'' then sample_block 16 (CHR ''b'')
            else if hd params = PStr ''0x7'' then sample_block 7 (CHR ''7'')
            else sample_block 20 (CHR ''f''))
      else if meth = ''eth_getTransactionReceipt'' then PDict (sample_receipt status)
      else if meth = ''eth_getCode'' then PStr ''0x6001''
      else if meth = ''eth_getStorageAt'' then PStr (padded_topic (sample_address (CHR ''9'')))
      else if meth = ''eth_call'' then sample_call status params
      else if meth = ''eth_getLogs'' then PList [PDict sample_log1]
      else PNone)"

definition sample_node :: "string \<Rightarrow> transport" where
  "sample_node status req =
     (case req of
        PDict d \<Rightarrow>
          (case dict_get d ''params'' of
             PList params \<Rightarrow>
               Inr (PDict [(PStr ''jsonrpc'', PStr ''2.0''), (PStr ''id'', dict_get d ''id''),
                 (PStr ''result'', sample_answer status (str_of (dict_get d ''method'')) params)])
           | _ \<Rightarrow> Inl (RpcError ''no params''))
      | _ \<Rightarrow> Inl (RpcError ''no object''))"

definition sample_client :: "string \<Rightarrow> rpc_client" where
  "sample_client status = \<lparr>rpc_id = 0, rpc_transport = sample_node status\<rparr>"

definition sample_sha256 :: hash_fun where
  "sample_sha256 bytes = replicate 64 (CHR ''c'')"

end
