(* ===== verification/Live_Properties.thy ===== *)
theory Live_Properties
  imports Live_Evidence Sample_Node
begin

text \<open>
  The properties of live reconciliation and of the drift check, each with an instance on the
  node of the theory \<open>Sample_Node\<close>.
\<close>

section \<open>A run taken apart\<close>

lemma check_live_args_sound:
  assumes "check_live_args tok rail nonce tx li req pb qb = Inr h"
  shows "h = lower tx" "match_hex 64 tx" "lower (address tok) = lower (rail_token_address rail)"
    "match_hex 64 nonce" "1 \<le> req"
  using assms by (auto simp: check_live_args_def ok_iff)

lemma reconcile_live_run:
  assumes "reconcile_live sha tok rail payer payee nonce tx li req pb qb believes c = (Inr r, c')"
  obtains p ab c1 c2 where
    "check_live_args tok rail nonce tx li req pb qb = Inr (lower tx)"
    "read_pinned sha tok rail (lower tx) payer payee nonce pb qb c = (Inr p, c1)"
    "attribute_settlement tok payer payee nonce (lower tx) li p c1 = (Inr ab, c2)"
    "recheck_settlement (lower tx) (pin_number p) (pin_hash p) c2 = (Inr (), c')"
    "lr_divergence r = detect_payment_divergence (ab_truth ab) believes (Some req)"
    "lr_evidence r = live_evidence tok rail payer payee nonce (lower tx) req p ab"
proof -
  from assms obtain h where "check_live_args tok rail nonce tx li req pb qb = Inr h"
    by (auto simp: reconcile_live_def bindS_ok)
  with check_live_args_sound(1)[OF this]
  have "check_live_args tok rail nonce tx li req pb qb = Inr (lower tx)" by simp
  with assms that show thesis by (auto simp: reconcile_live_def bindS_ok)
qed

lemma live_kind:
  assumes "attribute_settlement tok payer payee nonce tx li p c = (Inr ab, c')"
  shows "kind (detect_payment_divergence (ab_truth ab) believes (Some req)) =
    (if pin_status p = 1
     then if \<not> believes then SILENT_LOSS
          else if ab_received_amount ab < req then UNDERPAID_CREDIT else CONSISTENT_PAID
     else if believes then PHANTOM_CREDIT else CONSISTENT_UNPAID)"
  using exact.grade_kind[OF refl, of "ab_truth ab" believes "Some req"] attribute_moved[OF assms]
  by (auto simp: underpaid_def)

text \<open>The facts about the pinned snapshot, relative to the whole run.\<close>

lemma pinned_facts:
  assumes "read_pinned sha tok rail tx payer payee nonce pb qb c = (Inr p, c1)"
  shows "rpc_mono c c1" "pin_chain p = rail_chain_id rail"
    "receipt_answer c c1 tx (pin_receipt p)" "hash_is (pin_receipt p) ''transactionHash'' tx"
    "quantity_is (pin_receipt p) ''blockNumber'' (pin_number p)"
    "hash_is (pin_receipt p) ''blockHash'' (pin_hash p)" "quantity_is (pin_receipt p) ''status'' (pin_status p)"
    "block_answer c c1 (py_hex (pin_number p)) (pin_number p) (pin_hash p)"
    "\<exists>fh. block_answer c c1 (fp_block_tag (rail_finality rail)) (pin_finality_number p) fh"
    "pin_confirmations p = pin_finality_number p - pin_number p + 1"
    "fp_minimum_confirmations (rail_finality rail) \<le> pin_confirmations p"
proof -
  from assms obtain sa c0 where sa: "read_anchor rail tx c = (Inr sa, c0)" and k: "rpc_mono c0 c1"
    and eq: "pin_chain p = sa_chain sa" "pin_receipt p = sa_receipt sa" "pin_number p = sa_number sa"
      "pin_hash p = sa_hash sa" "pin_status p = sa_status sa" "pin_confirmations p = sa_confirmations sa"
      "pin_finality_number p = sa_finality_number sa"
    by (rule read_pinned_sound) blast
  note A = read_anchor_sound[OF sa] and B = answers_mono[OF rpc_mono_refl k]
  show "rpc_mono c c1" using rpc_mono_trans[OF A(1) k] .
  show "receipt_answer c c1 tx (pin_receipt p)" using B(2)[OF A(5)] eq by simp
  show "block_answer c c1 (py_hex (pin_number p)) (pin_number p) (pin_hash p)" using B(1)[OF A(12)] eq by simp
  show "\<exists>fh. block_answer c c1 (fp_block_tag (rail_finality rail)) (pin_finality_number p) fh"
    using B(1)[OF A(4)] eq by auto
qed (use read_anchor_sound read_pinned_sound[OF assms] in \<open>metis\<close>)+

definition settled_kinds :: "divergence_kind list" where
  "settled_kinds = [CONSISTENT_PAID, UNDERPAID_CREDIT, SILENT_LOSS]"

lemma live_settled:
  assumes "attribute_settlement tok payer payee nonce tx li p c = (Inr ab, c')"
  shows "kind (detect_payment_divergence (ab_truth ab) believes (Some req)) \<in> set settled_kinds \<longleftrightarrow>
    pin_status p = 1"
  by (simp add: live_kind[OF assms] settled_kinds_def)

section \<open>The sample run\<close>

lemma lower_sample: "lower (sample_hash (CHR ''e'')) = sample_hash (CHR ''e'')"
  by code_simp

definition at_id :: "string \<Rightarrow> int \<Rightarrow> rpc_client" where
  "at_id status i = \<lparr>rpc_id = i, rpc_transport = sample_node status\<rparr>"

lemma step_at_id:
  assumes "keepsS rpc_mono m" "(case m (at_id s i) of (r, c) \<Rightarrow> (r, rpc_id c)) = (r, j)"
  shows "m (at_id s i) = (r, at_id s j)"
proof -
  obtain r' c where m: "m (at_id s i) = (r', c)" by fastforce
  have "rpc_transport c = sample_node s"
    using keepsS_D[OF assms(1) m] by (simp add: rpc_mono_def at_id_def)
  then show ?thesis using assms(2) m by (cases c) (auto simp: at_id_def)
qed

abbreviation tok_a :: token_view where
  "tok_a \<equiv> \<lparr>address = sample_address (CHR ''a'')\<rparr>"

abbreviation "payer1 \<equiv> sample_address (CHR ''1'')"
abbreviation "payee2 \<equiv> sample_address (CHR ''2'')"
abbreviation "nonce_d \<equiv> sample_hash (CHR ''D'')"
abbreviation "tx_e \<equiv> sample_hash (CHR ''e'')"

definition sample_pinned :: pinned_snapshot where
  "sample_pinned =
     \<lparr>pin_chain = 8453, pin_finality_number = 20, pin_finality_hash = sample_hash (CHR ''f''),
      pin_receipt = sample_receipt ''0x1'', pin_number = 16, pin_hash = sample_hash (CHR ''b''),
      pin_status = 1, pin_confirmations = 5, pin_token_code = replicate 64 (CHR ''c''),
      pin_implementation_address = Some (sample_address (CHR ''9'')),
      pin_implementation_hash = Some (replicate 64 (CHR ''c'')), pin_payer_parent = 5000,
      pin_payee_parent = 0, pin_payer_after = 4000, pin_payee_after = 1000, pin_nonce_consumed = True\<rparr>"

definition sample_attribution :: attribution where
  "sample_attribution =
     \<lparr>ab_selected_log = Some (sample_credit payer1 3), ab_auth_log_index = Some 2,
      ab_event_value = Some 1000, ab_received_amount = 1000,
      ab_truth = \<lparr>nonce_consumed = True, payer_balance_after = 4000, payee_balance_after = 1000,
                  payer_delta = -1000, payee_delta = 1000\<rparr>\<rparr>"

lemma read_anchor_keeps: "keepsS rpc_mono (read_anchor rail tx)"
  by (unfold read_anchor_def Let_def) (auto intro!: rpc_keeps client_keeps rails_keeps split: prod.splits)

lemma read_pinned_keeps: "keepsS rpc_mono (read_pinned sha tok rail tx payer payee nonce pb qb)"
  by (unfold read_pinned_def Let_def)
    (auto intro!: rpc_keeps client_keeps token_keeps rails_keeps read_anchor_keeps split: prod.splits)

lemma recheck_keeps: "keepsS rpc_mono (recheck_settlement tx n h)"
  by (unfold recheck_settlement_def) (auto intro!: rpc_keeps client_keeps split: prod.splits)

lemma sample_args:
  "check_live_args tok_a sample_rail nonce_d tx_e 3 1000 5000 0 = Inr tx_e"
  by code_simp

lemma sample_attribute:
  "attribute_settlement tok_a payer1 payee2 nonce_d tx_e 3 sample_pinned (at_id ''0x1'' 13) =
     (Inr sample_attribution, at_id ''0x1'' 15)"
  by (rule step_at_id[OF attribute_keeps]) code_simp

lemma sample_recheck:
  "recheck_settlement tx_e 16 (sample_hash (CHR ''b'')) (at_id ''0x1'' 15) = (Inr (), at_id ''0x1'' 17)"
  by (rule step_at_id[OF recheck_keeps]) code_simp

lemma sample_read_pinned:
  "read_pinned sample_sha256 tok_a sample_rail tx_e payer1 payee2 nonce_d 5000 0 (at_id ''0x1'' 0) =
     (Inr sample_pinned, at_id ''0x1'' 13)"
  by (rule step_at_id[OF read_pinned_keeps]) code_simp


definition sample_result :: live_reconciliation where
  "sample_result =
     \<lparr>lr_divergence = detect_payment_divergence (ab_truth sample_attribution) True (Some 1000),
      lr_evidence = live_evidence tok_a sample_rail payer1 payee2 nonce_d tx_e 1000 sample_pinned sample_attribution\<rparr>"

lemma live_sample_run:
  "reconcile_live sample_sha256 tok_a sample_rail payer1 payee2 nonce_d tx_e 3 1000 5000 0 True
     (at_id ''0x1'' 0) = (Inr sample_result, at_id ''0x1'' 17)"
proof -
  have "recheck_settlement tx_e (pin_number sample_pinned) (pin_hash sample_pinned) (at_id ''0x1'' 15) =
    (Inr (), at_id ''0x1'' 17)" using sample_recheck by (simp add: sample_pinned_def)
  then show ?thesis
    by (simp add: reconcile_live_def bindS_ok sample_args sample_read_pinned sample_attribute
        sample_result_def lower_sample)
qed

definition reverted_pinned :: pinned_snapshot where
  "reverted_pinned = sample_pinned\<lparr>pin_receipt := sample_receipt ''0x0'', pin_status := 0,
     pin_payer_after := 5000, pin_payee_after := 0, pin_nonce_consumed := False\<rparr>"

lemma reverted_read_pinned:
  "read_pinned sample_sha256 tok_a sample_rail tx_e payer1 payee2 nonce_d 5000 0 (at_id ''0x0'' 0) =
     (Inr reverted_pinned, at_id ''0x0'' 13)"
  by (rule step_at_id[OF read_pinned_keeps]) code_simp

lemma reverted_recheck:
  "recheck_settlement tx_e 16 (sample_hash (CHR ''b'')) (at_id ''0x0'' 13) = (Inr (), at_id ''0x0'' 15)"
  by (rule step_at_id[OF recheck_keeps]) code_simp

definition reverted_attribution :: attribution where
  "reverted_attribution =
     \<lparr>ab_selected_log = None, ab_auth_log_index = None, ab_event_value = None, ab_received_amount = 0,
      ab_truth = \<lparr>nonce_consumed = False, payer_balance_after = 5000, payee_balance_after = 0,
                  payer_delta = 0, payee_delta = 0\<rparr>\<rparr>"

definition sample_reverted :: live_reconciliation where
  "sample_reverted =
     \<lparr>lr_divergence = detect_payment_divergence (ab_truth reverted_attribution) True (Some 1000),
      lr_evidence = live_evidence tok_a sample_rail payer1 payee2 nonce_d tx_e 1000 reverted_pinned
        reverted_attribution\<rparr>"

lemma sample_reverted_run:
  "fst (reconcile_live sample_sha256 tok_a sample_rail payer1 payee2 nonce_d tx_e 3 1000 5000 0 True
     (at_id ''0x0'' 0)) = Inr sample_reverted"
proof -
  have "recheck_settlement tx_e (pin_number reverted_pinned) (pin_hash reverted_pinned) (at_id ''0x0'' 13) =
    (Inr (), at_id ''0x0'' 15)"
    using reverted_recheck by (simp add: reverted_pinned_def sample_pinned_def)
  moreover have "attribute_settlement tok_a payer1 payee2 nonce_d tx_e 3 reverted_pinned (at_id ''0x0'' 13) =
    (Inr reverted_attribution, at_id ''0x0'' 13)"
    by (simp add: attribute_settlement_def reverted_pinned_def sample_pinned_def reverted_attribution_def)
  ultimately have "reconcile_live sample_sha256 tok_a sample_rail payer1 payee2 nonce_d tx_e 3 1000 5000 0 True
     (at_id ''0x0'' 0) = (Inr sample_reverted, at_id ''0x0'' 15)"
    by (simp add: reconcile_live_def bindS_ok sample_args reverted_read_pinned sample_reverted_def lower_sample)
  then show ?thesis by simp
qed

lemma sample_settled: "lr_kind sample_result \<in> set settled_kinds"
  by code_simp

lemma sample_kind: "lr_kind sample_result = CONSISTENT_PAID"
  by code_simp

section \<open>Properties of live reconciliation\<close>

text \<open>
  C1: A verdict that funds moved rests on the exact settlement.  The node returned, for the
  requested transaction, a successful receipt that names block \<open>n\<close> with hash \<open>h\<close>, and block
  \<open>n\<close> had that hash; the finality block lies deep enough above it; exactly one entry of the
  receipt's list of logs carries the requested log index, and that entry is a live \<open>Transfer\<close> of the
  rail's token from payer to payee in that block; and exactly one entry of the list is a live
  \<open>AuthorizationUsed\<close> log of this payer and nonce.
\<close>

theorem reconcile_live_proves_settlement:
  assumes run: "reconcile_live sha tok rail payer payee nonce tx li req pb qb believes c = (Inr r, c')"
    and settled: "lr_kind r \<in> set settled_kinds"
  shows "\<exists>receipt n h fn fh raw credit.
    receipt_answer c c' (lower tx) receipt \<and> hash_is receipt ''transactionHash'' (lower tx) \<and>
    quantity_is receipt ''status'' 1 \<and> quantity_is receipt ''blockNumber'' n \<and>
    hash_is receipt ''blockHash'' h \<and> block_answer c c' (py_hex n) n h \<and>
    block_answer c c' (fp_block_tag (rail_finality rail)) fn fh \<and>
    fp_minimum_confirmations (rail_finality rail) \<le> fn - n + 1 \<and>
    (\<exists>!k. \<exists>raw'. log_at receipt k raw' \<and> quantity_is raw' ''logIndex'' li) \<and>
    receipt_log receipt raw \<and> quantity_is raw ''logIndex'' li \<and>
    (\<forall>raw'. receipt_log receipt raw' \<and> quantity_is raw' ''logIndex'' li \<longrightarrow> raw' = raw) \<and>
    decode_transfer_log (rail_chain_id rail) raw = Inr credit \<and> \<not> oc_removed credit \<and>
    oc_asset credit = lower (rail_token_address rail) \<and> oc_tx_hash credit = lower tx \<and>
    oc_block_hash credit = h \<and> oc_block_number credit = n \<and>
    oc_payer credit = lower payer \<and> oc_payee credit = lower payee \<and>
    (\<exists>!k. \<exists>raw'. log_at receipt k raw' \<and> authorization_used_log (address tok) payer nonce raw')"
proof -
  from run obtain p ab c1 c2 where args: "check_live_args tok rail nonce tx li req pb qb = Inr (lower tx)"
    and pin: "read_pinned sha tok rail (lower tx) payer payee nonce pb qb c = (Inr p, c1)"
    and ab: "attribute_settlement tok payer payee nonce (lower tx) li p c1 = (Inr ab, c2)"
    and re: "recheck_settlement (lower tx) (pin_number p) (pin_hash p) c2 = (Inr (), c')"
    and d: "lr_divergence r = detect_payment_divergence (ab_truth ab) believes (Some req)"
    by (rule reconcile_live_run)
  have st: "pin_status p = 1" using settled live_settled[OF ab] by (simp add: lr_kind_def d)
  from ab st obtain credit where sel: "selected_transfer (pin_receipt p) (pin_chain p) li (address tok) = Inr credit"
    and cr: "\<not> oc_removed credit" "oc_tx_hash credit = lower tx" "oc_block_hash credit = pin_hash p"
      "oc_block_number credit = pin_number p" "oc_payer credit = lower payer" "oc_payee credit = lower payee"
    and auth: "\<exists>i. authorization_log_index (pin_receipt p) (address tok) payer nonce = Inr i \<and>
      ab_auth_log_index ab = Some i"
    by (rule attribute_paid_sound) blast
  from sel obtain raw where raw: "receipt_log (pin_receipt p) raw" "quantity_is raw ''logIndex'' li"
    "decode_transfer_log (pin_chain p) raw = Inr credit" "oc_asset credit = lower (address tok)"
    and uniq: "\<And>raw'. receipt_log (pin_receipt p) raw' \<Longrightarrow> quantity_is raw' ''logIndex'' li \<Longrightarrow> raw' = raw"
    and one: "\<exists>!k. \<exists>raw'. log_at (pin_receipt p) k raw' \<and> quantity_is raw' ''logIndex'' li"
    by (rule selected_transfer_sound) blast
  have k: "rpc_mono c1 c'"
    using keepsS_D[OF attribute_keeps ab] recheck_sound(1)[OF re] rpc_mono_trans by blast
  note P = pinned_facts[OF pin] and B = answers_mono[OF rpc_mono_refl k]
  obtain fh where "block_answer c c' (fp_block_tag (rail_finality rail)) (pin_finality_number p) fh"
    using P(9) B(1) by blast
  moreover have "\<exists>!k. \<exists>raw'. log_at (pin_receipt p) k raw' \<and> authorization_used_log (address tok) payer nonce raw'"
    using auth authorization_log_index_sound(1) by blast
  moreover have "oc_asset credit = lower (rail_token_address rail)"
    using raw(4) check_live_args_sound(3)[OF args] by simp
  moreover have "quantity_is (pin_receipt p) ''status'' 1" using P(7) st by simp
  moreover have "decode_transfer_log (rail_chain_id rail) raw = Inr credit" using raw(3) P(2) by simp
  moreover have "fp_minimum_confirmations (rail_finality rail) \<le> pin_finality_number p - pin_number p + 1"
    using P(10,11) by simp
  moreover have "\<forall>raw'. receipt_log (pin_receipt p) raw' \<and> quantity_is raw' ''logIndex'' li \<longrightarrow> raw' = raw" using uniq by blast
  ultimately show ?thesis
    using P(4-6) B(2)[OF P(3)] B(1)[OF P(8)] cr raw(1,2) one
    by (intro exI[of _ "pin_receipt p"] exI[of _ "pin_number p"] exI[of _ "pin_hash p"]
        exI[of _ "pin_finality_number p"] exI[of _ fh] exI[of _ raw] exI[of _ credit] conjI)
qed

theorem reconcile_live_proves_settlement_witness:
  "\<exists>receipt n h credit raw. receipt_answer (at_id ''0x1'' 0) (at_id ''0x1'' 17) (lower tx_e) receipt \<and>
     block_answer (at_id ''0x1'' 0) (at_id ''0x1'' 17) (py_hex n) n h \<and> receipt_log receipt raw \<and>
     decode_transfer_log (rail_chain_id sample_rail) raw = Inr credit \<and> oc_payer credit = lower payer1"
  using reconcile_live_proves_settlement[OF live_sample_run sample_settled] by blast

text \<open>
  C2: A verdict that funds moved is accounted for by the pinned balances.  The caller's
  balances before are the node's balances at the parent block; at the settlement block the
  payer holds exactly the value of the \<open>Transfer\<close> log at the requested index of the receipt less and
  the payee a positive amount of at most that value more, the nonce is used, and the verdict is decided by the amount the payee
  received: less than required is an underpayment, an unregistered payment a silent loss.
\<close>

theorem reconcile_live_balances:
  assumes run: "reconcile_live sha tok rail payer payee nonce tx li req pb qb believes c = (Inr r, c')"
    and settled: "lr_kind r \<in> set settled_kinds"
  shows "\<exists>n v got receipt raw credit. 0 < n \<and> 0 < got \<and> got \<le> v \<and>
    receipt_answer c c' (lower tx) receipt \<and> receipt_log receipt raw \<and> quantity_is raw ''logIndex'' li \<and>
    decode_transfer_log (rail_chain_id rail) raw = Inr credit \<and> oc_value credit = v \<and>
    balance_answer c c' (address tok) payer (n - 1) pb \<and>
    balance_answer c c' (address tok) payee (n - 1) qb \<and>
    balance_answer c c' (address tok) payer n (pb - v) \<and>
    balance_answer c c' (address tok) payee n (qb + got) \<and>
    nonce_answer c c' (address tok) payer nonce n True \<and>
    ev_settlement_block_number (lr_evidence r) = n \<and> ev_event_value (lr_evidence r) = Some v \<and>
    ev_received_amount (lr_evidence r) = got \<and>
    lr_kind r = (if \<not> believes then SILENT_LOSS else if got < req then UNDERPAID_CREDIT
                 else CONSISTENT_PAID)"
proof -
  from run obtain p ab c1 c2
    where pin: "read_pinned sha tok rail (lower tx) payer payee nonce pb qb c = (Inr p, c1)"
    and ab: "attribute_settlement tok payer payee nonce (lower tx) li p c1 = (Inr ab, c2)"
    and re: "recheck_settlement (lower tx) (pin_number p) (pin_hash p) c2 = (Inr (), c')"
    and d: "lr_divergence r = detect_payment_divergence (ab_truth ab) believes (Some req)"
    and e: "lr_evidence r = live_evidence tok rail payer payee nonce (lower tx) req p ab"
    by (rule reconcile_live_run)
  have st: "pin_status p = 1" using settled live_settled[OF ab] by (simp add: lr_kind_def d)
  have k: "rpc_mono c1 c'"
    using keepsS_D[OF attribute_keeps ab] recheck_sound(1)[OF re] rpc_mono_trans by blast
  note B = token_answers_mono[OF rpc_mono_refl k]
  from ab st obtain credit :: on_chain_credit
    where sel: "selected_transfer (pin_receipt p) (pin_chain p) li (address tok) = Inr credit"
    and cr: "ab_event_value ab = Some (oc_value credit)" "pin_nonce_consumed p"
    "pin_payer_after p = pin_payer_parent p - oc_value credit"
    "pin_payee_after p = pin_payee_parent p + ab_received_amount ab"
    "0 < ab_received_amount ab" "ab_received_amount ab \<le> oc_value credit"
    by (rule attribute_paid_sound) blast
  from pin have "0 < pin_number p \<and> pin_payer_parent p = pb \<and> pin_payee_parent p = qb \<and>
    balance_answer c c' (address tok) payer (pin_number p - 1) pb \<and>
    balance_answer c c' (address tok) payee (pin_number p - 1) qb \<and>
    balance_answer c c' (address tok) payer (pin_number p) (pin_payer_after p) \<and>
    balance_answer c c' (address tok) payee (pin_number p) (pin_payee_after p) \<and>
    nonce_answer c c' (address tok) payer nonce (pin_number p) (pin_nonce_consumed p)"
    by (rule read_pinned_sound) (use B in blast)
  moreover obtain raw where "receipt_log (pin_receipt p) raw" "quantity_is raw ''logIndex'' li"
    "decode_transfer_log (rail_chain_id rail) raw = Inr credit"
    using sel unfolding pinned_facts(2)[OF pin] by (rule selected_transfer_sound)
  moreover have "receipt_answer c c' (lower tx) (pin_receipt p)"
    using answers_mono(2)[OF rpc_mono_refl k pinned_facts(3)[OF pin]] .
  ultimately show ?thesis
    using cr live_kind[OF ab] st
    by (rule_tac x = "pin_number p" in exI, rule_tac x = "oc_value credit" in exI,
        rule_tac x = "ab_received_amount ab" in exI, rule_tac x = "pin_receipt p" in exI,
        rule_tac x = raw in exI, rule_tac x = credit in exI) (simp add: e d live_evidence_def lr_kind_def)
qed

theorem reconcile_live_balances_witness:
  "\<exists>n v got. 0 < got \<and> got \<le> v \<and>
     balance_answer (at_id ''0x1'' 0) (at_id ''0x1'' 17) (address tok_a) payer1 n (5000 - v) \<and>
     balance_answer (at_id ''0x1'' 0) (at_id ''0x1'' 17) (address tok_a) payee2 n (0 + got)"
  using reconcile_live_balances[OF live_sample_run sample_settled] by blast

text \<open>
  C3: The verdict is not made on a moving chain.  A verdict that funds moved means that no
  other transfer of the token into the payee or out of the payer was reported in the
  settlement block, and that after all four balances (of payer and payee, at the parent and at the
  settlement block), the nonce and both log queries had been answered the node still gave the same
  block hash for the receipt and for the settlement height.
\<close>

theorem reconcile_live_no_race:
  assumes run: "reconcile_live sha tok rail payer payee nonce tx li req pb qb believes c = (Inr r, c')"
    and settled: "lr_kind r \<in> set settled_kinds"
  shows "\<exists>mid n h credit inb out receipt m.
    ev_settlement_block_number (lr_evidence r) = n \<and> ev_settlement_block_hash (lr_evidence r) = h \<and>
    ev_log_index (lr_evidence r) = Some (oc_log_index credit) \<and> oc_tx_hash credit = lower tx \<and>
    transfers_answer c mid (address tok) [Some topic_transfer, None, Some (padded_topic (lower payee))] n inb \<and>
    transfers_answer c mid (address tok) [Some topic_transfer, Some (padded_topic (lower payer)), None] n out \<and>
    only_transfer (rail_chain_id rail) credit (inb @ out) \<and>
    balance_answer c mid (address tok) payer (n - 1) pb \<and> balance_answer c mid (address tok) payee (n - 1) qb \<and>
    balance_answer c mid (address tok) payer n (ev_payer_balance_after (lr_evidence r)) \<and>
    balance_answer c mid (address tok) payee n (ev_payee_balance_after (lr_evidence r)) \<and>
    nonce_answer c mid (address tok) payer nonce n True \<and>
    receipt_answer mid c' (lower tx) receipt \<and> hash_is receipt ''blockHash'' h \<and>
    block_answer mid c' (py_hex n) m h"
proof -
  from run obtain p ab c1 c2
    where pin: "read_pinned sha tok rail (lower tx) payer payee nonce pb qb c = (Inr p, c1)"
    and ab: "attribute_settlement tok payer payee nonce (lower tx) li p c1 = (Inr ab, c2)"
    and re: "recheck_settlement (lower tx) (pin_number p) (pin_hash p) c2 = (Inr (), c')"
    and d: "lr_divergence r = detect_payment_divergence (ab_truth ab) believes (Some req)"
    and e: "lr_evidence r = live_evidence tok rail payer payee nonce (lower tx) req p ab"
    by (rule reconcile_live_run)
  have st: "pin_status p = 1" using settled live_settled[OF ab] by (simp add: lr_kind_def d)
  have k: "rpc_mono c1 c2" using keepsS_D[OF attribute_keeps ab] .
  note P = pinned_facts[OF pin]
  from ab st obtain credit
    where sel: "selected_transfer (pin_receipt p) (pin_chain p) li (address tok) = Inr credit"
    and cr: "oc_tx_hash credit = lower tx" "oc_block_number credit = pin_number p"
      "ab_selected_log ab = Some credit" "pin_nonce_consumed p"
    and race: "ensure_no_same_block_race tok credit payer payee c1 = (Inr (), c2)"
    by (rule attribute_paid_sound) blast
  from sel have cid: "oc_chain_id credit = rail_chain_id rail"
    by (rule selected_transfer_sound) (use decode_fields(2) P(2) in metis)
  obtain inb out where r: "only_transfer (rail_chain_id rail) credit (inb @ out)"
    "transfers_answer c c2 (address tok) [Some topic_transfer, None, Some (padded_topic (lower payee))]
      (pin_number p) inb"
    "transfers_answer c c2 (address tok) [Some topic_transfer, Some (padded_topic (lower payer)), None]
      (pin_number p) out"
    using ensure_no_race_sound[OF race] cr cid transfers_answer_mono[OF _ P(1) rpc_mono_refl] by metis
  from pin have bal: "balance_answer c c2 (address tok) payer (pin_number p - 1) pb"
    "balance_answer c c2 (address tok) payee (pin_number p - 1) qb"
    "balance_answer c c2 (address tok) payer (pin_number p) (pin_payer_after p)"
    "balance_answer c c2 (address tok) payee (pin_number p) (pin_payee_after p)"
    "nonce_answer c c2 (address tok) payer nonce (pin_number p) (pin_nonce_consumed p)"
    by (rule read_pinned_sound, use token_answers_mono[OF rpc_mono_refl k] in blast)+
  obtain receipt m where "receipt_answer c2 c' (lower tx) receipt" "hash_is receipt ''blockHash'' (pin_hash p)"
    "block_answer c2 c' (py_hex (pin_number p)) m (pin_hash p)"
    using recheck_sound(2,3)[OF re] by blast
  with r bal cr show ?thesis
    by (rule_tac x = c2 in exI, rule_tac x = "pin_number p" in exI, rule_tac x = "pin_hash p" in exI,
        rule_tac x = credit in exI, rule_tac x = inb in exI, rule_tac x = out in exI,
        rule_tac x = receipt in exI, rule_tac x = m in exI) (simp add: e live_evidence_def)
qed

theorem reconcile_live_no_race_witness:
  "\<exists>mid n h receipt m. ev_settlement_block_hash (lr_evidence sample_result) = h \<and>
     receipt_answer mid (at_id ''0x1'' 17) (lower tx_e) receipt \<and> hash_is receipt ''blockHash'' h \<and>
     block_answer mid (at_id ''0x1'' 17) (py_hex n) m h"
  using reconcile_live_no_race[OF live_sample_run sample_settled] by blast

text \<open>
  A reverted settlement never counts as paid: when the evidence says that the receipt is
  not successful, the nonce was unused, no amount is attributed, and the verdict is a phantom
  credit exactly when the system under test believes it was paid.
\<close>

theorem reconcile_live_reverted:
  "fst (reconcile_live sha tok rail payer payee nonce tx li req pb qb believes c) = Inr r \<Longrightarrow>
   ev_receipt_status (lr_evidence r) \<noteq> 1 \<Longrightarrow>
     lr_kind r = (if believes then PHANTOM_CREDIT else CONSISTENT_UNPAID) \<and>
     ev_received_amount (lr_evidence r) = 0 \<and> ev_event_value (lr_evidence r) = None \<and>
     \<not> ev_nonce_consumed (lr_evidence r) \<and> (lr_is_failure r \<longleftrightarrow> believes)"
proof -
  assume "fst (reconcile_live sha tok rail payer payee nonce tx li req pb qb believes c) = Inr r"
  then obtain c' where run: "reconcile_live sha tok rail payer payee nonce tx li req pb qb believes c = (Inr r, c')"
    by (metis prod.collapse)
  assume st: "ev_receipt_status (lr_evidence r) \<noteq> 1"
  from run obtain p ab c1 c2
    where ab: "attribute_settlement tok payer payee nonce (lower tx) li p c1 = (Inr ab, c2)"
    and d: "lr_divergence r = detect_payment_divergence (ab_truth ab) believes (Some req)"
    and e: "lr_evidence r = live_evidence tok rail payer payee nonce (lower tx) req p ab"
    by (rule reconcile_live_run)
  have "pin_status p \<noteq> 1" using st by (simp add: e live_evidence_def)
  then show ?thesis
    using attribute_reverted_sound[OF ab] live_kind[OF ab] exact.failure_iff[OF refl, of "ab_truth ab" believes "Some req"]
    by (simp add: e d live_evidence_def lr_kind_def lr_is_failure_def)
qed

theorem reconcile_live_reverted_witness:
  "lr_kind sample_reverted = PHANTOM_CREDIT \<and> lr_is_failure sample_reverted"
  using reconcile_live_reverted[OF sample_reverted_run] by code_simp

text \<open>
  C28: Live reconciliation and the drift check only read.  On two nodes that answer the eight
  reading methods alike, both return the same outcome, whatever the nodes would do on any
  method that changes a chain; so neither depends on such a call.
\<close>

theorem rails_only_read:
  "reads_only (reconcile_live sha tok rail payer payee nonce tx li req pb qb believes)
   \<and> reads_only (check_rail_drift sha rail)"
proof
  show "reads_only (reconcile_live sha tok rail payer payee nonce tx li req pb qb believes)"
    unfolding reconcile_live_def by (intro read_intros read_pinned_reads_only live_reads_only)
  show "reads_only (check_rail_drift sha rail)"
    unfolding check_rail_drift_def Let_def by (auto intro!: read_intros split: prod.splits)
qed

section \<open>Properties of the drift check\<close>

text \<open>
  C29: A drift check that reports a match on a public rail means what it says.  The rail is
  calibrated and the node serves its chain, the reviewed block is still canonical, the code
  at the token address has the attested hash, and for a proxy the implementation slot holds
  the attested address, whose code has the attested hash; all read at one block.
\<close>

theorem check_rail_drift_sound_match:
  assumes run: "check_rail_drift sha rail c = (Inr d, c')" and match: "dc_matches d"
    and public: "at_network_class (rail_attestation rail) \<noteq> ''local''"
  shows "at_calibrated (rail_attestation rail) \<and> dc_chain_id d = rail_chain_id rail \<and>
    (\<exists>h. at_expected_code_sha256 (rail_attestation rail) = Some h \<and>
         code_answer sha c c' (rail_token_address rail) (dc_block_number d) h) \<and>
    (\<forall>n. at_reviewed_block_number (rail_attestation rail) = Some n \<longrightarrow>
       (\<exists>h. at_reviewed_block_hash (rail_attestation rail) = Some h \<and> block_answer c c' (py_hex n) n h)) \<and>
    (at_proxy_kind (rail_attestation rail) \<noteq> ''none'' \<longrightarrow>
       (\<exists>slot impl h. at_proxy_implementation_slot (rail_attestation rail) = Some slot \<and>
          at_implementation_address (rail_attestation rail) = Some impl \<and>
          at_implementation_code_sha256 (rail_attestation rail) = Some h \<and>
          slot_answer c c' (rail_token_address rail) slot (dc_block_number d) (lower impl) \<and>
          code_answer sha c c' (lower impl) (dc_block_number d) h))"
proof -
  let ?a = "rail_attestation rail"
  from run obtain c1 c2 c3 where k: "rpc_mono c c1" "rpc_mono c1 c2" "rpc_mono c2 c3" "rpc_mono c3 c'"
    and cid: "dc_chain_id d = rail_chain_id rail" and rev: "verify_review_anchor rail c1 = (Inr (), c2)"
    and code: "code_answer sha c2 c3 (rail_token_address rail) (dc_block_number d) (dc_code_sha256 d)"
    and impl: "\<exists>c4. implementation_identity sha rail (dc_block_number d) c3 =
       (Inr (dc_implementation_address d, dc_implementation_code_sha256 d), c4) \<and> rpc_mono c4 c'"
    and m: "dc_matches d = fst (drift_verdict ?a (dc_code_sha256 d))"
    by (rule check_rail_drift_sound)
  have k2: "rpc_mono c c2" "rpc_mono c c3" "rpc_mono c2 c'" using k rpc_mono_trans by meson+
  have v: "at_calibrated ?a" "at_expected_code_sha256 ?a = Some (dc_code_sha256 d)"
    using match m public by (auto simp: drift_verdict_def split: if_splits)
  have "code_answer sha c c' (rail_token_address rail) (dc_block_number d) (dc_code_sha256 d)"
    using code_answers_mono(1)[OF k2(1) k(4) code] .
  moreover have "\<exists>h. at_reviewed_block_hash ?a = Some h \<and> block_answer c c' (py_hex n) n h"
    if "at_reviewed_block_number ?a = Some n" for n
    using review_anchor_sound[OF rev v(1) that] answers_mono(1)[OF k(1) k2(3)] by blast
  moreover have "\<exists>slot impl h. at_proxy_implementation_slot ?a = Some slot \<and>
      at_implementation_address ?a = Some impl \<and> at_implementation_code_sha256 ?a = Some h \<and>
      slot_answer c c' (rail_token_address rail) slot (dc_block_number d) (lower impl) \<and>
      code_answer sha c c' (lower impl) (dc_block_number d) h" if "at_proxy_kind ?a \<noteq> ''none''"
    using impl implementation_identity_sound[OF _ that] code_answers_mono[OF k2(2)] by meson
  ultimately show ?thesis using v cid by blast
qed

definition sample_drift :: rail_drift_check where
  "sample_drift =
     \<lparr>dc_rail_key = ''sample'', dc_chain_id = 8453, dc_block_number = 20,
      dc_block_hash = sample_hash (CHR ''f''), dc_code_sha256 = replicate 64 (CHR ''c''),
      dc_expected_code_sha256 = Some (replicate 64 (CHR ''c'')),
      dc_implementation_address = Some (sample_address (CHR ''9'')),
      dc_implementation_code_sha256 = Some (replicate 64 (CHR ''c'')),
      dc_attestation_version = ''1'', dc_calibrated = True, dc_matches = True,
      dc_reason = ''runtime interface and code identity match the reviewed attestation''\<rparr>"

lemma drift_keeps: "keepsS rpc_mono (check_rail_drift sha rail)"
  by (unfold check_rail_drift_def Let_def)
    (auto intro!: rpc_keeps client_keeps token_keeps rails_keeps split: prod.splits)

lemma sample_drift_run:
  "check_rail_drift sample_sha256 sample_rail (at_id ''0x1'' 0) = (Inr sample_drift, at_id ''0x1'' 8)"
  by (rule step_at_id[OF drift_keeps]) code_simp

theorem check_rail_drift_sound_match_witness:
  "at_calibrated (rail_attestation sample_rail) \<and> dc_chain_id sample_drift = rail_chain_id sample_rail"
  using check_rail_drift_sound_match[OF sample_drift_run]
  by (simp add: sample_drift_def sample_rail_def)

text \<open>
  The registry may hold a reviewed block hash in mixed case, which the review anchor then
  never accepts: the observed hash is lowercased before it is compared with the attested one.
  A calibrated rail so declared fails closed on every node.
\<close>

theorem mixed_case_review_hash_never_canonical:
  assumes "at_calibrated (rail_attestation rail)" "at_reviewed_block_number (rail_attestation rail) = Some n"
    and "at_reviewed_block_hash (rail_attestation rail) = Some h" "lower h \<noteq> h"
  shows "fst (verify_review_anchor rail c) \<noteq> Inr () \<and> fst (check_rail_drift sha rail c) \<noteq> Inr d"
proof
  show no: "fst (verify_review_anchor rail c) \<noteq> Inr ()" for c
  proof
    assume "fst (verify_review_anchor rail c) = Inr ()"
    then obtain c' where "verify_review_anchor rail c = (Inr (), c')" by (metis prod.collapse)
    from review_anchor_sound[OF this assms(1,2)] assms(3) have "block_answer c c' (py_hex n) n h" by simp
    then show False using assms(4) by (auto simp: block_answer_def hash_is_def)
  qed
  show "fst (check_rail_drift sha rail c) \<noteq> Inr d"
  proof
    assume "fst (check_rail_drift sha rail c) = Inr d"
    then obtain c' where "check_rail_drift sha rail c = (Inr d, c')" by (metis prod.collapse)
    then show False by (rule check_rail_drift_sound) (use no in \<open>metis fst_conv\<close>)
  qed
qed

theorem mixed_case_review_hash_never_canonical_witness:
  "match_hex 64 (sample_hash (CHR ''B'')) \<and>
   (\<exists>rail. at_reviewed_block_hash (rail_attestation rail) = Some (sample_hash (CHR ''B'')) \<and>
     mk_attestation (rail_attestation rail) = Inr (rail_attestation rail) \<and>
     fst (verify_review_anchor rail (at_id ''0x1'' 0)) \<noteq> Inr ())"
proof -
  let ?a = "(rail_attestation sample_rail)\<lparr>at_reviewed_block_hash := Some (sample_hash (CHR ''B''))\<rparr>"
  let ?r = "sample_rail\<lparr>rail_attestation := ?a\<rparr>"
  have "lower (sample_hash (CHR ''B'')) \<noteq> sample_hash (CHR ''B'')" by code_simp
  moreover have "mk_attestation ?a = Inr ?a" "match_hex 64 (sample_hash (CHR ''B''))" by code_simp+
  moreover have "at_calibrated ?a" "at_reviewed_block_number ?a = Some 7" by (simp_all add: sample_rail_def)
  ultimately show ?thesis
    using mixed_case_review_hash_never_canonical[of ?r 7 "sample_hash (CHR ''B'')" "at_id ''0x1'' 0"]
    by (intro conjI exI[of _ ?r]) simp_all
qed

end
