(* ===== verification/Known_Rails.thy ===== *)
theory Known_Rails
  imports Rails
begin

text \<open>
  The registry of reviewed rails of \<^verbatim>\<open>psv/rails.py\<close> (\<^verbatim>\<open>KNOWN_RAILS\<close>), one definition per rail, and
  \<^verbatim>\<open>get_rail\<close>.  The source runs the validation of the dataclasses when the module is imported;
  here the rails are plain records and the validation is a theorem about them.
\<close>

section \<open>Shared constants\<close>

definition reviewed_2026_07_18 :: date where
  "reviewed_2026_07_18 = (2026, 7, 18)"

definition reviewed_2026_08_13 :: date where
  "reviewed_2026_08_13 = (2026, 8, 13)"

definition reviewed_2026_10_07 :: date where
  "reviewed_2026_10_07 = (2026, 10, 7)"

definition attestation_version :: string where
  "attestation_version = ''2026-07-18.2''"

definition attestation_version_2026_08_13 :: string where
  "attestation_version_2026_08_13 = ''2026-08-13.1''"

definition attestation_version_2026_10_07 :: string where
  "attestation_version_2026_10_07 = ''2026-10-07.1''"

definition circle_usdc :: string where
  "circle_usdc = ''https://developers.circle.com/stablecoins/usdc-contract-addresses''"

definition circle_eurc :: string where
  "circle_eurc = ''https://developers.circle.com/stablecoins/eurc-contract-addresses''"

definition jpyc_notice :: string where
  "jpyc_notice = ''https://corporate.jpyc.co.jp/news/posts/Notice''"

definition eip_3009 :: string where
  "eip_3009 = ''https://eips.ethereum.org/EIPS/eip-3009''"

definition base_rpc :: string where
  "base_rpc = ''https://mainnet.base.org''"

definition polygon_rpc :: string where
  "polygon_rpc = ''https://polygon.drpc.org''"

definition x402_default_assets :: string where
  "x402_default_assets = ''https://github.com/x402-foundation/x402/blob/main/DEFAULT_ASSETS.md''"

definition celo_rpc :: string where
  "celo_rpc = ''https://forno.celo.org''"

definition celo_sepolia_rpc :: string where
  "celo_sepolia_rpc = ''https://forno.celo-sepolia.celo-testnet.org''"

definition base_sepolia_rpc :: string where
  "base_sepolia_rpc = ''https://sepolia.base.org''"

definition x402_default_assets_base_sepolia :: string where
  "x402_default_assets_base_sepolia = ''https://github.com/x402-foundation/x402/blob/cb0ec5bc/python/x402/mechanisms/evm/default_assets.py''"

definition flare_rpc :: string where
  "flare_rpc = ''https://flare-api.flare.network/ext/C/rpc''"

definition circle_proxy_slot :: string where
  "circle_proxy_slot = ''0x7050c9e0f4ca769c69bd3a8ef740bc37934f8e2c036e5a723fd8ee048ed3f8c3''"

definition erc1967_proxy_slot :: string where
  "erc1967_proxy_slot = ''0x360894a13ba1a3210667c828492db98dca3e2076cc3735a920a3ca505d382bbc''"

section \<open>Rails\<close>

text \<open>\<^verbatim>\<open>_attestation\<close>; the keyword arguments that have defaults are options.\<close>

definition attestation ::
  "string list \<Rightarrow> string \<Rightarrow> string \<Rightarrow> int \<Rightarrow> string option \<Rightarrow> string option \<Rightarrow> bool option \<Rightarrow> int option \<Rightarrow>
     string option \<Rightarrow> string option \<Rightarrow> string option \<Rightarrow> string option \<Rightarrow> string option \<Rightarrow> date \<Rightarrow> string \<Rightarrow>
     rail_attestation" where
  "attestation sources network_class proxy_kind decimals domain_name domain_version calibrated
       review_number review_hash code_sha256 impl_address impl_slot impl_sha256 reviewed_on version =
     \<lparr>at_version = version, at_reviewed_on = reviewed_on, at_authoritative_sources = sources,
      at_interface = ''eip3009'', at_network_class = network_class, at_proxy_kind = proxy_kind,
      at_expected_decimals = decimals, at_domain_name = domain_name, at_domain_version = domain_version,
      at_reviewed_block_number = review_number, at_reviewed_block_hash = review_hash,
      at_implementation_address = impl_address, at_expected_code_sha256 = code_sha256,
      at_proxy_implementation_slot = impl_slot, at_implementation_code_sha256 = impl_sha256,
      at_calibrated = (case calibrated of None \<Rightarrow> network_class = ''local'' | Some b \<Rightarrow> b)\<rparr>"

definition rail ::
  "string \<Rightarrow> string \<Rightarrow> int \<Rightarrow> string \<Rightarrow> int \<Rightarrow> string option \<Rightarrow> string option \<Rightarrow> finality_policy \<Rightarrow>
     rail_attestation \<Rightarrow> rail_config" where
  "rail key label cid token_address decimals token_name token_version finality attest =
     \<lparr>rail_key = key, rail_label = label, rail_chain_id = cid, rail_token_address = token_address,
      rail_decimals = decimals, rail_token_name = token_name, rail_token_version = token_version,
      rail_finality = finality, rail_attestation = attest, rail_signing_enabled = False\<rparr>"

definition rail_mock_anvil :: rail_config where
  "rail_mock_anvil = rail ''mock-anvil'' ''Local MockUSDC (Anvil)'' 84532
     ''0x5FbDB2315678afecb367f032d93F642f64180aa3'' 6 (Some ''USDC'') (Some ''2'')
     \<lparr>fp_block_tag = ''latest'', fp_minimum_confirmations = 1\<rparr>
     (attestation [eip_3009] ''local'' ''none'' 6 (Some ''USDC'') (Some ''2'') None None
        None None
        None None
        None
        reviewed_2026_07_18 attestation_version)"

definition rail_usdc_base :: rail_config where
  "rail_usdc_base = rail ''usdc-base'' ''USDC on Base'' 8453
     ''0x833589fCD6eDb6E08f4c7C32D4f71b54bdA02913'' 6 (Some ''USD Coin'') (Some ''2'')
     \<lparr>fp_block_tag = ''finalized'', fp_minimum_confirmations = 1\<rparr>
     (attestation [circle_usdc, eip_3009, base_rpc] ''mainnet'' ''fiat-token-proxy'' 6 (Some ''USD Coin'') (Some ''2'') (Some True) (Some 48783151)
        (Some ''0x958d7bd04181a2d5b4ae239e5ecdf8944fe46fe25cedac2bb961a081aa822edb'') (Some ''98d785fcb1bf847f287adc2310759fd94cc13e754b974bc72131382e8266f607'')
        (Some ''0x2ce6311ddae708829bc0784c967b7d77d19fd779'') (Some ''0x7050c9e0f4ca769c69bd3a8ef740bc37934f8e2c036e5a723fd8ee048ed3f8c3'')
        (Some ''dcb3b7ca28662970d0a7cdad420e529fb837d7bf8a246b1a680c20e153db79e8'')
        reviewed_2026_07_18 attestation_version)"

definition rail_usdc_polygon :: rail_config where
  "rail_usdc_polygon = rail ''usdc-polygon'' ''USDC on Polygon'' 137
     ''0x3c499c542cEF5E3811e1192ce70d8cC03d5c3359'' 6 (Some ''USD Coin'') (Some ''2'')
     \<lparr>fp_block_tag = ''finalized'', fp_minimum_confirmations = 1\<rparr>
     (attestation [circle_usdc, eip_3009, polygon_rpc] ''mainnet'' ''fiat-token-proxy'' 6 (Some ''USD Coin'') (Some ''2'') (Some True) (Some 91954134)
        (Some ''0x643d0996cf9b2c8a345330946878e5f701a4bfbb825dab4b5b4337432012ce2c'') (Some ''dc2898fcd8071dd801212e8f34ce32f23aba05aadbad71ff84ef7faa2909a29c'')
        (Some ''0x235ae97b28466db30469b89a9fe4cff0659f82cb'') (Some ''0x7050c9e0f4ca769c69bd3a8ef740bc37934f8e2c036e5a723fd8ee048ed3f8c3'')
        (Some ''ccc73d219a0d3f7ea8a2bafce3351a9ae1d394dd9ab4c35497865541505fedd9'')
        reviewed_2026_08_13 attestation_version_2026_08_13)"

definition rail_jpyc_polygon :: rail_config where
  "rail_jpyc_polygon = rail ''jpyc-polygon'' ''JPYC on Polygon'' 137
     ''0xe7c3d8c9a439fede00d2600032d5db0be71c3c29'' 18 (Some ''JPY Coin'') (Some ''1'')
     \<lparr>fp_block_tag = ''finalized'', fp_minimum_confirmations = 1\<rparr>
     (attestation [jpyc_notice, eip_3009] ''mainnet'' ''vendor-proxy'' 18 (Some ''JPY Coin'') (Some ''1'') None None
        None None
        None None
        None
        reviewed_2026_07_18 attestation_version)"

definition rail_eurc_base :: rail_config where
  "rail_eurc_base = rail ''eurc-base'' ''EURC on Base'' 8453
     ''0x60a3e35cc302bfa44cb288bc5a4f316fdb1adb42'' 6 None None
     \<lparr>fp_block_tag = ''finalized'', fp_minimum_confirmations = 1\<rparr>
     (attestation [circle_eurc, eip_3009, base_rpc] ''mainnet'' ''fiat-token-proxy'' 6 None None (Some True) (Some 48783151)
        (Some ''0x958d7bd04181a2d5b4ae239e5ecdf8944fe46fe25cedac2bb961a081aa822edb'') (Some ''c9cf7c3f11c4d3d818801b5a965cea3bae6ff3b9b923242b91a9b4e5888e7835'')
        (Some ''0x2ce6311ddae708829bc0784c967b7d77d19fd779'') (Some ''0x7050c9e0f4ca769c69bd3a8ef740bc37934f8e2c036e5a723fd8ee048ed3f8c3'')
        (Some ''dcb3b7ca28662970d0a7cdad420e529fb837d7bf8a246b1a680c20e153db79e8'')
        reviewed_2026_07_18 attestation_version)"

definition rail_usdc_celo :: rail_config where
  "rail_usdc_celo = rail ''usdc-celo'' ''USDC on Celo'' 42220
     ''0xcebA9300f2b948710d2653dD7B07f33A8B32118C'' 6 (Some ''USDC'') (Some ''2'')
     \<lparr>fp_block_tag = ''finalized'', fp_minimum_confirmations = 1\<rparr>
     (attestation [circle_usdc, eip_3009, x402_default_assets, celo_rpc] ''mainnet'' ''fiat-token-proxy'' 6 (Some ''USDC'') (Some ''2'') (Some True) (Some 74742375)
        (Some ''0x0e5b9dcd8f843fc8ddaa41bc578b82a0eb9149e1570eaeda534c6c7809b8b939'') (Some ''c8dd45e79870cb5e3d81e19f704c0fb54809c98f5be4243c552dc34a3ca7b6e4'')
        (Some ''0xda06d4e3f59fe2c8ff3077a9d50d5be5e231becd'') (Some circle_proxy_slot)
        (Some ''d13bec344a0650de736a9bfce03cd0930d5c117764f61ea3ed2357f70e817a14'')
        reviewed_2026_08_13 attestation_version_2026_08_13)"

definition rail_usdc_celo_sepolia :: rail_config where
  "rail_usdc_celo_sepolia = rail ''usdc-celo-sepolia'' ''USDC on Celo Sepolia'' 11142220
     ''0x01C5C0122039549AD1493B8220cABEdD739BC44E'' 6 (Some ''USDC'') (Some ''2'')
     \<lparr>fp_block_tag = ''finalized'', fp_minimum_confirmations = 1\<rparr>
     (attestation [circle_usdc, eip_3009, x402_default_assets, celo_sepolia_rpc] ''testnet'' ''fiat-token-proxy'' 6 (Some ''USDC'') (Some ''2'') (Some True) (Some 33358890)
        (Some ''0x5982a282bf48188354af6583ea268bcafd0297c9b7ea30fa95e49fd57a7ccc9d'') (Some ''c9cf7c3f11c4d3d818801b5a965cea3bae6ff3b9b923242b91a9b4e5888e7835'')
        (Some ''0x18b2bf98579267d4b108c5d82f816710a17efbb6'') (Some circle_proxy_slot)
        (Some ''a0c17ab2e0a8e1e606fed223171bdf66dd58e8fa571b15e6af1bea4e640515d8'')
        reviewed_2026_08_13 attestation_version_2026_08_13)"

definition rail_usdc_base_sepolia :: rail_config where
  "rail_usdc_base_sepolia = rail ''usdc-base-sepolia'' ''USDC on Base Sepolia'' 84532
     ''0x036CbD53842c5426634e7929541eC2318f3dCF7e'' 6 (Some ''USDC'') (Some ''2'')
     \<lparr>fp_block_tag = ''finalized'', fp_minimum_confirmations = 1\<rparr>
     (attestation [circle_usdc, eip_3009, x402_default_assets_base_sepolia, base_sepolia_rpc] ''testnet'' ''fiat-token-proxy'' 6 (Some ''USDC'') (Some ''2'') (Some True) (Some 47801036)
        (Some ''0x70b0837b92f7f71dc81194899b23c18ee6332c74464b8da42c359a9a4ba70266'') (Some ''e878b99fc0c17354c86c7edeb999c70c18cfd925abb0958496f027cbad996d28'')
        (Some ''0xd74cc5d436923b8ba2c179b4bca2841d8a52c5b5'') (Some circle_proxy_slot)
        (Some ''9e410c49b2c8f98e4924d5cab8f07e734625c650c940a7ed600b376f010eba77'')
        reviewed_2026_10_07 attestation_version_2026_10_07)"

definition rail_usdt0_flare :: rail_config where
  "rail_usdt0_flare = rail ''usdt0-flare'' (''USD'' @ [CHR 0xE2] @ [CHR 0x82] @ [CHR 0xAE] @ ''0 on Flare'') 14
     ''0xe7cd86e13AC4309349F30B3435a9d337750fC82D'' 6 (Some (''USD'' @ [CHR 0xE2] @ [CHR 0x82] @ [CHR 0xAE] @ ''0'')) (Some ''1'')
     \<lparr>fp_block_tag = ''finalized'', fp_minimum_confirmations = 1\<rparr>
     (attestation [eip_3009, x402_default_assets, flare_rpc] ''mainnet'' ''erc1967-proxy'' 6 (Some (''USD'' @ [CHR 0xE2] @ [CHR 0x82] @ [CHR 0xAE] @ ''0'')) (Some ''1'') (Some True) (Some 67327446)
        (Some ''0xeed7aaaa1f2998e09cd4e5a3da1c4226217a1ef84aa5fe877a29bd54aa6257cd'') (Some ''e518057ee9772b6d5ad104f0c0cbae96d42e5543dcaaff3b39257089ab5fe699'')
        (Some ''0x779ded0c9e1022225f8e0630b35a9b54be713736'') (Some erc1967_proxy_slot)
        (Some ''6ed7b35f916bd991124be4fbfccfaa693f61f7a74800eea445fa8727463d6f44'')
        reviewed_2026_08_13 attestation_version_2026_08_13)"

definition known_rails :: "(string \<times> rail_config) list" where
  "known_rails =
     [(''mock-anvil'', rail_mock_anvil),
      (''usdc-base'', rail_usdc_base),
      (''usdc-polygon'', rail_usdc_polygon),
      (''jpyc-polygon'', rail_jpyc_polygon),
      (''eurc-base'', rail_eurc_base),
      (''usdc-celo'', rail_usdc_celo),
      (''usdc-celo-sepolia'', rail_usdc_celo_sepolia),
      (''usdc-base-sepolia'', rail_usdc_base_sepolia),
      (''usdt0-flare'', rail_usdt0_flare)]"

definition get_rail :: "string \<Rightarrow> rail_config result" where
  "get_rail key = (case map_of known_rails key of None \<Rightarrow> Inl (KeyError ''unknown rail'') | Some r \<Rightarrow> Inr r)"

section \<open>Properties\<close>

text \<open>
  Every rail of the registry passes the validation of its dataclasses: its finality
  policy, its attestation and its configuration are accepted unchanged, so importing the
  module raises nothing; each is registered under its own key, and none can sign.
\<close>

theorem known_rails_valid:
  "list_all (\<lambda>(key, r).
      rail_key r = key \<and> \<not> rail_signing_enabled r \<and>
      mk_finality_policy (fp_block_tag (rail_finality r)) (fp_minimum_confirmations (rail_finality r)) =
        Inr (rail_finality r) \<and>
      mk_attestation (rail_attestation r) = Inr (rail_attestation r) \<and> mk_rail_config r = Inr r)
    known_rails
   \<and> distinct (map fst known_rails)"
  by code_simp

end
