(* ===== verification/Differential.thy ===== *)
theory Differential
  imports Divergence
begin

text \<open>
  \<^verbatim>\<open>psv/differential.py\<close>: one chain fact graded against the beliefs of several systems.  A
  dict keyed by system name is an association list in insertion order.
\<close>

record differential_result =
  verdicts :: "(string \<times> divergence) list"
  disagree :: bool
  failing :: "(string \<times> divergence) list"

definition has_finding :: "differential_result \<Rightarrow> bool" where
  "has_finding r \<longleftrightarrow> failing r \<noteq> []"

definition run_differential ::
  "settlement_truth \<Rightarrow> (string \<times> bool) list \<Rightarrow> int option \<Rightarrow> differential_result result" where
  "run_differential chain beliefs required_amount =
     (if beliefs = [] then Inl (ValueError ''beliefs must contain at least one SUT'')
      else if \<exists>(name, b)\<in>set beliefs. name = []
      then Inl (ValueError ''every SUT name must be a non-empty string'')
      else if (case required_amount of None \<Rightarrow> False | Some r \<Rightarrow> \<not> uint256 r)
      then Inl (ValueError ''required_amount must be a uint256 or null'')
      else
        let vs = map (\<lambda>(name, b). (name, detect_payment_divergence chain b required_amount)) beliefs;
            fs = filter (\<lambda>(name, v). is_failure v) vs;
            dis = length (remdups (map snd beliefs)) > 1
        in Inr \<lparr>verdicts = vs, disagree = dis, failing = fs\<rparr>)"

lemma remdups_two:
  assumes "length (remdups xs) > 1"
  shows "\<exists>x\<in>set xs. \<exists>y\<in>set xs. x \<noteq> y"
proof (rule ccontr)
  assume "\<not> ?thesis"
  then have "set xs \<subseteq> {hd xs}" by (cases xs) auto
  then have "card (set xs) \<le> card {hd xs}" by (intro card_mono) simp_all
  with assms show False by (simp add: length_remdups_card_conv)
qed

lemma run_differential_ok:
  "run_differential chain beliefs req = Inr r \<longleftrightarrow>
     beliefs \<noteq> [] \<and> (\<forall>(name, b)\<in>set beliefs. name \<noteq> []) \<and>
     (case req of None \<Rightarrow> True | Some q \<Rightarrow> uint256 q) \<and>
     r = \<lparr>verdicts = map (\<lambda>(name, b). (name, detect_payment_divergence chain b req)) beliefs,
          disagree = length (remdups (map snd beliefs)) > 1,
          failing = filter (\<lambda>(name, v). is_failure v)
            (map (\<lambda>(name, b). (name, detect_payment_divergence chain b req)) beliefs)\<rparr>"
  by (auto simp: run_differential_def Let_def split: option.splits if_splits)

lemma failing_iff:
  assumes "run_differential chain beliefs req = Inr r" "(name, b) \<in> set beliefs"
  shows "(name, detect_payment_divergence chain b req) \<in> set (failing r) \<longleftrightarrow>
    b \<noteq> funds_moved chain \<or> (funds_moved chain \<and> b \<and> underpaid req chain)"
  using assms exact.failure_iff[OF refl, of chain b req]
  by (force simp: run_differential_ok)

section \<open>Properties\<close>

text \<open>
  A disagreement between systems about one chain fact always produces a finding: whenever
  two systems hold different beliefs the run is marked as a disagreement and at least one of
  them fails, and every system whose belief differs from the chain is among the failing ones.
\<close>

theorem disagreement_is_a_finding:
  assumes run: "run_differential chain beliefs req = Inr r"
    and two: "(n1, b1) \<in> set beliefs" "(n2, b2) \<in> set beliefs" "b1 \<noteq> b2"
  shows "disagree r \<and> has_finding r
    \<and> (\<forall>(name, b)\<in>set beliefs. b \<noteq> funds_moved chain \<longrightarrow>
         (name, detect_payment_divergence chain b req) \<in> set (failing r))"
proof (intro conjI)
  have "{b1, b2} \<subseteq> set (map snd beliefs)" using two by force
  then have "card {b1, b2} \<le> card (set (map snd beliefs))" by (intro card_mono) simp_all
  then show "disagree r" using run two(3) by (simp add: run_differential_ok length_remdups_card_conv)
  have "b1 \<noteq> funds_moved chain \<or> b2 \<noteq> funds_moved chain" using two(3) by auto
  then show "has_finding r"
    using failing_iff[OF run two(1)] failing_iff[OF run two(2)] by (auto simp: has_finding_def)
  show "\<forall>(name, b)\<in>set beliefs. b \<noteq> funds_moved chain \<longrightarrow>
      (name, detect_payment_divergence chain b req) \<in> set (failing r)"
    using failing_iff[OF run] by auto
qed

theorem disagreement_is_a_finding_witness:
  "\<exists>r. run_differential \<lparr>nonce_consumed = True, payer_balance_after = 0, payee_balance_after = 5,
       payer_delta = - 5, payee_delta = 5\<rparr> [(''a'', True), (''b'', False)] (Some 5) = Inr r \<and>
     disagree r \<and> has_finding r"
proof -
  obtain r where r: "run_differential \<lparr>nonce_consumed = True, payer_balance_after = 0,
      payee_balance_after = 5, payer_delta = - 5, payee_delta = 5\<rparr> [(''a'', True), (''b'', False)] (Some 5) = Inr r"
    by (auto simp: run_differential_def uint256_def uint256_max_def Let_def)
  from disagreement_is_a_finding[OF this, of "''a''" True "''b''" False] r show ?thesis by auto
qed

end
