(* ===== verification/Reorg.thy ===== *)
theory Reorg
  imports Chain
begin

text \<open>
  \<^verbatim>\<open>psv/reorg.py\<close>: confirmation depth, reorg-aware finality, and the snapshot-based
  simulation of a reorganisation.
\<close>

definition reorg_block :: "string \<Rightarrow> int \<Rightarrow> int result" where
  "reorg_block what v =
     (if \<not> uint256 v then Inl (ValueError (what @ '' must be a uint256'')) else Inr v)"

definition confirmations :: "int \<Rightarrow> int \<Rightarrow> int result" where
  "confirmations current_block tx_block =
     bindR (reorg_block ''current_block'' current_block) (\<lambda>current.
     bindR (reorg_block ''tx_block'' tx_block) (\<lambda>transaction.
     Inr (if transaction = 0 \<or> current < transaction then 0 else current - transaction + 1)))"

definition is_final :: "int \<Rightarrow> int \<Rightarrow> int \<Rightarrow> bool result" where
  "is_final current_block tx_block required_confirmations =
     (if required_confirmations \<le> 0
      then Inl (ValueError ''required_confirmations must be a positive integer'')
      else bindR (confirmations current_block tx_block) (\<lambda>n. Inr (n \<ge> required_confirmations)))"

definition reorg_hash :: "string \<Rightarrow> string \<Rightarrow> string result" where
  "reorg_hash what v =
     (if \<not> match_hex 64 v then Inl (ValueError (what @ '' must be an exact 32-byte hash''))
      else Inr (lower v))"

record settlement_finality =
  final :: bool
  sf_confirmations :: int
  reorged :: bool
  reason :: string

definition assess_finality ::
  "int \<Rightarrow> string \<Rightarrow> int \<Rightarrow> string option \<Rightarrow> int \<Rightarrow> settlement_finality result" where
  "assess_finality settlement_block_number settlement_block_hash current_block canonical_block_hash
      required_confirmations =
     (if required_confirmations \<le> 0
      then Inl (ValueError ''required_confirmations must be a positive integer'')
      else
      bindR (reorg_hash ''settlement_block_hash'' settlement_block_hash) (\<lambda>settlement_hash.
      bindR (confirmations current_block settlement_block_number) (\<lambda>depth.
      bindR (case canonical_block_hash of
               None \<Rightarrow> Inr False
             | Some h \<Rightarrow> bindR (reorg_hash ''canonical_block_hash'' h) (\<lambda>c. Inr (c \<noteq> settlement_hash))) (\<lambda>replaced.
      if replaced then
        Inr \<lparr>final = False, sf_confirmations = depth, reorged = True,
             reason = ''settlement block was reorged out (canonical hash differs); re-confirm inclusion''\<rparr>
      else if depth = 0 then
        Inr \<lparr>final = False, sf_confirmations = 0, reorged = False, reason = ''settlement not yet mined''\<rparr>
      else if canonical_block_hash = None then
        Inr \<lparr>final = False, sf_confirmations = depth, reorged = False,
             reason = ''canonical block hash unavailable at settlement height; cannot confirm canonicality''\<rparr>
      else if depth < required_confirmations then
        Inr \<lparr>final = False, sf_confirmations = depth, reorged = False,
             reason = ''insufficient confirmations ('' @ py_str_int depth @ '' < '' @
               py_str_int required_confirmations @ '')''\<rparr>
      else
        Inr \<lparr>final = True, sf_confirmations = depth, reorged = False,
             reason = ''final: deep and canonical''\<rparr>))))"

definition take_checkpoint :: "string rpc" where
  "take_checkpoint = snapshot"

definition reorg_to :: "string \<Rightarrow> bool rpc" where
  "reorg_to checkpoint = revert checkpoint"

lemma confirmations_ok [ok_iff]:
  "confirmations cur tx = Inr n \<longleftrightarrow> uint256 cur \<and> uint256 tx \<and>
     n = (if tx = 0 \<or> cur < tx then 0 else cur - tx + 1)"
  by (auto simp: confirmations_def reorg_block_def)

lemma reorg_hash_ok [ok_iff]: "reorg_hash what v = Inr h \<longleftrightarrow> match_hex 64 v \<and> h = lower v"
  by (auto simp: reorg_hash_def)

lemma assess_finality_final:
  assumes "assess_finality n h cur canon req = Inr f"
  shows "final f \<longleftrightarrow> (\<exists>c. canon = Some c \<and> lower c = lower h) \<and> 0 < n \<and> n \<le> cur \<and> req \<le> cur - n + 1"
    "sf_confirmations f = (if n = 0 \<or> cur < n then 0 else cur - n + 1)"
    "reorged f \<longleftrightarrow> (\<exists>c. canon = Some c \<and> lower c \<noteq> lower h)"
  using assms
  by (auto simp: assess_finality_def ok_iff uint256_def split: if_splits option.splits)

section \<open>Properties\<close>

text \<open>
  A settlement is final exactly when its block is canonical and deep enough: a canonical
  hash is known at its height and equals the settlement's, the settlement is mined, and at
  least the required confirmations lie on it; it is reported as reorged exactly when another
  hash is canonical at its height.
\<close>

theorem finality_iff_canonical_and_deep:
  assumes "assess_finality n h cur canon req = Inr f"
  shows "(final f \<longleftrightarrow> (\<exists>c. canon = Some c \<and> lower c = lower h) \<and> 0 < n \<and> n \<le> cur \<and> req \<le> cur - n + 1)
    \<and> (reorged f \<longleftrightarrow> (\<exists>c. canon = Some c \<and> lower c \<noteq> lower h)) \<and> \<not> (final f \<and> reorged f)"
  using assess_finality_final[OF assms] by auto

theorem finality_iff_canonical_and_deep_witness:
  "\<exists>f. assess_finality 10 (''0x'' @ replicate 64 (CHR ''A'')) 12 (Some (''0x'' @ replicate 64 (CHR ''a''))) 3 = Inr f \<and>
     \<not> reorged f"
proof -
  have f: "assess_finality 10 (''0x'' @ replicate 64 (CHR ''A'')) 12 (Some (''0x'' @ replicate 64 (CHR ''a''))) 3 =
    Inr \<lparr>final = True, sf_confirmations = 3, reorged = False, reason = ''final: deep and canonical''\<rparr>"
    by code_simp
  with finality_iff_canonical_and_deep[OF f] show ?thesis by auto
qed

text \<open>
  Finality is stable under new blocks: with the same canonical hash at its height, a final
  settlement stays final when the chain grows.
\<close>

theorem finality_monotone:
  assumes "assess_finality n h cur canon req = Inr f" "final f" "cur \<le> cur'" "uint256 cur'"
  shows "\<exists>f'. assess_finality n h cur' canon req = Inr f' \<and> final f'"
proof -
  from assess_finality_final(1)[OF assms(1)] assms(2) obtain c where c: "canon = Some c" "lower c = lower h"
    and d: "0 < n" "n \<le> cur" "req \<le> cur - n + 1" by auto
  have "0 < req" "match_hex 64 h" "match_hex 64 c" "uint256 n"
    using assms(1) c by (auto simp: assess_finality_def ok_iff split: if_splits)
  then show ?thesis using c d assms(3,4) by (auto simp: assess_finality_def confirmations_def reorg_block_def reorg_hash_def)
qed

theorem finality_monotone_witness:
  "\<exists>f'. assess_finality 10 (''0x'' @ replicate 64 (CHR ''a'')) 20 (Some (''0x'' @ replicate 64 (CHR ''a''))) 3 = Inr f' \<and>
     final f'"
proof -
  have "assess_finality 10 (''0x'' @ replicate 64 (CHR ''a'')) 12 (Some (''0x'' @ replicate 64 (CHR ''a''))) 3 =
    Inr \<lparr>final = True, sf_confirmations = 3, reorged = False, reason = ''final: deep and canonical''\<rparr>" by code_simp
  then show ?thesis by (rule finality_monotone) (simp_all add: uint256_def uint256_max_def)
qed

end
