(* ===== verification/Safety.thy ===== *)
theory Safety
  imports Chain
begin

text \<open>
  \<^verbatim>\<open>psv/safety.py\<close>: the policy that every value-bearing submission of the reference system has
  to pass before anything is signed.
\<close>

section \<open>Conversions of untyped values\<close>

text \<open>
  \<^verbatim>\<open>int(v)\<close> and \<^verbatim>\<open>int(v, 16)\<close> of a value of any type.  A float is truncated towards zero.
\<close>

definition trunc_float :: "int \<Rightarrow> int \<Rightarrow> int" where
  "trunc_float m e =
     (if e \<ge> 0 then m * 2 ^ nat e else sgn m * (\<bar>m\<bar> div 2 ^ nat (- e)))"

definition int_of :: "pyval \<Rightarrow> int result" where
  "int_of v =
     (case v of
        PInt n \<Rightarrow> Inr n
      | PBool b \<Rightarrow> Inr (if b then 1 else 0)
      | PStr s \<Rightarrow> int_base 10 s
      | PFloat (Finite m e) \<Rightarrow> Inr (trunc_float m e)
      | PFloat NaN \<Rightarrow> Inl (ValueError ''cannot convert float NaN to integer'')
      | PFloat _ \<Rightarrow> Inl (OtherException ''OverflowError: cannot convert float infinity to integer'')
      | _ \<Rightarrow> Inl (TypeError ''int() argument must be a string or a real number''))"

definition int16_of :: "pyval \<Rightarrow> int result" where
  "int16_of v =
     (case v of
        PStr s \<Rightarrow> int_base 16 s
      | _ \<Rightarrow> Inl (TypeError ''int() can't convert non-string with explicit base''))"

section \<open>The policy\<close>

definition allowed_settlement_chain_ids :: "int list" where
  "allowed_settlement_chain_ids = [1337, 31337, 84532, 11155111]"

definition require_address :: "string \<Rightarrow> string \<Rightarrow> string result" where
  "require_address field v =
     (let hex_value = removeprefix v ''0x'' in
      if length hex_value \<noteq> 40
      then Inl (SettlementSafetyError (field @ '' must be an exact 20-byte EVM address''))
      else case py_int 16 hex_value of
        None \<Rightarrow> Inl (SettlementSafetyError (field @ '' must be a hexadecimal EVM address''))
      | Some numeric \<Rightarrow>
          if numeric = 0 then Inl (SettlementSafetyError (field @ '' must not be the zero address''))
          else Inr (''0x'' @ lower hex_value))"

definition parse_chain_id :: "pyval \<Rightarrow> int result" where
  "parse_chain_id raw =
     (case raw of
        PStr s \<Rightarrow>
          if \<not> startswith s ''0x''
          then Inl (SettlementSafetyError ''eth_chainId returned a malformed result'')
          else (case py_int 16 s of
            None \<Rightarrow> Inl (SettlementSafetyError ''eth_chainId returned a malformed result'')
          | Some n \<Rightarrow> if n \<le> 0 then Inl (SettlementSafetyError ''eth_chainId returned an invalid chain id'')
                      else Inr n)
      | _ \<Rightarrow> Inl (SettlementSafetyError ''eth_chainId returned a malformed result''))"

definition require_deployed_code :: "string \<Rightarrow> unit result" where
  "require_deployed_code bytecode =
     (if \<not> startswith bytecode ''0x''
      then Inl (SettlementSafetyError ''eth_getCode returned a malformed result'')
      else let hex_code = drop 2 bytecode in
      if hex_code = []
      then Inl (SettlementSafetyError ''configured token address has no deployed contract code'')
      else case py_int 16 hex_code of
        None \<Rightarrow> Inl (SettlementSafetyError ''eth_getCode returned a malformed result'')
      | Some numeric \<Rightarrow>
          if numeric = 0
          then Inl (SettlementSafetyError ''configured token address has no deployed contract code'')
          else if odd (length hex_code)
          then Inl (SettlementSafetyError ''eth_getCode returned a malformed result'')
          else Inr ())"

definition require_exact_amount :: "pyval \<Rightarrow> int \<Rightarrow> unit result" where
  "require_exact_amount raw expected =
     (if (case raw of
            PInt n \<Rightarrow> False
          | PStr s \<Rightarrow> s = [] \<or> \<not> py_isascii s \<or> \<not> py_isdecimal s
          | _ \<Rightarrow> True)
      then Inl (SettlementSafetyError ''authorization amount must be an integer'')
      else
      bindR (int_of raw) (\<lambda>amount.
      if expected \<le> 0 \<or> expected \<ge> 2 ^ 256
      then Inl (SettlementSafetyError ''configured order amount is outside uint256 payment bounds'')
      else if amount \<noteq> expected
      then Inl (SettlementSafetyError ''authorization amount does not match the quoted order amount'')
      else Inr ()))"

definition require_safe_submission ::
  "int \<Rightarrow> string \<Rightarrow> string \<Rightarrow> string \<Rightarrow> string \<Rightarrow> pyval \<Rightarrow> int \<Rightarrow> unit rpc" where
  "require_safe_submission configured_chain_id token_address payer_address payee_address
       authorization_to authorization_amount expected_amount =
     (if configured_chain_id \<notin> set allowed_settlement_chain_ids
      then raiseS (SettlementSafetyError ''chain is not in the local/testnet allowlist'')
      else
      bindS (call ''eth_chainId'' []) (\<lambda>raw.
      bindS (liftS (parse_chain_id raw)) (\<lambda>actual_chain_id.
      if actual_chain_id \<noteq> configured_chain_id
      then raiseS (SettlementSafetyError ''RPC chain mismatch'')
      else
      bindS (liftS (require_address ''token address'' token_address)) (\<lambda>token.
      bindS (liftS (require_address ''payer address'' payer_address)) (\<lambda>_.
      bindS (liftS (require_address ''payee address'' payee_address)) (\<lambda>payee.
      bindS (liftS (require_address ''authorization payee'' authorization_to)) (\<lambda>authorized_payee.
      if authorized_payee \<noteq> payee
      then raiseS (SettlementSafetyError ''authorization payee does not match the configured merchant'')
      else
      bindS (liftS (require_exact_amount authorization_amount expected_amount)) (\<lambda>_.
      bindS (get_code token (BlockTag ''latest'')) (\<lambda>bytecode.
      liftS (require_deployed_code bytecode))))))))))"

section \<open>Facts\<close>

lemma require_address_ok:
  assumes "require_address field v = Inr a"
  shows "\<exists>h n. h = removeprefix v ''0x'' \<and> length h = 40 \<and> py_int 16 h = Some n \<and> n \<noteq> 0 \<and> a = ''0x'' @ lower h"
  using assms by (auto simp: require_address_def Let_def split: if_splits option.splits)

lemma require_exact_amount_ok:
  assumes "require_exact_amount raw expected = Inr u"
  shows "(raw = PInt expected \<or> (\<exists>s. raw = PStr s \<and> py_isdecimal s \<and> py_int 10 s = Some expected)) \<and>
    0 < expected \<and> expected < 2 ^ 256"
  using assms
  by (auto simp: require_exact_amount_def ok_iff int_of_def int_base_def
      split: pyval.splits if_splits option.splits)

lemma parse_chain_id_ok:
  assumes "parse_chain_id v = Inr n"
  shows "\<exists>s. v = PStr s \<and> startswith s ''0x'' \<and> py_int 16 s = Some n \<and> 0 < n"
  using assms by (auto simp: parse_chain_id_def split: pyval.splits if_splits option.splits)

lemma require_deployed_code_ok:
  assumes "require_deployed_code bc = Inr u"
  shows "\<exists>n. startswith bc ''0x'' \<and> py_int 16 (drop 2 bc) = Some n \<and> n \<noteq> 0 \<and> even (length (drop 2 bc))"
  using assms by (auto simp: require_deployed_code_def Let_def split: if_splits option.splits)

lemma require_safe_submission_reads: "reads_only (require_safe_submission cid tok payer payee ato val ex)"
  unfolding require_safe_submission_def
  by (intro reads_only_intros client_reads_only) (simp add: read_methods_def)

lemma require_safe_submission_keeps: "keepsS rpc_mono (require_safe_submission cid tok payer payee ato val ex)"
  unfolding require_safe_submission_def by (intro rpc_keeps client_keeps)

section \<open>A concrete submission\<close>

definition safe_node :: transport where
  "safe_node req =
     (case req of
        PDict d \<Rightarrow>
          Inr (PDict [(PStr ''jsonrpc'', PStr ''2.0''), (PStr ''id'', dict_get d ''id''),
            (PStr ''result'', PStr (if dict_get d ''method'' = PStr ''eth_chainId'' then ''0x7a69'' else ''0x6001''))])
      | _ \<Rightarrow> Inl (RpcError ''no object''))"

definition safe_client :: "int \<Rightarrow> rpc_client" where
  "safe_client i = \<lparr>rpc_id = i, rpc_transport = safe_node\<rparr>"

abbreviation "safe_run \<equiv> require_safe_submission 31337 (''0x'' @ replicate 40 (CHR ''A''))
  (''0x'' @ replicate 40 (CHR ''1'')) (''0x'' @ replicate 40 (CHR ''b'')) (''0x'' @ replicate 40 (CHR ''B''))
  (PStr ''10000'') 10000 (safe_client 0)"

lemma safe_run_ok: "safe_run = (Inr (), safe_client 2)"
proof -
  have f: "fst safe_run = Inr ()" "rpc_id (snd safe_run) = 2" by code_simp+
  obtain r c where run: "safe_run = (r, c)" by fastforce
  have "rpc_transport c = safe_node"
    using keepsS_D[OF require_safe_submission_keeps run] by (simp add: rpc_mono_def safe_client_def)
  with f run show ?thesis by (cases c) (auto simp: safe_client_def)
qed

section \<open>Properties\<close>

text \<open>
  C30: Whatever the safety policy lets through is a test payment to the merchant for the
  quoted amount: the configured chain is one of the four local or test chains, the node
  itself reports that chain, the authorization pays the configured merchant exactly the
  expected positive amount, and the node returned non-zero code at the token address.
\<close>

theorem require_safe_submission_sound:
  assumes "require_safe_submission cid tok payer payee ato val expected c = (Inr u, c')"
  shows "cid \<in> {1337, 31337, 84532, 11155111}
    \<and> (\<exists>s. answered c c' ''eth_chainId'' [] (PStr s) \<and> py_int 16 s = Some cid)
    \<and> lower (removeprefix ato ''0x'') = lower (removeprefix payee ''0x'')
    \<and> (val = PInt expected \<or> (\<exists>s. val = PStr s \<and> py_isdecimal s \<and> py_int 10 s = Some expected))
    \<and> 0 < expected \<and> expected < 2 ^ 256
    \<and> (\<exists>bc n. answered c c' ''eth_getCode''
           [PStr (''0x'' @ lower (removeprefix tok ''0x'')), PStr ''latest''] (PStr bc) \<and>
         match_data bc \<and> py_int 16 (drop 2 bc) = Some n \<and> n \<noteq> 0)"
proof -
  obtain v c1 a token payer' bc where cid: "cid \<in> set allowed_settlement_chain_ids"
    and 1: "call ''eth_chainId'' [] c = (Inr v, c1)" and v: "parse_chain_id v = Inr cid"
    and addr: "require_address ''token address'' tok = Inr token"
      "require_address ''payer address'' payer = Inr payer'"
      "require_address ''payee address'' payee = Inr a" "require_address ''authorization payee'' ato = Inr a"
    and val: "require_exact_amount val expected = Inr ()"
    and 2: "get_code token (BlockTag ''latest'') c1 = (Inr bc, c')" and bc: "require_deployed_code bc = Inr u"
    using assms by (auto simp: require_safe_submission_def bindS_ok split: if_splits)
  note k = keepsS_D[OF keeps_call 1] keepsS_D[OF client_keeps(9) 2]
  have tok: "token = ''0x'' @ lower (removeprefix tok ''0x'')"
    and pay: "lower (removeprefix ato ''0x'') = lower (removeprefix payee ''0x'')"
    using require_address_ok[OF addr(1)] require_address_ok[OF addr(3)] require_address_ok[OF addr(4)] by auto
  have "answered c1 c' ''eth_getCode'' [PStr token, PStr ''latest''] (PStr bc)" "match_data bc"
    using 2 by (auto simp: get_code_def bindS_ok anvil_data_ok block_param_ok dest!: call_answered)
  then have "\<exists>bc n. answered c c' ''eth_getCode''
       [PStr (''0x'' @ lower (removeprefix tok ''0x'')), PStr ''latest''] (PStr bc) \<and>
     match_data bc \<and> py_int 16 (drop 2 bc) = Some n \<and> n \<noteq> 0"
    using answered_mono[OF _ k(1) rpc_mono_refl] require_deployed_code_ok[OF bc] unfolding tok by blast
  moreover have "\<exists>s. answered c c' ''eth_chainId'' [] (PStr s) \<and> py_int 16 s = Some cid"
    using answered_mono[OF call_answered[OF 1] rpc_mono_refl k(2)] parse_chain_id_ok[OF v] by blast
  moreover have "cid \<in> {1337, 31337, 84532, 11155111}" using cid by (simp add: allowed_settlement_chain_ids_def)
  ultimately show ?thesis using require_exact_amount_ok[OF val] pay by blast
qed

theorem require_safe_submission_sound_witness:
  "\<exists>s. answered (safe_client 0) (safe_client 2) ''eth_chainId'' [] (PStr s) \<and> py_int 16 s = Some 31337"
  using require_safe_submission_sound[OF safe_run_ok] by blast

text \<open>
  The address test of the policy is not exact.  It reads the digits with \<^verbatim>\<open>int(hex, 16)\<close>, so
  a second prefix, digit separators or a sign are accepted as a 20-byte address.
\<close>

theorem require_address_not_exact:
  "require_address ''payer address'' (''0x0x'' @ replicate 38 (CHR ''1'')) = Inr (''0x0x'' @ replicate 38 (CHR ''1''))
   \<and> require_address ''payer address'' (''0x'' @ replicate 20 (CHR ''1'') @ ''_'' @ replicate 19 (CHR ''1'')) =
       Inr (''0x'' @ replicate 20 (CHR ''1'') @ ''_'' @ replicate 19 (CHR ''1''))
   \<and> require_address ''payer address'' (''0x-'' @ replicate 39 (CHR ''1'')) = Inr (''0x-'' @ replicate 39 (CHR ''1''))
   \<and> \<not> match_hex 40 (''0x-'' @ replicate 39 (CHR ''1''))"
  by code_simp

end
