(* ===== verification/Confirmer.thy ===== *)
theory Confirmer
  imports Chain
begin

text \<open>
  \<^verbatim>\<open>psv/reference_sut/confirmer.py\<close>: the confirmation of a settlement by watching one event
  signature.  The injected log fetcher is a parameter, an operation on some state.
\<close>

section \<open>Helpers\<close>

definition confirmer_topic_addr :: "string \<Rightarrow> string" where
  "confirmer_topic_addr addr = ''0x'' @ rjust 64 (CHR ''0'') (removeprefix (lower addr) ''0x'')"

definition topic_nonce :: "string \<Rightarrow> string" where
  "topic_nonce nonce = ''0x'' @ rjust 64 (CHR ''0'') (removeprefix (lower nonce) ''0x'')"

definition same_hex :: "pyval \<Rightarrow> string \<Rightarrow> bool" where
  "same_hex left right = (case left of PStr s \<Rightarrow> lower s = lower right | _ \<Rightarrow> False)"

text \<open>A Python bool is an int.\<close>

definition confirmer_quantity :: "pyval \<Rightarrow> int option" where
  "confirmer_quantity v =
     (case v of
        PInt n \<Rightarrow> Some n
      | PBool b \<Rightarrow> Some (if b then 1 else 0)
      | PStr s \<Rightarrow> py_int 16 s
      | _ \<Rightarrow> None)"

definition log_topics :: "pydict \<Rightarrow> pyval list" where
  "log_topics log = (case dict_get log ''topics'' of PList ts \<Rightarrow> ts | _ \<Rightarrow> [])"

definition receipt_log_matches_fetched :: "pydict \<Rightarrow> pydict list \<Rightarrow> bool" where
  "receipt_log_matches_fetched receipt_log fetched_logs =
     (case (dict_get receipt_log ''transactionHash'', confirmer_quantity (dict_get receipt_log ''logIndex'')) of
        (PStr tx_hash, Some log_index) \<Rightarrow>
          (\<exists>candidate\<in>set fetched_logs.
             same_hex (dict_get candidate ''transactionHash'') tx_hash \<and>
             confirmer_quantity (dict_get candidate ''logIndex'') = Some log_index)
      | _ \<Rightarrow> False)"

section \<open>The decision\<close>

definition matches_topics :: "pydict \<Rightarrow> string \<Rightarrow> string \<Rightarrow> string \<Rightarrow> bool" where
  "matches_topics log t0 t1 t2 =
     (case log_topics log of
        [a, b, c] \<Rightarrow> same_hex a t0 \<and> same_hex b t1 \<and> same_hex c t2
      | _ \<Rightarrow> False)"

text \<open>The guards of the loop body up to the log index (lines 126 to 136).\<close>

definition relevant_index :: "string \<Rightarrow> string \<Rightarrow> int \<Rightarrow> pydict \<Rightarrow> int option" where
  "relevant_index token submitted_tx number log =
     (if dict_get log ''removed'' = PBool True then None
      else if \<not> same_hex (dict_get log ''address'') token then None
      else if \<not> same_hex (dict_get log ''transactionHash'') submitted_tx then None
      else if confirmer_quantity (dict_get log ''blockNumber'') \<noteq> Some number then None
      else confirmer_quantity (dict_get log ''logIndex''))"

definition is_transfer_log :: "string \<Rightarrow> string \<Rightarrow> string \<Rightarrow> int \<Rightarrow> pydict list \<Rightarrow> pydict \<Rightarrow> bool" where
  "is_transfer_log topic0 payer payee expected_value fetched log \<longleftrightarrow>
     matches_topics log topic0 (confirmer_topic_addr payer) (confirmer_topic_addr payee) \<and>
     confirmer_quantity (dict_get log ''data'') = Some expected_value \<and>
     receipt_log_matches_fetched log fetched"

definition is_authorization_log :: "string \<Rightarrow> string \<Rightarrow> pydict \<Rightarrow> bool" where
  "is_authorization_log payer nonce log \<longleftrightarrow>
     matches_topics log topic_authorization_used (confirmer_topic_addr payer) (topic_nonce nonce)"

fun scan_logs ::
  "(pydict \<Rightarrow> int option) \<Rightarrow> (pydict \<Rightarrow> bool) \<Rightarrow> (pydict \<Rightarrow> bool) \<Rightarrow>
     int option \<Rightarrow> int option \<Rightarrow> pydict list \<Rightarrow> int option \<times> int option" where
  "scan_logs idx transfer auth t a [] = (t, a)"
| "scan_logs idx transfer auth t a (log # logs) =
     (case idx log of
        None \<Rightarrow> scan_logs idx transfer auth t a logs
      | Some i \<Rightarrow> scan_logs idx transfer auth (if transfer log then Some i else t)
                    (if auth log then Some i else a) logs)"

definition mappings :: "pyval list \<Rightarrow> pydict list" where
  "mappings vs = concat (map (\<lambda>v. case v of PDict d \<Rightarrow> [d] | _ \<Rightarrow> []) vs)"

type_synonym 's log_fetcher = "string \<Rightarrow> string option list \<Rightarrow> int \<Rightarrow> ('s, pydict list) op"

text \<open>Lines 118 to 162: what the receipt logs decide, given the fetched logs.\<close>

definition decide_index ::
  "string \<Rightarrow> string \<Rightarrow> string \<Rightarrow> string \<Rightarrow> int \<Rightarrow> string \<Rightarrow> string \<Rightarrow> int \<Rightarrow> pydict list \<Rightarrow> pyval \<Rightarrow> int option" where
  "decide_index watched_topic0 token payer payee expected_value authorization_nonce submitted_tx number
       fetched raw_receipt_logs =
     (case raw_receipt_logs of
        PList raw \<Rightarrow>
          (case scan_logs (relevant_index token submitted_tx number)
                  (is_transfer_log watched_topic0 payer payee expected_value fetched)
                  (is_authorization_log payer authorization_nonce) None None (mappings raw) of
             (Some t, Some a) \<Rightarrow> if t \<noteq> a then Some t else None
           | _ \<Rightarrow> None)
      | _ \<Rightarrow> None)"

definition settlement_log_index ::
  "'s log_fetcher \<Rightarrow> string \<Rightarrow> string \<Rightarrow> string \<Rightarrow> string \<Rightarrow> int \<Rightarrow> string \<Rightarrow> string \<Rightarrow> pydict option \<Rightarrow> int \<Rightarrow>
     ('s, int option) op" where
  "settlement_log_index fetch_logs watched_topic0 token payer payee expected_value authorization_nonce
       submitted_tx receipt from_block =
     (case receipt of
        None \<Rightarrow> retS None
      | Some r \<Rightarrow>
          if confirmer_quantity (dict_get r ''status'') \<noteq> Some 1 then retS None
          else if \<not> same_hex (dict_get r ''transactionHash'') submitted_tx then retS None
          else if \<not> same_hex (dict_get r ''to'') token then retS None
          else case confirmer_quantity (dict_get r ''blockNumber'') of
            None \<Rightarrow> retS None
          | Some number \<Rightarrow>
              if number < from_block then retS None
              else
              bindS (fetch_logs token
                       [Some watched_topic0, Some (confirmer_topic_addr payer), Some (confirmer_topic_addr payee)]
                       number) (\<lambda>fetched.
              retS (decide_index watched_topic0 token payer payee expected_value authorization_nonce
                      submitted_tx number fetched (dict_get r ''logs''))))"

definition is_settled ::
  "'s log_fetcher \<Rightarrow> string \<Rightarrow> string \<Rightarrow> string \<Rightarrow> string \<Rightarrow> int \<Rightarrow> string \<Rightarrow> string \<Rightarrow> pydict option \<Rightarrow> int \<Rightarrow>
     ('s, bool) op" where
  "is_settled fetch_logs watched_topic0 token payer payee expected_value authorization_nonce
       submitted_tx receipt from_block =
     bindS (settlement_log_index fetch_logs watched_topic0 token payer payee expected_value
              authorization_nonce submitted_tx receipt from_block) (\<lambda>i. retS (i \<noteq> None))"

section \<open>Facts\<close>

lemma mappings_set [simp]: "d \<in> set (mappings vs) \<longleftrightarrow> PDict d \<in> set vs"
  by (induction vs) (auto simp: mappings_def split: pyval.splits)

lemma scan_logs_sound:
  assumes "scan_logs idx tr au t a logs = (t', a')"
  shows "t' = t \<or> (\<exists>log\<in>set logs. tr log \<and> idx log = t' \<and> t' \<noteq> None)"
    "a' = a \<or> (\<exists>log\<in>set logs. au log \<and> idx log = a' \<and> a' \<noteq> None)"
  using assms
  by (induction idx tr au t a logs rule: scan_logs.induct) (auto split: option.splits if_splits)

lemma scan_logs_none:
  "\<forall>log\<in>set logs. \<not> tr log \<Longrightarrow> fst (scan_logs idx tr au None a logs) = None"
  by (induction idx tr au "None :: int option" a logs rule: scan_logs.induct) (auto split: option.splits)

definition settlement_evidence ::
  "string \<Rightarrow> string \<Rightarrow> string \<Rightarrow> string \<Rightarrow> int \<Rightarrow> string \<Rightarrow> string \<Rightarrow> pydict \<Rightarrow> pydict list \<Rightarrow> int \<Rightarrow> bool" where
  "settlement_evidence topic0 token payer payee v nonce tx r fetched i \<longleftrightarrow>
     confirmer_quantity (dict_get r ''status'') = Some 1 \<and>
     same_hex (dict_get r ''transactionHash'') tx \<and> same_hex (dict_get r ''to'') token \<and>
     (\<exists>n logs log log' j. confirmer_quantity (dict_get r ''blockNumber'') = Some n \<and>
        dict_get r ''logs'' = PList logs \<and> PDict log \<in> set logs \<and> PDict log' \<in> set logs \<and> j \<noteq> i \<and>
        relevant_index token tx n log = Some i \<and> is_transfer_log topic0 payer payee v fetched log \<and>
        relevant_index token tx n log' = Some j \<and> is_authorization_log payer nonce log')"

lemma settlement_log_index_sound:
  assumes "settlement_log_index fetch topic0 token payer payee v nonce tx receipt from s = (Inr (Some i), s')"
  shows "\<exists>r n fetched. receipt = Some r \<and> from \<le> n \<and>
    confirmer_quantity (dict_get r ''blockNumber'') = Some n \<and>
    fetch token [Some topic0, Some (confirmer_topic_addr payer), Some (confirmer_topic_addr payee)] n s =
      (Inr fetched, s') \<and>
    settlement_evidence topic0 token payer payee v nonce tx r fetched i"
proof -
  obtain r n fetched where r: "receipt = Some r" "confirmer_quantity (dict_get r ''status'') = Some 1"
    "same_hex (dict_get r ''transactionHash'') tx" "same_hex (dict_get r ''to'') token"
    "confirmer_quantity (dict_get r ''blockNumber'') = Some n" "from \<le> n"
    and f: "fetch token [Some topic0, Some (confirmer_topic_addr payer), Some (confirmer_topic_addr payee)] n s =
      (Inr fetched, s')"
    and dec: "decide_index topic0 token payer payee v nonce tx n fetched (dict_get r ''logs'') = Some i"
    using assms
    by (auto simp: settlement_log_index_def bindS_ok split: option.splits if_splits)
  obtain raw j where raw: "dict_get r ''logs'' = PList raw" "i \<noteq> j"
    and sc: "scan_logs (relevant_index token tx n) (is_transfer_log topic0 payer payee v fetched)
      (is_authorization_log payer nonce) None None (mappings raw) = (Some i, Some j)"
    using dec
    by (cases "dict_get r ''logs''") (auto simp: decide_index_def split: option.splits prod.splits if_splits)
  show ?thesis
    using r f raw scan_logs_sound[OF sc] unfolding settlement_evidence_def by fastforce
qed

lemma evidence_watched_topic:
  assumes "settlement_evidence topic0 token payer payee v nonce tx r fetched i"
  shows "\<exists>logs log t ts. dict_get r ''logs'' = PList logs \<and> PDict log \<in> set logs \<and>
    log_topics log = t # ts \<and> same_hex t topic0"
proof -
  from assms obtain logs log where l: "dict_get r ''logs'' = PList logs" "PDict log \<in> set logs"
    and m: "matches_topics log topic0 (confirmer_topic_addr payer) (confirmer_topic_addr payee)"
    unfolding settlement_evidence_def is_transfer_log_def by blast
  from m obtain t ts where "log_topics log = t # ts" "same_hex t topic0"
    by (auto simp: matches_topics_def split: list.splits)
  with l show ?thesis by blast
qed

section \<open>A concrete receipt\<close>

definition conf_log :: "string \<Rightarrow> string \<Rightarrow> string \<Rightarrow> int \<Rightarrow> int \<Rightarrow> pydict" where
  "conf_log t0 t1 t2 v i = obj
     [(''address'', PStr ''0xA''), (''topics'', PList [PStr t0, PStr t1, PStr t2]), (''data'', PInt v),
      (''blockNumber'', PStr ''0x10''), (''transactionHash'', PStr ''0xE''), (''logIndex'', PInt i),
      (''removed'', PBool False)]"

definition conf_transfer :: pydict where
  "conf_transfer = conf_log topic_transfer (confirmer_topic_addr ''0x1'') (confirmer_topic_addr ''0x2'') 1000 3"

definition conf_auth :: pydict where
  "conf_auth = conf_log topic_authorization_used (confirmer_topic_addr ''0x1'') (topic_nonce ''0xD'') 0 2"

definition conf_receipt :: "pydict list \<Rightarrow> pydict" where
  "conf_receipt logs = obj
     [(''status'', PStr ''0x1''), (''transactionHash'', PStr ''0xe''), (''to'', PStr ''0xa''),
      (''blockNumber'', PStr ''0x10''), (''logs'', PList (map PDict logs))]"

definition conf_fetch :: "unit log_fetcher" where
  "conf_fetch token topics from = retS [conf_transfer]"

section \<open>Properties\<close>

text \<open>
  C40: The confirmer confirms nothing but the submitted settlement.  An index is returned only
  for a successful receipt of the submitted transaction to the token, whose block is not
  older than the order, that holds two different live logs of that transaction: the watched
  transfer from payer to payee of exactly the expected value, also present in the fetched
  logs, and the authorization of this payer and nonce.  The fetcher is a parameter.
\<close>

theorem settlement_log_index_exact:
  assumes "fst (settlement_log_index fetch topic0 token payer payee v nonce tx receipt from s) = Inr (Some i)"
  shows "\<exists>r n fetched. receipt = Some r \<and> from \<le> n \<and>
    confirmer_quantity (dict_get r ''blockNumber'') = Some n \<and>
    fst (fetch token [Some topic0, Some (confirmer_topic_addr payer), Some (confirmer_topic_addr payee)] n s) =
      Inr fetched \<and>
    settlement_evidence topic0 token payer payee v nonce tx r fetched i"
  using assms settlement_log_index_sound by (metis fst_conv prod.collapse)

theorem settlement_log_index_exact_witness:
  "\<exists>fetched. settlement_evidence topic_transfer ''0xa'' ''0x1'' ''0x2'' 1000 ''0xD'' ''0xe''
     (conf_receipt [conf_auth, conf_transfer]) fetched 3"
proof -
  have "fst (settlement_log_index conf_fetch topic_transfer ''0xa'' ''0x1'' ''0x2'' 1000 ''0xD'' ''0xe''
    (Some (conf_receipt [conf_auth, conf_transfer])) 4 ()) = Inr (Some 3)" by code_simp
  from settlement_log_index_exact[OF this] show ?thesis by auto
qed

text \<open>
  The watched signature is the confirmer's blind spot: when no log of the receipt carries
  the watched signature, because the token now emits another one, the payment is reported as
  unsettled for every receipt, nonce and amount, whatever the fetcher returns.
\<close>

theorem confirmer_blind_to_drift:
  assumes "dict_get r ''logs'' = PList logs"
    and "\<forall>log\<in>set (mappings logs). \<forall>t ts. log_topics log = t # ts \<longrightarrow> \<not> same_hex t topic0"
  shows "fst (settlement_log_index fetch topic0 token payer payee v nonce tx (Some r) from s) \<noteq> Inr (Some i)"
proof
  assume "fst (settlement_log_index fetch topic0 token payer payee v nonce tx (Some r) from s) = Inr (Some i)"
  then obtain s' where "settlement_log_index fetch topic0 token payer payee v nonce tx (Some r) from s =
    (Inr (Some i), s')" by (metis prod.collapse)
  from settlement_log_index_sound[OF this] obtain fetched where
    "settlement_evidence topic0 token payer payee v nonce tx r fetched i" by blast
  from evidence_watched_topic[OF this] assms show False by auto
qed

theorem confirmer_blind_to_drift_witness:
  "fst (settlement_log_index conf_fetch topic_transfer ''0xa'' ''0x1'' ''0x2'' 1000 ''0xD'' ''0xe''
     (Some (conf_receipt [conf_auth, conf_log topic_transfer_v2 (confirmer_topic_addr ''0x1'')
        (confirmer_topic_addr ''0x2'') 1000 3])) 4 ()) \<noteq> Inr (Some 3)"
proof (rule confirmer_blind_to_drift)
  let ?v2 = "conf_log topic_transfer_v2 (confirmer_topic_addr ''0x1'') (confirmer_topic_addr ''0x2'') 1000 3"
  show "dict_get (conf_receipt [conf_auth, ?v2]) ''logs'' = PList [PDict conf_auth, PDict ?v2]" by code_simp
  have "log_topics conf_auth = [PStr topic_authorization_used, PStr (confirmer_topic_addr ''0x1''), PStr (topic_nonce ''0xD'')]"
    "log_topics ?v2 = [PStr topic_transfer_v2, PStr (confirmer_topic_addr ''0x1''), PStr (confirmer_topic_addr ''0x2'')]"
    "\<not> same_hex (PStr topic_authorization_used) topic_transfer" "\<not> same_hex (PStr topic_transfer_v2) topic_transfer"
    by code_simp+
  then show "\<forall>log\<in>set (mappings [PDict conf_auth, PDict ?v2]).
      \<forall>t ts. log_topics log = t # ts \<longrightarrow> \<not> same_hex t topic_transfer"
    by auto
qed

end
