(* ===== verification/Quote_Option.thy ===== *)
theory Quote_Option
  imports Complex_Main Chain
begin

text \<open>
  \<^verbatim>\<open>psv/quote_option.py\<close>: the value of an unexpired quote as an option for the buyer, in exact
  arithmetic.  A tolerance is the \<^verbatim>\<open>Decimal\<close> that \<^verbatim>\<open>Decimal(str(value))\<close> gives, or \<open>None\<close> for a
  text that it rejects: a finite decimal is a signed coefficient times a power of ten.
\<close>

section \<open>Decimals\<close>

datatype decimal = DFinite int int | DInfinity bool | DNaN

definition amount :: "string \<Rightarrow> int \<Rightarrow> int result" where
  "amount what v = (if \<not> uint256 v then Inl (ValueError (what @ '' must be a uint256'')) else Inr v)"

text \<open>\<^verbatim>\<open>as_integer_ratio\<close> of a finite decimal: the reduced fraction, with a positive denominator.\<close>

definition as_integer_ratio :: "int \<Rightarrow> int \<Rightarrow> int \<times> int" where
  "as_integer_ratio c e =
     (if e \<ge> 0 then (c * 10 ^ nat e, 1)
      else let d = 10 ^ nat (- e); g = gcd c d in (c div g, d div g))"

definition tolerance :: "decimal option \<Rightarrow> (int \<times> int) result" where
  "tolerance v =
     (case v of
        None \<Rightarrow> Inl (ValueError ''invalid tolerance'')
      | Some (DFinite c e) \<Rightarrow>
          (case as_integer_ratio c e of (n, d) \<Rightarrow>
             if \<not> (0 \<le> n \<and> n \<le> d)
             then Inl (ValueError ''tolerance must be finite and within [0, 1]'')
             else Inr (n, d))
      | Some _ \<Rightarrow> Inl (ValueError ''tolerance must be finite and within [0, 1]''))"

section \<open>Operations\<close>

definition option_value :: "int \<Rightarrow> int \<Rightarrow> int result" where
  "option_value locked_price fair_value_now =
     bindR (amount ''locked_price'' locked_price) (\<lambda>locked.
     bindR (amount ''fair_value_now'' fair_value_now) (\<lambda>fair.
     Inr (max 0 (fair - locked))))"

definition quote_is_stale :: "int \<Rightarrow> int \<Rightarrow> decimal option \<Rightarrow> bool result" where
  "quote_is_stale locked_price fair_value_now tol =
     bindR (amount ''locked_price'' locked_price) (\<lambda>locked.
     bindR (amount ''fair_value_now'' fair_value_now) (\<lambda>fair.
     bindR (tolerance tol) (\<lambda>(numerator, denominator).
     Inr (if locked = 0 then fair > 0
          else fair * denominator > locked * (denominator + numerator)))))"

record exploit_result =
  er_rounds :: int
  er_exercised :: int
  er_system_loss :: int

definition is_exploitable :: "exploit_result \<Rightarrow> bool" where
  "is_exploitable r \<longleftrightarrow> er_system_loss r > 0"

text \<open>A round is the pair of the locked price and the fair value at exercise.\<close>

fun attack_loop ::
  "decimal option \<Rightarrow> bool \<Rightarrow> (int \<times> int) list \<Rightarrow> int \<Rightarrow> int \<Rightarrow> (int \<times> int) result" where
  "attack_loop tol reprice [] exercised loss = Inr (exercised, loss)"
| "attack_loop tol reprice ((locked, fair) # rs) exercised loss =
     bindR (option_value locked fair) (\<lambda>gain.
     if gain \<le> 0 then attack_loop tol reprice rs exercised loss
     else
     bindR (if reprice then quote_is_stale locked fair tol else Inr False) (\<lambda>stale.
     if stale then attack_loop tol reprice rs exercised loss
     else if loss + gain > uint256_max then Inl (ValueError ''aggregate system_loss exceeds uint256'')
     else attack_loop tol reprice rs (exercised + 1) (loss + gain)))"

definition simulate_attacker ::
  "(int \<times> int) list \<Rightarrow> decimal option \<Rightarrow> bool \<Rightarrow> exploit_result result" where
  "simulate_attacker rounds tol reprice =
     bindR (tolerance tol) (\<lambda>_.
     bindR (attack_loop tol reprice rounds 0 0) (\<lambda>(exercised, loss).
     Inr \<lparr>er_rounds = int (length rounds), er_exercised = exercised, er_system_loss = loss\<rparr>))"

section \<open>Facts\<close>

lemma amount_ok [ok_iff]: "amount what v = Inr n \<longleftrightarrow> uint256 v \<and> n = v"
  by (auto simp: amount_def)

lemma as_integer_ratio_value:
  assumes "as_integer_ratio c e = (n, d)"
  shows "0 < d" "rat_of_int n / rat_of_int d = rat_of_int c * 10 powi e"
proof -
  have "0 < d \<and> rat_of_int n / rat_of_int d = rat_of_int c * 10 powi e"
  proof (cases "e \<ge> 0")
    case True
    then show ?thesis using assms by (auto simp: as_integer_ratio_def power_int_def)
  next
    case False
    let ?D = "10 ^ nat (- e) :: int" and ?g = "gcd c (10 ^ nat (- e))"
    have nd: "n = c div ?g" "d = ?D div ?g" using assms False by (auto simp: as_integer_ratio_def Let_def)
    have g: "0 < ?g" by simp
    have c: "c = n * ?g" and D: "?D = d * ?g" using nd by simp_all
    have "0 < d * ?g" using D by (metis zero_less_numeral zero_less_power)
    then have "0 < d" using g by (metis zero_less_mult_pos2)
    have "rat_of_int n / rat_of_int d = rat_of_int c / rat_of_int ?D"
      using g \<open>0 < d\<close> by (subst c, subst D) (simp del: of_int_power)
    also have "\<dots> = rat_of_int c * 10 powi e" using False by (simp add: power_int_def field_simps)
    finally show ?thesis using \<open>0 < d\<close> by simp
  qed
  then show "0 < d" "rat_of_int n / rat_of_int d = rat_of_int c * 10 powi e" by simp_all
qed

lemma tolerance_ok:
  "tolerance t = Inr (n, d) \<longleftrightarrow>
     (\<exists>c e. t = Some (DFinite c e) \<and> as_integer_ratio c e = (n, d) \<and> 0 \<le> n \<and> n \<le> d)"
  by (auto simp: tolerance_def split: option.splits decimal.splits prod.splits if_splits)

lemma quote_is_stale_ok:
  assumes "tolerance t = Inr (n, d)" "uint256 locked" "uint256 fair"
  shows "quote_is_stale locked fair t = Inr (fair * d > locked * (d + n))"
proof -
  have "0 < d" using assms(1) as_integer_ratio_value(1) by (auto simp: tolerance_ok)
  then show ?thesis
    using assms by (auto simp: quote_is_stale_def amount_def uint256_def zero_less_mult_iff)
qed

text \<open>What one round adds to the loss, and what it costs the system at most under repricing.\<close>

lemma attack_step:
  assumes "attack_loop tol reprice ((locked, fair) # rs) x l = Inr (y, m)" "tolerance tol = Inr (n, d)"
  obtains x' g where "attack_loop tol reprice rs x' (l + g) = Inr (y, m)" "0 \<le> g" "0 \<le> locked"
    "g \<le> max 0 (fair - locked)" "reprice \<Longrightarrow> g * d \<le> n * locked"
    "\<not> reprice \<Longrightarrow> g = max 0 (fair - locked)" "g = 0 \<longleftrightarrow> x' = x"
proof -
  let ?g = "max 0 (fair - locked)"
  have u: "uint256 locked" "uint256 fair" and ov: "option_value locked fair = Inr ?g"
    using assms(1) by (auto simp: bindR_ok option_value_def ok_iff)
  have dn: "0 \<le> n" "0 < d" using assms(2) as_integer_ratio_value(1) by (auto simp: tolerance_ok)
  have l0: "0 \<le> locked" using u by (simp add: uint256_def)
  note st = quote_is_stale_ok[OF assms(2) u]
  show thesis
  proof (cases "?g \<le> 0 \<or> reprice \<and> locked * (d + n) < fair * d")
    case True
    then have "attack_loop tol reprice rs x (l + 0) = Inr (y, m)"
      using assms(1) by (auto simp: ov st bindR_ok split: if_splits)
    moreover have "\<not> reprice \<Longrightarrow> 0 = ?g" using True by simp
    ultimately show thesis using that[of x 0] l0 dn by simp
  next
    case False
    then have "attack_loop tol reprice rs (x + 1) (l + ?g) = Inr (y, m)" and pos: "0 < fair - locked"
      using assms(1) by (auto simp: ov st bindR_ok split: if_splits)
    moreover have "reprice \<Longrightarrow> ?g * d \<le> n * locked" using False pos by (simp add: algebra_simps)
    ultimately show thesis using that[of "x + 1" ?g] l0 by simp
  qed
qed

lemma attack_loop_mono:
  "attack_loop tol reprice rs x l = Inr (y, m) \<Longrightarrow> tolerance tol = Inr (n, d) \<Longrightarrow> l \<le> m"
proof (induction rs arbitrary: x l)
  case (Cons r rs)
  obtain locked fair where r: "r = (locked, fair)" by fastforce
  from Cons.prems[unfolded r] obtain x' g where "attack_loop tol reprice rs x' (l + g) = Inr (y, m)" "0 \<le> g"
    by (rule attack_step)
  then show ?case using Cons.IH Cons.prems(2) by fastforce
qed simp

lemma attack_loop_bound:
  "attack_loop tol True rs x l = Inr (y, m) \<Longrightarrow> tolerance tol = Inr (n, d) \<Longrightarrow>
     (m - l) * d \<le> n * sum_list (map fst rs)"
proof (induction rs arbitrary: x l)
  case (Cons r rs)
  obtain locked fair where r: "r = (locked, fair)" by fastforce
  from Cons.prems[unfolded r] obtain x' g
    where "attack_loop tol True rs x' (l + g) = Inr (y, m)" and g: "g * d \<le> n * locked"
    by (rule attack_step) blast
  then have "(m - (l + g)) * d \<le> n * sum_list (map fst rs)" using Cons.IH Cons.prems(2) by blast
  with g show ?case by (simp add: r algebra_simps)
qed simp

lemma attack_loop_gain:
  "attack_loop tol False rs x l = Inr (y, m) \<Longrightarrow> tolerance tol = Inr (n, d) \<Longrightarrow>
     m = l + (\<Sum>(locked, fair)\<leftarrow>rs. max 0 (fair - locked))"
proof (induction rs arbitrary: x l)
  case (Cons r rs)
  obtain locked fair where r: "r = (locked, fair)" by fastforce
  from Cons.prems[unfolded r] obtain x' g
    where "attack_loop tol False rs x' (l + g) = Inr (y, m)" and g: "g = max 0 (fair - locked)"
    by (rule attack_step) blast
  then show ?case using Cons.IH Cons.prems(2) by (fastforce simp: r)
qed simp

section \<open>Properties\<close>

text \<open>
  The stale-quote test is exact: on valid amounts and a valid tolerance it says whether
  the fair value exceeds the locked price by more than the tolerated fraction, as rational
  numbers, with no rounding.
\<close>

theorem quote_is_stale_exact:
  assumes "quote_is_stale locked fair (Some (DFinite c e)) = Inr b"
  shows "b \<longleftrightarrow> rat_of_int fair > rat_of_int locked * (1 + rat_of_int c * 10 powi e)"
proof -
  obtain n d where t: "tolerance (Some (DFinite c e)) = Inr (n, d)" and u: "uint256 locked" "uint256 fair"
    using assms by (auto simp: quote_is_stale_def ok_iff)
  then have r: "as_integer_ratio c e = (n, d)" by (auto simp: tolerance_ok)
  note v = as_integer_ratio_value[OF r]
  have "b \<longleftrightarrow> locked * (d + n) < fair * d" using assms quote_is_stale_ok[OF t u] by simp
  also have "\<dots> \<longleftrightarrow> rat_of_int (locked * (d + n)) < rat_of_int (fair * d)" by (simp only: of_int_less_iff)
  also have "\<dots> \<longleftrightarrow> rat_of_int locked * (1 + rat_of_int n / rat_of_int d) < rat_of_int fair"
    using v(1) by (simp add: field_simps)
  finally show ?thesis using v(2) by simp
qed

theorem quote_is_stale_exact_witness:
  "True \<longleftrightarrow> rat_of_int 10201 > rat_of_int 10000 * (1 + rat_of_int 2 * 10 powi (- 2))"
proof -
  have "quote_is_stale 10000 10201 (Some (DFinite 2 (- 2))) = Inr True" by code_simp
  from quote_is_stale_exact[OF this] show ?thesis .
qed

text \<open>
  Repricing caps the free option.  With repricing on, what a rational buyer takes from
  the system over any sequence of quotes is at most the tolerated fraction of the locked
  prices (nothing when the tolerance is zero); without it the loss is every positive
  difference between fair value and locked price, and it is never negative.
\<close>

theorem simulate_attacker_loss:
  assumes "tolerance tol = Inr (n, d)"
  shows "(simulate_attacker rounds tol True = Inr r \<longrightarrow>
            0 \<le> er_system_loss r \<and> er_system_loss r * d \<le> n * sum_list (map fst rounds)) \<and>
         (simulate_attacker rounds tol False = Inr r \<longrightarrow>
            er_system_loss r = (\<Sum>(locked, fair)\<leftarrow>rounds. max 0 (fair - locked)))"
  using assms attack_loop_bound[of tol rounds 0 0 _ _ n d] attack_loop_mono[of tol True rounds 0 0 _ _ n d]
    attack_loop_gain[of tol rounds 0 0 _ _ n d]
  by (auto simp: simulate_attacker_def ok_iff)

theorem simulate_attacker_loss_witness:
  "er_system_loss \<lparr>er_rounds = 2, er_exercised = 1, er_system_loss = 10\<rparr> * 50 \<le>
     1 * sum_list (map fst [(1000, 1010), (1000, 1100 :: int)])"
proof -
  have t: "tolerance (Some (DFinite 2 (- 2))) = Inr (1, 50)" by code_simp
  have "simulate_attacker [(1000, 1010), (1000, 1100)] (Some (DFinite 2 (- 2))) True =
    Inr \<lparr>er_rounds = 2, er_exercised = 1, er_system_loss = 10\<rparr>" by code_simp
  then show ?thesis using simulate_attacker_loss[OF t] by blast
qed

end
