(* ===== verification/Reference_Sut.thy ===== *)
theory Reference_Sut
  imports Divergence Reconciliation Safety Confirmer Quote_Option
begin

text \<open>
  \<^verbatim>\<open>psv/reference_sut/server.py\<close>: the merchant that quotes, submits, confirms and unlocks, with
  its ledger backup, restore and reconciliation.

  Parameters of the model, all of them values the source obtains from elsewhere: the random
  part of an order id and the current time are arguments of the operations that draw them;
  the record \<open>sut_env\<close> holds the signer of \<^verbatim>\<open>eth_account\<close> with its address, SHA-256, and the text
  \<^verbatim>\<open>str\<close> gives to a float, a list, a dict or another object.  The dict of orders is an
  association list.  Order objects are copied into and out of a backup by the source, so
  that values model them.
\<close>

section \<open>Configuration and state\<close>

record sut_config =
  cfg_token_address :: string
  cfg_merchant_address :: string
  cfg_chain_id :: int
  cfg_token_name :: string
  cfg_token_version :: string
  cfg_price :: int
  cfg_gas :: int
  cfg_reconciliation_enabled :: bool
  cfg_quote_ttl :: int
  cfg_reprice_on_pay :: bool
  cfg_reprice_tolerance :: "decimal option"
  cfg_idempotent_pay :: bool
  cfg_confirm_without_waiting :: bool
  cfg_receipt_tries :: int

record order =
  order_id :: string
  ord_amount :: int
  expires_at :: int
  quoted_fair_price :: int
  nonce_seen :: "string option"
  paid :: bool
  submitted_tx :: "string option"
  resource :: "string option"
  created_block :: int
  recovered :: bool
  settle_attempts :: int
  pending_tx :: "string option"
  pending_authorization :: "pydict option"
  ord_identity :: "settlement_identity option"

type_synonym ledger = "(string \<times> order) list"

record sut =
  orders :: ledger
  fair_price :: int
  sut_rpc :: rpc_client

record sut_env =
  env_account_address :: string
  env_sign :: "pydict \<Rightarrow> string result"
  env_sha256 :: "string \<Rightarrow> string"
  env_text :: "pyval \<Rightarrow> string"

type_synonym 'a sut_op = "(sut, 'a) op"

definition on_rpc :: "'a rpc \<Rightarrow> 'a sut_op" where
  "on_rpc m = (\<lambda>s. case m (sut_rpc s) of (r, c) \<Rightarrow> (r, s\<lparr>sut_rpc := c\<rparr>))"

definition catchS :: "(exn \<Rightarrow> bool) \<Rightarrow> ('s, 'a) op \<Rightarrow> ('s, 'a) op \<Rightarrow> ('s, 'a) op" where
  "catchS P m handler = (\<lambda>s. case m s of (Inl e, t) \<Rightarrow> if P e then handler t else (Inl e, t) | r \<Rightarrow> r)"

definition modify_order :: "string \<Rightarrow> (order \<Rightarrow> order) \<Rightarrow> unit sut_op" where
  "modify_order oid f = (\<lambda>s. (Inr (), s\<lparr>orders := AList.map_entry oid f (orders s)\<rparr>))"

text \<open>\<^verbatim>\<open>str(v)\<close>, and \<^verbatim>\<open>str(d[k])\<close>.\<close>

definition py_str :: "sut_env \<Rightarrow> pyval \<Rightarrow> string" where
  "py_str env v =
     (case v of
        PStr s \<Rightarrow> s
      | PInt n \<Rightarrow> py_str_int n
      | PBool b \<Rightarrow> py_bool b
      | PNone \<Rightarrow> ''None''
      | _ \<Rightarrow> env_text env v)"

definition str_item :: "sut_env \<Rightarrow> pydict \<Rightarrow> string \<Rightarrow> string result" where
  "str_item env d k = bindR (dict_item d k) (\<lambda>v. Inr (py_str env v))"

definition int_item :: "pydict \<Rightarrow> string \<Rightarrow> int result" where
  "int_item d k = bindR (dict_item d k) int_of"

section \<open>Construction\<close>

text \<open>
  \<^verbatim>\<open>__post_init__\<close> on a client: the token handle is checked, the fair price starts at the list
  price and the ledger is empty.  The account of the facilitator key is the signer in \<open>sut_env\<close>.
\<close>

definition sut_init :: "sut_config \<Rightarrow> rpc_client \<Rightarrow> sut result" where
  "sut_init cfg client =
     bindR (token_view_init (cfg_token_address cfg)) (\<lambda>_.
     Inr \<lparr>orders = [], fair_price = cfg_price cfg, sut_rpc = client\<rparr>)"

section \<open>Submission\<close>

definition gas_price_error :: "exn \<Rightarrow> bool" where
  "gas_price_error e \<longleftrightarrow>
     is_rpc_error e \<or> is_value_error e \<or> (case e of TypeError m \<Rightarrow> True | _ \<Rightarrow> False)"

definition settlement_tx :: "sut_config \<Rightarrow> string \<Rightarrow> int \<Rightarrow> int \<Rightarrow> pydict" where
  "settlement_tx cfg calldata gas_price nonce = obj
     [(''to'', PStr (cfg_token_address cfg)), (''data'', PStr calldata), (''value'', PInt 0),
      (''gas'', PInt (cfg_gas cfg)), (''gasPrice'', PInt gas_price), (''nonce'', PInt nonce),
      (''chainId'', PInt (cfg_chain_id cfg))]"

definition submit_settlement :: "sut_env \<Rightarrow> sut_config \<Rightarrow> pydict \<Rightarrow> string rpc" where
  "submit_settlement env cfg authorization =
     bindS (liftS (str_item env authorization ''from'')) (\<lambda>payer.
     bindS (liftS (str_item env authorization ''to'')) (\<lambda>ato.
     bindS (liftS (dict_item authorization ''value'')) (\<lambda>value.
     bindS (require_safe_submission (cfg_chain_id cfg) (cfg_token_address cfg) payer
              (cfg_merchant_address cfg) ato value (cfg_price cfg)) (\<lambda>_.
     bindS (liftS (int_item authorization ''value'')) (\<lambda>v.
     bindS (liftS (int_item authorization ''validAfter'')) (\<lambda>va.
     bindS (liftS (int_item authorization ''validBefore'')) (\<lambda>vb.
     bindS (liftS (str_item env authorization ''nonce'')) (\<lambda>n.
     bindS (liftS (str_item env authorization ''signature'')) (\<lambda>sig.
     bindS (liftS (settle_calldata payer ato v va vb n sig)) (\<lambda>calldata.
     bindS (call ''eth_getTransactionCount'' [PStr (env_account_address env), PStr ''pending'']) (\<lambda>count.
     bindS (liftS (int16_of count)) (\<lambda>nonce.
     bindS (catchS gas_price_error
              (bindS (call ''eth_gasPrice'' []) (\<lambda>g. liftS (int16_of g))) (retS 1000000000)) (\<lambda>gas_price.
     bindS (liftS (env_sign env (settlement_tx cfg calldata gas_price nonce))) (\<lambda>raw.
     send_raw_transaction raw))))))))))))))"

section \<open>Quoting and paying\<close>

definition new_order :: "string \<Rightarrow> int \<Rightarrow> int \<Rightarrow> int \<Rightarrow> int \<Rightarrow> order" where
  "new_order oid price expires fair created =
     \<lparr>order_id = oid, ord_amount = price, expires_at = expires, quoted_fair_price = fair,
      nonce_seen = None, paid = False, submitted_tx = None, resource = None, created_block = created,
      recovered = False, settle_attempts = 0, pending_tx = None, pending_authorization = None,
      ord_identity = None\<rparr>"

definition put_order :: "order \<Rightarrow> unit sut_op" where
  "put_order o' = (\<lambda>s. (Inr (), s\<lparr>orders := AList.update (order_id o') o' (orders s)\<rparr>))"

definition read_fair_price :: "int sut_op" where
  "read_fair_price = (\<lambda>s. (Inr (fair_price s), s))"

definition quote_response :: "sut_config \<Rightarrow> order \<Rightarrow> pydict" where
  "quote_response cfg o' = obj
     [(''order_id'', PStr (order_id o')), (''amount'', PStr (py_str_int (ord_amount o'))),
      (''payTo'', PStr (cfg_merchant_address cfg)), (''asset'', PStr (cfg_token_address cfg)),
      (''network'', PStr (''eip155:'' @ py_str_int (cfg_chain_id cfg))),
      (''extra'', PDict (obj [(''name'', PStr (cfg_token_name cfg)), (''version'', PStr (cfg_token_version cfg))])),
      (''expires_at'', PInt (expires_at o'))]"

definition quote :: "sut_config \<Rightarrow> string \<Rightarrow> int \<Rightarrow> pydict sut_op" where
  "quote cfg token_hex now =
     bindS read_fair_price (\<lambda>fair.
     bindS (on_rpc block_number) (\<lambda>created.
     let o' = new_order (''ord_'' @ token_hex) (cfg_price cfg) (now + cfg_quote_ttl cfg) fair created in
     bindS (put_order o') (\<lambda>_. retS (quote_response cfg o'))))"

definition opt_text :: "string option \<Rightarrow> pyval" where
  "opt_text v = (case v of None \<Rightarrow> PNone | Some t \<Rightarrow> PStr t)"

definition refused :: "string \<Rightarrow> string \<Rightarrow> pydict" where
  "refused oid why = obj [(''order_id'', PStr oid), (''settled'', PBool False), (''reason'', PStr why)]"

definition get_order :: "string \<Rightarrow> order option sut_op" where
  "get_order oid = (\<lambda>s. (Inr (map_of (orders s) oid), s))"

text \<open>The fetcher that \<^verbatim>\<open>__post_init__\<close> wires into the confirmer.\<close>

definition sut_fetcher :: "rpc_client log_fetcher" where
  "sut_fetcher addr topics from_block = get_logs addr topics (BlockNumber from_block) (BlockTag ''latest'')"

text \<open>The default delay of \<^verbatim>\<open>wait_for_receipt\<close>, the float nearest to 0.1.\<close>

definition receipt_delay :: pyfloat where
  "receipt_delay = Finite 3602879701896397 (- 55)"

definition await_receipt :: "sut_config \<Rightarrow> string \<Rightarrow> pydict option option sut_op" where
  "await_receipt cfg tx_hash =
     (if cfg_confirm_without_waiting cfg then retS (Some None)
      else catchS is_rpc_error
        (bindS (on_rpc (wait_for_receipt tx_hash (cfg_receipt_tries cfg) receipt_delay)) (\<lambda>r. retS (Some (Some r))))
        (retS None))"

definition clear_pending :: "order \<Rightarrow> order" where
  "clear_pending o' = o'\<lparr>pending_tx := None, pending_authorization := None\<rparr>"

definition set_pending :: "string \<Rightarrow> pydict \<Rightarrow> order \<Rightarrow> order" where
  "set_pending tx authorization o' = o'\<lparr>pending_tx := Some tx, pending_authorization := Some authorization\<rparr>"

definition unlock :: "string \<Rightarrow> order \<Rightarrow> order" where
  "unlock oid o' = o'\<lparr>paid := True, resource := Some (''premium-content::'' @ oid)\<rparr>"

text \<open>Lines 226 to 233: the order is unlocked before its identity is built.\<close>

definition record_settlement :: "sut_config \<Rightarrow> string \<Rightarrow> string \<Rightarrow> string \<Rightarrow> int \<Rightarrow> unit sut_op" where
  "record_settlement cfg key oid tx_hash i =
     bindS (modify_order key (unlock oid)) (\<lambda>_.
     bindS (liftS (mk_identity (cfg_chain_id cfg) (cfg_token_address cfg) tx_hash i)) (\<lambda>ident.
     modify_order key (\<lambda>o'. o'\<lparr>ord_identity := Some ident\<rparr>)))"

text \<open>Lines 211 to 234: the settlement is no longer pending, and the receipt decides.\<close>

definition settle_receipt ::
  "sut_env \<Rightarrow> sut_config \<Rightarrow> string \<Rightarrow> order \<Rightarrow> pydict \<Rightarrow> string \<Rightarrow> pydict option \<Rightarrow> pydict sut_op" where
  "settle_receipt env cfg key ord authorization tx_hash receipt =
     bindS (modify_order key clear_pending) (\<lambda>_.
     bindS (liftS (str_item env authorization ''from'')) (\<lambda>payer.
     bindS (liftS (str_item env authorization ''nonce'')) (\<lambda>nonce.
     bindS (on_rpc (settlement_log_index sut_fetcher topic_transfer (cfg_token_address cfg) payer
              (cfg_merchant_address cfg) (ord_amount ord) nonce tx_hash receipt (created_block ord))) (\<lambda>index.
     bindS (case index of
              None \<Rightarrow> retS ()
            | Some i \<Rightarrow> record_settlement cfg key (order_id ord) tx_hash i) (\<lambda>_.
     retS (obj [(''order_id'', PStr (order_id ord)), (''submitted_tx'', PStr tx_hash),
                (''settled'', PBool (index \<noteq> None))]))))))"

definition confirm :: "sut_env \<Rightarrow> sut_config \<Rightarrow> string \<Rightarrow> order \<Rightarrow> pydict \<Rightarrow> string \<Rightarrow> pydict sut_op" where
  "confirm env cfg key ord authorization tx_hash =
     bindS (await_receipt cfg tx_hash) (\<lambda>outcome.
     case outcome of
       None \<Rightarrow>
         bindS (modify_order key (set_pending tx_hash authorization)) (\<lambda>_.
         retS (obj [(''order_id'', PStr (order_id ord)), (''submitted_tx'', PStr tx_hash),
                    (''settled'', PBool False), (''reason'', PStr ''settlement_pending'')]))
     | Some receipt \<Rightarrow> settle_receipt env cfg key ord authorization tx_hash receipt)"

definition begin_attempt :: "string \<Rightarrow> order \<Rightarrow> order" where
  "begin_attempt nonce o' = o'\<lparr>nonce_seen := Some nonce, settle_attempts := settle_attempts o' + 1\<rparr>"

definition pay :: "sut_env \<Rightarrow> sut_config \<Rightarrow> int \<Rightarrow> string \<Rightarrow> pydict \<Rightarrow> pydict sut_op" where
  "pay env cfg now oid authorization =
     bindS (get_order oid) (\<lambda>found.
     case found of
       None \<Rightarrow> retS (refused oid ''unknown_order'')
     | Some ord \<Rightarrow>
         if paid ord \<and> cfg_idempotent_pay cfg
         then retS (obj [(''order_id'', PStr oid), (''settled'', PBool True),
                         (''submitted_tx'', opt_text (submitted_tx ord)), (''idempotent'', PBool True)])
         else if pending_tx ord \<noteq> None \<and> pending_authorization ord \<noteq> None \<and> cfg_idempotent_pay cfg
         then confirm env cfg oid ord (the (pending_authorization ord)) (the (pending_tx ord))
         else if now > expires_at ord then retS (refused oid ''quote_expired'')
         else
         bindS read_fair_price (\<lambda>fair.
         bindS (liftS (if cfg_reprice_on_pay cfg
                       then quote_is_stale (ord_amount ord) fair (cfg_reprice_tolerance cfg)
                       else Inr False)) (\<lambda>stale.
         if stale then retS (refused oid ''stale_quote'')
         else
         bindS (liftS (str_item env authorization ''nonce'')) (\<lambda>nonce.
         bindS (modify_order oid (begin_attempt nonce)) (\<lambda>_.
         bindS (on_rpc (submit_settlement env cfg authorization)) (\<lambda>tx_hash.
         bindS (modify_order oid (\<lambda>o'. o'\<lparr>submitted_tx := Some tx_hash\<rparr>)) (\<lambda>_.
         confirm env cfg oid ord authorization tx_hash)))))))"

definition status :: "string \<Rightarrow> pydict sut_op" where
  "status oid =
     bindS (get_order oid) (\<lambda>found.
     retS (case found of
        None \<Rightarrow> obj [(''order_id'', PStr oid), (''paid'', PBool False), (''resource'', PNone),
                     (''submitted_tx'', PNone), (''known'', PBool False)]
      | Some o' \<Rightarrow> obj [(''order_id'', PStr oid), (''paid'', PBool (paid o')),
                       (''resource'', opt_text (resource o')), (''submitted_tx'', opt_text (submitted_tx o')),
                       (''known'', PBool True)]))"

text \<open>The endpoint \<^verbatim>\<open>/resource/{order_id}\<close>: the HTTP status and the body.\<close>

definition resource_endpoint :: "string \<Rightarrow> (int \<times> pydict) sut_op" where
  "resource_endpoint oid =
     bindS (status oid) (\<lambda>st.
     retS (if dict_get st ''paid'' = PBool True
           then (200, obj [(''resource'', dict_get st ''resource'')])
           else (402, obj [(''error'', PStr ''payment required'')])))"

section \<open>Backup, restore and reconciliation\<close>

definition backup_ledger :: "ledger sut_op" where
  "backup_ledger = (\<lambda>s. (Inr (orders s), s))"

definition restore_ledger :: "ledger \<Rightarrow> unit sut_op" where
  "restore_ledger backup = (\<lambda>s. (Inr (), s\<lparr>orders := backup\<rparr>))"

definition known_identities :: "ledger \<Rightarrow> ledger_entry set" where
  "known_identities os =
     set (List.map_filter (\<lambda>(oid, o'). if paid o' then map_option LedgerIdentity (ord_identity o') else None) os)"

definition identity_text :: "settlement_identity \<Rightarrow> string" where
  "identity_text i =
     py_str_int (si_chain_id i) @ '':'' @ si_asset i @ '':'' @ si_tx_hash i @ '':'' @ py_str_int (si_log_index i)"

definition recovery_id :: "sut_env \<Rightarrow> settlement_identity \<Rightarrow> string" where
  "recovery_id env i = ''rec_'' @ env_sha256 env (identity_text i)"

definition recovered_order :: "sut_env \<Rightarrow> on_chain_credit \<Rightarrow> order" where
  "recovered_order env credit =
     (new_order (recovery_id env (oc_identity credit)) (oc_value credit) 0 (oc_value credit) 0)
       \<lparr>paid := True, submitted_tx := Some (oc_tx_hash credit),
        resource := Some (''recovered::'' @ oc_tx_hash credit), recovered := True,
        ord_identity := Some (oc_identity credit)\<rparr>"

fun book_credits :: "sut_env \<Rightarrow> on_chain_credit list \<Rightarrow> unit sut_op" where
  "book_credits env [] = retS ()"
| "book_credits env (c # cs) = bindS (put_order (recovered_order env c)) (\<lambda>_. book_credits env cs)"

definition reconcile :: "sut_env \<Rightarrow> sut_config \<Rightarrow> int \<Rightarrow> on_chain_credit list sut_op" where
  "reconcile env cfg from_block =
     bindS (liftS (topic_addr (cfg_merchant_address cfg))) (\<lambda>merchant.
     bindS (on_rpc (get_logs (cfg_token_address cfg) [Some topic_transfer, None, Some merchant]
              (BlockNumber from_block) (BlockTag ''latest''))) (\<lambda>logs.
     bindS backup_ledger (\<lambda>os.
     bindS (liftS (find_unreconciled logs (known_identities os) (cfg_chain_id cfg)
              (Some (cfg_token_address cfg)) (Some (cfg_merchant_address cfg)))) (\<lambda>unreconciled.
     bindS (if cfg_reconciliation_enabled cfg then book_credits env unreconciled else retS ()) (\<lambda>_.
     retS unreconciled)))))"

end
