(* ===== verification/Sut_Invariant.thy ===== *)
theory Sut_Invariant
  imports Reference_Sut
begin

text \<open>
  The ledger invariant of the reference system as a state machine: its operations as a step
  relation, with backups that may be restored at any later time, and the invariant by rule
  induction.  Every operation keeps it on the raising paths too.
\<close>

section \<open>The invariant\<close>

definition identity_shape :: "settlement_identity \<Rightarrow> bool" where
  "identity_shape i \<longleftrightarrow>
     0 < si_chain_id i \<and> length (si_asset i) = 42 \<and> length (si_tx_hash i) = 66 \<and> uint256 (si_log_index i)"

definition order_inv :: "sut_env \<Rightarrow> string \<Rightarrow> order \<Rightarrow> bool" where
  "order_inv env key o' \<longleftrightarrow>
     order_id o' = key \<and> (paid o' \<longleftrightarrow> resource o' \<noteq> None) \<and>
     (pending_tx o' = None \<longleftrightarrow> pending_authorization o' = None) \<and>
     (\<forall>i. ord_identity o' = Some i \<longrightarrow> paid o' \<and> identity_shape i) \<and>
     0 \<le> settle_attempts o' \<and>
     (startswith key ''rec_'' \<longrightarrow> recovered o') \<and>
     (recovered o' \<longrightarrow> paid o' \<and> expires_at o' = 0 \<and> pending_tx o' = None \<and>
        (\<exists>i. ord_identity o' = Some i \<and> key = recovery_id env i))"

definition ledger_inv :: "sut_env \<Rightarrow> ledger \<Rightarrow> bool" where
  "ledger_inv env os \<longleftrightarrow> distinct (map fst os) \<and> (\<forall>(k, o')\<in>set os. order_inv env k o')"

lemma ledger_inv_lookup:
  "ledger_inv env os \<Longrightarrow> map_of os k = Some o' \<Longrightarrow> order_inv env k o'"
  by (auto simp: ledger_inv_def dest: map_of_SomeD)

lemma ledger_inv_update:
  assumes "ledger_inv env os" "order_inv env k o'"
  shows "ledger_inv env (AList.update k o' os)"
proof -
  have d: "distinct (map fst (AList.update k o' os))"
    using assms(1) by (simp add: ledger_inv_def distinct_update)
  have "order_inv env k1 o1" if "(k1, o1) \<in> set (AList.update k o' os)" for k1 o1
  proof -
    have "map_of (AList.update k o' os) k1 = Some o1" using that d by simp
    then show ?thesis
      using assms ledger_inv_lookup by (auto simp: update_conv' split: if_splits)
  qed
  with d show ?thesis by (auto simp: ledger_inv_def)
qed

lemma ledger_inv_map_entry:
  assumes "ledger_inv env os" "\<And>o'. order_inv env k o' \<Longrightarrow> map_of os k = Some o' \<Longrightarrow> order_inv env k (f o')"
  shows "ledger_inv env (AList.map_entry k f os)"
proof -
  have d: "distinct (map fst (AList.map_entry k f os))"
    using assms(1) by (simp add: ledger_inv_def distinct_map_entry)
  have "order_inv env k1 o1" if "(k1, o1) \<in> set (AList.map_entry k f os)" for k1 o1
  proof -
    have "map_of (AList.map_entry k f os) k1 = Some o1" using that d by simp
    then show ?thesis
      using assms ledger_inv_lookup[OF assms(1)]
      by (auto simp: map_of_map_entry split: if_splits option.splits)
  qed
  with d show ?thesis by (auto simp: ledger_inv_def)
qed

section \<open>Operations keep a predicate of the state\<close>

definition holdsS :: "('s \<Rightarrow> bool) \<Rightarrow> ('s, 'a) op \<Rightarrow> bool" where
  "holdsS P m \<longleftrightarrow> keepsS (\<lambda>s t. P s \<longrightarrow> P t) m"

lemma holdsS_D: "holdsS P m \<Longrightarrow> P s \<Longrightarrow> m s = (r, t) \<Longrightarrow> P t"
  unfolding holdsS_def by (drule keepsS_D) auto

lemma holdsS_I: "(\<And>s. P s \<Longrightarrow> P (snd (m s))) \<Longrightarrow> holdsS P m"
  by (simp add: holdsS_def keepsS_def)

lemma holdsS_intros:
  "holdsS P (retS x)" "holdsS P (raiseS e)" "holdsS P (liftS r)"
  "holdsS P m \<Longrightarrow> (\<And>x. holdsS P (f x)) \<Longrightarrow> holdsS P (bindS m f)"
  "(b \<Longrightarrow> holdsS P m) \<Longrightarrow> (\<not> b \<Longrightarrow> holdsS P n) \<Longrightarrow> holdsS P (if b then m else n)"
  unfolding holdsS_def
  by (auto intro!: keepsS_pure keepsS_bind keepsS_if)

lemma holdsS_case_option:
  "holdsS P a \<Longrightarrow> (\<And>x. holdsS P (f x)) \<Longrightarrow> holdsS P (case v of None \<Rightarrow> a | Some x \<Rightarrow> f x)"
  by (cases v) auto

lemma holdsS_lift: "(\<And>x. r = Inr x \<Longrightarrow> holdsS P (f x)) \<Longrightarrow> holdsS P (bindS (liftS r) f)"
  by (cases r) (auto intro: holdsS_intros)

lemma holdsS_catch: "holdsS P m \<Longrightarrow> holdsS P h \<Longrightarrow> holdsS P (catchS Q m h)"
  by (auto simp: holdsS_def keepsS_def catchS_def split: prod.splits sum.splits)

lemma holdsS_on_rpc: "(\<And>s c. P s \<Longrightarrow> P (s\<lparr>sut_rpc := c\<rparr>)) \<Longrightarrow> holdsS P (on_rpc m)"
  by (rule holdsS_I) (auto simp: on_rpc_def split: prod.splits)

lemma holdsS_reads: "holdsS P (get_order k)" "holdsS P read_fair_price" "holdsS P backup_ledger"
  by (rule holdsS_I, simp add: get_order_def read_fair_price_def backup_ledger_def)+

text \<open>The invariant, together with the order being paid not being a recovered one.\<close>

definition inv_at :: "sut_env \<Rightarrow> string \<Rightarrow> sut \<Rightarrow> bool" where
  "inv_at env k s \<longleftrightarrow> ledger_inv env (orders s) \<and> (\<forall>o'. map_of (orders s) k = Some o' \<longrightarrow> \<not> recovered o')"

lemma inv_at_modify:
  assumes "\<And>o'. order_inv env k o' \<Longrightarrow> \<not> recovered o' \<Longrightarrow> order_inv env k (f o') \<and> \<not> recovered (f o')"
  shows "holdsS (inv_at env k) (modify_order k f)"
proof (rule holdsS_I)
  fix s assume s: "inv_at env k s"
  then have "ledger_inv env (AList.map_entry k f (orders s))"
    using assms by (intro ledger_inv_map_entry) (auto simp: inv_at_def)
  moreover have "\<not> recovered o'" if "map_of (AList.map_entry k f (orders s)) k = Some o'" for o'
    using that s assms ledger_inv_lookup
    by (auto simp: inv_at_def map_of_map_entry split: option.splits)
  ultimately show "inv_at env k (snd (modify_order k f s))"
    by (simp add: inv_at_def modify_order_def)
qed

lemma mk_identity_shape:
  assumes "mk_identity cid a tx i = Inr ident"
  shows "identity_shape ident"
  using assms
  by (auto simp: mk_identity_def recon_address_def ok_iff identity_shape_def
      dest!: recon_exact_hex_ok split: if_splits)

lemma unlock_holds:
  "holdsS (inv_at env k) (record_settlement cfg k oid tx i)"
proof (rule holdsS_I)
  fix s assume s: "inv_at env k s"
  define u where "u = s\<lparr>orders := AList.map_entry k (unlock oid) (orders s)\<rparr>"
  have m: "modify_order k (unlock oid) s = (Inr (), u)" by (simp add: u_def modify_order_def)
  have "holdsS (inv_at env k) (modify_order k (unlock oid))"
    by (rule inv_at_modify) (auto simp: order_inv_def unlock_def)
  then have u: "inv_at env k u" using s m by (rule holdsS_D)
  have pd: "paid o'" if "map_of (orders u) k = Some o'" for o'
    using that by (auto simp: u_def map_of_map_entry unlock_def split: option.splits)
  have "inv_at env k (snd (modify_order k (\<lambda>o'. o'\<lparr>ord_identity := Some ident\<rparr>) u))"
    if "identity_shape ident" for ident
  proof -
    have "ledger_inv env (AList.map_entry k (\<lambda>o'. o'\<lparr>ord_identity := Some ident\<rparr>) (orders u))"
      using u that pd by (intro ledger_inv_map_entry) (auto simp: inv_at_def order_inv_def)
    then show ?thesis
      using u by (auto simp: inv_at_def modify_order_def map_of_map_entry split: option.splits)
  qed
  then show "inv_at env k (snd (record_settlement cfg k oid tx i s))"
    using u mk_identity_shape m unfolding record_settlement_def
    by (cases "mk_identity (cfg_chain_id cfg) (cfg_token_address cfg) tx i") (auto simp: bindS_def)
qed

lemma inv_at_rpc: "holdsS (inv_at env k) (on_rpc m)"
  by (rule holdsS_on_rpc) (simp add: inv_at_def)

lemma await_holds: "holdsS (inv_at env k) (await_receipt cfg tx)"
  unfolding await_receipt_def by (intro holdsS_intros holdsS_catch inv_at_rpc)

lemma confirm_holds: "holdsS (inv_at env k) (confirm env' cfg k ord authorization tx)"
proof -
  have 1: "holdsS (inv_at env k) (modify_order k (set_pending tx authorization))"
    "holdsS (inv_at env k) (modify_order k clear_pending)"
    by (rule inv_at_modify, auto simp: order_inv_def set_pending_def clear_pending_def)+
  show ?thesis
    unfolding confirm_def settle_receipt_def
    by (intro holdsS_intros holdsS_case_option await_holds 1 inv_at_rpc unlock_holds)
qed

lemma pay_holds:
  assumes "0 < now"
  shows "ledger_inv env (orders s) \<Longrightarrow> ledger_inv env (orders (snd (pay env' cfg now oid authorization s)))"
proof -
  assume s: "ledger_inv env (orders s)"
  show "ledger_inv env (orders (snd (pay env' cfg now oid authorization s)))"
  proof (cases "map_of (orders s) oid")
    case None
    then show ?thesis using s by (simp add: pay_def get_order_def bindS_def)
  next
    case (Some ord)
    note oi = ledger_inv_lookup[OF s Some]
    show ?thesis
    proof (cases "recovered ord")
      case True
      then have "paid ord" "expires_at ord = 0" "pending_tx ord = None" using oi by (auto simp: order_inv_def)
      then show ?thesis using s Some assms by (auto simp: pay_def get_order_def bindS_def)
    next
      case False
      have "inv_at env oid s" using s Some False by (simp add: inv_at_def)
      moreover have "holdsS (inv_at env oid) (modify_order oid (begin_attempt n))"
        "holdsS (inv_at env oid) (modify_order oid (\<lambda>o'. o'\<lparr>submitted_tx := Some tx\<rparr>))" for n tx
        by (rule inv_at_modify, auto simp: order_inv_def begin_attempt_def)+
      then have "holdsS (inv_at env oid) (pay env' cfg now oid authorization)"
        unfolding pay_def
        by (intro holdsS_intros holdsS_case_option holdsS_reads inv_at_rpc confirm_holds)
      ultimately have "inv_at env oid (snd (pay env' cfg now oid authorization s))"
        by (metis holdsS_D prod.collapse)
      then show ?thesis by (simp add: inv_at_def)
    qed
  qed
qed

section \<open>The other operations\<close>

definition inv :: "sut_env \<Rightarrow> sut \<Rightarrow> bool" where
  "inv env s \<longleftrightarrow> ledger_inv env (orders s)"

lemma inv_rpc: "holdsS (inv env) (on_rpc m)"
  by (rule holdsS_on_rpc) (simp add: inv_def)

lemma inv_put: "order_inv env (order_id o') o' \<Longrightarrow> holdsS (inv env) (put_order o')"
  by (rule holdsS_I) (simp add: inv_def put_order_def ledger_inv_update)

lemma quote_holds: "holdsS (inv env) (quote cfg token_hex now)"
  unfolding quote_def Let_def
  by (intro holdsS_intros holdsS_reads inv_rpc inv_put)
    (simp add: order_inv_def new_order_def startswith_def)

lemma credit_shape:
  assumes "decode_transfer_log cid raw = Inr c"
  shows "identity_shape (oc_identity c)"
proof -
  obtain a tx i where "mk_identity cid a tx i = Inr (oc_identity c)"
    using assms
    by (auto simp: decode_transfer_log_def ok_iff dest!: mk_credit_ok split: pyval.splits list.splits if_splits)
  then show ?thesis by (rule mk_identity_shape)
qed

lemma recovered_order_inv:
  assumes "identity_shape (oc_identity c)"
  shows "order_inv env (order_id (recovered_order env c)) (recovered_order env c)"
  using assms by (simp add: order_inv_def recovered_order_def new_order_def)

lemma book_holds:
  "\<forall>c\<in>set cs. identity_shape (oc_identity c) \<Longrightarrow> holdsS (inv env) (book_credits env cs)"
  by (induction cs) (auto intro!: holdsS_intros inv_put recovered_order_inv)

lemma unreconciled_shape:
  "find_unreconciled logs ledger cid a p = Inr cs \<Longrightarrow> c \<in> set cs \<Longrightarrow> identity_shape (oc_identity c)"
  using snapshot_recon.found[of logs ledger cid a p cs]
  by (auto simp: unknown_live_def log_credits_def credit_shape)

lemma reconcile_holds: "holdsS (inv env) (reconcile env cfg from_block)"
  unfolding reconcile_def
  by (intro holdsS_intros(4) holdsS_lift inv_rpc holdsS_reads) 
    (auto intro!: holdsS_intros book_holds dest: unreconciled_shape)

section \<open>The state machine\<close>

text \<open>
  A step is one operation of the server with any arguments and any environment answers, a move
  of the fair price by the oracle, a backup or the restoration of an earlier backup.  The
  clock is positive, as \<^verbatim>\<open>time.time()\<close> is.
\<close>

inductive sut_step :: "sut_env \<Rightarrow> sut_config \<Rightarrow> sut \<times> ledger list \<Rightarrow> sut \<times> ledger list \<Rightarrow> bool"
  for env cfg where
  quoted: "quote cfg token_hex now s = (r, t) \<Longrightarrow> sut_step env cfg (s, bs) (t, bs)"
| paid: "0 < now \<Longrightarrow> pay env cfg now oid authorization s = (r, t) \<Longrightarrow> sut_step env cfg (s, bs) (t, bs)"
| asked: "resource_endpoint oid s = (r, t) \<Longrightarrow> sut_step env cfg (s, bs) (t, bs)"
| moved: "sut_step env cfg (s, bs) (s\<lparr>fair_price := p\<rparr>, bs)"
| backed_up: "backup_ledger s = (Inr b, t) \<Longrightarrow> sut_step env cfg (s, bs) (t, b # bs)"
| restored: "b \<in> set bs \<Longrightarrow> restore_ledger b s = (r, t) \<Longrightarrow> sut_step env cfg (s, bs) (t, bs)"
| reconciled: "reconcile env cfg from_block s = (r, t) \<Longrightarrow> sut_step env cfg (s, bs) (t, bs)"

inductive_cases sut_step_cases: "sut_step env cfg (s, bs) (t, cs)"

definition world_inv :: "sut_env \<Rightarrow> sut \<times> ledger list \<Rightarrow> bool" where
  "world_inv env w \<longleftrightarrow> ledger_inv env (orders (fst w)) \<and> (\<forall>b\<in>set (snd w). ledger_inv env b)"

lemma resource_endpoint_state: "snd (resource_endpoint oid s) = s"
  by (simp add: resource_endpoint_def status_def get_order_def bindS_def)

lemma sut_step_inv:
  assumes "sut_step env cfg w w'" "world_inv env w"
  shows "world_inv env w'"
  using assms
proof (induction rule: sut_step.induct)
  case (quoted token_hex now s r t bs)
  then show ?case using holdsS_D[OF quote_holds, of env s] by (auto simp: world_inv_def inv_def)
next
  case (paid now oid authorization s r t bs)
  then show ?case using pay_holds[of now env s env cfg oid authorization] by (auto simp: world_inv_def)
next
  case (asked oid s r t bs)
  then show ?case using resource_endpoint_state[of oid s] by (simp add: world_inv_def)
next
  case (reconciled from_block s r t bs)
  then show ?case using holdsS_D[OF reconcile_holds, of env s] by (auto simp: world_inv_def inv_def)
qed (auto simp: world_inv_def backup_ledger_def restore_ledger_def)

end
