(* ===== verification/Sut_Properties.thy ===== *)
theory Sut_Properties
  imports Sut_Invariant Sample_Node
begin

text \<open>
  The properties of the reference system: what unlocks a resource, what re-paying and retrying
  do, what the signing boundary lets through, and what backup, restore and reconciliation do
  to the ledger.
\<close>

section \<open>Frame facts\<close>

lemma on_rpc_ok: "on_rpc m s = (r, t) \<longleftrightarrow> (\<exists>c. m (sut_rpc s) = (r, c) \<and> t = s\<lparr>sut_rpc := c\<rparr>)"
  by (auto simp: on_rpc_def split: prod.splits)

lemma modify_order_ok:
  "modify_order k f s = (r, t) \<longleftrightarrow> r = Inr () \<and> t = s\<lparr>orders := AList.map_entry k f (orders s)\<rparr>"
  by (auto simp: modify_order_def)

lemma get_order_ok: "get_order k s = (r, t) \<longleftrightarrow> r = Inr (map_of (orders s) k) \<and> t = s"
  by (auto simp: get_order_def)

lemma read_fair_price_ok: "read_fair_price s = (r, t) \<longleftrightarrow> r = Inr (fair_price s) \<and> t = s"
  by (auto simp: read_fair_price_def)

lemma catchS_ok:
  "catchS P m h s = (Inr x, t) \<longleftrightarrow>
     m s = (Inr x, t) \<or> (\<exists>e u. m s = (Inl e, u) \<and> P e \<and> h u = (Inr x, t))"
  by (auto simp: catchS_def split: prod.splits sum.splits if_splits)

lemmas frame_ok = on_rpc_ok modify_order_ok get_order_ok read_fair_price_ok catchS_ok

lemma resource_endpoint_value:
  "resource_endpoint oid s =
     (Inr (case map_of (orders s) oid of
        Some ord \<Rightarrow> if paid ord then (200, obj [(''resource'', opt_text (resource ord))])
                    else (402, obj [(''error'', PStr ''payment required'')])
      | None \<Rightarrow> (402, obj [(''error'', PStr ''payment required'')])), s)"
  by (auto simp: resource_endpoint_def status_def get_order_def bindS_def obj_def dict_get_def
      split: option.splits)

section \<open>Refusals\<close>

text \<open>
  Re-paying a settled order is harmless in an idempotent system: \<open>pay\<close> answers with the
  recorded transaction and leaves the whole state as it was, the request counter of its RPC
  client included, so that nothing was read from the node, signed or sent.
\<close>

theorem pay_idempotent:
  assumes "cfg_idempotent_pay cfg" "map_of (orders s) oid = Some ord" "paid ord"
  shows "pay env cfg now oid authorization s =
    (Inr (obj [(''order_id'', PStr oid), (''settled'', PBool True),
               (''submitted_tx'', opt_text (submitted_tx ord)), (''idempotent'', PBool True)]), s)"
  using assms by (simp add: pay_def get_order_def bindS_def)

text \<open>
  A payment for an unknown order, or for an expired or stale quote with no settlement in
  flight, is refused with its reason and changes nothing: no attempt is counted and no call
  is made.
\<close>

lemma pay_refusals:
  "(map_of (orders s) oid = None \<longrightarrow>
      pay env cfg now oid authorization s = (Inr (refused oid ''unknown_order''), s)) \<and>
   (\<forall>ord. map_of (orders s) oid = Some ord \<and> pending_tx ord = None \<and> \<not> (paid ord \<and> cfg_idempotent_pay cfg) \<longrightarrow>
      (expires_at ord < now \<longrightarrow>
         pay env cfg now oid authorization s = (Inr (refused oid ''quote_expired''), s)) \<and>
      (now \<le> expires_at ord \<and> cfg_reprice_on_pay cfg \<and>
         quote_is_stale (ord_amount ord) (fair_price s) (cfg_reprice_tolerance cfg) = Inr True \<longrightarrow>
         pay env cfg now oid authorization s = (Inr (refused oid ''stale_quote''), s)))"
  by (auto simp: pay_def get_order_def read_fair_price_def bindS_def)

section \<open>Backup and restore\<close>

text \<open>
  Restoring a backup brings back exactly the ledger of the backup, whatever happened in
  between; every order booked since is gone, and its resource is locked again although the
  chain keeps the payment.
\<close>

lemma restore_backup:
  assumes "backup_ledger s = (Inr b, s')"
  shows "restore_ledger b t = (Inr (), t\<lparr>orders := orders s\<rparr>)
    \<and> s' = s
    \<and> (\<forall>oid. map_of (orders s) oid = None \<longrightarrow>
         fst (resource_endpoint oid (snd (restore_ledger b t))) =
           Inr (402, obj [(''error'', PStr ''payment required'')]))"
  using assms by (auto simp: backup_ledger_def restore_ledger_def resource_endpoint_value)

section \<open>The signing boundary\<close>

text \<open>
  C31: Nothing is signed or sent unless the safety policy accepted the submission.  When it
  refuses, submission ends with its error in the state the policy left, for every signer;
  and when submission returns a transaction hash, the policy had accepted that payer,
  recipient and amount on the configured chain, from the same client state.
\<close>

theorem submission_needs_policy:
  assumes "str_item env authorization ''from'' = Inr payer" "str_item env authorization ''to'' = Inr ato"
    and "dict_item authorization ''value'' = Inr v"
  shows "(require_safe_submission (cfg_chain_id cfg) (cfg_token_address cfg) payer (cfg_merchant_address cfg)
            ato v (cfg_price cfg) c = (Inl e, c1) \<longrightarrow>
          submit_settlement (env\<lparr>env_sign := sign\<rparr>) cfg authorization c = (Inl e, c1)) \<and>
         (submit_settlement env cfg authorization c = (Inr tx, c') \<longrightarrow>
          (\<exists>c1. require_safe_submission (cfg_chain_id cfg) (cfg_token_address cfg) payer
             (cfg_merchant_address cfg) ato v (cfg_price cfg) c = (Inr (), c1)))"
proof -
  have env: "str_item (env\<lparr>env_sign := sign\<rparr>) authorization k = str_item env authorization k" for k
  proof -
    have "py_str (env\<lparr>env_sign := sign\<rparr>) x = py_str env x" for x by (cases x) (simp_all add: py_str_def)
    then show ?thesis by (simp add: str_item_def)
  qed
  show ?thesis
    using assms by (auto simp: submit_settlement_def env bindS_ok bindS_step(2))
qed

text \<open>
  The counter of settlement attempts counts refused submissions too.  On a chain outside
  the allowlist a payment raises the policy's error before any call to the node, and still
  the order's attempts grow by one.
\<close>

theorem refused_submission_counted:
  assumes "map_of (orders s) oid = Some ord" "\<not> paid ord" "pending_tx ord = None" "now \<le> expires_at ord"
    and "\<not> cfg_reprice_on_pay cfg" "cfg_chain_id cfg \<notin> set allowed_settlement_chain_ids"
    and "str_item env authorization ''nonce'' = Inr nonce" "str_item env authorization ''from'' = Inr payer"
    and "str_item env authorization ''to'' = Inr ato" "dict_item authorization ''value'' = Inr v"
  shows "fst (pay env cfg now oid authorization s) =
      Inl (SettlementSafetyError ''chain is not in the local/testnet allowlist'')
    \<and> sut_rpc (snd (pay env cfg now oid authorization s)) = sut_rpc s
    \<and> map_option settle_attempts (map_of (orders (snd (pay env cfg now oid authorization s))) oid) =
        Some (settle_attempts ord + 1)"
proof -
  have "submit_settlement env cfg authorization c =
    (Inl (SettlementSafetyError ''chain is not in the local/testnet allowlist''), c)" for c
    using assms by (simp add: submit_settlement_def require_safe_submission_def)
  then show ?thesis
    using assms
    by (auto simp: pay_def get_order_def read_fair_price_def modify_order_def on_rpc_def bindS_def
        map_of_map_entry begin_attempt_def)
qed

section \<open>Operations that only read the chain\<close>

definition same_view :: "sut \<Rightarrow> sut \<Rightarrow> bool" where
  "same_view s t \<longleftrightarrow> orders s = orders t \<and> fair_price s = fair_price t \<and> same_reads (sut_rpc s) (sut_rpc t)"

definition sut_reads_only :: "'a sut_op \<Rightarrow> bool" where
  "sut_reads_only m \<longleftrightarrow> (\<forall>s t. same_view s t \<longrightarrow>
     fst (m s) = fst (m t) \<and> same_view (snd (m s)) (snd (m t)))"

lemma sut_reads_bind:
  assumes "sut_reads_only m" "\<And>x. sut_reads_only (f x)"
  shows "sut_reads_only (bindS m f)"
  unfolding sut_reads_only_def
proof (intro allI impI)
  fix s t assume st: "same_view s t"
  obtain r u v where m: "m s = (r, u)" "m t = (r, v)" "same_view u v"
    using assms(1) st unfolding sut_reads_only_def by (metis prod.collapse)
  show "fst (bindS m f s) = fst (bindS m f t) \<and> same_view (snd (bindS m f s)) (snd (bindS m f t))"
    using m assms(2) by (cases r) (auto simp: bindS_def sut_reads_only_def)
qed

lemma sut_reads_catch: "sut_reads_only m \<Longrightarrow> sut_reads_only h \<Longrightarrow> sut_reads_only (catchS P m h)"
  unfolding sut_reads_only_def catchS_def
  by (intro allI impI) (fastforce split: prod.splits sum.splits)

lemma sut_reads_rpc: "reads_only m \<Longrightarrow> sut_reads_only (on_rpc m)"
  unfolding sut_reads_only_def reads_only_def on_rpc_def same_view_def
  by (intro allI impI) (fastforce split: prod.splits)

lemma sut_reads_intros:
  "sut_reads_only (retS x)" "sut_reads_only (raiseS e)" "sut_reads_only (liftS r)"
  "sut_reads_only (modify_order k f)" "sut_reads_only (get_order k)"
  "(b \<Longrightarrow> sut_reads_only m) \<Longrightarrow> (\<not> b \<Longrightarrow> sut_reads_only n) \<Longrightarrow> sut_reads_only (if b then m else n)"
  "sut_reads_only p \<Longrightarrow> (\<And>y. sut_reads_only (q y)) \<Longrightarrow> sut_reads_only (case v of None \<Rightarrow> p | Some y \<Rightarrow> q y)"
  by (auto simp: sut_reads_only_def same_view_def modify_order_def get_order_def split: option.splits)

lemma wait_reads_only: "reads_only (wait_for_receipt tx tries delay)"
proof -
  have "reads_only (wait_loop tx n)" for n
  proof (induction n)
    case 0
    show ?case unfolding wait_loop.simps by (rule reads_only_pure)
  next
    case (Suc n)
    then show ?case unfolding wait_loop.simps by (intro reads_only_intros) (simp_all add: read_methods_def)
  qed
  then show ?thesis unfolding wait_for_receipt_def by (intro reads_only_intros)
qed

lemma index_reads_only:
  "reads_only (settlement_log_index sut_fetcher t0 tok payer payee v nonce tx r from)"
  unfolding settlement_log_index_def sut_fetcher_def
  by (auto intro!: reads_only_intros client_reads_only split: option.splits)

lemmas sut_reads = sut_reads_intros sut_reads_bind sut_reads_catch sut_reads_rpc wait_reads_only index_reads_only

lemma confirm_reads_only: "sut_reads_only (confirm env cfg k ord authorization tx)"
  unfolding confirm_def settle_receipt_def await_receipt_def record_settlement_def by (intro sut_reads)

text \<open>
  C32: In an idempotent system, retrying a payment whose settlement is pending does not
  broadcast it again.  The retry behaves the same on any two nodes that answer the reading
  methods alike, however they would take a transaction; so it only waits on the recorded one.
\<close>

theorem pending_retry_only_reads:
  assumes "cfg_idempotent_pay cfg" "map_of (orders s) oid = Some ord"
    and "pending_tx ord = Some tx" "pending_authorization ord = Some auth"
    and "same_view s t"
  shows "fst (pay env cfg now oid authorization s) = fst (pay env cfg now oid authorization t)
    \<and> same_view (snd (pay env cfg now oid authorization s)) (snd (pay env cfg now oid authorization t))"
proof -
  have t: "map_of (orders t) oid = Some ord" using assms(2,5) by (simp add: same_view_def)
  have "pay env cfg now oid authorization u = confirm env cfg oid ord auth tx u"
    if "map_of (orders u) oid = Some ord" "\<not> paid ord" for u
    using that assms by (simp add: pay_def get_order_def bindS_def)
  moreover have "pay env cfg now oid authorization u =
      (Inr (obj [(''order_id'', PStr oid), (''settled'', PBool True),
               (''submitted_tx'', opt_text (submitted_tx ord)), (''idempotent'', PBool True)]), u)"
    if "map_of (orders u) oid = Some ord" "paid ord" for u
    using that assms by (simp add: pay_def get_order_def bindS_def)
  ultimately show ?thesis
    using assms(2,5) t confirm_reads_only unfolding sut_reads_only_def
    by (cases "paid ord") auto
qed

section \<open>What unlocks an order\<close>

text \<open>An operation that leaves the orders under a key alone, or at least its \<open>paid\<close> flag.\<close>

definition unpaid_at :: "string \<Rightarrow> sut \<Rightarrow> bool" where
  "unpaid_at k s \<longleftrightarrow> (\<forall>o'. map_of (orders s) k = Some o' \<longrightarrow> \<not> paid o')"

lemma unpaid_modify: "(\<And>o'. paid (f o') = paid o') \<Longrightarrow> holdsS (unpaid_at k) (modify_order j f)"
  by (rule holdsS_I) (auto simp: unpaid_at_def modify_order_def map_of_map_entry split: option.splits)

lemma unpaid_rpc: "holdsS (unpaid_at k) (on_rpc m)"
  by (rule holdsS_on_rpc) (simp add: unpaid_at_def)

lemma await_unpaid: "holdsS (unpaid_at k) (await_receipt cfg tx)"
  unfolding await_receipt_def by (intro holdsS_intros holdsS_catch unpaid_rpc)

lemma await_receipt_sound:
  assumes "await_receipt cfg tx s = (Inr (Some (Some r)), t)"
  shows "receipt_answer (sut_rpc s) (sut_rpc t) tx r" "rpc_mono (sut_rpc s) (sut_rpc t)"
  using assms wait_for_receipt_answered
  by (auto simp: await_receipt_def catchS_ok bindS_ok on_rpc_ok split: if_splits)

lemma unpaid_run:
  assumes "holdsS (unpaid_at k) m" "unpaid_at k s" "\<not> unpaid_at k t" "bindS m f s = (r, t)"
  obtains x u where "m s = (Inr x, u)" "unpaid_at k u" "f x u = (r, t)"
proof -
  obtain q u where m: "m s = (q, u)" by fastforce
  have u: "unpaid_at k u" using holdsS_D[OF assms(1,2) m] .
  show thesis
  proof (cases q)
    case (Inl e)
    then show thesis using assms(3,4) m u by (simp add: bindS_def)
  next
    case (Inr x)
    then show thesis using that assms(4) m u by (simp add: bindS_def)
  qed
qed

lemma holdsS_bind_value:
  assumes "holdsS P m" "\<And>x s. fst (m s) = Inr x \<Longrightarrow> holdsS P (f x)"
  shows "holdsS P (bindS m f)"
proof (rule holdsS_I)
  fix s assume s: "P s"
  obtain r u where m: "m s = (r, u)" by fastforce
  then have "P u" using holdsS_D[OF assms(1) s] by simp
  moreover have "P (snd (f x u))" if "r = Inr x" for x
    using assms(2)[of s x] m that \<open>P u\<close> holdsS_D[of P "f x" u] by (metis fst_conv prod.collapse)
  ultimately show "P (snd (bindS m f s))" using m by (cases r) (auto simp: bindS_def)
qed

lemma settle_receipt_unpaid:
  assumes "\<And>payer nonce r fetched i. receipt = Some r \<Longrightarrow> str_item env authorization ''from'' = Inr payer \<Longrightarrow>
    str_item env authorization ''nonce'' = Inr nonce \<Longrightarrow>
    \<not> settlement_evidence topic_transfer (cfg_token_address cfg) payer (cfg_merchant_address cfg)
        (ord_amount ord) nonce tx r fetched i"
  shows "holdsS (unpaid_at k) (settle_receipt env cfg k ord authorization tx receipt)"
proof -
  have clear: "holdsS (unpaid_at k) (modify_order k clear_pending)"
    by (rule unpaid_modify) (simp add: clear_pending_def)
  have none: "index = None" if "str_item env authorization ''from'' = Inr payer"
    "str_item env authorization ''nonce'' = Inr nonce"
    "fst (on_rpc (settlement_log_index sut_fetcher topic_transfer (cfg_token_address cfg) payer
      (cfg_merchant_address cfg) (ord_amount ord) nonce tx receipt (created_block ord)) s) = Inr index"
    for payer nonce s index
  proof (rule ccontr)
    note T = that
    assume "index \<noteq> None"
    then obtain i c where "settlement_log_index sut_fetcher topic_transfer (cfg_token_address cfg) payer
      (cfg_merchant_address cfg) (ord_amount ord) nonce tx receipt (created_block ord) (sut_rpc s) = (Inr (Some i), c)"
      using T(3) by (auto simp: on_rpc_def split: prod.splits)
    from settlement_log_index_sound[OF this] show False using assms T(1,2) by blast
  qed
  show ?thesis
    unfolding settle_receipt_def
    by (intro holdsS_intros(4)[OF clear] holdsS_lift holdsS_bind_value[OF unpaid_rpc])
      (drule (2) none, simp add: holdsS_intros del: op_simps)
qed

lemma confirm_unlocks:
  assumes run: "confirm env cfg k ord authorization tx s = (r, t)" and pre: "unpaid_at k s" and post: "\<not> unpaid_at k t"
  shows "\<exists>receipt fetched i payer nonce c. receipt_answer (sut_rpc s) c tx receipt \<and>
    str_item env authorization ''from'' = Inr payer \<and> str_item env authorization ''nonce'' = Inr nonce \<and>
    settlement_evidence topic_transfer (cfg_token_address cfg) payer (cfg_merchant_address cfg) (ord_amount ord)
      nonce tx receipt fetched i"
proof -
  from unpaid_run[OF await_unpaid pre post run[unfolded confirm_def]]
  obtain o1 s1 where 1: "await_receipt cfg tx s = (Inr o1, s1)" and u1: "unpaid_at k s1"
    and rest: "(case o1 of
       None \<Rightarrow> bindS (modify_order k (set_pending tx authorization)) (\<lambda>_.
         retS (obj [(''order_id'', PStr (order_id ord)), (''submitted_tx'', PStr tx),
                    (''settled'', PBool False), (''reason'', PStr ''settlement_pending'')]))
     | Some receipt \<Rightarrow> settle_receipt env cfg k ord authorization tx receipt) s1 = (r, t)" .
  have "holdsS (unpaid_at k) (bindS (modify_order k (set_pending tx authorization)) (\<lambda>_. retS y))" for y :: pydict
    by (intro holdsS_intros unpaid_modify) (simp add: set_pending_def)
  note pend = holdsS_D[OF this u1]
  obtain receipt where o1: "o1 = Some receipt"
    using pend rest post by (cases o1) auto
  have no: "\<not> holdsS (unpaid_at k) (settle_receipt env cfg k ord authorization tx receipt)"
    using holdsS_D[of "unpaid_at k" "settle_receipt env cfg k ord authorization tx receipt" s1 r t] u1 rest post o1
    by auto
  then obtain payer nonce rc fetched i where ev: "receipt = Some rc" "str_item env authorization ''from'' = Inr payer"
    "str_item env authorization ''nonce'' = Inr nonce"
    "settlement_evidence topic_transfer (cfg_token_address cfg) payer (cfg_merchant_address cfg)
        (ord_amount ord) nonce tx rc fetched i"
    using settle_receipt_unpaid by metis
  show ?thesis
    using await_receipt_sound(1)[OF 1[unfolded o1 ev(1)]] ev by blast
qed

lemma bindS_run:
  "bindS m f s = (r, t) \<longleftrightarrow>
     (\<exists>e. m s = (Inl e, t) \<and> r = Inl e) \<or> (\<exists>x u. m s = (Inr x, u) \<and> f x u = (r, t))"
  by (auto simp: bindS_def split: prod.splits sum.splits)

lemma keepsS_catch:
  assumes "\<And>a b c. R a b \<Longrightarrow> R b c \<Longrightarrow> R a c" "keepsS R m" "keepsS R h"
  shows "keepsS R (catchS P m h)"
  unfolding keepsS_def
proof
  fix s
  obtain r t where m: "m s = (r, t)" by fastforce
  have "R s t" "R t (snd (h t))" using assms(2,3) m keepsS_D by (auto simp: keepsS_def)
  moreover from this have "R s (snd (h t))" by (rule assms(1))
  ultimately show "R s (snd (catchS P m h s))" using m by (cases r) (simp_all add: catchS_def)
qed

lemma submit_keeps: "keepsS rpc_mono (submit_settlement env cfg authorization)"
  unfolding submit_settlement_def
  by (intro rpc_keeps keepsS_catch[of rpc_mono, OF rpc_mono_trans] require_safe_submission_keeps client_keeps)

lemma pay_reaches_confirm:
  assumes run: "pay env cfg now oid authorization s = (r, t)" and o: "map_of (orders s) oid = Some ord"
    and unpaid: "\<not> paid ord" and post: "\<not> unpaid_at oid t"
  shows "\<exists>auth tx u. (auth = authorization \<and> fst (submit_settlement env cfg authorization (sut_rpc s)) = Inr tx \<or>
      pending_authorization ord = Some auth \<and> pending_tx ord = Some tx) \<and>
    confirm env cfg oid ord auth tx u = (r, t) \<and> unpaid_at oid u \<and> rpc_mono (sut_rpc s) (sut_rpc u)"
proof (cases "pending_tx ord \<noteq> None \<and> pending_authorization ord \<noteq> None \<and> cfg_idempotent_pay cfg")
  case True
  then obtain tx auth where "pending_tx ord = Some tx" "pending_authorization ord = Some auth" by auto
  then show ?thesis
    using True run o unpaid
    by (intro exI[of _ auth] exI[of _ tx] exI[of _ s]) (auto simp: pay_def get_order_ok bindS_run unpaid_at_def)
next
  case False
  let ?u = "\<lambda>n c tx. s\<lparr>sut_rpc := c, orders := AList.map_entry oid (\<lambda>o'. o'\<lparr>submitted_tx := Some tx\<rparr>)
    (AList.map_entry oid (begin_attempt n) (orders s))\<rparr>"
  have "\<exists>n c tx. submit_settlement env cfg authorization (sut_rpc s) = (Inr tx, c) \<and>
      confirm env cfg oid ord authorization tx (?u n c tx) = (r, t)"
    using run o unpaid post False
    by (auto simp: pay_def bindS_run frame_ok unpaid_at_def map_of_map_entry begin_attempt_def
        split: if_splits)
  then obtain n c tx where c: "submit_settlement env cfg authorization (sut_rpc s) = (Inr tx, c)"
    "confirm env cfg oid ord authorization tx (?u n c tx) = (r, t)" by blast
  moreover have "unpaid_at oid (?u n c tx)"
    using o unpaid by (simp add: unpaid_at_def map_of_map_entry begin_attempt_def)
  ultimately show ?thesis using keepsS_D[OF submit_keeps c(1)] by fastforce
qed

lemma pay_unlocks:
  assumes "pay env cfg now oid authorization s = (r, t)"
    and "map_of (orders s) oid = Some ord" "\<not> paid ord"
    and "map_of (orders t) oid = Some ord'" "paid ord'"
  shows "\<exists>auth tx receipt fetched i payer nonce c.
    (auth = authorization \<and> fst (submit_settlement env cfg authorization (sut_rpc s)) = Inr tx \<or>
      pending_authorization ord = Some auth \<and> pending_tx ord = Some tx) \<and>
    str_item env auth ''from'' = Inr payer \<and> str_item env auth ''nonce'' = Inr nonce \<and>
    receipt_answer (sut_rpc s) c tx receipt \<and>
    settlement_evidence topic_transfer (cfg_token_address cfg) payer (cfg_merchant_address cfg)
      (ord_amount ord) nonce tx receipt fetched i"
proof -
  have "\<not> unpaid_at oid t" using assms(4,5) by (auto simp: unpaid_at_def)
  from pay_reaches_confirm[OF assms(1-3) this] this obtain auth tx u where
    a: "auth = authorization \<and> fst (submit_settlement env cfg authorization (sut_rpc s)) = Inr tx \<or>
      pending_authorization ord = Some auth \<and> pending_tx ord = Some tx"
    and u: "confirm env cfg oid ord auth tx u = (r, t)" "unpaid_at oid u" "rpc_mono (sut_rpc s) (sut_rpc u)"
      "\<not> unpaid_at oid t" by blast
  from confirm_unlocks[OF u(1,2,4)] a answers_mono(2)[OF u(3) rpc_mono_refl] show ?thesis by blast
qed

text \<open>
  C6: An order is unlocked by evidence only.  If a call of \<open>pay\<close>, on any path and whether it
  returns or raises, turns an unpaid order into a paid one, then the node returned a receipt
  for the settlement transaction (the one this call submitted, or the order's pending one with
  its authorization) that carries the transfer of exactly the order's amount from
  the authorizing payer to the merchant, and that payer's authorization with its nonce.
\<close>

theorem pay_unlocks_on_evidence:
  assumes "pay env cfg now oid authorization s = (r, t)"
    and "map_of (orders s) oid = Some ord" "\<not> paid ord"
    and "map_of (orders t) oid = Some ord'" "paid ord'"
  shows "\<exists>auth tx receipt fetched i payer nonce c.
    (auth = authorization \<and> fst (submit_settlement env cfg authorization (sut_rpc s)) = Inr tx \<or>
      pending_authorization ord = Some auth \<and> pending_tx ord = Some tx) \<and>
    str_item env auth ''from'' = Inr payer \<and> str_item env auth ''nonce'' = Inr nonce \<and>
    receipt_answer (sut_rpc s) c tx receipt \<and>
    settlement_evidence topic_transfer (cfg_token_address cfg) payer (cfg_merchant_address cfg)
      (ord_amount ord) nonce tx receipt fetched i"
  using assms by (rule pay_unlocks)

section \<open>Reconciliation heals the ledger\<close>

lemma digits_no_colon: "0 \<le> n \<Longrightarrow> CHR '':'' \<notin> set (py_str_int n)"
proof -
  assume n: "0 \<le> n"
  have "\<not> is_dec (CHR '':'')" by code_simp
  then have "CHR '':'' \<notin> set (digits_of 10 n)" using n digits_of_chars[of 10 n "CHR '':''"] by auto
  then show ?thesis using n by (simp add: py_str_int_def)
qed

lemma split_at:
  "x \<notin> set a \<Longrightarrow> x \<notin> set b \<Longrightarrow> a @ x # u = b @ x # v \<Longrightarrow> a = b \<and> u = v"
proof (induction a arbitrary: b)
  case Nil
  then show ?case by (cases b) auto
next
  case (Cons y a)
  then show ?case by (cases b) auto
qed

lemma identity_text_inj:
  assumes "identity_shape i" "identity_shape j" "identity_text i = identity_text j"
  shows "i = j"
proof -
  have "py_str_int (si_chain_id i) = py_str_int (si_chain_id j) \<and>
    si_asset i @ '':'' @ si_tx_hash i @ '':'' @ py_str_int (si_log_index i) =
    si_asset j @ '':'' @ si_tx_hash j @ '':'' @ py_str_int (si_log_index j)"
    using assms digits_no_colon
    by (intro split_at[of "CHR '':''"]) (auto simp: identity_text_def identity_shape_def)
  then have "si_chain_id i = si_chain_id j" "si_asset i = si_asset j" "si_tx_hash i = si_tx_hash j"
    "si_log_index i = si_log_index j"
    using assms by (auto simp: identity_shape_def uint256_def intro!: digits_inj)
  then show ?thesis by (cases i; cases j) simp
qed

lemma known_identities_iff:
  assumes "ledger_inv env os"
  shows "x \<in> known_identities os \<longleftrightarrow>
    (\<exists>k o' i. map_of os k = Some o' \<and> paid o' \<and> ord_identity o' = Some i \<and> x = LedgerIdentity i)"
proof -
  have d: "distinct (map fst os)" using assms by (simp add: ledger_inv_def)
  have "x \<in> known_identities os \<longleftrightarrow>
    (\<exists>k o'. (k, o') \<in> set os \<and> paid o' \<and> (\<exists>i. ord_identity o' = Some i \<and> x = LedgerIdentity i))"
    unfolding known_identities_def List.map_filter_def
    by (auto split: if_splits) (blast, rule_tac x = "(k, o')" in image_eqI, simp_all)
  then show ?thesis using map_of_eq_Some_iff[OF d] by metis
qed

lemma book_credits_ok: "\<exists>t. book_credits env cs s = (Inr (), t)"
  by (induction cs arbitrary: s) (auto simp: bindS_def put_order_def)

lemma book_credits_lookup:
  assumes "book_credits env cs s = (Inr (), t)"
    and "inj_on (recovery_id env) (oc_identity ` set cs)" "distinct (map oc_identity cs)"
  shows "(\<forall>c\<in>set cs. map_of (orders t) (recovery_id env (oc_identity c)) = Some (recovered_order env c)) \<and>
    (\<forall>k. k \<notin> recovery_id env ` oc_identity ` set cs \<longrightarrow> map_of (orders t) k = map_of (orders s) k) \<and>
    sut_rpc t = sut_rpc s"
  using assms
proof (induction cs arbitrary: s)
  case Nil
  then show ?case by simp
next
  case (Cons d cs)
  let ?r = "recovery_id env (oc_identity d)"
  let ?s = "s\<lparr>orders := AList.update ?r (recovered_order env d) (orders s)\<rparr>"
  have "order_id (recovered_order env d) = ?r" by (simp add: recovered_order_def new_order_def)
  then have run: "book_credits env cs ?s = (Inr (), t)"
    using Cons.prems(1) by (simp add: bindS_def put_order_def)
  have d: "?r \<notin> recovery_id env ` oc_identity ` set cs"
  proof
    assume "?r \<in> recovery_id env ` oc_identity ` set cs"
    then obtain e where e: "e \<in> set cs" "?r = recovery_id env (oc_identity e)" by auto
    then have "oc_identity d = oc_identity e" by (intro inj_onD[OF Cons.prems(2)]) auto
    then show False using Cons.prems(3) e(1) by (auto simp: image_iff)
  qed
  have IH: "\<forall>c\<in>set cs. map_of (orders t) (recovery_id env (oc_identity c)) = Some (recovered_order env c)"
    "\<forall>k. k \<notin> recovery_id env ` oc_identity ` set cs \<longrightarrow> map_of (orders t) k = map_of (orders ?s) k"
    "sut_rpc t = sut_rpc ?s"
    using Cons.IH[OF run] Cons.prems(2,3) by (auto intro: inj_on_subset)
  then show ?case using d by (auto simp: update_conv')
qed


text \<open>No two of these identities have recovery ids that collide under SHA-256.\<close>

definition no_collision :: "sut_env \<Rightarrow> settlement_identity set \<Rightarrow> bool" where
  "no_collision env is \<longleftrightarrow> inj_on (\<lambda>i. env_sha256 env (identity_text i)) is"

lemma no_collision_recovery: "no_collision env is \<Longrightarrow> inj_on (recovery_id env) is"
  by (simp add: no_collision_def recovery_id_def inj_on_def)

definition ledger_identities :: "ledger \<Rightarrow> settlement_identity set" where
  "ledger_identities os = entry_identity ` known_identities os"

lemma booked_known:
  assumes inv: "ledger_inv env (orders s)" and run: "book_credits env cs s = (Inr (), t)"
    and inv': "ledger_inv env (orders t)"
    and coll: "no_collision env (ledger_identities (orders s) \<union> oc_identity ` set cs)"
    and new: "distinct (map oc_identity cs)" "oc_identity ` set cs \<inter> ledger_identities (orders s) = {}"
  shows "known_identities (orders s) \<subseteq> known_identities (orders t)"
    and "oc_identity ` set cs \<subseteq> ledger_identities (orders t)"
    and "\<forall>c\<in>set cs. map_of (orders t) (recovery_id env (oc_identity c)) = Some (recovered_order env c)"
    and "\<forall>k. k \<notin> recovery_id env ` oc_identity ` set cs \<longrightarrow> map_of (orders t) k = map_of (orders s) k"
proof -
  let ?R = "recovery_id env ` oc_identity ` set cs"
  have inj: "inj_on (recovery_id env) (ledger_identities (orders s) \<union> oc_identity ` set cs)"
    using coll by (rule no_collision_recovery)
  have L: "\<forall>c\<in>set cs. map_of (orders t) (recovery_id env (oc_identity c)) = Some (recovered_order env c)"
    "\<forall>k. k \<notin> ?R \<longrightarrow> map_of (orders t) k = map_of (orders s) k"
    using book_credits_lookup[OF run inj_on_subset[OF inj] new(1)] by auto
  show "\<forall>c\<in>set cs. map_of (orders t) (recovery_id env (oc_identity c)) = Some (recovered_order env c)"
    "\<forall>k. k \<notin> ?R \<longrightarrow> map_of (orders t) k = map_of (orders s) k" using L by auto
  have "LedgerIdentity (oc_identity c) \<in> known_identities (orders t)" if "c \<in> set cs" for c
    unfolding known_identities_iff[OF inv'] using L(1) that
    by (intro exI[of _ "recovery_id env (oc_identity c)"] exI[of _ "recovered_order env c"]
        exI[of _ "oc_identity c"]) (simp add: recovered_order_def)
  then show "oc_identity ` set cs \<subseteq> ledger_identities (orders t)"
    by (force simp: ledger_identities_def)
  show "known_identities (orders s) \<subseteq> known_identities (orders t)"
  proof
    fix x assume x: "x \<in> known_identities (orders s)"
    then obtain k o' i where o: "map_of (orders s) k = Some o'" "paid o'" "ord_identity o' = Some i"
      "x = LedgerIdentity i" unfolding known_identities_iff[OF inv] by blast
    have i: "i \<in> ledger_identities (orders s)" using x o(4) by (force simp: ledger_identities_def)
    have "k \<notin> ?R"
    proof
      assume "k \<in> ?R"
      then obtain c where c: "c \<in> set cs" "k = recovery_id env (oc_identity c)" by auto
      have oi: "order_inv env k o'" using ledger_inv_lookup[OF inv o(1)] .
      have "startswith k ''rec_''" using c by (simp add: recovery_id_def startswith_def)
      then have "k = recovery_id env i" using oi o(3) by (auto simp: order_inv_def)
      then have "i = oc_identity c" using c i by (intro inj_onD[OF inj]) auto
      then show False using new(2) i c(1) by auto
    qed
    then show "x \<in> known_identities (orders t)" using L(2) o unfolding known_identities_iff[OF inv'] by metis
  qed
qed

lemma reconcile_run:
  assumes "reconcile env cfg from_block s = (Inr cs, t)" "cfg_reconciliation_enabled cfg"
  obtains m logs c where "topic_addr (cfg_merchant_address cfg) = Inr m"
    "get_logs (cfg_token_address cfg) [Some topic_transfer, None, Some m] (BlockNumber from_block)
       (BlockTag ''latest'') (sut_rpc s) = (Inr logs, c)"
    "find_unreconciled logs (known_identities (orders s)) (cfg_chain_id cfg) (Some (cfg_token_address cfg))
       (Some (cfg_merchant_address cfg)) = Inr cs"
    "book_credits env cs (s\<lparr>sut_rpc := c\<rparr>) = (Inr (), t)"
  using assms by (auto simp: reconcile_def bindS_ok on_rpc_ok backup_ledger_def)

text \<open>
  C8: A working reconciliation job heals the ledger and then stays quiet.  When it runs on a
  ledger that satisfies the invariant and books what it found, then for every found settlement the
  ledger holds, under the id derived from its identity, an order that is paid, recovered and not
  pending, with the amount, the identity and the transaction of the settlement and an unlocked
  resource; every other order is as before, and so is every identity the ledger held; and a second run
  over the same logs finds nothing and changes no order.  SHA-256 is a parameter; assumed is only
  that it does not collide on the identities at hand.
\<close>

theorem reconcile_heals_ledger:
  assumes "ledger_inv env (orders s)" "cfg_reconciliation_enabled cfg"
    and run: "reconcile env cfg from_block s = (Inr cs, t)"
    and coll: "no_collision env (ledger_identities (orders s) \<union> oc_identity ` set cs)"
    and m: "topic_addr (cfg_merchant_address cfg) = Inr m"
    and same: "get_logs (cfg_token_address cfg) [Some topic_transfer, None, Some m] (BlockNumber from_block)
          (BlockTag ''latest'') (sut_rpc s) = (Inr logs, c1)"
        "get_logs (cfg_token_address cfg) [Some topic_transfer, None, Some m] (BlockNumber from_block)
          (BlockTag ''latest'') (sut_rpc t) = (Inr logs', c2)" "set logs' = set logs"
  shows "(\<forall>c\<in>set cs. \<exists>ord. map_of (orders t) (recovery_id env (oc_identity c)) = Some ord \<and>
        order_id ord = recovery_id env (oc_identity c) \<and> paid ord \<and> recovered ord \<and> pending_tx ord = None \<and>
        ord_amount ord = oc_value c \<and> ord_identity ord = Some (oc_identity c) \<and>
        submitted_tx ord = Some (oc_tx_hash c) \<and> resource ord = Some (''recovered::'' @ oc_tx_hash c))
    \<and> (\<forall>k. k \<notin> recovery_id env ` oc_identity ` set cs \<longrightarrow> map_of (orders t) k = map_of (orders s) k)
    \<and> ledger_identities (orders s) \<union> oc_identity ` set cs \<subseteq> ledger_identities (orders t)
    \<and> reconcile env cfg from_block t = (Inr [], t\<lparr>sut_rpc := c2\<rparr>)"
proof -
  from run assms(2) obtain c where f: "find_unreconciled logs (known_identities (orders s)) (cfg_chain_id cfg)
      (Some (cfg_token_address cfg)) (Some (cfg_merchant_address cfg)) = Inr cs"
    and b: "book_credits env cs (s\<lparr>sut_rpc := c\<rparr>) = (Inr (), t)"
    by (rule reconcile_run) (use m same(1) in auto)
  have inv': "ledger_inv env (orders t)"
    using holdsS_D[OF reconcile_holds _ run] assms(1) by (simp add: inv_def)
  have "set cs = unknown_live (known_identities (orders s)) (log_credits (cfg_chain_id cfg) (set logs))"
    using f by (rule snapshot_recon.found)
  then have new: "oc_identity ` set cs \<inter> ledger_identities (orders s) = {}"
    by (auto simp: unknown_live_def ledger_identities_def)
  have o: "orders (s\<lparr>sut_rpc := c\<rparr>) = orders s" by simp
  note K = booked_known[of env "s\<lparr>sut_rpc := c\<rparr>" cs t, unfolded o, OF assms(1) b inv' coll snapshot_recon.no_repeat[OF f] new]
  have "find_unreconciled logs (known_identities (orders t)) (cfg_chain_id cfg)
      (Some (cfg_token_address cfg)) (Some (cfg_merchant_address cfg)) = Inr []"
    using f K(2)[unfolded ledger_identities_def] K(1) by (rule snapshot_recon.heals)
  then have "find_unreconciled logs' (known_identities (orders t)) (cfg_chain_id cfg)
      (Some (cfg_token_address cfg)) (Some (cfg_merchant_address cfg)) = Inr []"
    using same(3) snapshot_recon.order_independent by metis
  then have "reconcile env cfg from_block t = (Inr [], t\<lparr>sut_rpc := c2\<rparr>)"
    using m same(2) assms(2) by (simp add: reconcile_def bindS_ok on_rpc_ok backup_ledger_def)
  moreover have "ledger_identities (orders s) \<union> oc_identity ` set cs \<subseteq> ledger_identities (orders t)"
    using K(1,2) by (auto simp: ledger_identities_def)
  moreover have "order_id (recovered_order env c) = recovery_id env (oc_identity c) \<and> paid (recovered_order env c) \<and>
      recovered (recovered_order env c) \<and> pending_tx (recovered_order env c) = None \<and>
      ord_amount (recovered_order env c) = oc_value c \<and> ord_identity (recovered_order env c) = Some (oc_identity c) \<and>
      submitted_tx (recovered_order env c) = Some (oc_tx_hash c) \<and>
      resource (recovered_order env c) = Some (''recovered::'' @ oc_tx_hash c)" for c
    by (simp add: recovered_order_def new_order_def)
  ultimately show ?thesis using K(3,4) by blast
qed

section \<open>Reachable ledgers\<close>

lemma world_inv_reachable:
  "(sut_step env cfg)\<^sup>*\<^sup>* w w' \<Longrightarrow> world_inv env w \<Longrightarrow> world_inv env w'"
  by (induction rule: rtranclp_induct) (auto intro: sut_step_inv)

text \<open>
  C7: Every order of every ledger the system can reach from its construction, through any interleaving of quotes,
  payments on any node, price moves, backups, restorations and reconciliations, is coherent: it
  is stored under its own id, its resource is unlocked exactly when it is paid, a pending
  transaction is always recorded with the authorization it carries, an identity is only held
  by a paid order, and a recovered order is paid, never pending, and stored under the id
  derived from its on-chain identity.
\<close>

theorem reachable_orders_coherent:
  assumes "(sut_step env cfg)\<^sup>*\<^sup>* (s0, []) (s, bs)" "sut_init cfg client = Inr s0" "map_of (orders s) k = Some ord"
  shows "order_id ord = k \<and> (paid ord \<longleftrightarrow> resource ord \<noteq> None)
    \<and> (pending_tx ord = None \<longleftrightarrow> pending_authorization ord = None)
    \<and> (ord_identity ord \<noteq> None \<longrightarrow> paid ord) \<and> 0 \<le> settle_attempts ord
    \<and> (recovered ord \<longrightarrow> paid ord \<and> pending_tx ord = None \<and>
        (\<exists>i. ord_identity ord = Some i \<and> k = recovery_id env i))"
proof -
  have "world_inv env (s0, [])" using assms(2) by (auto simp: world_inv_def ledger_inv_def sut_init_def ok_iff)
  then have "world_inv env (s, bs)" using world_inv_reachable[OF assms(1)] by simp
  then have "order_inv env k ord"
    using ledger_inv_lookup[of env "orders s" k ord] assms(3) by (simp add: world_inv_def)
  then show ?thesis by (auto simp: order_inv_def)
qed

section \<open>A concrete system\<close>

definition demo_cfg :: "int \<Rightarrow> sut_config" where
  "demo_cfg cid =
     \<lparr>cfg_token_address = sample_address (CHR ''A''), cfg_merchant_address = sample_address (CHR ''2''),
      cfg_chain_id = cid, cfg_token_name = ''USDC'', cfg_token_version = ''2'', cfg_price = 1000,
      cfg_gas = 300000, cfg_reconciliation_enabled = True, cfg_quote_ttl = 3600,
      cfg_reprice_on_pay = False, cfg_reprice_tolerance = Some (DFinite 2 (- 2)),
      cfg_idempotent_pay = True, cfg_confirm_without_waiting = False, cfg_receipt_tries = 2\<rparr>"

definition demo_env :: sut_env where
  "demo_env =
     \<lparr>env_account_address = sample_address (CHR ''f''), env_sign = \<lambda>_. Inr ''0x00'',
      env_sha256 = \<lambda>s. s, env_text = \<lambda>_. ''?''\<rparr>"

definition demo_receipt :: pydict where
  "demo_receipt = dict_set (sample_receipt ''0x1'') ''to'' (PStr (sample_address (CHR ''A'')))"

definition demo_answer :: "string \<Rightarrow> pyval" where
  "demo_answer meth =
     (if meth = ''eth_blockNumber'' then PStr ''0x5''
      else if meth = ''eth_getTransactionReceipt'' then PDict demo_receipt
      else if meth = ''eth_getLogs'' then PList [PDict sample_log1]
      else PNone)"

definition demo_node :: transport where
  "demo_node req =
     (case req of
        PDict d \<Rightarrow>
          Inr (PDict [(PStr ''jsonrpc'', PStr ''2.0''), (PStr ''id'', dict_get d ''id''),
            (PStr ''result'', demo_answer (str_of (dict_get d ''method'')))])
      | _ \<Rightarrow> Inl (RpcError ''no object''))"

definition demo_sut :: "ledger \<Rightarrow> int \<Rightarrow> sut" where
  "demo_sut os i = \<lparr>orders = os, fair_price = 1000, sut_rpc = \<lparr>rpc_id = i, rpc_transport = demo_node\<rparr>\<rparr>"

definition demo_authorization :: pydict where
  "demo_authorization = obj
     [(''from'', PStr (sample_address (CHR ''1''))), (''to'', PStr (sample_address (CHR ''2''))),
      (''value'', PStr ''1000''), (''nonce'', PStr (sample_hash (CHR ''d'')))]"

definition demo_order :: order where
  "demo_order = new_order ''ord_1'' 1000 50 1000 5"

definition pending_order :: order where
  "pending_order = set_pending (sample_hash (CHR ''e'')) demo_authorization demo_order"

definition paid_order :: order where
  "paid_order = (unlock ''ord_1'' demo_order)\<lparr>ord_identity :=
     Some (SettlementIdentity 31337 (sample_address (CHR ''a'')) (sample_hash (CHR ''e'')) 3)\<rparr>"

lemma demo_rpc: "sut_rpc (demo_sut os i) = \<lparr>rpc_id = i, rpc_transport = demo_node\<rparr>"
  by (simp add: demo_sut_def)

lemma demo_pay:
  "map_of (orders (snd (pay demo_env (demo_cfg 31337) 10 ''ord_1'' demo_authorization
     (demo_sut [(''ord_1'', pending_order)] 0)))) ''ord_1'' = Some paid_order"
  by code_simp

section \<open>Instances of the properties\<close>

theorem pay_idempotent_witness:
  "snd (pay demo_env (demo_cfg 31337) 10 ''ord_1'' demo_authorization (demo_sut [(''ord_1'', paid_order)] 0)) =
     demo_sut [(''ord_1'', paid_order)] 0"
  using pay_idempotent[of "demo_cfg 31337" "demo_sut [(''ord_1'', paid_order)] 0" "''ord_1''" paid_order]
  by (simp add: demo_cfg_def demo_sut_def paid_order_def unlock_def)

lemma demo_items:
  "str_item demo_env demo_authorization ''nonce'' = Inr (sample_hash (CHR ''d''))"
  "str_item demo_env demo_authorization ''from'' = Inr (sample_address (CHR ''1''))"
  "str_item demo_env demo_authorization ''to'' = Inr (sample_address (CHR ''2''))"
  "dict_item demo_authorization ''value'' = Inr (PStr ''1000'')"
  by code_simp+

theorem submission_needs_policy_witness:
  "submit_settlement (demo_env\<lparr>env_sign := \<lambda>_. Inr ''0xff''\<rparr>) (demo_cfg 1) demo_authorization
       (sut_rpc (demo_sut [] 0)) =
     (Inl (SettlementSafetyError ''chain is not in the local/testnet allowlist''), sut_rpc (demo_sut [] 0))"
proof -
  have "require_safe_submission (cfg_chain_id (demo_cfg 1)) (cfg_token_address (demo_cfg 1))
      (sample_address (CHR ''1'')) (cfg_merchant_address (demo_cfg 1)) (sample_address (CHR ''2''))
      (PStr ''1000'') (cfg_price (demo_cfg 1)) (sut_rpc (demo_sut [] 0)) =
    (Inl (SettlementSafetyError ''chain is not in the local/testnet allowlist''), sut_rpc (demo_sut [] 0))"
    by (simp add: require_safe_submission_def demo_cfg_def allowed_settlement_chain_ids_def)
  then show ?thesis using submission_needs_policy[OF demo_items(2-4)] by blast
qed

theorem refused_submission_counted_witness:
  "map_option settle_attempts (map_of (orders (snd (pay demo_env (demo_cfg 1) 10 ''ord_1'' demo_authorization
     (demo_sut [(''ord_1'', demo_order)] 0)))) ''ord_1'') = Some (settle_attempts demo_order + 1)"
  using refused_submission_counted[OF _ _ _ _ _ _ demo_items, of "demo_sut [(''ord_1'', demo_order)] 0" "''ord_1''"
      demo_order 10 "demo_cfg 1"]
  by (simp add: demo_sut_def demo_order_def new_order_def demo_cfg_def allowed_settlement_chain_ids_def)

definition mute_node :: transport where
  "mute_node req =
     (case req of
        PDict d \<Rightarrow> if dict_get d ''method'' = PStr ''eth_sendRawTransaction'' then Inl (RpcError ''mute'')
                   else demo_node req
      | _ \<Rightarrow> demo_node req)"

theorem pending_retry_only_reads_witness:
  "fst (pay demo_env (demo_cfg 31337) 10 ''ord_1'' [] (demo_sut [(''ord_1'', pending_order)] 0)) =
   fst (pay demo_env (demo_cfg 31337) 10 ''ord_1'' []
     ((demo_sut [(''ord_1'', pending_order)] 0)\<lparr>sut_rpc := \<lparr>rpc_id = 0, rpc_transport = mute_node\<rparr>\<rparr>))"
proof -
  have "mute_node (rpc_request i meth params) = demo_node (rpc_request i meth params)"
    if "meth \<in> set read_methods" for i meth params
    using that by (auto simp: mute_node_def rpc_request_def dict_get_def read_methods_def)
  then have "same_view (demo_sut [(''ord_1'', pending_order)] 0)
      ((demo_sut [(''ord_1'', pending_order)] 0)\<lparr>sut_rpc := \<lparr>rpc_id = 0, rpc_transport = mute_node\<rparr>\<rparr>)"
    by (simp add: same_view_def same_reads_def demo_sut_def)
  from pending_retry_only_reads[OF _ _ _ _ this] show ?thesis
    by (simp add: demo_cfg_def demo_sut_def pending_order_def set_pending_def)
qed

theorem pay_unlocks_on_evidence_witness:
  "\<exists>receipt fetched i payer nonce tx c. receipt_answer (sut_rpc (demo_sut [(''ord_1'', pending_order)] 0)) c tx receipt \<and>
     settlement_evidence topic_transfer (cfg_token_address (demo_cfg 31337)) payer
       (cfg_merchant_address (demo_cfg 31337)) (ord_amount pending_order) nonce tx receipt fetched i"
proof -
  let ?s = "demo_sut [(''ord_1'', pending_order)] 0"
  obtain r t where run: "pay demo_env (demo_cfg 31337) 10 ''ord_1'' demo_authorization ?s = (r, t)" by fastforce
  have "map_of (orders ?s) ''ord_1'' = Some pending_order" "\<not> paid pending_order" "paid paid_order"
    by (simp_all add: demo_sut_def pending_order_def set_pending_def demo_order_def new_order_def
        paid_order_def unlock_def)
  moreover have "map_of (orders t) ''ord_1'' = Some paid_order" using demo_pay run by simp
  ultimately show ?thesis using pay_unlocks_on_evidence[OF run] by blast
qed

theorem reachable_orders_coherent_witness:
  "\<exists>ord. map_of (orders (snd (quote (demo_cfg 31337) ''1'' 100 (demo_sut [] 0)))) ''ord_1'' = Some ord \<and>
     order_id ord = ''ord_1'' \<and> (paid ord \<longleftrightarrow> resource ord \<noteq> None)"
proof -
  let ?t = "snd (quote (demo_cfg 31337) ''1'' 100 (demo_sut [] 0))"
  have o: "map_of (orders ?t) ''ord_1'' = Some (new_order ''ord_1'' 1000 3700 1000 5)" by code_simp
  have "sut_step demo_env (demo_cfg 31337) (demo_sut [] 0, []) (?t, [])"
    by (rule sut_step.quoted[OF prod.collapse[symmetric]])
  then have "(sut_step demo_env (demo_cfg 31337))\<^sup>*\<^sup>* (demo_sut [] 0, []) (?t, [])" by blast
  moreover have "slot_addr (cfg_token_address (demo_cfg 31337)) \<noteq> Inl e" for e by code_simp
  then have "sut_init (demo_cfg 31337) (sut_rpc (demo_sut [] 0)) = Inr (demo_sut [] 0)"
    by (cases "slot_addr (cfg_token_address (demo_cfg 31337))")
      (simp_all add: sut_init_def token_view_init_def demo_sut_def demo_cfg_def)
  ultimately show ?thesis using reachable_orders_coherent[OF _ _ o] o by blast
qed

definition demo_healed :: sut where
  "demo_healed = demo_sut [(recovery_id demo_env (oc_identity (sample_credit (sample_address (CHR ''1'')) 3)),
     recovered_order demo_env (sample_credit (sample_address (CHR ''1'')) 3))] 1"

lemma demo_step:
  assumes "keepsS rpc_mono m"
    and "(case m (sut_rpc (demo_sut os i)) of (r, c) \<Rightarrow> (r, rpc_id c)) = (r, j)"
  shows "m (sut_rpc (demo_sut os i)) = (r, sut_rpc (demo_sut os j))"
proof -
  obtain r' c where m: "m (sut_rpc (demo_sut os i)) = (r', c)" by fastforce
  have "rpc_transport c = demo_node"
    using keepsS_D[OF assms(1) m] by (simp add: rpc_mono_def demo_rpc)
  then show ?thesis using assms(2) m by (cases c) (auto simp: demo_rpc)
qed

abbreviation "merchant_topic \<equiv> padded_topic (sample_address (CHR ''2''))"

lemma demo_logs:
  "get_logs (sample_address (CHR ''A'')) [Some topic_transfer, None, Some merchant_topic] (BlockNumber 0)
     (BlockTag ''latest'') (sut_rpc (demo_sut [] 0)) = (Inr [sample_log1], sut_rpc (demo_sut [] 1))"
  "get_logs (sample_address (CHR ''A'')) [Some topic_transfer, None, Some merchant_topic] (BlockNumber 0)
     (BlockTag ''latest'') (sut_rpc (demo_sut [] 1)) = (Inr [sample_log1], sut_rpc (demo_sut [] 2))"
  by (rule demo_step[OF client_keeps(7)], code_simp)+

lemma demo_found:
  "find_unreconciled [sample_log1] {} 8453 (Some (sample_address (CHR ''A''))) (Some (sample_address (CHR ''2''))) =
     Inr [sample_credit (sample_address (CHR ''1'')) 3]"
  by code_simp

lemma demo_topic: "topic_addr (cfg_merchant_address (demo_cfg cid)) = Inr merchant_topic"
proof -
  have "topic_addr (sample_address (CHR ''2'')) = Inr merchant_topic" by code_simp
  then show ?thesis by (simp add: demo_cfg_def)
qed

lemma demo_reconcile:
  "reconcile demo_env (demo_cfg 8453) 0 (demo_sut [] 0) =
     (Inr [sample_credit (sample_address (CHR ''1'')) 3], demo_healed)"
proof -
  have known: "known_identities (orders (demo_sut [] i)) = {}" for i
    by (simp add: demo_sut_def known_identities_def List.map_filter_def)
  have cfg: "cfg_token_address (demo_cfg c) = sample_address (CHR ''A'')"
    "cfg_merchant_address (demo_cfg c) = sample_address (CHR ''2'')" "cfg_chain_id (demo_cfg c) = c"
    "cfg_reconciliation_enabled (demo_cfg c)" for c by (simp_all add: demo_cfg_def)
  have topic: "topic_addr (sample_address (CHR ''2'')) = Inr merchant_topic"
    using demo_topic[of 1] by (simp add: cfg)
  show ?thesis
    using demo_found
    by (simp add: reconcile_def bindS_ok cfg topic on_rpc_ok demo_logs backup_ledger_def known)
      (simp add: demo_sut_def known_identities_def List.map_filter_def demo_healed_def bindS_def put_order_def
        recovered_order_def new_order_def)
qed

theorem reconcile_heals_ledger_witness:
  "reconcile demo_env (demo_cfg 8453) 0 demo_healed = (Inr [], demo_healed\<lparr>sut_rpc := sut_rpc (demo_sut [] 2)\<rparr>)"
proof -
  have "ledger_inv demo_env (orders (demo_sut [] 0))" by (simp add: ledger_inv_def demo_sut_def)
  moreover have "cfg_reconciliation_enabled (demo_cfg 8453)" "cfg_token_address (demo_cfg 8453) = sample_address (CHR ''A'')"
    by (simp_all add: demo_cfg_def)
  moreover have "no_collision demo_env (ledger_identities (orders (demo_sut [] 0)) \<union>
      oc_identity ` set [sample_credit (sample_address (CHR ''1'')) 3])"
    by (simp add: no_collision_def ledger_identities_def known_identities_def List.map_filter_def demo_sut_def)
  moreover have "sut_rpc demo_healed = sut_rpc (demo_sut [] 1)" by (simp add: demo_healed_def demo_sut_def)
  ultimately show ?thesis
    using reconcile_heals_ledger[OF _ _ demo_reconcile _ demo_topic, of "[sample_log1]" _ "[sample_log1]"] demo_logs
    by simp
qed

end
