(* ===== verification/Token_Quirks.thy ===== *)
theory Token_Quirks
  imports Quote_Option Divergence
begin

text \<open>
  \<^verbatim>\<open>psv/token_quirks.py\<close>: exact conversion between human amounts and atomic units, and the
  arithmetic of fee-on-transfer tokens.  The reading of text by \<^verbatim>\<open>decimal.Decimal\<close> is written out;
  a signed coefficient cannot tell the two zeros of \<^verbatim>\<open>Decimal\<close> apart, which the source does
  not do either.
\<close>

section \<open>Decimal text\<close>

definition signed_digits :: "string \<Rightarrow> int option" where
  "signed_digits s =
     (let ds = (if startswith s ''-'' \<or> startswith s ''+'' then drop 1 s else s) in
      if ds = [] \<or> \<not> (\<forall>c\<in>set ds. is_dec c) then None
      else Some (if startswith s ''-'' then - digits_val 10 ds else digits_val 10 ds))"

definition exponent_part :: "string \<Rightarrow> int option" where
  "exponent_part s =
     (case s of [] \<Rightarrow> Some 0
      | c # cs \<Rightarrow> if c = CHR ''e'' \<or> c = CHR ''E'' then signed_digits cs else None)"

text \<open>The number of decimal digits, and the limits of an exact \<^verbatim>\<open>Decimal\<close>.\<close>

definition digit_count :: "int \<Rightarrow> int" where
  "digit_count n = int (length (digits_of 10 n))"

definition decimal_fits :: "int \<Rightarrow> int \<Rightarrow> bool" where
  "decimal_fits c e \<longleftrightarrow> - 1999999999999999997 \<le> e \<and> e + digit_count c - 1 \<le> 999999999999999999"

definition decimal_number :: "string \<Rightarrow> (int \<times> int) option" where
  "decimal_number s =
     (let w = takeWhile is_dec s; r = dropWhile is_dec s;
          dot = startswith r ''.'';
          f = (if dot then takeWhile is_dec (drop 1 r) else []);
          rest = (if dot then dropWhile is_dec (drop 1 r) else r)
      in if w @ f = [] then None
         else case exponent_part rest of
           None \<Rightarrow> None
         | Some x \<Rightarrow>
             let c = digits_val 10 (w @ f); e = x - int (length f) in
             if decimal_fits c e then Some (c, e) else None)"

definition decimal_special :: "string \<Rightarrow> decimal option" where
  "decimal_special s =
     (let t = lower s in
      if t = ''inf'' \<or> t = ''infinity'' then Some (DInfinity False)
      else if startswith t ''nan'' \<and> (\<forall>c\<in>set (drop 3 t). is_dec c) then Some DNaN
      else if startswith t ''snan'' \<and> (\<forall>c\<in>set (drop 4 t). is_dec c) then Some DNaN
      else None)"

text \<open>\<^verbatim>\<open>Decimal(s)\<close>; \<open>None\<close> is \<^verbatim>\<open>InvalidOperation\<close>.\<close>

definition decimal_text :: "string \<Rightarrow> decimal option" where
  "decimal_text s =
     (let t = filter (\<lambda>c. c \<noteq> CHR ''_'') (py_strip s);
          neg = startswith t ''-'';
          u = (if neg \<or> startswith t ''+'' then drop 1 t else t)
      in case decimal_number u of
           Some (c, e) \<Rightarrow> Some (DFinite (if neg then - c else c) e)
         | None \<Rightarrow> (case decimal_special u of
             Some (DInfinity b) \<Rightarrow> Some (DInfinity neg)
           | r \<Rightarrow> r))"

section \<open>Operations\<close>

definition tq_decimals :: "int \<Rightarrow> int result" where
  "tq_decimals v =
     (if 0 \<le> v \<and> v \<le> 255 then Inr v else Inl (ValueError ''decimals must be an integer within [0, 255]''))"

definition tq_uint256 :: "string \<Rightarrow> int \<Rightarrow> int result" where
  "tq_uint256 what v = (if uint256 v then Inr v else Inl (ValueError (what @ '' must be a uint256'')))"

text \<open>The type \<^verbatim>\<open>str | int\<close>, and \<^verbatim>\<open>Decimal(str(human))\<close> with the size limits of both.\<close>

datatype human = HText string | HInt int

definition human_decimal :: "human \<Rightarrow> decimal result" where
  "human_decimal h =
     (case h of
        HText s \<Rightarrow>
          if 1024 < length s then Inl (ValueError ''human amount exceeds the input size limit'')
          else (case decimal_text s of
                  None \<Rightarrow> Inl (ValueError ''invalid human amount'')
                | Some d \<Rightarrow> Inr d)
      | HInt n \<Rightarrow>
          if 4300 < digit_count \<bar>n\<bar> then Inl (ValueError ''Exceeds the limit for integer string conversion'')
          else Inr (DFinite n 0))"

text \<open>The coefficient times ten to the scaled exponent, if that is an integer of at most 78 digits.\<close>

definition scale_atomic :: "int \<Rightarrow> int \<Rightarrow> int result" where
  "scale_atomic coefficient scaled =
     (if scaled \<ge> 0 then
        if coefficient \<noteq> 0 \<and> digit_count coefficient + scaled > 78
        then Inl (ValueError ''atomic amount must be a uint256'')
        else Inr (coefficient * 10 ^ nat scaled)
      else
        let divisor_places = - scaled; divisor = 10 ^ nat divisor_places in
        if coefficient \<noteq> 0 \<and> divisor_places > digit_count coefficient
        then Inl (ValueError ''not representable'')
        else if coefficient mod divisor \<noteq> 0 then Inl (ValueError ''not representable'')
        else Inr (coefficient div divisor))"

definition to_atomic :: "human \<Rightarrow> int \<Rightarrow> int result" where
  "to_atomic h decimals =
     bindR (tq_decimals decimals) (\<lambda>places.
     bindR (human_decimal h) (\<lambda>amount.
     case amount of
       DFinite coefficient exponent \<Rightarrow>
         if coefficient < 0 then Inl (ValueError ''human amount must be finite and non-negative'')
         else
         bindR (scale_atomic coefficient (exponent + places)) (\<lambda>atomic.
         tq_uint256 ''atomic amount'' atomic)
     | _ \<Rightarrow> Inl (ValueError ''human amount must be finite and non-negative'')))"

definition rstrip_zeros :: "string \<Rightarrow> string" where
  "rstrip_zeros s = rev (dropWhile (\<lambda>c. c = CHR ''0'') (rev s))"

definition from_atomic :: "int \<Rightarrow> int \<Rightarrow> string result" where
  "from_atomic atomic decimals =
     bindR (tq_uint256 ''atomic amount'' atomic) (\<lambda>value.
     bindR (tq_decimals decimals) (\<lambda>places.
     if places = 0 then Inr (py_str_int value)
     else
     let digits = rjust (nat places + 1) (CHR ''0'') (py_str_int value);
         whole = take (length digits - nat places) digits;
         fraction = rstrip_zeros (drop (length digits - nat places) digits)
     in Inr (if fraction = [] then whole else whole @ ''.'' @ fraction)))"

definition net_after_fee :: "int \<Rightarrow> int \<Rightarrow> int result" where
  "net_after_fee gross fee_bps =
     bindR (tq_uint256 ''gross'' gross) (\<lambda>amount.
     if \<not> (0 \<le> fee_bps \<and> fee_bps \<le> 10000)
     then Inl (ValueError ''fee_bps must be an integer within [0, 10000]'')
     else Inr (amount - (amount * fee_bps) div 10000))"

definition received_is_sufficient :: "int \<Rightarrow> int \<Rightarrow> bool result" where
  "received_is_sufficient received required =
     bindR (tq_uint256 ''received'' received) (\<lambda>r.
     bindR (tq_uint256 ''required'' required) (\<lambda>q. Inr (r \<ge> q)))"

definition underpayment :: "int \<Rightarrow> int \<Rightarrow> int result" where
  "underpayment received required =
     bindR (tq_uint256 ''received'' received) (\<lambda>actual.
     bindR (tq_uint256 ''required'' required) (\<lambda>expected. Inr (max 0 (expected - actual))))"

section \<open>Exactness of the conversion\<close>

lemma tq_ok [ok_iff]:
  "tq_decimals v = Inr n \<longleftrightarrow> 0 \<le> v \<and> v \<le> 255 \<and> n = v"
  "tq_uint256 what v = Inr n \<longleftrightarrow> uint256 v \<and> n = v"
  by (auto simp: tq_decimals_def tq_uint256_def)

lemma digit_count_bounds:
  assumes "0 < n"
  shows "10 ^ nat (digit_count n - 1) \<le> n" "n < 10 ^ nat (digit_count n)" "1 \<le> digit_count n"
proof -
  let ?s = "digits_of 10 n"
  have c: "\<forall>c\<in>set ?s. 0 \<le> hex_val c \<and> hex_val c < 10"
    using assms digits_of_chars[of 10 n] hex_val_dec by auto
  have v: "digits_val 10 ?s = n" using assms by (simp add: digits_of_val)
  show "n < 10 ^ nat (digit_count n)"
    using digits_val_bounds[of 10 ?s] c v by (simp add: digit_count_def)
  obtain d t where s: "?s = d # t" by (cases ?s) auto
  have "d \<noteq> CHR ''0''" using digits_of_leading[of 10 n] assms s by simp
  moreover have "\<forall>d\<in>set ''0123456789''. d = CHR ''0'' \<or> 1 \<le> hex_val d" by code_simp
  moreover have "d \<in> set ''0123456789''" 
    using assms digits_of_chars[of 10 n d] s by (simp add: is_dec_def)
  ultimately have d: "1 \<le> hex_val d" by blast
  have "0 \<le> digits_val 10 t" using digits_val_bounds[of 10 t] c s by auto
  with d have "10 ^ length t \<le> hex_val d * 10 ^ length t + digits_val 10 t"
    by (smt (verit) mult_le_cancel_right1 zero_less_power)
  then show "10 ^ nat (digit_count n - 1) \<le> n" using v s by (simp add: digits_val_Cons digit_count_def)
  show "1 \<le> digit_count n" using s by (simp add: digit_count_def)
qed

lemma uint256_below: "n \<le> uint256_max \<Longrightarrow> n < 10 ^ 78"
  by (simp add: uint256_max_def)

lemma scale_up:
  assumes "0 \<le> c" "0 \<le> k" "uint256 n"
  shows "scale_atomic c k = Inr n \<longleftrightarrow> n = c * 10 ^ nat k"
proof -
  have "10 ^ 78 \<le> c * 10 ^ nat k" if "c \<noteq> 0" "digit_count c + k > 78"
  proof -
    have d: "10 ^ nat (digit_count c - 1) \<le> c" "1 \<le> digit_count c" using that assms digit_count_bounds[of c] by auto
    have "(10::int) ^ 78 \<le> 10 ^ (nat (digit_count c - 1) + nat k)"
      using that d(2) assms(2) by (intro power_increasing) auto
    also have "\<dots> \<le> c * 10 ^ nat k" using d(1) by (simp add: power_add)
    finally show ?thesis .
  qed
  then have "\<not> uint256 (c * 10 ^ nat k)" if "c \<noteq> 0" "digit_count c + k > 78"
    using that uint256_below[of "c * 10 ^ nat k"] unfolding uint256_def by linarith
  then show ?thesis
    using assms by (cases "c \<noteq> 0 \<and> digit_count c + k > 78") (auto simp: scale_atomic_def)
qed

lemma scale_down:
  assumes "0 \<le> c" "k < 0"
  shows "scale_atomic c k = Inr n \<longleftrightarrow> c = n * 10 ^ nat (- k)"
proof -
  have *: "c mod 10 ^ nat (- k) \<noteq> 0" if "c \<noteq> 0" "- k > digit_count c"
  proof -
    have c: "0 < c" using that assms by simp
    then have "c < 10 ^ nat (digit_count c)" by (rule digit_count_bounds(2))
    also have "\<dots> \<le> 10 ^ nat (- k)" using that by (intro power_increasing) auto
    finally show ?thesis using c by simp
  qed
  show ?thesis
  proof
    assume "scale_atomic c k = Inr n"
    then have "c mod 10 ^ nat (- k) = 0" "n = c div 10 ^ nat (- k)"
      using assms(2) by (auto simp: scale_atomic_def Let_def split: if_splits)
    then show "c = n * 10 ^ nat (- k)" by (metis add.right_neutral div_mult_mod_eq)
  next
    assume "c = n * 10 ^ nat (- k)"
    then have "c mod 10 ^ nat (- k) = 0" "c div 10 ^ nat (- k) = n" by simp_all
    then show "scale_atomic c k = Inr n" using * assms(2) by (auto simp: scale_atomic_def Let_def)
  qed
qed

text \<open>The scaling step in rational arithmetic.\<close>

lemma rat_int_scale: "rat_of_int n = rat_of_int c * 10 ^ k \<longleftrightarrow> n = c * 10 ^ k"
proof -
  have "rat_of_int c * 10 ^ k = rat_of_int (c * 10 ^ k)" by simp
  then show ?thesis by (simp only: of_int_eq_iff)
qed

lemma scaled_value:
  "rat_of_int n = rat_of_int c * 10 powi k \<longleftrightarrow>
     (if 0 \<le> k then n = c * 10 ^ nat k else c = n * 10 ^ nat (- k))"
proof (cases "0 \<le> k")
  case True
  then show ?thesis by (simp add: power_int_def rat_int_scale)
next
  case False
  then have "rat_of_int n = rat_of_int c * 10 powi k \<longleftrightarrow> rat_of_int c = rat_of_int n * 10 ^ nat (- k)"
    by (auto simp: power_int_def field_simps)
  then show ?thesis using False by (simp add: rat_int_scale)
qed

lemma scale_atomic_exact:
  assumes "0 \<le> c" "uint256 n"
  shows "scale_atomic c k = Inr n \<longleftrightarrow> rat_of_int n = rat_of_int c * 10 powi k"
  using scale_up[OF assms(1) _ assms(2), of k] scale_down[OF assms(1), of k n]
  by (simp add: scaled_value)

lemma to_atomic_finite:
  "to_atomic h d = Inr n \<longleftrightarrow>
     0 \<le> d \<and> d \<le> 255 \<and> uint256 n \<and>
     (\<exists>c e. human_decimal h = Inr (DFinite c e) \<and> 0 \<le> c \<and> rat_of_int n = rat_of_int c * 10 powi (e + d))"
proof -
  have "to_atomic h d = Inr n \<longleftrightarrow> 0 \<le> d \<and> d \<le> 255 \<and>
    (\<exists>c e. human_decimal h = Inr (DFinite c e) \<and> 0 \<le> c \<and> scale_atomic c (e + d) = Inr n \<and> uint256 n)"
    by (auto simp: to_atomic_def bindR_ok tq_ok not_less split: decimal.split_asm if_split_asm)
  then show ?thesis using scale_atomic_exact by blast
qed

section \<open>Round trip\<close>

lemma digit_facts:
  assumes "is_dec c"
  shows "\<not> py_isspace c" "c \<noteq> CHR ''_''" "c \<noteq> CHR ''-''" "c \<noteq> CHR ''+''" "c \<noteq> CHR ''.''"
proof -
  have "\<forall>c\<in>set ''0123456789''. \<not> py_isspace c \<and> c \<notin> set ''_-+.''" by code_simp
  then show "\<not> py_isspace c" "c \<noteq> CHR ''_''" "c \<noteq> CHR ''-''" "c \<noteq> CHR ''+''" "c \<noteq> CHR ''.''"
    using assms by (auto simp only: is_dec_def list.set)
qed

lemma py_strip_id:
  assumes "\<And>c. c \<in> set s \<Longrightarrow> \<not> py_isspace c"
  shows "py_strip s = s"
proof -
  have "dropWhile py_isspace s = s" "dropWhile py_isspace (rev s) = rev s"
    using assms by (cases s, simp_all) (cases "rev s"; simp; metis list.set_intros(1) set_rev)
  then show ?thesis by (simp add: py_strip_def)
qed

lemma dot_facts [simp]: "\<not> is_dec (CHR ''.'')" "\<not> py_isspace (CHR ''.'')"
  by code_simp+

lemma decimal_number_plain:
  assumes "w \<noteq> []" "\<forall>c\<in>set w. is_dec c" "\<forall>c\<in>set f. is_dec c"
    and "decimal_fits (digits_val 10 (w @ f)) (- int (length f))"
  shows "decimal_number (w @ (if f = [] then [] else CHR ''.'' # f)) =
    Some (digits_val 10 (w @ f), - int (length f))"
proof -
  have all: "takeWhile is_dec s = s" "dropWhile is_dec s = []" if "\<forall>c\<in>set s. is_dec c" for s
    using that by (auto simp: takeWhile_eq_all_conv dropWhile_eq_Nil_conv)
  have dot: "takeWhile is_dec (w @ CHR ''.'' # f) = w" "dropWhile is_dec (w @ CHR ''.'' # f) = CHR ''.'' # f"
    using assms(2) by (simp_all add: takeWhile_append dropWhile_append)
  show ?thesis
  proof (cases "f = []")
    case True
    then show ?thesis
      using assms(1,4) by (simp add: decimal_number_def exponent_part_def Let_def all[OF assms(2)])
  next
    case False
    then show ?thesis
      using assms(1,4) by (simp add: decimal_number_def exponent_part_def Let_def dot all[OF assms(3)])
  qed
qed

lemma decimal_text_unsigned:
  assumes s: "\<forall>c\<in>set s. is_dec c \<or> c = CHR ''.''" and n: "decimal_number s = Some (c, e)"
  shows "decimal_text s = Some (DFinite c e)"
proof -
  have "py_strip s = s"
  proof (rule py_strip_id)
    show "\<not> py_isspace c" if "c \<in> set s" for c using that s digit_facts(1)[of c] dot_facts(2) by blast
  qed
  moreover have "filter (\<lambda>c. c \<noteq> CHR ''_'') s = s"
    using s digit_facts(2) by (intro filter_True) auto
  moreover have "\<not> startswith s ''-''" "\<not> startswith s ''+''"
    using s digit_facts(3,4) by (cases s; fastforce)+
  ultimately show ?thesis using n by (simp add: decimal_text_def)
qed

lemma decimal_text_plain:
  assumes "w \<noteq> []" "\<forall>c\<in>set w. is_dec c" "\<forall>c\<in>set f. is_dec c"
    and "decimal_fits (digits_val 10 (w @ f)) (- int (length f))"
  shows "decimal_text (w @ (if f = [] then [] else CHR ''.'' # f)) =
    Some (DFinite (digits_val 10 (w @ f)) (- int (length f)))"
  using assms(2,3) by (intro decimal_text_unsigned decimal_number_plain[OF assms]) auto

lemma rstrip_zeros_split: "\<exists>k. s = rstrip_zeros s @ replicate k (CHR ''0'')"
proof -
  let ?p = "\<lambda>c. c = CHR ''0''"
  have "takeWhile ?p (rev s) = replicate (length (takeWhile ?p (rev s))) (CHR ''0'')"
    by (rule replicate_length_same[symmetric]) (auto dest: set_takeWhileD)
  moreover have "s = rstrip_zeros s @ rev (takeWhile ?p (rev s))"
    unfolding rstrip_zeros_def by (metis rev_append rev_rev_ident takeWhile_dropWhile_id)
  ultimately show ?thesis by (metis rev_replicate)
qed

lemma digits_val_scaled: "digits_val 10 (s @ replicate k (CHR ''0'')) = digits_val 10 s * 10 ^ k"
  using digits_val_zeros[of 10 k "[]"] by (simp add: digits_val_append)

lemma decimal_fits_plain:
  assumes "0 \<le> c" "c \<le> n" "uint256 n" "k \<le> 255"
  shows "decimal_fits c (- int k)"
proof -
  have "c < 10 ^ 78" using assms uint256_below[of n] unfolding uint256_def by linarith
  then have "length (digits_of 10 c) \<le> 78" using assms(1) by (intro digits_of_length) auto
  then show ?thesis using assms(4) by (simp add: decimal_fits_def digit_count_def)
qed

text \<open>The shape of the text that \<open>from_atomic\<close> writes.\<close>

lemma from_atomic_shape:
  assumes "uint256 n" "0 \<le> d" "d \<le> 255"
  obtains w f k where "from_atomic n d = Inr (w @ (if f = [] then [] else CHR ''.'' # f))"
    "w \<noteq> []" "\<forall>c\<in>set w. is_dec c" "\<forall>c\<in>set f. is_dec c" "length f + k = nat d"
    "n = digits_val 10 (w @ f) * 10 ^ k" "length w \<le> 334"
proof -
  let ?p = "py_str_int n" and ?D = "rjust (nat d + 1) (CHR ''0'') (py_str_int n)"
  have n: "0 \<le> n" using assms by (simp add: uint256_def)
  have zero: "is_dec (CHR ''0'')" by code_simp
  have p: "?p \<noteq> []" "\<forall>c\<in>set ?p. is_dec c" "digits_val 10 ?p = n"
    using n digits_of_chars[of 10 n] by (auto simp: py_str_int_def digits_of_val)
  have "n < 10 ^ 78" using assms uint256_below[of n] unfolding uint256_def by linarith
  then have l: "length ?p \<le> 78" using n digits_of_length[of 10 n 78] by (simp add: py_str_int_def)
  have D: "digits_val 10 ?D = n" "\<forall>c\<in>set ?D. is_dec c" "nat d < length ?D" "length ?D \<le> 334"
    using p l zero assms by (auto simp: rjust_def)
  let ?w = "take (length ?D - nat d) ?D" and ?g = "drop (length ?D - nat d) ?D"
  obtain k where k: "?g = rstrip_zeros ?g @ replicate k (CHR ''0'')" using rstrip_zeros_split by blast
  have lg: "length ?g = nat d" using D(3) by simp
  have dec: "\<forall>c\<in>set ?w. is_dec c" "\<forall>c\<in>set ?g. is_dec c" using D(2) by (meson in_set_takeD in_set_dropD)+
  show thesis
  proof (cases "d = 0")
    case True
    then show thesis
      using that[of ?p "[]" 0] p l assms by (simp add: from_atomic_def tq_uint256_def tq_decimals_def)
  next
    case False
    show thesis
    proof (rule that[of ?w "rstrip_zeros ?g" k])
      show "from_atomic n d = Inr (?w @ (if rstrip_zeros ?g = [] then [] else CHR ''.'' # rstrip_zeros ?g))"
        using False assms by (simp add: from_atomic_def tq_uint256_def tq_decimals_def Let_def)
      show "\<forall>c\<in>set (rstrip_zeros ?g). is_dec c" using k dec(2) by (metis Un_iff set_append)
      show "length (rstrip_zeros ?g) + k = nat d" using k lg by (metis length_append length_replicate)
      have "?D = (?w @ rstrip_zeros ?g) @ replicate k (CHR ''0'')" using k by (metis append.assoc append_take_drop_id)
      then show "n = digits_val 10 (?w @ rstrip_zeros ?g) * 10 ^ k" using D(1) digits_val_scaled by metis
    qed (use D dec in auto)
  qed
qed

section \<open>Properties\<close>

text \<open>
  Converting a human amount is exact.  \<open>to_atomic\<close> returns \<open>n\<close> precisely when the amount is a
  finite, non-negative decimal, the number of decimals is a uint8, and \<open>n\<close> is a uint256 that
  equals the amount times ten to the decimals in rational arithmetic; the early size tests
  never refuse a representable amount and rounding never happens.
\<close>

theorem to_atomic_exact:
  "to_atomic h d = Inr n \<longleftrightarrow>
     0 \<le> d \<and> d \<le> 255 \<and> 0 \<le> n \<and> n \<le> uint256_max \<and>
     (\<exists>c e. human_decimal h = Inr (DFinite c e) \<and> 0 \<le> c \<and> rat_of_int n = rat_of_int c * 10 powi (e + d))"
  by (simp add: to_atomic_finite uint256_def)

text \<open>
  Printing an atomic amount and reading it back is the identity: for every uint256 and every
  number of decimals \<open>from_atomic\<close> succeeds and \<open>to_atomic\<close> of its text gives the same amount.
\<close>

theorem atomic_roundtrip:
  assumes "uint256 n" "0 \<le> d" "d \<le> 255"
  shows "\<exists>s. from_atomic n d = Inr s \<and> to_atomic (HText s) d = Inr n"
proof -
  obtain w f k where s: "from_atomic n d = Inr (w @ (if f = [] then [] else CHR ''.'' # f))"
    "w \<noteq> []" "\<forall>c\<in>set w. is_dec c" "\<forall>c\<in>set f. is_dec c" "length f + k = nat d"
    "n = digits_val 10 (w @ f) * 10 ^ k" "length w \<le> 334"
    using from_atomic_shape[OF assms] .
  let ?c = "digits_val 10 (w @ f)"
  have c: "0 \<le> ?c" using digits_val_bounds[of 10 "w @ f"] s(3,4) hex_val_dec by auto
  have "?c * 1 \<le> ?c * 10 ^ k" using c by (intro mult_left_mono) auto
  then have "decimal_fits ?c (- int (length f))"
    using s(5,6) c assms by (intro decimal_fits_plain[of _ n]) auto
  moreover have k: "- int (length f) + d = int k" using s(5) assms(2) by simp
  have "rat_of_int n = rat_of_int ?c * 10 powi (- int (length f) + d)"
    unfolding k scaled_value using s(6) by simp
  ultimately have "to_atomic (HText (w @ (if f = [] then [] else CHR ''.'' # f))) d = Inr n"
    using assms c s(5,7) decimal_text_plain[OF s(2-4)]
    by (auto simp: to_atomic_finite human_decimal_def)
  then show ?thesis using s(1) by blast
qed

theorem atomic_roundtrip_witness:
  "\<exists>s. from_atomic 1050000 6 = Inr s \<and> to_atomic (HText s) 6 = Inr 1050000"
  by (rule atomic_roundtrip) (simp_all add: uint256_def uint256_max_def)

text \<open>
  A fee-on-transfer token that skims a payment is caught.  The net amount is the gross less the
  fee rounded down, so it lies between zero and the gross; and when that net amount is what
  the merchant received, the detector reports an underpaid credit exactly when
  \<open>received_is_sufficient\<close> says no, and then \<open>underpayment\<close> is the positive difference.
\<close>

theorem fee_shortfall_detected:
  assumes "net_after_fee gross fee_bps = Inr net" "uint256 required"
    and "funds_moved truth" "payee_delta truth = net"
  shows "0 \<le> net \<and> net \<le> gross \<and> gross - net = (gross * fee_bps) div 10000
    \<and> (kind (detect_payment_divergence truth True (Some required)) = UNDERPAID_CREDIT \<longleftrightarrow>
         received_is_sufficient net required = Inr False)
    \<and> (received_is_sufficient net required = Inr False \<longleftrightarrow>
         (\<exists>short. underpayment net required = Inr short \<and> 0 < short \<and> net + short = required))"
proof -
  have g: "uint256 gross" "0 \<le> fee_bps" "fee_bps \<le> 10000" "net = gross - (gross * fee_bps) div 10000"
    using assms(1) by (auto simp: net_after_fee_def ok_iff split: if_splits)
  have "gross * fee_bps \<le> gross * 10000" using g by (intro mult_left_mono) (auto simp: uint256_def)
  then have "(gross * fee_bps) div 10000 \<le> gross" by linarith
  moreover have "0 \<le> (gross * fee_bps) div 10000" using g by (simp add: uint256_def pos_imp_zdiv_nonneg_iff)
  ultimately have n: "0 \<le> net" "net \<le> gross" using g(4) by simp_all
  then have "uint256 net" using g(1) by (simp add: uint256_def)
  then show ?thesis
    using n g(4) assms(2-4)
    by (auto simp: detect_payment_divergence_def received_is_sufficient_def underpayment_def tq_uint256_def)
qed

definition skimmed_truth :: settlement_truth where
  "skimmed_truth = \<lparr>nonce_consumed = True, payer_balance_after = 0, payee_balance_after = 9900,
     payer_delta = - 10000, payee_delta = 9900\<rparr>"

theorem fee_shortfall_detected_witness:
  "kind (detect_payment_divergence skimmed_truth True (Some 10000)) = UNDERPAID_CREDIT"
proof -
  have "net_after_fee 10000 100 = Inr 9900" "received_is_sufficient 9900 10000 = Inr False"
    "uint256 10000" "funds_moved skimmed_truth" "payee_delta skimmed_truth = 9900" by code_simp+
  then show ?thesis using fee_shortfall_detected by blast
qed

end
