(* ===== verification/Py_Json.thy ===== *)
theory Py_Json
  imports Py_Values "HOL-Library.Char_ord" "HOL-Library.List_Lexorder"
begin

text \<open>
  Python's \<^verbatim>\<open>json.dumps\<close> and \<^verbatim>\<open>json.loads\<close>, as far as psv uses them: the compact, the default and
  the indented layout, key sorting, ASCII escaping, the hooks for objects and constants.

  Parameters: the text of a finite float (\<open>ft\<close>) and its reading (\<open>pf\<close>).  An object with a key that
  is not a string is outside the model, no caller of psv serialises one; so is a \<^verbatim>\<open>\u\<close> escape
  of a code point above 255, which the strings of the model cannot hold: it raises \<open>OtherException\<close>,
  that nothing else here raises.  The nesting the interpreter's stack allows is the
  parameter \<open>dep\<close>; beyond it the decoder raises \<^verbatim>\<open>RecursionError\<close>, a \<open>RuntimeError\<close>.
\<close>

section \<open>Printing\<close>

record json_style =
  js_ascii :: bool
  js_nan :: bool
  js_sort :: bool
  js_item_sep :: string
  js_key_sep :: string
  js_indent :: "nat option"

definition json_char :: "bool \<Rightarrow> char \<Rightarrow> string" where
  "json_char ascii c =
     (if c = CHR 0x22 \<or> c = CHR 0x5C then [CHR 0x5C, c]
      else if c = CHR 0x0A then [CHR 0x5C, CHR ''n'']
      else if c = CHR 0x0D then [CHR 0x5C, CHR ''r'']
      else if c = CHR 0x09 then [CHR 0x5C, CHR ''t'']
      else if c = CHR 0x0C then [CHR 0x5C, CHR ''f'']
      else if c = CHR 0x08 then [CHR 0x5C, CHR ''b'']
      else if code c < 32 \<or> ascii \<and> 126 < code c
      then [CHR 0x5C, CHR ''u'', CHR ''0'', CHR ''0'', digit_char (code c div 16), digit_char (code c mod 16)]
      else [c])"

definition json_str :: "bool \<Rightarrow> string \<Rightarrow> string" where
  "json_str ascii s = CHR 0x22 # concat (map (json_char ascii) s) @ [CHR 0x22]"

definition json_newline :: "json_style \<Rightarrow> nat \<Rightarrow> string" where
  "json_newline st lv =
     (case js_indent st of None \<Rightarrow> [] | Some k \<Rightarrow> CHR 0x0A # replicate (k * lv) (CHR '' ''))"

definition json_float :: "(pyfloat \<Rightarrow> string) \<Rightarrow> pyfloat \<Rightarrow> string" where
  "json_float ft f =
     (case f of Finite m e \<Rightarrow> ft f | PosInf \<Rightarrow> ''Infinity'' | NegInf \<Rightarrow> ''-Infinity'' | NaN \<Rightarrow> ''NaN'')"

fun json_text :: "json_style \<Rightarrow> (pyfloat \<Rightarrow> string) \<Rightarrow> nat \<Rightarrow> pyval \<Rightarrow> string"
  and json_items :: "json_style \<Rightarrow> (pyfloat \<Rightarrow> string) \<Rightarrow> nat \<Rightarrow> pyval list \<Rightarrow> string"
  and json_fields :: "json_style \<Rightarrow> (pyfloat \<Rightarrow> string) \<Rightarrow> nat \<Rightarrow> pydict \<Rightarrow> string" where
  "json_text st ft lv v =
     (case v of
        PNone \<Rightarrow> ''null''
      | PBool b \<Rightarrow> if b then ''true'' else ''false''
      | PInt n \<Rightarrow> py_str_int n
      | PFloat f \<Rightarrow> json_float ft f
      | PStr s \<Rightarrow> json_str (js_ascii st) s
      | PList xs \<Rightarrow>
          if xs = [] then ''[]''
          else CHR ''['' # json_newline st (lv + 1) @ json_items st ft (lv + 1) xs @ json_newline st lv @ '']''
      | PDict kvs \<Rightarrow>
          if kvs = [] then ''{}''
          else CHR ''{'' # json_newline st (lv + 1) @ json_fields st ft (lv + 1) kvs @ json_newline st lv @ ''}''
      | POther t \<Rightarrow> [])"
| "json_items st ft lv [] = []"
| "json_items st ft lv (x # xs) =
     json_text st ft lv x @
     (if xs = [] then [] else js_item_sep st @ json_newline st lv @ json_items st ft lv xs)"
| "json_fields st ft lv [] = []"
| "json_fields st ft lv ((k, x) # kvs) =
     json_str (js_ascii st) (str_of k) @ js_key_sep st @ json_text st ft lv x @
     (if kvs = [] then [] else js_item_sep st @ json_newline st lv @ json_fields st ft lv kvs)"

text \<open>What \<^verbatim>\<open>dumps\<close> refuses.\<close>

fun json_check :: "bool \<Rightarrow> pyval \<Rightarrow> unit result"
  and json_check_items :: "bool \<Rightarrow> pyval list \<Rightarrow> unit result"
  and json_check_fields :: "bool \<Rightarrow> pydict \<Rightarrow> unit result" where
  "json_check nan v =
     (case v of
        PInt n \<Rightarrow> if 4300 < length (digits_of 10 \<bar>n\<bar>)
                  then Inl (ValueError ''Exceeds the limit for integer string conversion'') else Inr ()
      | PFloat f \<Rightarrow> if \<not> nan \<and> f \<in> {PosInf, NegInf, NaN}
                  then Inl (ValueError ''Out of range float values are not JSON compliant'') else Inr ()
      | PList xs \<Rightarrow> json_check_items nan xs
      | PDict kvs \<Rightarrow> json_check_fields nan kvs
      | POther t \<Rightarrow> Inl (TypeError ''Object is not JSON serializable'')
      | _ \<Rightarrow> Inr ())"
| "json_check_items nan [] = Inr ()"
| "json_check_items nan (x # xs) = bindR (json_check nan x) (\<lambda>_. json_check_items nan xs)"
| "json_check_fields nan [] = Inr ()"
| "json_check_fields nan ((k, x) # kvs) =
     (if \<not> is_str k then Inl (TypeError ''keys must be str, int, float, bool or None'')
      else bindR (json_check nan x) (\<lambda>_. json_check_fields nan kvs))"

fun sort_keys :: "pyval \<Rightarrow> pyval"
  and sort_items :: "pyval list \<Rightarrow> pyval list"
  and sort_fields :: "pydict \<Rightarrow> pydict" where
  "sort_keys v =
     (case v of
        PList xs \<Rightarrow> PList (sort_items xs)
      | PDict kvs \<Rightarrow> PDict (sort_key (\<lambda>(k, x). str_of k) (sort_fields kvs))
      | _ \<Rightarrow> v)"
| "sort_items [] = []"
| "sort_items (x # xs) = sort_keys x # sort_items xs"
| "sort_fields [] = []"
| "sort_fields ((k, x) # kvs) = (k, sort_keys x) # sort_fields kvs"

definition dumps :: "json_style \<Rightarrow> (pyfloat \<Rightarrow> string) \<Rightarrow> pyval \<Rightarrow> string result" where
  "dumps st ft v =
     (let w = (if js_sort st then sort_keys v else v) in
      bindR (json_check (js_nan st) w) (\<lambda>_. Inr (json_text st ft 0 w)))"

text \<open>The layouts psv asks for.\<close>

definition default_style :: json_style where
  "default_style = \<lparr>js_ascii = True, js_nan = True, js_sort = False, js_item_sep = '', '', js_key_sep = '': '',
     js_indent = None\<rparr>"

definition indented_style :: json_style where
  "indented_style = default_style\<lparr>js_item_sep := '','', js_indent := Some 2\<rparr>"

definition compact_style :: json_style where
  "compact_style = default_style\<lparr>js_sort := True, js_item_sep := '','', js_key_sep := '':''\<rparr>"

section \<open>Parsing\<close>

definition json_ws :: "char \<Rightarrow> bool" where
  "json_ws c \<longleftrightarrow> c = CHR '' '' \<or> c = CHR 0x09 \<or> c = CHR 0x0A \<or> c = CHR 0x0D"

definition skip_ws :: "string \<Rightarrow> string" where
  "skip_ws s = dropWhile json_ws s"

definition unescape :: "char \<Rightarrow> char option" where
  "unescape e =
     (if e = CHR 0x22 \<or> e = CHR 0x5C \<or> e = CHR ''/'' then Some e
      else if e = CHR ''b'' then Some (CHR 0x08)
      else if e = CHR ''f'' then Some (CHR 0x0C)
      else if e = CHR ''n'' then Some (CHR 0x0A)
      else if e = CHR ''r'' then Some (CHR 0x0D)
      else if e = CHR ''t'' then Some (CHR 0x09)
      else None)"

definition beyond_model :: exn where
  "beyond_model = OtherException ''code point above 255''"

text \<open>After a backslash: the character it stands for and the rest.\<close>

definition json_escape :: "string \<Rightarrow> (char \<times> string) result" where
  "json_escape s =
     (case s of
        [] \<Rightarrow> Inl (ValueError ''Unterminated string'')
      | e # es \<Rightarrow>
          if e = CHR ''u'' then
            let h = take 4 es; u = digits_val 16 h in
            if length h < 4 \<or> \<not> (\<forall>c\<in>set h. is_hex c) then Inl (ValueError ''Invalid u escape'')
            else if u > 255 then Inl beyond_model
            else Inr (char_of u, drop 4 es)
          else
            (case unescape e of
               None \<Rightarrow> Inl (ValueError ''Invalid escape'')
             | Some x \<Rightarrow> Inr (x, es)))"

lemma json_escape_length: "json_escape s = Inr (x, r) \<Longrightarrow> length r < length s"
  by (auto simp: json_escape_def Let_def split: list.splits if_splits option.splits)

text \<open>The characters of a string up to its closing quote, and the rest.\<close>

function json_chars :: "string \<Rightarrow> (string \<times> string) result" where
  "json_chars [] = Inl (ValueError ''Unterminated string'')"
| "json_chars (c # cs) =
     (if c = CHR 0x22 then Inr ([], cs)
      else if c = CHR 0x5C then
        (case json_escape cs of
           Inl e \<Rightarrow> Inl e
         | Inr (x, es) \<Rightarrow> bindR (json_chars es) (\<lambda>(s, r). Inr (x # s, r)))
      else if code c < 32 then Inl (ValueError ''Invalid control character'')
      else bindR (json_chars cs) (\<lambda>(s, r). Inr (c # s, r)))"
  by pat_completeness auto
termination
  by (relation "measure length") (auto dest: json_escape_length)

text \<open>
  The longest number at the start: its text, whether it has a fraction or an exponent, and the
  rest.
\<close>

definition int_part :: "string \<Rightarrow> string" where
  "int_part s =
     (let t = (if startswith s ''-'' then drop 1 s else s); sign = (if startswith s ''-'' then ''-'' else []) in
      if startswith t ''0'' then sign @ ''0''
      else if t \<noteq> [] \<and> is_dec (hd t) then sign @ takeWhile is_dec t
      else [])"

definition frac_part :: "string \<Rightarrow> string" where
  "frac_part s =
     (if startswith s ''.'' \<and> takeWhile is_dec (drop 1 s) \<noteq> []
      then CHR ''.'' # takeWhile is_dec (drop 1 s) else [])"

definition exp_part :: "string \<Rightarrow> string" where
  "exp_part s =
     (if startswith s ''e'' \<or> startswith s ''E'' then
        let t = drop 1 s; sign = (if startswith t ''-'' \<or> startswith t ''+'' then take 1 t else []);
            ds = takeWhile is_dec (drop (length sign) t)
        in if ds \<noteq> [] then take 1 s @ sign @ ds else []
      else [])"

definition json_number :: "string \<Rightarrow> (string \<times> bool \<times> string) option" where
  "json_number s =
     (let i = int_part s; s1 = drop (length i) s;
          f = frac_part s1; s2 = drop (length f) s1;
          x = exp_part s2
      in if i = [] then None
         else Some (i @ f @ x, f @ x \<noteq> [], drop (length x) s2))"

definition json_literals :: "(string \<times> pyval) list" where
  "json_literals = [(''null'', PNone), (''true'', PBool True), (''false'', PBool False)]"

definition json_constants :: "string list" where
  "json_constants = [''NaN'', ''Infinity'', ''-Infinity'']"

text \<open>The default \<^verbatim>\<open>parse_constant\<close> and the default object: the last of equal member names wins.\<close>

definition float_constant :: "string \<Rightarrow> pyval result" where
  "float_constant s =
     Inr (PFloat (if s = ''NaN'' then NaN else if s = ''Infinity'' then PosInf else NegInf))"

definition plain_object :: "(string \<times> pyval) list \<Rightarrow> pydict result" where
  "plain_object kvs = Inr (foldl (\<lambda>d (k, v). dict_set d k v) [] kvs)"

record json_reader =
  jr_object :: "(string \<times> pyval) list \<Rightarrow> pydict result"
  jr_constant :: "string \<Rightarrow> pyval result"
  jr_float :: "string \<Rightarrow> pyfloat"

definition expecting_value :: exn where
  "expecting_value = ValueError ''Expecting value''"

definition json_scalar :: "json_reader \<Rightarrow> string \<Rightarrow> (pyval \<times> string) result" where
  "json_scalar rd s =
     (case find (\<lambda>(t, v). startswith s t) json_literals of
        Some (t, v) \<Rightarrow> Inr (v, drop (length t) s)
      | None \<Rightarrow>
          (case find (startswith s) json_constants of
             Some t \<Rightarrow> bindR (jr_constant rd t) (\<lambda>v. Inr (v, drop (length t) s))
           | None \<Rightarrow>
               (case json_number s of
                  None \<Rightarrow> Inl expecting_value
                | Some (t, fl, r) \<Rightarrow>
                    if fl then Inr (PFloat (jr_float rd t), r)
                    else bindR (int_base 10 t) (\<lambda>n. Inr (PInt n, r)))))"

text \<open>
  A value at the start of the text, the items of a list up to its bracket, the members of an
  object up to its brace.  The first argument bounds the recursion; \<open>2 * length s + 2\<close> is
  always enough (\<open>json_fuel\<close> below).
\<close>

definition out_of_fuel :: exn where
  "out_of_fuel = OtherException ''fuel''"

fun json_value :: "nat \<Rightarrow> json_reader \<Rightarrow> nat \<Rightarrow> string \<Rightarrow> (pyval \<times> string) result"
  and json_list :: "nat \<Rightarrow> json_reader \<Rightarrow> nat \<Rightarrow> string \<Rightarrow> (pyval list \<times> string) result"
  and json_members :: "nat \<Rightarrow> json_reader \<Rightarrow> nat \<Rightarrow> string \<Rightarrow> ((string \<times> pyval) list \<times> string) result" where
  "json_value 0 rd dep s = Inl out_of_fuel"
| "json_value (Suc n) rd dep s =
     (if startswith s [CHR 0x22] then bindR (json_chars (drop 1 s)) (\<lambda>(t, r). Inr (PStr t, r))
      else if startswith s ''['' then
        if dep = 0 then Inl (RuntimeError ''maximum recursion depth exceeded'')
        else let t = skip_ws (drop 1 s) in
          if startswith t '']'' then Inr (PList [], drop 1 t)
          else bindR (json_list n rd (dep - 1) t) (\<lambda>(xs, r). Inr (PList xs, r))
      else if startswith s ''{'' then
        if dep = 0 then Inl (RuntimeError ''maximum recursion depth exceeded'')
        else let t = skip_ws (drop 1 s) in
          bindR (if startswith t ''}'' then Inr ([], drop 1 t) else json_members n rd (dep - 1) t) (\<lambda>(kvs, r).
          bindR (jr_object rd kvs) (\<lambda>d. Inr (PDict d, r)))
      else json_scalar rd s)"
| "json_list 0 rd dep s = Inl out_of_fuel"
| "json_list (Suc n) rd dep s =
     bindR (json_value n rd dep s) (\<lambda>(x, r).
     let t = skip_ws r in
     if startswith t '']'' then Inr ([x], drop 1 t)
     else if startswith t '','' then
       bindR (json_list n rd dep (skip_ws (drop 1 t))) (\<lambda>(xs, r). Inr (x # xs, r))
     else Inl (ValueError ''Expecting comma delimiter''))"
| "json_members 0 rd dep s = Inl out_of_fuel"
| "json_members (Suc n) rd dep s =
     (if \<not> startswith s [CHR 0x22]
      then Inl (ValueError ''Expecting property name enclosed in double quotes'')
      else
      bindR (json_chars (drop 1 s)) (\<lambda>(k, r).
      let t = skip_ws r in
      if \<not> startswith t '':'' then Inl (ValueError ''Expecting colon delimiter'')
      else
      bindR (json_value n rd dep (skip_ws (drop 1 t))) (\<lambda>(x, r).
      let t = skip_ws r in
      if startswith t ''}'' then Inr ([(k, x)], drop 1 t)
      else if startswith t '','' then
        bindR (json_members n rd dep (skip_ws (drop 1 t))) (\<lambda>(kvs, r). Inr ((k, x) # kvs, r))
      else Inl (ValueError ''Expecting comma delimiter''))))"

definition loads :: "json_reader \<Rightarrow> nat \<Rightarrow> string \<Rightarrow> pyval result" where
  "loads rd dep s =
     bindR (json_value (2 * length s + 2) rd dep (skip_ws s)) (\<lambda>(v, r).
     if skip_ws r \<noteq> [] then Inl (ValueError ''Extra data'') else Inr v)"

section \<open>UTF-8\<close>

text \<open>
  \<^verbatim>\<open>encode("utf-8")\<close> and \<^verbatim>\<open>decode("utf-8")\<close>.  A code point of the model takes one or two bytes; a
  lead byte of a code point above 255 leaves the model.
\<close>

definition utf8_char :: "char \<Rightarrow> int list" where
  "utf8_char c = (if code c < 128 then [code c] else [192 + code c div 64, 128 + code c mod 64])"

definition utf8_encode :: "string \<Rightarrow> int list" where
  "utf8_encode s = concat (map utf8_char s)"

definition bad_utf8 :: exn where
  "bad_utf8 = ValueError ''invalid utf-8''"

fun utf8_decode :: "int list \<Rightarrow> string result" where
  "utf8_decode [] = Inr []"
| "utf8_decode (b # bs) =
     (if 0 \<le> b \<and> b < 128 then bindR (utf8_decode bs) (\<lambda>s. Inr (char_of b # s))
      else if b = 194 \<or> b = 195 then
        (case bs of
           [] \<Rightarrow> Inl bad_utf8
         | c # cs \<Rightarrow>
             if 128 \<le> c \<and> c < 192
             then bindR (utf8_decode cs) (\<lambda>s. Inr (char_of ((b - 192) * 64 + (c - 128)) # s))
             else Inl bad_utf8)
      else if 196 \<le> b \<and> b \<le> 244 then Inl beyond_model
      else Inl bad_utf8)"

lemma utf8_roundtrip: "utf8_decode (utf8_encode s) = Inr s"
proof (induction s)
  case Nil
  then show ?case by (simp add: utf8_encode_def)
next
  case (Cons c s)
  let ?q = "code c div 64"
  have c: "char_of (code c) = c" by (simp add: code_def)
  have b: "0 \<le> code c" "code c < 256" by (rule code_bounds)+
  have "2 \<le> ?q" "?q < 4" if "\<not> code c < 128" using that b by auto
  then have q: "\<not> code c < 128 \<Longrightarrow> ?q = 2 \<or> ?q = 3" by linarith
  have v: "?q * 64 + code c mod 64 = code c" "0 \<le> code c mod 64" "code c mod 64 < 64" by simp_all
  from Cons show ?case
    using b c q v by (cases "code c < 128") (auto simp: utf8_encode_def utf8_char_def)
qed

section \<open>The parser consumes its input\<close>

lemma json_chars_length: "json_chars s = Inr (t, r) \<Longrightarrow> length r < length s"
proof (induction s arbitrary: t r rule: json_chars.induct)
  case (2 c cs)
  show ?case
  proof (cases "c = CHR 0x5C")
    case True
    with "2.prems" obtain x es s where e: "json_escape cs = Inr (x, es)" "json_chars es = Inr (s, r)"
      by (auto simp: ok_iff split: sum.splits prod.splits)
    then have "length r < length es" using "2.IH"(1)[of "(x, es)" x es s r] True by simp
    then show ?thesis using json_escape_length[OF e(1)] by simp
  next
    case False
    then show ?thesis using "2.IH"(2) "2.prems" by (fastforce simp: ok_iff split: if_splits)
  qed
qed simp

lemma json_number_length: "json_number s = Some (t, b, r) \<Longrightarrow> length r < length s"
proof -
  assume n: "json_number s = Some (t, b, r)"
  then have "int_part s \<noteq> []" by (auto simp: json_number_def Let_def split: if_splits)
  moreover from this have "s \<noteq> []" by (auto simp: int_part_def)
  ultimately show ?thesis using n by (auto simp: json_number_def Let_def split: if_splits)
qed

lemma json_scalar_length: "json_scalar rd s = Inr (v, r) \<Longrightarrow> length r < length s"
proof -
  have "s \<noteq> []" if "json_scalar rd s = Inr (v, r)"
    using that by (auto simp: json_scalar_def json_literals_def json_constants_def json_number_def int_part_def)
  then show "json_scalar rd s = Inr (v, r) \<Longrightarrow> ?thesis"
    using json_number_length[of s]
    by (auto simp: json_scalar_def json_literals_def json_constants_def ok_iff split: option.splits if_splits)
qed

lemma skip_ws_length: "length (skip_ws s) \<le> length s"
  by (simp add: skip_ws_def length_dropWhile_le)

lemma skip_drop_length: "startswith (skip_ws r) [c] \<Longrightarrow> length (drop 1 (skip_ws r)) < length r"
  using skip_ws_length[of r] by (cases "skip_ws r") auto

lemma startswith_drop_length: "startswith s [c] \<Longrightarrow> length (drop 1 s) < length s"
  by (cases s) auto

lemma json_value_length:
  "json_value n rd dep s = Inr (v, r) \<Longrightarrow> length r < length s"
  "json_list n rd dep s = Inr (vs, r) \<Longrightarrow> length r < length s"
  "json_members n rd dep s = Inr (kvs, r) \<Longrightarrow> length r < length s"
proof (induction n rd dep s and n rd dep s and n rd dep s arbitrary: v r and vs r and kvs r
    rule: json_value_json_list_json_members.induct)
  case (2 n rd dep s)
  note len = json_chars_length[of "drop 1 s"] json_scalar_length[of rd s] skip_ws_length[of "drop 1 s"]
    skip_drop_length[of "drop 1 s"] startswith_drop_length[of s]
  consider "startswith s [CHR 0x22]" | "startswith s ''[''" | "startswith s ''{''"
    | "\<not> startswith s [CHR 0x22]" "\<not> startswith s ''[''" "\<not> startswith s ''{''" by blast
  then show ?case
  proof cases
    case 1
    then show ?thesis using "2.prems" len(1,5) by (fastforce simp: ok_iff)
  next
    case 2
    then have "\<not> startswith s [CHR 0x22]" by (cases s) auto
    then show ?thesis
      using 2 "2.prems" "2.IH"(1)[OF _ _ _ refl, of _ r] len(3-5)
      by (fastforce simp: ok_iff Let_def split: if_splits)
  next
    case 3
    then have n: "\<not> startswith s [CHR 0x22]" "\<not> startswith s ''[''" by (cases s; auto)+
    then show ?thesis
      using 3 "2.prems" "2.IH"(2)[OF _ _ _ _ refl, of _ r] len(3-5)
      by (fastforce simp: ok_iff Let_def split: if_splits)
  next
    case 4
    then show ?thesis using "2.prems" len(2) by simp
  qed
next
  case (4 n rd dep s)
  from "4.prems" obtain x q where x: "json_value n rd dep s = Inr (x, q)" by (auto simp: ok_iff)
  have q: "length q < length s" using "4.IH"(1)[OF x] .
  show ?case
    using "4.prems" x q "4.IH"(2)[OF refl, of q] skip_drop_length[of q] skip_ws_length[of "drop 1 (skip_ws q)"]
    by (fastforce simp: ok_iff Let_def split: if_splits)
next
  case (6 n rd dep s)
  from "6.prems" obtain k q where k: "startswith s [CHR 0x22]" "json_chars (drop 1 s) = Inr (k, q)"
    "startswith (skip_ws q) '':''"
    by (auto simp: ok_iff Let_def split: if_splits)
  then obtain x u where x: "json_value n rd dep (skip_ws (drop 1 (skip_ws q))) = Inr (x, u)"
    using "6.prems" by (auto simp: ok_iff Let_def split: if_splits)
  have "length u < length (skip_ws (drop 1 (skip_ws q)))" using "6.IH"(1)[OF _ refl, of q] k x by simp
  then have "length u < length s"
    using json_chars_length[OF k(2)] skip_drop_length[OF k(3)] skip_ws_length[of "drop 1 (skip_ws q)"] by simp
  then show ?case
    using "6.prems" k x "6.IH"(2)[OF _ refl _ refl, of q u] skip_drop_length[of u] skip_ws_length[of "drop 1 (skip_ws u)"]
    by (fastforce simp: ok_iff Let_def split: if_splits)
qed simp_all

text \<open>No parser is stopped by its fuel.\<close>

definition sane_reader :: "json_reader \<Rightarrow> bool" where
  "sane_reader rd \<longleftrightarrow>
     (\<forall>kvs. jr_object rd kvs \<noteq> Inl out_of_fuel) \<and> (\<forall>s. jr_constant rd s \<noteq> Inl out_of_fuel)"

lemma json_chars_fuel: "json_chars s \<noteq> Inl out_of_fuel"
proof (induction s rule: json_chars.induct)
  case (2 c cs)
  have "json_escape cs \<noteq> Inl out_of_fuel"
    by (auto simp: json_escape_def Let_def beyond_model_def out_of_fuel_def split: list.splits option.splits)
  with 2 show ?case by (auto simp: err_iff out_of_fuel_def split: sum.splits)
qed (simp add: out_of_fuel_def)

lemma json_scalar_fuel: "sane_reader rd \<Longrightarrow> json_scalar rd s \<noteq> Inl out_of_fuel"
  by (auto simp: json_scalar_def json_literals_def json_constants_def int_base_def sane_reader_def
      err_iff out_of_fuel_def expecting_value_def split: option.splits if_splits)

lemma json_fuel:
  "sane_reader rd \<Longrightarrow> 2 * length s + 1 \<le> n \<Longrightarrow> json_value n rd dep s \<noteq> Inl out_of_fuel"
  "sane_reader rd \<Longrightarrow> 2 * length s + 2 \<le> n \<Longrightarrow> json_list n rd dep s \<noteq> Inl out_of_fuel"
  "sane_reader rd \<Longrightarrow> 2 * length s + 2 \<le> n \<Longrightarrow> json_members n rd dep s \<noteq> Inl out_of_fuel"
proof (induction n rd dep s and n rd dep s and n rd dep s rule: json_value_json_list_json_members.induct)
  case (2 n rd dep s)
  note len = skip_ws_length[of "drop 1 s"]
  have l: "2 * length (skip_ws (drop 1 s)) + 2 \<le> n" if "s \<noteq> []"
    using len that "2.prems"(2) by (cases s) auto
  have "s \<noteq> []" if "startswith s [c]" for c using that by (cases s) auto
  with l 2 show ?case
    using json_chars_fuel[of "drop 1 s"] json_scalar_fuel[of rd s]
    by (auto simp: err_iff Let_def sane_reader_def out_of_fuel_def)
next
  case (4 n rd dep s)
  have "json_list n rd dep (skip_ws (drop 1 (skip_ws q))) \<noteq> Inl out_of_fuel"
    if "json_value n rd dep s = Inr (x, q)" "startswith (skip_ws q) '',''" for x q
  proof -
    have "length (skip_ws (drop 1 (skip_ws q))) < length s"
      using json_value_length(1)[OF that(1)] skip_drop_length[OF that(2)] skip_ws_length[of "drop 1 (skip_ws q)"] by simp
    moreover have "\<not> startswith (skip_ws q) '']''" using that(2) by (cases "skip_ws q") auto
    ultimately show ?thesis using "4.IH"(2)[OF refl, of q] that(2) "4.prems" by simp
  qed
  with 4 show ?case by (auto simp: err_iff Let_def out_of_fuel_def split: if_splits)
next
  case (6 n rd dep s)
  show ?case
  proof
    assume fuel: "json_members (Suc n) rd dep s = Inl out_of_fuel"
    then have k1: "startswith s [CHR 0x22]" by (auto simp: out_of_fuel_def split: if_splits)
    then obtain k q where k: "json_chars (drop 1 s) = Inr (k, q)" "startswith (skip_ws q) '':''"
      using fuel json_chars_fuel[of "drop 1 s"]
      by (auto simp: err_iff Let_def out_of_fuel_def split: if_splits)
    let ?p = "skip_ws (drop 1 (skip_ws q))"
    have p: "length ?p < length s"
      using json_chars_length[OF k(1)] startswith_drop_length[OF k1] skip_drop_length[OF k(2)]
        skip_ws_length[of "drop 1 (skip_ws q)"] by simp
    then have "json_value n rd dep ?p \<noteq> Inl out_of_fuel"
      using "6.IH"(1)[OF _ refl, of q] k1 k(2) "6.prems" by simp
    then obtain x u where x: "json_value n rd dep ?p = Inr (x, u)" "startswith (skip_ws u) '',''"
      "json_members n rd dep (skip_ws (drop 1 (skip_ws u))) = Inl out_of_fuel"
      using fuel k1 k by (auto simp: err_iff Let_def out_of_fuel_def split: if_splits)
    have "length (skip_ws (drop 1 (skip_ws u))) < length s"
      using p json_value_length(1)[OF x(1)] skip_drop_length[OF x(2)] skip_ws_length[of "drop 1 (skip_ws u)"] by simp
    moreover have "\<not> startswith (skip_ws u) ''}''" using x(2) by (cases "skip_ws u") auto
    ultimately show False using "6.IH"(2)[OF _ refl _ refl, of q u] k1 k(2) x(2,3) "6.prems" by simp
  qed
qed (simp_all add: out_of_fuel_def)

lemma loads_total: "sane_reader rd \<Longrightarrow> loads rd dep s \<noteq> Inl out_of_fuel"
  using json_fuel(1)[of rd "skip_ws s" "2 * length s + 2" dep] skip_ws_length[of s]
  by (auto simp: loads_def err_iff out_of_fuel_def split: if_splits)

end
