(* ===== verification/Json_Roundtrip.thy ===== *)
theory Json_Roundtrip
  imports Py_Json "HOL-Library.Multiset"
begin

text \<open>
  Reading back what was printed: on plain values \<^verbatim>\<open>json.loads\<close> inverts \<^verbatim>\<open>json.dumps\<close> in every layout
  psv uses.  So the canonical text of a value determines the value up to the order of members,
  on which the checksums of run records and the signed payload of receipts rest.
\<close>

section \<open>Plain values\<close>

text \<open>
  The texts Python writes for a finite float: numbers of the grammar with a fraction or an
  exponent.
\<close>

definition float_text :: "string \<Rightarrow> bool" where
  "float_text s \<longleftrightarrow> json_number s = Some (s, True, [])"

fun json_plain :: "(pyfloat \<Rightarrow> string) \<Rightarrow> (string \<Rightarrow> pyfloat) \<Rightarrow> nat \<Rightarrow> pyval \<Rightarrow> bool"
  and plain_items :: "(pyfloat \<Rightarrow> string) \<Rightarrow> (string \<Rightarrow> pyfloat) \<Rightarrow> nat \<Rightarrow> pyval list \<Rightarrow> bool"
  and plain_fields :: "(pyfloat \<Rightarrow> string) \<Rightarrow> (string \<Rightarrow> pyfloat) \<Rightarrow> nat \<Rightarrow> pydict \<Rightarrow> bool" where
  "json_plain ft pf dep v =
     (case v of
        PInt n \<Rightarrow> length (digits_of 10 \<bar>n\<bar>) \<le> 4300
      | PFloat f \<Rightarrow> f \<notin> {PosInf, NegInf, NaN} \<and> float_text (ft f) \<and> pf (ft f) = f
      | PList xs \<Rightarrow> 0 < dep \<and> plain_items ft pf (dep - 1) xs
      | PDict kvs \<Rightarrow> 0 < dep \<and> distinct (map fst kvs) \<and> plain_fields ft pf (dep - 1) kvs
      | POther t \<Rightarrow> False
      | _ \<Rightarrow> True)"
| "plain_items ft pf dep [] = True"
| "plain_items ft pf dep (x # xs) \<longleftrightarrow> json_plain ft pf dep x \<and> plain_items ft pf dep xs"
| "plain_fields ft pf dep [] = True"
| "plain_fields ft pf dep ((k, x) # kvs) \<longleftrightarrow> is_str k \<and> json_plain ft pf dep x \<and> plain_fields ft pf dep kvs"

definition good_style :: "json_style \<Rightarrow> bool" where
  "good_style st \<longleftrightarrow>
     startswith (js_item_sep st) '','' \<and> (\<forall>c\<in>set (drop 1 (js_item_sep st)). json_ws c) \<and>
     startswith (js_key_sep st) '':'' \<and> (\<forall>c\<in>set (drop 1 (js_key_sep st)). json_ws c)"

definition faithful_reader :: "json_reader \<Rightarrow> (string \<Rightarrow> pyfloat) \<Rightarrow> bool" where
  "faithful_reader rd pf \<longleftrightarrow>
     jr_float rd = pf \<and> (\<forall>kvs. distinct (map fst kvs) \<longrightarrow> jr_object rd kvs = Inr (obj kvs))"

section \<open>Strings\<close>

lemma json_char_read:
  "json_chars (json_char a c @ t) = bindR (json_chars t) (\<lambda>(s, r). Inr (c # s, r))"
proof (cases "json_char a c = [CHR 0x5C, CHR ''u'', CHR ''0'', CHR ''0'', digit_char (code c div 16), digit_char (code c mod 16)]")
  case True
  have b: "0 \<le> code c div 16" "code c div 16 < 16" "0 \<le> code c mod 16" "code c mod 16 < 16"
    using code_bounds[of c] by auto
  have v: "digits_val 16 [CHR ''0'', CHR ''0'', digit_char (code c div 16), digit_char (code c mod 16)] = code c"
    using digits_val_zeros[of 16 2 "[digit_char (code c div 16), digit_char (code c mod 16)]"]
      print_digit(2)[OF b(1,2)] print_digit(2)[OF b(3,4)]
    by (simp add: numeral_2_eq_2 digits_val_Cons)
  have "char_of (code c) = c" by (simp add: code_def)
  then have "json_escape (drop 1 (json_char a c) @ t) = Inr (c, t)"
    using True v b code_bounds[of c] print_digit(1) by (simp add: json_escape_def Let_def numeral_eq_Suc)
  with True show ?thesis by simp
next
  case False
  then consider "json_char a c = [c]" "c \<noteq> CHR 0x22" "c \<noteq> CHR 0x5C" "\<not> code c < 32"
    | x where "json_char a c = [CHR 0x5C, x]" "x \<noteq> CHR ''u''" "unescape x = Some c"
    by (fastforce simp: json_char_def unescape_def split: if_splits)
  then show ?thesis by cases (simp_all add: json_escape_def)
qed

lemma json_str_read: "json_chars (concat (map (json_char a) s) @ CHR 0x22 # r) = Inr (s, r)"
  by (induction s) (simp_all add: json_char_read)

section \<open>White space\<close>

lemma skip_ws_append: "\<forall>c\<in>set w. json_ws c \<Longrightarrow> skip_ws (w @ s) = skip_ws s"
  by (simp add: skip_ws_def)

lemma skip_newline: "skip_ws (json_newline st lv @ s) = skip_ws s"
  by (rule skip_ws_append) (auto simp: json_newline_def json_ws_def split: option.splits)

lemma skip_close [simp]:
  "skip_ws (json_newline st lv @ CHR '']'' # r) = CHR '']'' # r"
  "skip_ws (json_newline st lv @ CHR ''}'' # r) = CHR ''}'' # r"
  by (simp_all add: skip_newline) (simp_all add: skip_ws_def json_ws_def)

lemma skip_item_sep:
  assumes "good_style st"
  shows "startswith (js_item_sep st @ s) '',''" "skip_ws (drop 1 (js_item_sep st @ s)) = skip_ws s"
    "skip_ws (js_item_sep st @ s) = js_item_sep st @ s"
  using assms skip_ws_append[of "drop 1 (js_item_sep st)" s]
  by (cases "js_item_sep st"; simp add: good_style_def skip_ws_def json_ws_def)+

lemma skip_key_sep:
  assumes "good_style st"
  shows "startswith (js_key_sep st @ s) '':''" "skip_ws (drop 1 (js_key_sep st @ s)) = skip_ws s"
    "skip_ws (js_key_sep st @ s) = js_key_sep st @ s"
  using assms skip_ws_append[of "drop 1 (js_key_sep st)" s]
  by (cases "js_key_sep st"; simp add: good_style_def skip_ws_def json_ws_def)+

section \<open>Numbers\<close>

text \<open>What may follow a value.\<close>

definition delim :: "string \<Rightarrow> bool" where
  "delim r \<longleftrightarrow> r = [] \<or> hd r = CHR '','' \<or> hd r = CHR '']'' \<or> hd r = CHR ''}'' \<or> json_ws (hd r)"

lemma delim_chars:
  assumes "delim r" "r \<noteq> []"
  shows "\<not> is_dec (hd r)" "hd r \<notin> set ''.eE+-''"
proof -
  have "\<forall>c\<in>set [CHR '','', CHR '']'', CHR ''}'', CHR '' '', CHR 0x09, CHR 0x0A, CHR 0x0D].
      \<not> is_dec c \<and> c \<notin> set ''.eE+-''" by code_simp
  moreover have "hd r \<in> set [CHR '','', CHR '']'', CHR ''}'', CHR '' '', CHR 0x09, CHR 0x0A, CHR 0x0D]"
    using assms by (auto simp: delim_def json_ws_def)
  ultimately show "\<not> is_dec (hd r)" "hd r \<notin> set ''.eE+-''" by blast+
qed

lemma takeWhile_delim: "delim r \<Longrightarrow> takeWhile is_dec (s @ r) = takeWhile is_dec s"
  using delim_chars(1)[of r] by (induction s) (cases r; auto)+

lemma startswith_delim:
  "delim r \<Longrightarrow> c \<in> set ''.eE+-'' \<or> is_dec c \<Longrightarrow> startswith (s @ r) [c] \<longleftrightarrow> startswith s [c]"
  using delim_chars[of r] by (cases s; cases r) auto

lemma int_part_prefix:
  assumes "delim r"
  shows "int_part (s @ r) = int_part s" "length (int_part s) \<le> length s"
proof -
  have d: "is_dec (CHR ''0'')" by code_simp
  have hd: "(s @ r \<noteq> [] \<and> is_dec (hd (s @ r))) \<longleftrightarrow> (s \<noteq> [] \<and> is_dec (hd s))" for s
    using delim_chars(1)[OF assms] by (cases s; cases r) auto
  have minus: "startswith (s @ r) ''-'' \<longleftrightarrow> startswith s ''-''" for s
    by (rule startswith_delim[OF assms]) simp
  have zero: "startswith (s @ r) ''0'' \<longleftrightarrow> startswith s ''0''" for s
    by (rule startswith_delim[OF assms]) (simp add: d)
  have drop: "startswith s ''-'' \<Longrightarrow> drop 1 (s @ r) = drop 1 s @ r" by (cases s) auto
  show "int_part (s @ r) = int_part s"
    unfolding int_part_def Let_def minus
    by (cases "startswith s ''-''") (simp_all only: drop zero hd takeWhile_delim[OF assms] if_True if_False)
  have "length (takeWhile is_dec u) \<le> length u" for u by (rule length_takeWhile_le)
  from this[of s] this[of "drop 1 s"] show "length (int_part s) \<le> length s"
    by (cases s; cases "tl s") (auto simp: int_part_def Let_def split: if_splits)
qed

lemma frac_part_prefix:
  assumes "delim r"
  shows "frac_part (s @ r) = frac_part s" "length (frac_part s) \<le> length s"
proof -
  have dot: "startswith (s @ r) ''.'' \<longleftrightarrow> startswith s ''.''"
    by (rule startswith_delim[OF assms]) simp
  have drop: "startswith s ''.'' \<Longrightarrow> drop 1 (s @ r) = drop 1 s @ r" by (cases s) auto
  show "frac_part (s @ r) = frac_part s"
    unfolding frac_part_def dot
    by (cases "startswith s ''.''") (simp_all only: drop takeWhile_delim[OF assms] simp_thms if_False)
  show "length (frac_part s) \<le> length s"
    using length_takeWhile_le[of is_dec "drop 1 s"] by (cases s) (auto simp: frac_part_def)
qed

lemma exp_part_prefix:
  assumes "delim r"
  shows "exp_part (s @ r) = exp_part s" "length (exp_part s) \<le> length s"
proof -
  have sw: "startswith (s @ r) [c] \<longleftrightarrow> startswith s [c]" if "c \<in> set ''.eE+-''" for s c
    using startswith_delim[OF assms] that by blast
  show "exp_part (s @ r) = exp_part s"
  proof (cases "startswith s ''e'' \<or> startswith s ''E''")
    case True
    then obtain c u where s: "s = c # u" by (cases s) auto
    let ?g = "\<lambda>t. if startswith t ''-'' \<or> startswith t ''+'' then take 1 t else []"
    have g: "?g (u @ r) = ?g u" using sw[of "CHR ''-''" u] sw[of "CHR ''+''" u] by (cases u) auto
    have "length (?g u) \<le> length u" by (cases u) auto
    then have "drop (length (?g u)) (u @ r) = drop (length (?g u)) u @ r" by simp
    then have "takeWhile is_dec (drop (length (?g (u @ r))) (u @ r)) = takeWhile is_dec (drop (length (?g u)) u)"
      unfolding g by (simp only: takeWhile_delim[OF assms])
    then show ?thesis using True s g by (simp add: exp_part_def Let_def)
  next
    case False
    then have "\<not> (startswith (s @ r) ''e'' \<or> startswith (s @ r) ''E'')" using sw by simp
    with False show ?thesis by (simp only: exp_part_def if_False)
  qed
  show "length (exp_part s) \<le> length s"
    using length_takeWhile_le[of is_dec "drop 2 s"] length_takeWhile_le[of is_dec "drop 1 s"]
    by (cases s; cases "tl s") (auto simp: exp_part_def Let_def)
qed

lemma json_number_append:
  assumes "delim r" "json_number s = Some (t, b, q)"
  shows "json_number (s @ r) = Some (t, b, q @ r)"
proof -
  let ?i = "int_part s" and ?s1 = "drop (length (int_part s)) s"
  let ?f = "frac_part ?s1" and ?s2 = "drop (length (frac_part ?s1)) ?s1"
  have 1: "drop (length ?i) (s @ r) = ?s1 @ r" using int_part_prefix(2)[OF assms(1), of s] by simp
  have 2: "drop (length ?f) (?s1 @ r) = ?s2 @ r" using frac_part_prefix(2)[OF assms(1), of ?s1] by simp
  have 3: "drop (length (exp_part ?s2)) (?s2 @ r) = drop (length (exp_part ?s2)) ?s2 @ r"
    using exp_part_prefix(2)[OF assms(1), of ?s2] by simp
  have "json_number (s @ r) = (if ?i = [] then None
      else Some (?i @ ?f @ exp_part ?s2, ?f @ exp_part ?s2 \<noteq> [], drop (length (exp_part ?s2)) ?s2 @ r))"
    unfolding json_number_def Let_def int_part_prefix(1)[OF assms(1)] 1 frac_part_prefix(1)[OF assms(1)] 2
      exp_part_prefix(1)[OF assms(1)] 3 ..
  then show ?thesis using assms(2) by (auto simp: json_number_def Let_def split: if_splits)
qed

lemma number_start:
  "json_number s = Some q \<Longrightarrow>
     (\<exists>c t. s = c # t \<and> is_dec c) \<or> (\<exists>c t. s = CHR ''-'' # c # t \<and> is_dec c)"
proof -
  have d: "is_dec (CHR ''0'')" by code_simp
  assume "json_number s = Some q"
  then have "int_part s \<noteq> []" by (auto simp: json_number_def Let_def split: if_splits)
  then show ?thesis
    using d by (cases s; cases "tl s") (auto simp: int_part_def Let_def split: if_splits)
qed

lemma number_int: "json_number (py_str_int n) = Some (py_str_int n, False, [])"
proof -
  have pos: "json_number (digits_of 10 m) = Some (digits_of 10 m, False, [])"
    "json_number (CHR ''-'' # digits_of 10 m) = Some (CHR ''-'' # digits_of 10 m, False, [])" if m: "0 \<le> m" for m
  proof -
    have c: "\<forall>c\<in>set (digits_of 10 m). is_dec c" using digits_of_chars[of 10 m] m by auto
    then have all: "takeWhile is_dec (digits_of 10 m) = digits_of 10 m" by (simp add: takeWhile_eq_all_conv)
    have z: "digits_of 10 m = ''0''" if "startswith (digits_of 10 m) ''0''"
      using digits_of_leading[of 10 m] m that by (cases "m = 0"; cases "digits_of 10 m") auto
    have h: "is_dec (hd (digits_of 10 m))" "\<not> startswith (digits_of 10 m) ''-''"
      using c is_hex_plain(4)[OF is_dec_hex] by (cases "digits_of 10 m"; auto)+
    have e: "frac_part [] = []" "exp_part [] = []" by (simp_all add: frac_part_def exp_part_def)
    have "int_part (digits_of 10 m) = digits_of 10 m" "int_part (CHR ''-'' # digits_of 10 m) = CHR ''-'' # digits_of 10 m"
      using z h all by (auto simp: int_part_def Let_def)
    then show "json_number (digits_of 10 m) = Some (digits_of 10 m, False, [])"
      "json_number (CHR ''-'' # digits_of 10 m) = Some (CHR ''-'' # digits_of 10 m, False, [])"
      by (simp_all add: json_number_def Let_def e)
  qed
  show ?thesis using pos[of n] pos(2)[of "- n"] by (auto simp: py_str_int_def)
qed

lemma int_base_str: "length (digits_of 10 \<bar>n\<bar>) \<le> 4300 \<Longrightarrow> int_base 10 (py_str_int n) = Inr n"
proof -
  have pos: "unsigned_int 10 (digits_of 10 m) = Some m"
    if "0 \<le> m" "length (digits_of 10 m) \<le> 4300" for m
  proof -
    have c: "\<forall>c\<in>set (digits_of 10 m). is_dec c" using digits_of_chars[of 10 m] that by auto
    then have "filter (\<lambda>c. c \<noteq> CHR ''_'') (digits_of 10 m) = digits_of 10 m"
      using is_hex_plain(1)[OF is_dec_hex] by (intro filter_True) auto
    then show ?thesis
      using that c digits_of_val[of 10 m]
      by (simp add: unsigned_int_def us_digits_hex digit_ok_10 flip: digits_val_def)
  qed
  have plain: "strip_space s = s" if "\<forall>c\<in>set s. is_dec c \<or> c = CHR ''-''" for s
  proof (rule strip_space_id)
    have m: "\<not> int_space s (CHR ''-'')" by (simp add: int_space_def code_def)
    show "\<not> int_space s c" if "c \<in> set s" for c
      using that \<open>\<forall>c\<in>set s. is_dec c \<or> c = CHR ''-''\<close> m is_hex_code[OF is_dec_hex, of c]
      by (auto simp: int_space_def)
  qed
  have dec: "\<forall>c\<in>set (digits_of 10 m). is_dec c" if "0 \<le> m" for m using digits_of_chars[of 10 m] that by auto
  assume l: "length (digits_of 10 \<bar>n\<bar>) \<le> 4300"
  show ?thesis
  proof (cases "n < 0")
    case True
    then show ?thesis
      using l pos[of "- n"] plain[of "py_str_int n"] dec[of "- n"] by (simp add: int_base_def py_int_def py_str_int_def)
  next
    case False
    then obtain c t where ct: "digits_of 10 n = c # t" "is_dec c" using dec[of n] by (cases "digits_of 10 n") auto
    then have "\<not> startswith (digits_of 10 n) ''-''" "\<not> startswith (digits_of 10 n) ''+''"
      using is_hex_plain(4,5)[OF is_dec_hex[OF ct(2)]] by auto
    then show ?thesis
      using False l pos[of n] plain[of "py_str_int n"] dec[of n] by (simp add: int_base_def py_int_def py_str_int_def)
  qed
qed

section \<open>Values\<close>

lemma not_dec [simp]:
  "\<not> is_dec (CHR 0x22)" "\<not> is_dec (CHR ''['')" "\<not> is_dec (CHR ''{'')" "\<not> is_dec (CHR '']'')"
  "\<not> is_dec (CHR ''}'')" "\<not> is_dec (CHR ''n'')" "\<not> is_dec (CHR ''t'')" "\<not> is_dec (CHR ''f'')"
  "\<not> is_dec (CHR ''N'')" "\<not> is_dec (CHR ''I'')" "\<not> is_dec (CHR ''-'')" "\<not> json_ws (CHR ''-'')"
  by code_simp+

lemma dec_not_ws: "is_dec c \<Longrightarrow> \<not> json_ws c"
proof -
  have "\<forall>c\<in>set ''0123456789''. \<not> json_ws c" by code_simp
  then show "is_dec c \<Longrightarrow> ?thesis" unfolding is_dec_def by blast
qed

lemma scalar_number:
  assumes "json_number s = Some (s, b, [])" "delim r"
  shows "json_scalar rd (s @ r) =
    (if b then Inr (PFloat (jr_float rd s), r) else bindR (int_base 10 s) (\<lambda>n. Inr (PInt n, r)))"
proof -
  have "json_number (s @ r) = Some (s, b, r)" using json_number_append[OF assms(2,1)] by simp
  moreover have "find (\<lambda>(t, v). startswith (s @ r) t) json_literals = None" "find (startswith (s @ r)) json_constants = None"
    using number_start[OF assms(1)] by (auto simp: json_literals_def json_constants_def)
  ultimately show ?thesis by (simp add: json_scalar_def)
qed

lemma number_value:
  assumes "json_number s = Some (s, b, [])"
  shows "json_value (Suc n) rd dep (s @ r) = json_scalar rd (s @ r)" "skip_ws (s @ r) = s @ r" "s \<noteq> []"
proof -
  show "skip_ws (s @ r) = s @ r" "s \<noteq> []"
    using number_start[OF assms] dec_not_ws by (auto simp: skip_ws_def)
  show "json_value (Suc n) rd dep (s @ r) = json_scalar rd (s @ r)"
    using number_start[OF assms] by auto
qed

lemma plain_number:
  assumes "json_plain ft pf dep v" "v = PInt i \<or> v = PFloat f"
  shows "\<exists>b. json_number (json_text st ft lv v) = Some (json_text st ft lv v, b, [])"
  using assms number_int by (auto simp: json_float_def float_text_def split: pyfloat.splits)

text \<open>The text of a plain value starts with neither white space nor a closing bracket.\<close>

lemma json_text_start:
  assumes "json_plain ft pf dep v"
  shows "\<exists>c t. json_text st ft lv v = c # t \<and> \<not> json_ws c \<and> c \<noteq> CHR '']'' \<and> c \<noteq> CHR ''}''"
proof (cases "\<exists>i f. v = PInt i \<or> v = PFloat f")
  case True
  then obtain b where "json_number (json_text st ft lv v) = Some (json_text st ft lv v, b, [])"
    using plain_number[OF assms] by blast
  from number_start[OF this] show ?thesis using dec_not_ws by (auto simp del: json_text.simps)
next
  case False
  have "\<forall>c\<in>set [CHR ''n'', CHR ''t'', CHR ''f'', CHR 0x22, CHR ''['', CHR ''{''].
    \<not> json_ws c \<and> c \<noteq> CHR '']'' \<and> c \<noteq> CHR ''}''" by code_simp
  then show ?thesis using False assms by (cases v) (auto simp: json_str_def)
qed

lemma skip_text: "json_plain ft pf dep v \<Longrightarrow> skip_ws (json_text st ft lv v @ r) = json_text st ft lv v @ r"
  using json_text_start[of ft pf dep v st lv] by (auto simp: skip_ws_def)

lemma json_items_start:
  assumes "plain_items ft pf dep xs" "xs \<noteq> []"
  shows "skip_ws (json_items st ft lv xs @ r) = json_items st ft lv xs @ r"
    "\<not> startswith (json_items st ft lv xs @ r) '']''"
proof -
  obtain x ys where x: "xs = x # ys" "json_plain ft pf dep x" using assms by (cases xs) auto
  obtain c t where "json_text st ft lv x = c # t" "\<not> json_ws c" "c \<noteq> CHR '']''"
    using json_text_start[OF x(2)] by blast
  then show "skip_ws (json_items st ft lv xs @ r) = json_items st ft lv xs @ r"
    "\<not> startswith (json_items st ft lv xs @ r) '']''"
    using x(1) by (auto simp: skip_ws_def simp del: json_text.simps)
qed

lemma json_fields_start:
  assumes "kvs \<noteq> []"
  shows "skip_ws (json_fields st ft lv kvs @ r) = json_fields st ft lv kvs @ r"
    "\<not> startswith (json_fields st ft lv kvs @ r) ''}''"
  using assms by (cases kvs; auto simp: json_str_def skip_ws_def json_ws_def simp del: json_text.simps)+

lemma delim_newline: "delim (json_newline st lv @ c # r) \<longleftrightarrow> (json_newline st lv = [] \<longrightarrow> delim (c # r))"
  by (auto simp: json_newline_def delim_def json_ws_def split: option.splits)

lemma delim_sep: "good_style st \<Longrightarrow> delim (js_item_sep st @ r)"
  by (cases "js_item_sep st") (auto simp: good_style_def delim_def)

definition string_fields :: "pydict \<Rightarrow> (string \<times> pyval) list" where
  "string_fields kvs = map (\<lambda>(k, x). (str_of k, x)) kvs"

lemma string_fields_obj: "plain_fields ft pf dep kvs \<Longrightarrow> obj (string_fields kvs) = kvs"
proof (induction kvs)
  case (Cons kv kvs)
  then show ?case by (cases kv; cases "fst kv") (auto simp: string_fields_def obj_def is_str_def str_of_def)
qed (simp add: string_fields_def obj_def)

lemma string_fields_distinct:
  assumes "plain_fields ft pf dep kvs" "distinct (map fst kvs)"
  shows "distinct (map fst (string_fields kvs))"
proof -
  have "map PStr (map fst (string_fields kvs)) = map fst kvs"
    using string_fields_obj[OF assms(1)] by (simp add: obj_def string_fields_def comp_def split_def)
      (metis (no_types, lifting) comp_apply fst_conv map_eq_conv map_map)
  with assms(2) show ?thesis by (metis distinct_map)
qed

lemma json_read:
  "good_style st \<Longrightarrow> faithful_reader rd pf \<Longrightarrow> json_plain ft pf dep v \<Longrightarrow> delim r \<Longrightarrow>
     2 * length (json_text st ft lv v) + 1 \<le> n \<Longrightarrow> json_value n rd dep (json_text st ft lv v @ r) = Inr (v, r)"
  "good_style st \<Longrightarrow> faithful_reader rd pf \<Longrightarrow> plain_items ft pf dep xs \<Longrightarrow> xs \<noteq> [] \<Longrightarrow>
     2 * length (json_items st ft lv xs) + 2 \<le> n \<Longrightarrow>
     json_list n rd dep (json_items st ft lv xs @ json_newline st lw @ CHR '']'' # r) = Inr (xs, r)"
  "good_style st \<Longrightarrow> faithful_reader rd pf \<Longrightarrow> plain_fields ft pf dep kvs \<Longrightarrow> kvs \<noteq> [] \<Longrightarrow>
     2 * length (json_fields st ft lv kvs) + 2 \<le> n \<Longrightarrow>
     json_members n rd dep (json_fields st ft lv kvs @ json_newline st lw @ CHR ''}'' # r) = Inr (string_fields kvs, r)"
proof (induction st ft lv v and st ft lv xs and st ft lv kvs arbitrary: dep r n and dep r n lw and dep r n lw
    rule: json_text_json_items_json_fields.induct)
  case (1 st ft lv v)
  then obtain m where n: "n = Suc m" by (cases n) auto
  show ?case
  proof (cases "(\<exists>i. v = PInt i) \<or> (\<exists>f. v = PFloat f)")
    case True
    then obtain b where b: "json_number (json_text st ft lv v) = Some (json_text st ft lv v, b, [])"
      using plain_number[OF "1.prems"(3)] by blast
    show ?thesis
      unfolding n number_value(1)[OF b] scalar_number[OF b "1.prems"(4)]
      using True b "1.prems"(2,3) number_int
      by (auto simp: int_base_str faithful_reader_def float_text_def json_float_def split: pyfloat.splits)
  next
    case False
    consider "v = PNone \<or> (\<exists>b. v = PBool b)" | s where "v = PStr s" | xs where "v = PList xs" | kvs where "v = PDict kvs"
      using False "1.prems"(3) by (cases v) auto
    then show ?thesis
    proof cases
      case 1
      then show ?thesis
      proof
        assume "v = PNone"
        then show ?thesis by (simp add: n json_scalar_def json_literals_def)
      next
        assume "\<exists>b. v = PBool b"
        then obtain b where "v = PBool b" by blast
        then show ?thesis by (cases b) (simp_all add: n json_scalar_def json_literals_def)
      qed
    next
      case 2
      then show ?thesis by (simp add: n json_str_def json_str_read)
    next
      case (3 xs)
      show ?thesis
      proof (cases "xs = []")
        case True
        then show ?thesis using 3 "1.prems"(3) by (simp add: n skip_ws_def json_ws_def)
      next
        case False
        have p: "0 < dep" "plain_items ft pf (dep - 1) xs" using "1.prems"(3) 3 by simp_all
        have m: "2 * length (json_items st ft (lv + 1) xs) + 2 \<le> m"
          using "1.prems"(5) 3 False by (simp add: n)
        show ?thesis
          using "1.IH"(1)[OF 3 False "1.prems"(1,2) p(2) False m] p(1) False
            json_items_start[OF p(2) False]
          by (simp add: n 3 skip_newline Let_def)
      qed
    next
      case (4 kvs)
      show ?thesis
      proof (cases "kvs = []")
        case True
        then show ?thesis
          using 4 "1.prems"(2,3) by (simp add: n skip_ws_def json_ws_def faithful_reader_def obj_def)
      next
        case False
        have p: "0 < dep" "plain_fields ft pf (dep - 1) kvs" "distinct (map fst kvs)" using "1.prems"(3) 4 by simp_all
        have m: "2 * length (json_fields st ft (lv + 1) kvs) + 2 \<le> m"
          using "1.prems"(5) 4 False by (simp add: n)
        have "jr_object rd (string_fields kvs) = Inr kvs"
          using "1.prems"(2) string_fields_obj[OF p(2)] string_fields_distinct[OF p(2,3)] by (simp add: faithful_reader_def)
        then show ?thesis
          using "1.IH"(2)[OF 4 False "1.prems"(1,2) p(2) False m] p(1) False json_fields_start[OF False]
          by (simp add: n 4 skip_newline Let_def)
      qed
    qed
  qed
next
  case (3 st ft lv x xs)
  obtain m where n: "n = Suc m" using "3.prems"(5) by (cases n) auto
  let ?c = "json_newline st lw @ CHR '']'' # r"
  have x: "json_plain ft pf dep x" "plain_items ft pf dep xs" using "3.prems"(3) by simp_all
  show ?case
  proof (cases "xs = []")
    case True
    have "delim ?c" by (simp add: delim_newline) (simp add: delim_def)
    moreover have "2 * length (json_text st ft lv x) + 1 \<le> m" using "3.prems"(5) n True by simp
    ultimately have "json_value m rd dep (json_text st ft lv x @ ?c) = Inr (x, ?c)"
      using "3.IH"(1)[OF "3.prems"(1,2) x(1)] by blast
    then show ?thesis using True by (simp add: n Let_def del: json_text.simps)
  next
    case False
    define d where "d = js_item_sep st @ json_newline st lv @ json_items st ft lv xs @ ?c"
    have len: "1 \<le> length (js_item_sep st)" using "3.prems"(1) by (cases "js_item_sep st") (auto simp: good_style_def)
    have items: "json_items st ft lv (x # xs) =
      json_text st ft lv x @ js_item_sep st @ json_newline st lv @ json_items st ft lv xs"
      using False by (simp del: json_text.simps)
    have m: "2 * length (json_text st ft lv x) + 1 \<le> m" "2 * length (json_items st ft lv xs) + 2 \<le> m"
      using "3.prems"(5)[unfolded items] n len by auto
    have 1: "json_value m rd dep (json_text st ft lv x @ d) = Inr (x, d)"
      unfolding d_def using "3.IH"(1)[OF "3.prems"(1,2) x(1) delim_sep[OF "3.prems"(1)] m(1)] .
    have 2: "json_list m rd dep (json_items st ft lv xs @ ?c) = Inr (xs, r)"
      using "3.IH"(2)[OF False "3.prems"(1,2) x(2) False m(2)] .
    have shape: "json_items st ft lv (x # xs) @ ?c = json_text st ft lv x @ d" unfolding items d_def by simp
    have "startswith d '',''" "skip_ws d = d" "skip_ws (drop 1 d) = json_items st ft lv xs @ ?c"
      unfolding d_def skip_item_sep[OF "3.prems"(1)] skip_newline json_items_start(1)[OF x(2) False]
      by (simp_all add: skip_item_sep(1)[OF "3.prems"(1)])
    moreover from this(1) have "\<not> startswith d '']''" by (cases d) auto
    ultimately show ?thesis unfolding shape n using 1 2 by (simp add: Let_def del: json_text.simps)
  qed
next
  case (5 st ft lv k x kvs)
  obtain m where n: "n = Suc m" using "5.prems"(5) by (cases n) auto
  let ?c = "json_newline st lw @ CHR ''}'' # r" and ?k = "json_str (js_ascii st) (str_of k)"
  have x: "json_plain ft pf dep x" "plain_fields ft pf dep kvs" using "5.prems"(3) by simp_all
  define d where "d = (if kvs = [] then ?c else js_item_sep st @ json_newline st lv @ json_fields st ft lv kvs @ ?c)"
  have m: "2 * length (json_text st ft lv x) + 1 \<le> m" "2 * length (json_fields st ft lv kvs) + 2 \<le> m"
    using "5.prems"(5) n by (auto simp: json_str_def simp del: json_text.simps split: if_splits)
  have "delim ?c" by (simp add: delim_newline) (simp add: delim_def)
  then have "delim d" using delim_sep[OF "5.prems"(1)] by (simp add: d_def)
  then have 1: "json_value m rd dep (json_text st ft lv x @ d) = Inr (x, d)"
    using "5.IH"(1)[OF "5.prems"(1,2) x(1) _ m(1)] by blast
  define v where "v = js_key_sep st @ json_text st ft lv x @ d"
  have key: "json_chars (drop 1 (?k @ v)) = Inr (str_of k, v)" "startswith (?k @ v) [CHR 0x22]"
    by (simp_all add: json_str_def json_str_read)
  have sep: "startswith v '':''" "skip_ws v = v" "skip_ws (drop 1 v) = json_text st ft lv x @ d"
    unfolding v_def skip_key_sep[OF "5.prems"(1)] skip_text[OF x(1)]
    by (simp_all add: skip_key_sep(1)[OF "5.prems"(1)])
  have shape: "json_fields st ft lv ((k, x) # kvs) @ ?c = ?k @ v" by (simp add: d_def v_def del: json_text.simps)
  have step: "json_members n rd dep (?k @ v) = (let t = skip_ws d in
      if startswith t ''}'' then Inr ([(str_of k, x)], drop 1 t)
      else if startswith t '','' then
        bindR (json_members m rd dep (skip_ws (drop 1 t))) (\<lambda>(kvs, r). Inr ((str_of k, x) # kvs, r))
      else Inl (ValueError ''Expecting comma delimiter''))"
    unfolding n json_members.simps key(1) using key(2) sep 1 by (simp add: Let_def del: json_text.simps json_members.simps)
  show ?case
  proof (cases "kvs = []")
    case True
    then show ?thesis unfolding shape step by (simp add: d_def string_fields_def Let_def)
  next
    case False
    have 2: "json_members m rd dep (json_fields st ft lv kvs @ ?c) = Inr (string_fields kvs, r)"
      using "5.IH"(2)[OF False "5.prems"(1,2) x(2) False m(2)] .
    have d: "d = js_item_sep st @ json_newline st lv @ json_fields st ft lv kvs @ ?c" using False by (simp add: d_def)
    have "startswith d '',''" "skip_ws d = d" "skip_ws (drop 1 d) = json_fields st ft lv kvs @ ?c"
      unfolding d skip_item_sep[OF "5.prems"(1)] skip_newline json_fields_start(1)[OF False]
      by (simp_all add: skip_item_sep(1)[OF "5.prems"(1)])
    moreover from this(1) have "\<not> startswith d ''}''" by (cases d) auto
    ultimately show ?thesis unfolding shape step using 2 by (simp add: string_fields_def Let_def del: append_assoc)
  qed
qed simp_all

section \<open>Reading back a printed document\<close>

lemma plain_items_iff: "plain_items ft pf dep xs \<longleftrightarrow> (\<forall>x\<in>set xs. json_plain ft pf dep x)"
  by (induction xs) (auto simp del: json_plain.simps)

lemma plain_fields_iff:
  "plain_fields ft pf dep kvs \<longleftrightarrow> (\<forall>(k, x)\<in>set kvs. is_str k \<and> json_plain ft pf dep x)"
  by (induction kvs) (auto simp del: json_plain.simps)

lemma plain_check:
  "json_plain ft pf dep v \<Longrightarrow> json_check nan v = Inr ()"
  "plain_items ft pf dep xs \<Longrightarrow> json_check_items nan xs = Inr ()"
  "plain_fields ft pf dep kvs \<Longrightarrow> json_check_fields nan kvs = Inr ()"
proof (induction nan v and nan xs and nan kvs arbitrary: dep and dep and dep
    rule: json_check_json_check_items_json_check_fields.induct)
  case (1 nan v)
  then show ?case by (cases v) auto
qed (auto simp del: json_plain.simps json_check.simps)

lemma sort_fields_map: "sort_fields kvs = map (\<lambda>(k, x). (k, sort_keys x)) kvs"
  by (induction kvs) (auto simp del: sort_keys.simps)

lemma sort_items_map: "sort_items xs = map sort_keys xs"
  by (induction xs) (auto simp del: sort_keys.simps)

lemma sort_keys_plain:
  "json_plain ft pf dep v \<Longrightarrow> json_plain ft pf dep (sort_keys v)"
  "plain_items ft pf dep xs \<Longrightarrow> plain_items ft pf dep (sort_items xs)"
  "plain_fields ft pf dep kvs \<Longrightarrow> plain_fields ft pf dep (sort_fields kvs)"
proof (induction v and xs and kvs arbitrary: dep and dep and dep rule: sort_keys_sort_items_sort_fields.induct)
  case (1 v)
  show ?case
  proof (cases v)
    case (PDict kvs)
    let ?s = "sort_key (\<lambda>(k, x). str_of k) (sort_fields kvs)"
    have p: "0 < dep" "distinct (map fst kvs)" "plain_fields ft pf (dep - 1) kvs" using "1.prems" PDict by simp_all
    have "plain_fields ft pf (dep - 1) (sort_fields kvs)" using "1.IH"(2)[OF PDict p(3)] .
    then have s: "plain_fields ft pf (dep - 1) ?s" unfolding plain_fields_iff set_sort .
    have "map fst (sort_fields kvs) = map fst kvs" by (simp add: sort_fields_map comp_def split_def)
    then have "mset (map fst ?s) = mset (map fst kvs)" by (metis mset_map mset_sort)
    then have "distinct (map fst ?s)" using p(2) by (metis mset_eq_imp_distinct_iff)
    then show ?thesis using p(1) s PDict by simp
  qed (use 1 in auto)
qed (auto simp del: json_plain.simps sort_keys.simps)

lemma loads_text:
  assumes "good_style st" "faithful_reader rd pf" "json_plain ft pf dep v"
  shows "loads rd dep (json_text st ft 0 v) = Inr v" "loads rd dep (json_text st ft 0 v @ [CHR 0x0A]) = Inr v"
proof -
  have "loads rd dep (json_text st ft 0 v @ w) = Inr v" if w: "\<forall>c\<in>set w. json_ws c" for w
  proof -
    have "delim w" using w by (cases w) (auto simp: delim_def)
    then have "json_value (2 * length (json_text st ft 0 v @ w) + 2) rd dep (json_text st ft 0 v @ w) = Inr (v, w)"
      by (intro json_read(1)[OF assms]) (auto simp del: json_text.simps)
    moreover have "skip_ws w = []" using skip_ws_append[OF w, of "[]"] by (simp add: skip_ws_def)
    ultimately show ?thesis
      unfolding loads_def skip_text[OF assms(3)] by (simp del: json_text.simps json_value.simps)
  qed
  from this[of "[]"] this[of "[CHR 0x0A]"]
  show "loads rd dep (json_text st ft 0 v) = Inr v" "loads rd dep (json_text st ft 0 v @ [CHR 0x0A]) = Inr v"
    by (simp_all add: json_ws_def del: json_text.simps)
qed

lemma dumps_plain:
  assumes "json_plain ft pf dep v"
  shows "dumps st ft v = Inr (json_text st ft 0 (if js_sort st then sort_keys v else v))"
  using plain_check(1)[OF assms] plain_check(1)[OF sort_keys_plain(1)[OF assms]]
  by (simp add: dumps_def del: json_text.simps sort_keys.simps json_check.simps)

lemma loads_dumps:
  assumes "good_style st" "faithful_reader rd pf" "json_plain ft pf dep v" "dumps st ft v = Inr s"
  shows "loads rd dep s = Inr (if js_sort st then sort_keys v else v)"
  using assms(4) loads_text(1)[OF assms(1,2)] assms(3) sort_keys_plain(1)[OF assms(3)]
  by (auto simp: dumps_plain[OF assms(3)] simp del: json_text.simps sort_keys.simps)

lemma good_styles [simp]: "good_style default_style" "good_style indented_style" "good_style compact_style"
  by code_simp+

text \<open>The text of a sorting layout determines the value up to the order of members.\<close>

lemma dumps_determines:
  assumes "good_style st" "js_sort st" "json_plain ft pf dep v" "json_plain ft pf dep w"
    and "dumps st ft v = dumps st ft w"
  shows "sort_keys v = sort_keys w"
proof -
  define rd where "rd = \<lparr>jr_object = \<lambda>kvs. Inr (obj kvs), jr_constant = float_constant, jr_float = pf\<rparr>"
  have "faithful_reader rd pf" by (simp add: faithful_reader_def rd_def)
  note read = loads_dumps[OF assms(1) this]
  obtain s where s: "dumps st ft v = Inr s" using dumps_plain[OF assms(3)] by blast
  have "Inr (sort_keys v) = (Inr (sort_keys w) :: pyval result)"
    using read[OF assms(3) s] read[OF assms(4) s[unfolded assms(5)]] assms(2) by (simp del: sort_keys.simps)
  then show ?thesis by (simp only: sum.inject)
qed

text \<open>What the sorted form says about the members of an object.\<close>

lemma map_of_sort_fields: "map_of (sort_fields kvs) k = map_option sort_keys (map_of kvs k)"
  by (induction kvs) (auto simp: sort_fields_map simp del: sort_keys.simps)

lemma map_of_sorted:
  assumes "distinct (map fst kvs)"
  shows "map_of (sort_key f kvs) = map_of kvs"
proof (rule map_of_inject_set[THEN iffD2])
  have "mset (map fst (sort_key f kvs)) = mset (map fst kvs)" by (metis mset_map mset_sort)
  then show "distinct (map fst (sort_key f kvs))" using assms by (metis mset_eq_imp_distinct_iff)
qed (use assms in simp_all)

lemma sorted_member:
  assumes "sort_keys (PDict d) = sort_keys (PDict e)" "distinct (map fst d)" "distinct (map fst e)"
  shows "map_option sort_keys (map_of d k) = map_option sort_keys (map_of e k)"
proof -
  have keys: "map fst (sort_fields kvs) = map fst kvs" for kvs by (simp add: sort_fields_map comp_def split_def)
  let ?g = "\<lambda>(k, x). str_of k"
  have "sort_key ?g (sort_fields d) = sort_key ?g (sort_fields e)" using assms(1) by simp
  moreover have "map_of (sort_key ?g (sort_fields d)) = map_of (sort_fields d)"
    "map_of (sort_key ?g (sort_fields e)) = map_of (sort_fields e)"
    using assms(2,3) by (intro map_of_sorted; simp only: keys)+
  ultimately have "map_of (sort_fields d) k = map_of (sort_fields e) k" by simp
  then show ?thesis by (simp only: map_of_sort_fields)
qed

end
