(* ===== verification/Json_Errors.thy ===== *)
theory Json_Errors
  imports Py_Json
begin

text \<open>
  What the JSON encoder raises on values that JSON has: a \<open>ValueError\<close> for a number, nothing else.
  What the JSON decoder can raise: a \<open>ValueError\<close>, the interpreter's \<^verbatim>\<open>RecursionError\<close>, an
  exception of the reader's hooks, and nothing else but the two that mark the edge of the
  model.  Callers that catch \<^verbatim>\<open>ValueError\<close> only let the second one through.
\<close>

definition too_deep :: exn where
  "too_deep = RuntimeError ''maximum recursion depth exceeded''"

definition json_exn :: "(exn \<Rightarrow> bool) \<Rightarrow> exn \<Rightarrow> bool" where
  "json_exn H e \<longleftrightarrow> (\<exists>m. e = ValueError m) \<or> e = too_deep \<or> e = beyond_model \<or> e = out_of_fuel \<or> H e"

definition reader_raises :: "json_reader \<Rightarrow> (exn \<Rightarrow> bool) \<Rightarrow> bool" where
  "reader_raises rd H \<longleftrightarrow> (\<forall>kvs. raisesR H (jr_object rd kvs)) \<and> (\<forall>s. raisesR H (jr_constant rd s))"

lemma json_chars_raises: "raisesR (json_exn H) (json_chars s)"
proof (induction s rule: json_chars.induct)
  case (2 c cs)
  have "raisesR (json_exn H) (json_escape cs)"
    by (auto simp: json_escape_def raisesR_def json_exn_def Let_def split: list.splits option.splits)
  with 2 show ?case by (auto simp: raisesR_def err_iff json_exn_def split: sum.splits)
qed (simp add: raisesR_def json_exn_def)

lemma json_scalar_raises: "reader_raises rd H \<Longrightarrow> raisesR (json_exn H) (json_scalar rd s)"
  by (auto simp: json_scalar_def reader_raises_def raisesR_def json_exn_def expecting_value_def int_base_def err_iff
      split: option.splits if_splits)

lemma json_raises:
  "reader_raises rd H \<Longrightarrow> raisesR (json_exn H) (json_value n rd dep s)"
  "reader_raises rd H \<Longrightarrow> raisesR (json_exn H) (json_list n rd dep s)"
  "reader_raises rd H \<Longrightarrow> raisesR (json_exn H) (json_members n rd dep s)"
proof (induction n rd dep s and n rd dep s and n rd dep s rule: json_value_json_list_json_members.induct)
  case (2 n rd dep s)
  then show ?case
    using json_chars_raises[of H "drop 1 s"] json_scalar_raises[of rd H s]
    by (auto simp: raisesR_def err_iff Let_def json_exn_def too_deep_def reader_raises_def split: if_splits)
next
  case (4 n rd dep s)
  then show ?case
    by (auto simp: raisesR_def err_iff Let_def json_exn_def split: if_splits)
next
  case (6 n rd dep s)
  then show ?case
    using json_chars_raises[of H "drop 1 s"]
    by (auto simp: raisesR_def err_iff Let_def json_exn_def split: if_splits) metis
qed (simp_all add: raisesR_def json_exn_def)

lemma loads_raises:
  assumes "reader_raises rd H" "\<not> H out_of_fuel" "loads rd dep s = Inl e"
  shows "(\<exists>m. e = ValueError m) \<or> e = too_deep \<or> e = beyond_model \<or> H e"
proof -
  have "sane_reader rd" using assms(1,2) by (auto simp: sane_reader_def reader_raises_def raisesR_def)
  then have "e \<noteq> out_of_fuel" using loads_total[of rd dep s] assms(3) by auto
  moreover have "json_exn H e"
    using json_raises(1)[OF assms(1), of "2 * length s + 2" dep "skip_ws s"] assms(3)
    by (auto simp: loads_def raisesR_def err_iff json_exn_def split: if_splits)
  ultimately show ?thesis by (auto simp: json_exn_def)
qed

lemma utf8_raises: "utf8_decode bs = Inl e \<Longrightarrow> e = bad_utf8 \<or> e = beyond_model"
  by (induction bs rule: utf8_decode.induct) (auto simp: err_iff split: list.splits if_splits)

section \<open>The encoder\<close>

text \<open>A value with members named by strings and without objects that JSON does not have.\<close>

fun json_typed :: "pyval \<Rightarrow> bool" and typed_items :: "pyval list \<Rightarrow> bool" and typed_fields :: "pydict \<Rightarrow> bool" where
  "json_typed v =
     (case v of PList xs \<Rightarrow> typed_items xs | PDict kvs \<Rightarrow> typed_fields kvs | POther t \<Rightarrow> False | _ \<Rightarrow> True)"
| "typed_items [] = True"
| "typed_items (x # xs) \<longleftrightarrow> json_typed x \<and> typed_items xs"
| "typed_fields [] = True"
| "typed_fields ((k, x) # kvs) \<longleftrightarrow> is_str k \<and> json_typed x \<and> typed_fields kvs"

declare json_typed.simps [simp del]

lemma json_typed_simps [simp]:
  "json_typed PNone" "json_typed (PBool b)" "json_typed (PInt n)" "json_typed (PFloat f)" "json_typed (PStr s)"
  "json_typed (PList xs) \<longleftrightarrow> typed_items xs" "json_typed (PDict kvs) \<longleftrightarrow> typed_fields kvs" "\<not> json_typed (POther t)"
  by (subst json_typed.simps, simp)+

lemma typed_fields_iff: "typed_fields kvs \<longleftrightarrow> (\<forall>(k, x)\<in>set kvs. is_str k \<and> json_typed x)"
  by (induction kvs) auto

lemma typed_obj: "typed_fields (obj kvs) \<longleftrightarrow> (\<forall>(k, x)\<in>set kvs. json_typed x)"
  by (auto simp: typed_fields_iff obj_def is_str_def)

lemma json_check_raises:
  "json_typed v \<Longrightarrow> raisesR is_value_error (json_check nan v)"
  "typed_items xs \<Longrightarrow> raisesR is_value_error (json_check_items nan xs)"
  "typed_fields kvs \<Longrightarrow> raisesR is_value_error (json_check_fields nan kvs)"
proof (induction nan v and nan xs and nan kvs rule: json_check_json_check_items_json_check_fields.induct)
  case (1 nan v)
  then show ?case by (cases v) (auto simp: raisesR_def)
qed (auto simp: raisesR_def err_iff simp del: json_check.simps)

lemma sort_keys_typed:
  "json_typed v \<Longrightarrow> json_typed (sort_keys v)"
  "typed_items xs \<Longrightarrow> typed_items (sort_items xs)"
  "typed_fields kvs \<Longrightarrow> typed_fields (sort_fields kvs)"
proof (induction v and xs and kvs rule: sort_keys_sort_items_sort_fields.induct)
  case (1 v)
  then show ?case by (cases v) (auto simp: typed_fields_iff)
qed (simp_all del: sort_keys.simps)

lemma dumps_raises: "json_typed v \<Longrightarrow> raisesR is_value_error (dumps st ft v)"
  using json_check_raises(1)[of v] json_check_raises(1)[OF sort_keys_typed(1), of v]
  by (auto simp: dumps_def Let_def raisesR_def err_iff simp del: json_check.simps json_text.simps sort_keys.simps)

end
