(* ===== verification/Sut_Adapter.thy ===== *)
theory Sut_Adapter
  imports Json_Roundtrip Json_Errors Chain
begin

text \<open>
  \<^verbatim>\<open>psv/sut.py\<close>: the strict adapter between the harness and a system under test.  The HTTP
  library is a parameter: opening the client, a request (an operation on the world behind it,
  so that a server may change its answers) and closing.  Its answer is a status check that may
  raise and a body that may fail to be read.
\<close>

section \<open>Wire values\<close>

definition settlement_pending_code :: string where
  "settlement_pending_code = ''settlement_pending''"

definition bad :: "string \<Rightarrow> 'a result" where
  "bad m = Inl (SutAdapterError m)"

text \<open>\<^verbatim>\<open>fullmatch\<close> of \<^verbatim>\<open>(?:0|[1-9][0-9]*)\<close> and of \<^verbatim>\<open>eip155:([1-9][0-9]*)\<close>.\<close>

definition match_decimal :: "string \<Rightarrow> bool" where
  "match_decimal s \<longleftrightarrow> s = ''0'' \<or> s \<noteq> [] \<and> hd s \<noteq> CHR ''0'' \<and> (\<forall>c\<in>set s. is_dec c)"

definition match_network :: "string \<Rightarrow> bool" where
  "match_network s \<longleftrightarrow>
     startswith s ''eip155:'' \<and> match_decimal (drop 7 s) \<and> drop 7 s \<noteq> ''0''"

record wire_quote =
  wq_order_id :: string
  wq_amount :: int
  wq_pay_to :: string
  wq_asset :: string
  wq_network :: string
  wq_token_name :: string
  wq_token_version :: string

definition quote_chain_id :: "wire_quote \<Rightarrow> int result" where
  "quote_chain_id q =
     (if \<not> match_network (wq_network q) then bad ''invalid CAIP-2 EVM network''
      else int_base 10 (drop 7 (wq_network q)))"

datatype pay_outcome = SETTLED | PENDING | UNSETTLED

record pay_result =
  pr_order_id :: string
  pr_submitted_tx :: "string option"
  pr_settled :: bool
  pr_reason :: "string option"

definition pay_outcome_of :: "pay_result \<Rightarrow> pay_outcome" where
  "pay_outcome_of p =
     (if pr_settled p then SETTLED
      else if pr_reason p = Some settlement_pending_code \<and> pr_submitted_tx p \<noteq> None then PENDING
      else UNSETTLED)"

record wire_status =
  ws_order_id :: string
  ws_paid :: bool
  ws_resource :: "string option"
  ws_submitted_tx :: "string option"

section \<open>Validators\<close>

definition body_object :: "string \<Rightarrow> pyval \<Rightarrow> pydict result" where
  "body_object what body =
     (case body of
        PDict d \<Rightarrow> if \<exists>(k, v)\<in>set d. \<not> is_str k
                   then bad (what @ '': response must be a JSON object with string keys'') else Inr d
      | _ \<Rightarrow> bad (what @ '': response must be a JSON object with string keys''))"

definition required_field :: "pydict \<Rightarrow> string \<Rightarrow> string \<Rightarrow> pyval result" where
  "required_field body field what =
     (case map_of body (PStr field) of
        None \<Rightarrow> bad (what @ '': missing required field '' @ field)
      | Some v \<Rightarrow> Inr v)"

definition wire_string :: "string \<Rightarrow> bool \<Rightarrow> pyval \<Rightarrow> string option result" where
  "wire_string field nullable v =
     (if v = PNone \<and> nullable then Inr None
      else case v of
        PStr s \<Rightarrow> if s = [] \<or> int (length s) > 16384
                  then bad (field @ '': string is empty or exceeds the size limit'')
                  else Inr (Some s)
      | _ \<Rightarrow> bad (field @ '': expected string''))"

definition wire_text :: "string \<Rightarrow> pyval \<Rightarrow> string result" where
  "wire_text field v = bindR (wire_string field False v) (\<lambda>s. Inr (the s))"

definition wire_order_id :: "string \<Rightarrow> pyval \<Rightarrow> string result" where
  "wire_order_id field v =
     bindR (wire_text field v) (\<lambda>order_id.
     if length order_id > 256 \<or> (\<exists>c\<in>set order_id. code c < 32)
     then bad (field @ '': invalid order id'') else Inr order_id)"

definition wire_address :: "string \<Rightarrow> pyval \<Rightarrow> string result" where
  "wire_address field v =
     (case v of
        PStr s \<Rightarrow> if match_hex 40 s then Inr s else bad (field @ '': expected exact 20-byte EVM address'')
      | _ \<Rightarrow> bad (field @ '': expected exact 20-byte EVM address''))"

definition transaction_hash :: "string \<Rightarrow> pyval \<Rightarrow> string option result" where
  "transaction_hash field v =
     (case v of
        PNone \<Rightarrow> Inr None
      | PStr s \<Rightarrow> if match_hex 64 s then Inr (Some s)
                  else bad (field @ '': expected exact 32-byte transaction hash or null'')
      | _ \<Rightarrow> bad (field @ '': expected exact 32-byte transaction hash or null''))"

definition wire_boolean :: "string \<Rightarrow> pyval \<Rightarrow> bool result" where
  "wire_boolean field v = (case v of PBool b \<Rightarrow> Inr b | _ \<Rightarrow> bad (field @ '': expected boolean''))"

definition positive_uint256 :: "string \<Rightarrow> pyval \<Rightarrow> int result" where
  "positive_uint256 field v =
     (case v of
        PStr s \<Rightarrow>
          if \<not> match_decimal s then bad (field @ '': expected canonical decimal uint256 string'')
          else bindR (int_base 10 s) (\<lambda>parsed.
            if \<not> (1 \<le> parsed \<and> parsed \<le> uint256_max) then bad (field @ '': expected positive uint256'')
            else Inr parsed)
      | _ \<Rightarrow> bad (field @ '': expected canonical decimal uint256 string''))"

definition wire_network :: "pyval \<Rightarrow> string result" where
  "wire_network v =
     (case v of
        PStr s \<Rightarrow>
          if \<not> match_network s then bad ''network: expected canonical eip155:<positive uint256>''
          else bindR (int_base 10 (drop 7 s)) (\<lambda>n.
            if n > uint256_max then bad ''network: expected canonical eip155:<positive uint256>''
            else Inr s)
      | _ \<Rightarrow> bad ''network: expected CAIP-2 string'')"

definition matching_order_id :: "pydict \<Rightarrow> string \<Rightarrow> string option \<Rightarrow> string result" where
  "matching_order_id body what expected_order_id =
     bindR (required_field body ''order_id'' what) (\<lambda>v.
     bindR (wire_order_id ''order_id'' v) (\<lambda>result.
     if expected_order_id \<noteq> None \<and> expected_order_id \<noteq> Some result
     then bad (what @ '': response order_id does not match request'') else Inr result))"

section \<open>Parsers\<close>

definition parse_quote :: "pyval \<Rightarrow> wire_quote result" where
  "parse_quote body =
     bindR (body_object ''quote'' body) (\<lambda>parsed.
     bindR (required_field parsed ''extra'' ''quote'') (\<lambda>ev.
     bindR (body_object ''quote.extra'' ev) (\<lambda>extra.
     bindR (required_field extra ''name'' ''quote.extra'') (\<lambda>nv.
     bindR (wire_text ''extra.name'' nv) (\<lambda>name.
     bindR (required_field extra ''version'' ''quote.extra'') (\<lambda>vv.
     bindR (wire_text ''extra.version'' vv) (\<lambda>version.
     bindR (matching_order_id parsed ''quote'' None) (\<lambda>oid.
     bindR (required_field parsed ''amount'' ''quote'') (\<lambda>av.
     bindR (positive_uint256 ''amount'' av) (\<lambda>amount.
     bindR (required_field parsed ''payTo'' ''quote'') (\<lambda>pv.
     bindR (wire_address ''payTo'' pv) (\<lambda>pay_to.
     bindR (required_field parsed ''asset'' ''quote'') (\<lambda>sv.
     bindR (wire_address ''asset'' sv) (\<lambda>asset.
     bindR (required_field parsed ''network'' ''quote'') (\<lambda>wv.
     bindR (wire_network wv) (\<lambda>network.
     Inr \<lparr>wq_order_id = oid, wq_amount = amount, wq_pay_to = pay_to, wq_asset = asset,
          wq_network = network, wq_token_name = name, wq_token_version = version\<rparr>))))))))))))))))"

definition parse_pay :: "pyval \<Rightarrow> string option \<Rightarrow> pay_result result" where
  "parse_pay body expected_order_id =
     bindR (body_object ''pay'' body) (\<lambda>parsed.
     bindR (required_field parsed ''settled'' ''pay'') (\<lambda>sv.
     bindR (wire_boolean ''settled'' sv) (\<lambda>settled.
     bindR (wire_string ''reason'' True (dict_get parsed ''reason'')) (\<lambda>reason.
     if settled \<and> reason = Some settlement_pending_code
     then bad ''pay: settled answer carries reason settlement_pending''
     else
     bindR (matching_order_id parsed ''pay'' expected_order_id) (\<lambda>oid.
     bindR (transaction_hash ''submitted_tx'' (dict_get parsed ''submitted_tx'')) (\<lambda>tx.
     Inr \<lparr>pr_order_id = oid, pr_submitted_tx = tx, pr_settled = settled, pr_reason = reason\<rparr>))))))"

definition parse_status :: "pyval \<Rightarrow> string option \<Rightarrow> wire_status result" where
  "parse_status body expected_order_id =
     bindR (body_object ''status'' body) (\<lambda>parsed.
     bindR (required_field parsed ''resource'' ''status'') (\<lambda>rv.
     bindR (wire_string ''resource'' True rv) (\<lambda>resource.
     bindR (matching_order_id parsed ''status'' expected_order_id) (\<lambda>oid.
     bindR (required_field parsed ''paid'' ''status'') (\<lambda>pv.
     bindR (wire_boolean ''paid'' pv) (\<lambda>paid.
     bindR (required_field parsed ''submitted_tx'' ''status'') (\<lambda>tv.
     bindR (transaction_hash ''submitted_tx'' tv) (\<lambda>tx.
     Inr \<lparr>ws_order_id = oid, ws_paid = paid, ws_resource = resource, ws_submitted_tx = tx\<rparr>))))))))"

section \<open>Decoding a response\<close>

definition sut_reject_duplicate_keys :: "(string \<times> pyval) list \<Rightarrow> pydict result" where
  "sut_reject_duplicate_keys pairs = unique_members (SutAdapterError ''duplicate JSON field'') [] pairs"

record http_response =
  hr_status :: "unit result"
  hr_content :: "int list result"

record 'w http_env =
  he_open :: "('w, unit) op"
  he_request :: "string \<Rightarrow> string \<Rightarrow> pydict option \<Rightarrow> ('w, http_response) op"
  he_close :: "('w, unit) op"
  he_float :: "string \<Rightarrow> pyfloat"
  he_depth :: nat

definition sut_reader :: "(string \<Rightarrow> pyfloat) \<Rightarrow> json_reader" where
  "sut_reader pf = \<lparr>jr_object = sut_reject_duplicate_keys, jr_constant = float_constant, jr_float = pf\<rparr>"

text \<open>\<^verbatim>\<open>except (UnicodeError, ValueError)\<close>, after \<^verbatim>\<open>except SutAdapterError: raise\<close>.\<close>

definition as_malformed :: "string \<Rightarrow> exn \<Rightarrow> exn" where
  "as_malformed what e = (if is_value_error e then
     (case e of SutAdapterError m \<Rightarrow> e | _ \<Rightarrow> SutAdapterError (what @ '': malformed JSON response'')) else e)"

definition decode_response :: "(string \<Rightarrow> pyfloat) \<Rightarrow> nat \<Rightarrow> http_response \<Rightarrow> string \<Rightarrow> pydict result" where
  "decode_response pf depth response what =
     bindR (mapErrR (\<lambda>e. SutAdapterError (what @ '': unable to read HTTP response'')) (hr_content response)) (\<lambda>content.
     if int (length content) > 1048576 then bad (what @ '': response exceeds 1048576 bytes'')
     else
     bindR (mapErrR (as_malformed what)
              (bindR (utf8_decode content) (\<lambda>text. loads (sut_reader pf) depth text))) (\<lambda>value.
     body_object what value))"

section \<open>The HTTP adapter\<close>

record 'w adapter =
  ad_open :: bool
  ad_world :: 'w

definition on_world :: "('w, 'a) op \<Rightarrow> ('w adapter, 'a) op" where
  "on_world m = (\<lambda>s. case m (ad_world s) of (r, w) \<Rightarrow> (r, s\<lparr>ad_world := w\<rparr>))"

definition wrapS :: "(exn \<Rightarrow> exn) \<Rightarrow> ('s, 'a) op \<Rightarrow> ('s, 'a) op" where
  "wrapS h m = (\<lambda>s. case m s of (r, t) \<Rightarrow> (mapErrR h r, t))"

text \<open>
  \<^verbatim>\<open>__post_init__\<close>: the timeout is an int or a float; \<^verbatim>\<open>math.isfinite\<close> of an int that no
  float can hold raises \<^verbatim>\<open>OverflowError\<close>.
\<close>

definition timeout_ok :: "pyfloat \<Rightarrow> bool" where
  "timeout_ok f =
     (case f of
        Finite m e \<Rightarrow> 0 < m \<and> (if 0 \<le> e then m * 2 ^ nat e \<le> 300 else m \<le> 300 * 2 ^ nat (- e))
      | _ \<Rightarrow> False)"

definition float_overflow :: "int \<Rightarrow> bool" where
  "float_overflow n \<longleftrightarrow> 2 ^ 1024 - 2 ^ 970 \<le> \<bar>n\<bar>"

definition adapter_init :: "pyval \<Rightarrow> 'w \<Rightarrow> 'w adapter result" where
  "adapter_init timeout w =
     (let bad_timeout = Inl (ValueError ''timeout must be finite and within (0, 300]'');
          fresh = Inr \<lparr>ad_open = False, ad_world = w\<rparr>
      in case timeout of
        PInt n \<Rightarrow> if float_overflow n then Inl (OtherException ''OverflowError'')
                  else if 0 < n \<and> n \<le> 300 then fresh else bad_timeout
      | PFloat f \<Rightarrow> if timeout_ok f then fresh else bad_timeout
      | _ \<Rightarrow> bad_timeout)"

definition adapter_http :: "'w http_env \<Rightarrow> ('w adapter, unit) op" where
  "adapter_http he = (\<lambda>s.
     if ad_open s then (Inr (), s)
     else bindS (on_world (he_open he)) (\<lambda>_ t. (Inr (), t\<lparr>ad_open := True\<rparr>)) s)"

definition adapter_close :: "'w http_env \<Rightarrow> ('w adapter, unit) op" where
  "adapter_close he = (\<lambda>s.
     if ad_open s
     then wrapS (\<lambda>e. SutAdapterError ''unable to close HTTP client'') (on_world (he_close he)) (s\<lparr>ad_open := False\<rparr>)
     else (Inr (), s))"

definition as_http_failure :: "string \<Rightarrow> exn \<Rightarrow> exn" where
  "as_http_failure what e = (case e of SutAdapterError m \<Rightarrow> e | _ \<Rightarrow> SutAdapterError (what @ '': HTTP failure''))"

definition adapter_request ::
  "'w http_env \<Rightarrow> string \<Rightarrow> string \<Rightarrow> pydict option \<Rightarrow> ('w adapter, pydict) op" where
  "adapter_request he meth path json =
     bindS (wrapS (as_http_failure (meth @ '' '' @ path))
              (bindS (adapter_http he) (\<lambda>_.
               bindS (on_world (he_request he meth path json)) (\<lambda>response.
               bindS (liftS (hr_status response)) (\<lambda>_. retS response))))) (\<lambda>response.
     liftS (decode_response (he_float he) (he_depth he) response (meth @ '' '' @ path)))"

definition adapter_quote :: "'w http_env \<Rightarrow> ('w adapter, wire_quote) op" where
  "adapter_quote he =
     bindS (adapter_request he ''POST'' ''/quote'' None) (\<lambda>body. liftS (parse_quote (PDict body)))"

definition adapter_pay :: "'w http_env \<Rightarrow> string \<Rightarrow> pydict \<Rightarrow> ('w adapter, pay_result) op" where
  "adapter_pay he order_id authorization =
     bindS (liftS (wire_order_id ''requested order_id'' (PStr order_id))) (\<lambda>requested.
     bindS (adapter_request he ''POST'' ''/pay''
              (Some (obj [(''order_id'', PStr requested), (''authorization'', PDict authorization)]))) (\<lambda>body.
     liftS (parse_pay (PDict body) (Some requested))))"

text \<open>
  \<^verbatim>\<open>urllib.parse.quote(s, safe="")\<close>: the unreserved characters stay, every other byte of the
  UTF-8 form becomes a percent sign and two capital hexadecimal digits.
\<close>

definition unreserved :: "char \<Rightarrow> bool" where
  "unreserved c \<longleftrightarrow>
     is_dec c \<or> 65 \<le> code c \<and> code c \<le> 90 \<or> 97 \<le> code c \<and> code c \<le> 122 \<or> c \<in> set ''_.-~''"

definition upper_hex :: "int \<Rightarrow> char" where
  "upper_hex d = ''0123456789ABCDEF'' ! nat d"

definition percent_byte :: "int \<Rightarrow> string" where
  "percent_byte b = [CHR ''%'', upper_hex (b div 16), upper_hex (b mod 16)]"

definition quote_segment :: "string \<Rightarrow> string" where
  "quote_segment s = concat (map (\<lambda>c. if unreserved c then [c] else concat (map percent_byte (utf8_char c))) s)"

definition adapter_status :: "'w http_env \<Rightarrow> string \<Rightarrow> ('w adapter, wire_status) op" where
  "adapter_status he order_id =
     bindS (liftS (wire_order_id ''requested order_id'' (PStr order_id))) (\<lambda>requested.
     bindS (adapter_request he ''GET'' (''/status/'' @ quote_segment requested) None) (\<lambda>body.
     liftS (parse_status (PDict body) (Some requested))))"

section \<open>What the validators accept\<close>

lemma dec_digit: "is_dec c \<Longrightarrow> digit_char (hex_val c) = c"
proof -
  have "\<forall>c\<in>set ''0123456789''. digit_char (hex_val c) = c" by code_simp
  then show "is_dec c \<Longrightarrow> ?thesis" by (auto simp: is_dec_def)
qed

lemma digits_of_decimal:
  "s \<noteq> [] \<Longrightarrow> hd s \<noteq> CHR ''0'' \<Longrightarrow> \<forall>c\<in>set s. is_dec c \<Longrightarrow>
     1 \<le> digits_val 10 s \<and> digits_of 10 (digits_val 10 s) = s"
proof (induction s rule: rev_induct)
  case (snoc c s)
  then have c: "is_dec c" "0 \<le> hex_val c" "hex_val c < 10" using hex_val_dec[of c] by auto
  show ?case
  proof (cases "s = []")
    case True
    have "\<forall>c\<in>set ''0123456789''. c \<noteq> CHR ''0'' \<longrightarrow> 1 \<le> hex_val c" by code_simp
    then have "1 \<le> hex_val c" using snoc.prems True c(1) by (auto simp: is_dec_def)
    then show ?thesis using True c by (simp add: digits_of_last dec_digit)
  next
    case False
    then have "1 \<le> digits_val 10 s" "digits_of 10 (digits_val 10 s) = s" using snoc by auto
    moreover have "(digits_val 10 s * 10 + hex_val c) div 10 = digits_val 10 s"
      "(digits_val 10 s * 10 + hex_val c) mod 10 = hex_val c" using c by presburger+
    ultimately show ?thesis using c by (simp add: digits_val_append digits_of_step dec_digit)
  qed
qed simp

text \<open>A canonical decimal string is the text of a number, and \<^verbatim>\<open>int\<close> reads it up to its limit.\<close>

lemma match_decimal_iff: "match_decimal s \<longleftrightarrow> (\<exists>n\<ge>0. s = py_str_int n)"
proof
  assume "match_decimal s"
  then consider "s = py_str_int 0" | "s = py_str_int (digits_val 10 s)" "0 \<le> digits_val 10 s"
    using digits_of_decimal[of s] by (auto simp: match_decimal_def py_str_int_def)
  then show "\<exists>n\<ge>0. s = py_str_int n" by cases auto
next
  assume "\<exists>n\<ge>0. s = py_str_int n"
  then obtain n where n: "0 \<le> n" "s = digits_of 10 n" by (auto simp: py_str_int_def)
  then have "\<forall>c\<in>set s. is_dec c" using digits_of_chars[of 10 n] by auto
  then show "match_decimal s"
    using n digits_of_leading[of 10 n] by (cases "n = 0") (auto simp: match_decimal_def)
qed

lemma int_base_decimal:
  "0 \<le> n \<Longrightarrow> int_base 10 (py_str_int n) =
     (if length (py_str_int n) \<le> 4300 then Inr n else Inl (ValueError ''invalid literal for int()''))"
proof (cases "length (py_str_int n) \<le> 4300")
  case True
  then show "0 \<le> n \<Longrightarrow> ?thesis" using int_base_str[of n] by (simp add: py_str_int_def)
next
  case False
  assume n: "0 \<le> n"
  then have c: "\<forall>c\<in>set (digits_of 10 n). is_dec c" using digits_of_chars[of 10 n] by auto
  have "strip_space (digits_of 10 n) = digits_of 10 n"
    using c by (intro strip_space_id) (fastforce simp: int_space_def dest: is_hex_code[OF is_dec_hex])
  moreover have "filter (\<lambda>c. c \<noteq> CHR ''_'') (digits_of 10 n) = digits_of 10 n"
    using c is_hex_plain(1)[OF is_dec_hex] by (intro filter_True) auto
  moreover have "\<not> startswith (digits_of 10 n) ''-''" "\<not> startswith (digits_of 10 n) ''+''"
    using c is_hex_plain(4,5)[OF is_dec_hex] by (cases "digits_of 10 n"; auto)+
  ultimately show ?thesis using n False by (simp add: int_base_def py_int_def py_str_int_def unsigned_int_def)
qed

lemma uint256_text: "0 \<le> n \<Longrightarrow> n \<le> uint256_max \<Longrightarrow> int_base 10 (py_str_int n) = Inr n"
proof -
  assume n: "0 \<le> n" "n \<le> uint256_max"
  then have "n < 10 ^ 78" by (simp add: uint256_max_def)
  then have "length (digits_of 10 n) \<le> 78" using n(1) by (intro digits_of_length) auto
  then show ?thesis using n(1) int_base_str[of n] by simp
qed

lemma positive_uint256_ok [ok_iff]:
  "positive_uint256 f v = Inr n \<longleftrightarrow> v = PStr (py_str_int n) \<and> 1 \<le> n \<and> n \<le> uint256_max"
  using uint256_text[of n]
  by (auto simp: positive_uint256_def bad_def match_decimal_iff int_base_decimal bindR_ok split: pyval.splits if_splits)

lemma match_network_iff: "match_network s \<longleftrightarrow> (\<exists>n\<ge>1. s = ''eip155:'' @ py_str_int n)"
proof -
  have z: "py_str_int n = ''0'' \<longleftrightarrow> n = 0" if "0 \<le> n" for n
    using that digits_of_leading[of 10 n] by (cases "n = 0") (auto simp: py_str_int_def)
  show ?thesis
  proof
    assume "match_network s"
    then obtain t n where "s = ''eip155:'' @ t" "0 \<le> n" "t = py_str_int n" "t \<noteq> ''0''"
      by (auto simp: match_network_def match_decimal_iff startswith_append)
    then show "\<exists>n\<ge>1. s = ''eip155:'' @ py_str_int n" using z[of n] by (intro exI[of _ n]) auto
  next
    assume "\<exists>n\<ge>1. s = ''eip155:'' @ py_str_int n"
    then obtain n where "1 \<le> n" "s = ''eip155:'' @ py_str_int n" by blast
    moreover from this have "match_decimal (py_str_int n)" unfolding match_decimal_iff by (intro exI[of _ n]) auto
    ultimately show "match_network s" using z[of n] by (simp add: match_network_def)
  qed
qed

lemma wire_network_ok [ok_iff]:
  "wire_network v = Inr s \<longleftrightarrow>
     v = PStr s \<and> (\<exists>n. 1 \<le> n \<and> n \<le> uint256_max \<and> s = ''eip155:'' @ py_str_int n)"
proof (cases "\<exists>n\<ge>1. v = PStr (''eip155:'' @ py_str_int n)")
  case True
  then obtain n where n: "1 \<le> n" "v = PStr (''eip155:'' @ py_str_int n)" by blast
  then have m: "match_network (''eip155:'' @ py_str_int n)" by (auto simp: match_network_iff)
  have inj: "py_str_int n = py_str_int k \<longleftrightarrow> n = k" if "1 \<le> k" for k using digits_inj[of n k] n that by auto
  have "wire_network v = Inr s \<longleftrightarrow> s = ''eip155:'' @ py_str_int n \<and> n \<le> uint256_max"
    using n m uint256_text[of n] int_base_decimal[of n]
    by (cases "n \<le> uint256_max") (auto simp: wire_network_def bad_def ok_iff)
  then show ?thesis using n inj by auto
next
  case False
  then show ?thesis by (cases v) (auto simp: wire_network_def bad_def match_network_iff)
qed

definition str_keys :: "pydict \<Rightarrow> bool" where
  "str_keys d \<longleftrightarrow> (\<forall>(k, v)\<in>set d. is_str k)"

definition valid_order_id :: "string \<Rightarrow> bool" where
  "valid_order_id s \<longleftrightarrow> s \<noteq> [] \<and> length s \<le> 256 \<and> (\<forall>c\<in>set s. 32 \<le> code c)"

definition valid_text :: "string \<Rightarrow> bool" where
  "valid_text s \<longleftrightarrow> s \<noteq> [] \<and> length s \<le> 16384"

lemma valid_order_id_text: "valid_order_id s \<Longrightarrow> valid_text s"
  by (simp add: valid_order_id_def valid_text_def)

lemma body_object_ok [ok_iff]: "body_object w b = Inr d \<longleftrightarrow> b = PDict d \<and> str_keys d"
  by (auto simp: body_object_def bad_def str_keys_def split: pyval.splits)

lemma required_field_ok [ok_iff]: "required_field d f w = Inr v \<longleftrightarrow> map_of d (PStr f) = Some v"
  by (auto simp: required_field_def bad_def split: option.splits)

lemma wire_string_ok [ok_iff]:
  "wire_string f nullable v = Inr r \<longleftrightarrow>
     v = PNone \<and> nullable \<and> r = None \<or> (\<exists>s. v = PStr s \<and> valid_text s \<and> r = Some s)"
  by (auto simp: wire_string_def bad_def valid_text_def split: pyval.splits if_splits)

lemma wire_text_ok [ok_iff]: "wire_text f v = Inr s \<longleftrightarrow> v = PStr s \<and> valid_text s"
  by (auto simp: wire_text_def ok_iff)

lemma wire_order_id_ok [ok_iff]: "wire_order_id f v = Inr s \<longleftrightarrow> v = PStr s \<and> valid_order_id s"
  by (auto simp: wire_order_id_def ok_iff bad_def valid_order_id_def valid_text_def not_less split: if_splits)

lemma wire_address_ok [ok_iff]: "wire_address f v = Inr s \<longleftrightarrow> v = PStr s \<and> match_hex 40 s"
  by (auto simp: wire_address_def bad_def split: pyval.splits if_splits)

lemma transaction_hash_ok [ok_iff]:
  "transaction_hash f v = Inr r \<longleftrightarrow> v = PNone \<and> r = None \<or> (\<exists>s. v = PStr s \<and> match_hex 64 s \<and> r = Some s)"
  by (auto simp: transaction_hash_def bad_def split: pyval.splits if_splits)

lemma wire_boolean_ok [ok_iff]: "wire_boolean f v = Inr b \<longleftrightarrow> v = PBool b"
  by (auto simp: wire_boolean_def bad_def split: pyval.splits)

lemma matching_order_id_ok [ok_iff]:
  "matching_order_id d w expected = Inr s \<longleftrightarrow>
     map_of d (PStr ''order_id'') = Some (PStr s) \<and> valid_order_id s \<and> (expected = None \<or> expected = Some s)"
  by (cases expected) (auto simp: matching_order_id_def bad_def ok_iff split: if_splits)

text \<open>
  C38: A quote is accepted exactly when its fields are well-formed, and it then carries exactly
  what the answer said: the amount is the positive uint256 whose canonical decimal text was
  sent, the addresses are 20-byte hexadecimal strings, the network is the canonical CAIP-2 name of a
  positive chain id within uint256, which is what \<open>chain_id\<close> returns, and the texts are non-empty and bounded.
\<close>

theorem parse_quote_exact:
  "parse_quote body = Inr q \<longleftrightarrow>
     (\<exists>d x n. body = PDict d \<and> str_keys d \<and> map_of d (PStr ''extra'') = Some (PDict x) \<and> str_keys x \<and>
        map_of x (PStr ''name'') = Some (PStr (wq_token_name q)) \<and> valid_text (wq_token_name q) \<and>
        map_of x (PStr ''version'') = Some (PStr (wq_token_version q)) \<and> valid_text (wq_token_version q) \<and>
        map_of d (PStr ''order_id'') = Some (PStr (wq_order_id q)) \<and> valid_order_id (wq_order_id q) \<and>
        map_of d (PStr ''amount'') = Some (PStr (py_str_int (wq_amount q))) \<and>
        1 \<le> wq_amount q \<and> wq_amount q \<le> uint256_max \<and>
        map_of d (PStr ''payTo'') = Some (PStr (wq_pay_to q)) \<and> match_hex 40 (wq_pay_to q) \<and>
        map_of d (PStr ''asset'') = Some (PStr (wq_asset q)) \<and> match_hex 40 (wq_asset q) \<and>
        map_of d (PStr ''network'') = Some (PStr (wq_network q)) \<and> wq_network q = ''eip155:'' @ py_str_int n \<and>
        1 \<le> n \<and> n \<le> uint256_max \<and> quote_chain_id q = Inr n)"
proof -
  have chain: "quote_chain_id q = Inr n" if "wq_network q = ''eip155:'' @ py_str_int n" "1 \<le> n" "n \<le> uint256_max" for n
  proof -
    have "match_network (wq_network q)" using that by (auto simp: match_network_iff)
    then show ?thesis using that uint256_text[of n] by (simp add: quote_chain_id_def)
  qed
  show ?thesis
    unfolding parse_quote_def
    by (cases q) (auto simp: ok_iff, use chain in auto)
qed

text \<open>
  A pay answer is graded by what it says and for the order it was asked about. What is accepted
  names the requested order; it counts as settled exactly when the answer says so, as pending exactly
  when it says \<^verbatim>\<open>settlement_pending\<close> and names a 32-byte transaction hash to reconcile, and as
  unsettled otherwise; a settled answer never carries the pending code.
\<close>

theorem parse_pay_graded:
  "parse_pay body (Some requested) = Inr p \<Longrightarrow>
     \<exists>d. body = PDict d \<and> map_of d (PStr ''order_id'') = Some (PStr requested) \<and>
       pr_order_id p = requested \<and> valid_order_id requested \<and>
       (pay_outcome_of p = SETTLED \<longleftrightarrow> dict_get d ''settled'' = PBool True) \<and>
       (pay_outcome_of p = PENDING \<longleftrightarrow>
          dict_get d ''settled'' = PBool False \<and> dict_get d ''reason'' = PStr ''settlement_pending'' \<and>
          (\<exists>tx. dict_get d ''submitted_tx'' = PStr tx \<and> match_hex 64 tx \<and> pr_submitted_tx p = Some tx)) \<and>
       (pay_outcome_of p = UNSETTLED \<longrightarrow> dict_get d ''settled'' = PBool False) \<and>
       (pr_settled p \<longrightarrow> pr_reason p \<noteq> Some settlement_pending_code)"
  by (auto simp: parse_pay_def pay_outcome_of_def settlement_pending_code_def ok_iff dict_get_eq bad_def split: if_splits)

theorem parse_pay_graded_witness:
  "\<exists>p. parse_pay (PDict (obj [(''order_id'', PStr ''ord_1''), (''settled'', PBool False),
          (''reason'', PStr ''settlement_pending''), (''submitted_tx'', PStr (''0x'' @ replicate 64 (CHR ''a'')))]))
        (Some ''ord_1'') = Inr p \<and> pay_outcome_of p = PENDING \<and> pr_order_id p = ''ord_1''"
proof -
  let ?b = "PDict (obj [(''order_id'', PStr ''ord_1''), (''settled'', PBool False),
          (''reason'', PStr ''settlement_pending''), (''submitted_tx'', PStr (''0x'' @ replicate 64 (CHR ''a'')))])"
  have "case parse_pay ?b (Some ''ord_1'') of Inr p \<Rightarrow> pay_outcome_of p = PENDING | Inl e \<Rightarrow> False" by code_simp
  then obtain p where "parse_pay ?b (Some ''ord_1'') = Inr p" "pay_outcome_of p = PENDING"
    by (auto split: sum.splits)
  then show ?thesis using parse_pay_graded[of ?b "''ord_1''" p] by blast
qed

section \<open>What the adapter raises\<close>

interpretation sut_object: object_hook sut_reject_duplicate_keys "SutAdapterError ''duplicate JSON field''"
proof
  fix kvs d
  show "sut_reject_duplicate_keys kvs = Inr d \<longleftrightarrow> distinct (map fst kvs) \<and> d = obj kvs"
    by (simp add: sut_reject_duplicate_keys_def unique_members_ok has_key_def)
next
  fix kvs e
  assume "sut_reject_duplicate_keys kvs = Inl e"
  moreover have "unique_members x res kvs = Inl e \<Longrightarrow> e = x" for x res kvs
    by (induction x res kvs rule: unique_members.induct) (auto split: if_splits)
  ultimately show "e = SutAdapterError ''duplicate JSON field''" by (auto simp: sut_reject_duplicate_keys_def)
qed

definition adapter_exn :: "exn \<Rightarrow> bool" where
  "adapter_exn e \<longleftrightarrow> (\<exists>m. e = SutAdapterError m) \<or> e = too_deep \<or> e = beyond_model"

definition digit_limit :: exn where
  "digit_limit = ValueError ''invalid literal for int()''"

lemma sut_reader_raises: "reader_raises (sut_reader pf) (\<lambda>e. \<exists>m. e = SutAdapterError m)"
  by (auto simp: reader_raises_def sut_reader_def raisesR_def float_constant_def dest: sut_object.hook_err)

lemma decode_json_raises:
  "raisesR adapter_exn (mapErrR (as_malformed what) (bindR (utf8_decode content) (\<lambda>t. loads (sut_reader pf) depth t)))"
proof -
  have "adapter_exn (as_malformed what e)"
    if "bindR (utf8_decode content) (\<lambda>t. loads (sut_reader pf) depth t) = Inl e" for e
  proof -
    have "(\<exists>m. e = ValueError m) \<or> e = too_deep \<or> e = beyond_model \<or> (\<exists>m. e = SutAdapterError m)"
      using that loads_raises[OF sut_reader_raises] utf8_raises[of content e]
      by (auto simp: err_iff bad_utf8_def out_of_fuel_def)
    then show ?thesis by (auto simp: adapter_exn_def as_malformed_def too_deep_def beyond_model_def)
  qed
  then show ?thesis by (auto simp only: raisesR_def mapErrR_err)
qed

lemma wrapS_raises: "(\<And>e. P (h e)) \<Longrightarrow> raisesS P (wrapS h m)"
  by (auto simp: raisesS_def wrapS_def mapErrR_err split: prod.splits)

lemma bad_raises: "raisesR adapter_exn (bad m)"
  by (simp add: bad_def raisesR_def adapter_exn_def)

lemmas parser_raises = raisesR_intros bad_raises

lemma wire_validators_raise:
  "raisesR adapter_exn (body_object w v)" "raisesR adapter_exn (required_field d f w)"
  "raisesR adapter_exn (wire_string f nullable v)" "raisesR adapter_exn (wire_address f v)"
  "raisesR adapter_exn (transaction_hash f v)" "raisesR adapter_exn (wire_boolean f v)"
  by (auto simp: body_object_def required_field_def wire_string_def wire_address_def transaction_hash_def wire_boolean_def
      intro: parser_raises split: pyval.splits option.splits)

lemma decode_response_raises: "raisesR adapter_exn (decode_response pf depth response what)"
  unfolding decode_response_def
  by (intro parser_raises decode_json_raises wire_validators_raise) (auto simp: raisesR_def err_iff adapter_exn_def)

lemma adapter_request_raises: "raisesS adapter_exn (adapter_request he meth path json)"
  unfolding adapter_request_def
  by (intro raisesS_bind wrapS_raises raisesS_intros decode_response_raises)
    (auto simp: as_http_failure_def adapter_exn_def split: exn.splits)

lemma compound_raise:
  "raisesR adapter_exn (wire_text f v)" "raisesR adapter_exn (wire_order_id f v)"
  "raisesR adapter_exn (matching_order_id d w expected)"
  unfolding wire_text_def wire_order_id_def matching_order_id_def
  by (intro parser_raises wire_validators_raise)+

lemma parsers_raise: "raisesR adapter_exn (parse_pay v expected)" "raisesR adapter_exn (parse_status v expected)"
  unfolding parse_pay_def parse_status_def
  by (intro parser_raises wire_validators_raise compound_raise)+

definition quote_exn :: "exn \<Rightarrow> bool" where
  "quote_exn e \<longleftrightarrow> adapter_exn e \<or> e = digit_limit"

lemma raisesR_mono: "raisesR P m \<Longrightarrow> (\<And>e. P e \<Longrightarrow> Q e) \<Longrightarrow> raisesR Q m"
  by (auto simp: raisesR_def)

lemma numbers_raise: "raisesR quote_exn (positive_uint256 f v)" "raisesR quote_exn (wire_network v)"
  by (auto simp: positive_uint256_def wire_network_def bad_def raisesR_def quote_exn_def adapter_exn_def digit_limit_def
      int_base_def bindR_err split: pyval.splits option.splits if_splits)

lemma parse_quote_raises: "raisesR quote_exn (parse_quote v)"
  unfolding parse_quote_def
  by (intro parser_raises numbers_raise wire_validators_raise[THEN raisesR_mono] compound_raise[THEN raisesR_mono])
    (simp_all add: quote_exn_def)

text \<open>
  C39: Whatever the remote system and the HTTP library do, an operation of the adapter raises
  \<open>SutAdapterError\<close>, up to two exceptions that its handlers do not cover: the \<^verbatim>\<open>RecursionError\<close> of a
  deeply nested body, in every operation, and the plain \<open>ValueError\<close> of a number of more than 4300
  digits, in a quote.  (The third exception allowed marks the edge of the model's characters.)
  Closing raises nothing else at all.
\<close>

theorem adapter_fails_closed:
  "raisesS quote_exn (adapter_quote he) \<and> raisesS adapter_exn (adapter_pay he oid authorization) \<and>
   raisesS adapter_exn (adapter_status he oid) \<and> raisesS (\<lambda>e. \<exists>m. e = SutAdapterError m) (adapter_close he)"
proof (intro conjI)
  show "raisesS quote_exn (adapter_quote he)"
    using adapter_request_raises[of he "''POST''" "''/quote''" None]
    unfolding adapter_quote_def
    by (intro raisesS_bind raisesS_intros parse_quote_raises) (auto simp: raisesS_def quote_exn_def)
  show "raisesS adapter_exn (adapter_pay he oid authorization)" "raisesS adapter_exn (adapter_status he oid)"
    unfolding adapter_pay_def adapter_status_def
    by (intro raisesS_bind raisesS_intros parsers_raise compound_raise adapter_request_raises)+
  show "raisesS (\<lambda>e. \<exists>m. e = SutAdapterError m) (adapter_close he)"
    by (auto simp: raisesS_def adapter_close_def wrapS_def mapErrR_err split: if_splits prod.splits)
qed

text \<open>Both exceptions do escape: within the size limit, brackets nested one deeper than the stack, and a long amount.\<close>

lemma deep_brackets:
  "2 * dep < n \<Longrightarrow> json_value n rd dep (replicate (Suc dep) (CHR ''['')) = Inl too_deep"
proof (induction dep arbitrary: n)
  case 0
  then show ?case by (cases n) (simp_all add: too_deep_def)
next
  case (Suc dep)
  then obtain m where m: "n = Suc (Suc m)" "2 * dep < m" by (metis Suc_lessE mult_Suc_right add_2_eq_Suc Suc_less_eq)
  have "skip_ws (replicate (Suc dep) (CHR ''['')) = replicate (Suc dep) (CHR ''['')" by (simp add: skip_ws_def json_ws_def)
  then show ?case using Suc.IH[OF m(2)] m(1) by simp
qed

theorem adapter_error_escapes:
  shows "dep < 1048576 \<Longrightarrow>
      decode_response pf dep \<lparr>hr_status = Inr (), hr_content = Inr (replicate (Suc dep) 91)\<rparr> what = Inl too_deep"
    and "positive_uint256 f (PStr (replicate 4301 (CHR ''1''))) = Inl digit_limit"
proof -
  have "char_of (91::int) = CHR ''[''" by code_simp
  then have "utf8_decode (replicate n 91) = Inr (replicate n (CHR ''[''))" for n by (induction n) simp_all
  moreover have "skip_ws (replicate (Suc dep) (CHR ''['')) = replicate (Suc dep) (CHR ''['')" by (simp add: skip_ws_def json_ws_def)
  ultimately show "dep < 1048576 \<Longrightarrow>
      decode_response pf dep \<lparr>hr_status = Inr (), hr_content = Inr (replicate (Suc dep) 91)\<rparr> what = Inl too_deep"
    using deep_brackets[of dep "2 * Suc dep + 2" "sut_reader pf"]
    by (simp add: decode_response_def loads_def as_malformed_def too_deep_def del: replicate_Suc json_value.simps)
next
  let ?s = "replicate 4301 (CHR ''1'')"
  have m: "match_decimal ?s" by (simp add: match_decimal_def is_dec_def)
  then obtain n where n: "0 \<le> n" "py_str_int n = ?s" unfolding match_decimal_iff by auto
  have "int_base 10 ?s = Inl digit_limit"
    using int_base_decimal[OF n(1)] unfolding n(2) by (simp add: digit_limit_def)
  then show "positive_uint256 f (PStr ?s) = Inl digit_limit" using m by (simp add: positive_uint256_def)
qed

section \<open>The path of a status request\<close>

text \<open>What a server reads back from a path segment: the bytes after percent-decoding.\<close>

fun unquote_bytes :: "string \<Rightarrow> int list" where
  "unquote_bytes [] = []"
| "unquote_bytes (c # cs) =
     (if c = CHR ''%'' then
        (case cs of
           a # b # r \<Rightarrow> (16 * hex_val a + hex_val b) # unquote_bytes r
         | _ \<Rightarrow> code c # unquote_bytes cs)
      else code c # unquote_bytes cs)"

lemma upper_hex_val: "0 \<le> d \<Longrightarrow> d < 16 \<Longrightarrow> hex_val (upper_hex d) = d"
proof -
  have "\<forall>d\<in>set [0..<16]. hex_val (upper_hex (int d)) = int d" by code_simp
  moreover assume "0 \<le> d" "d < 16"
  then have "nat d \<in> set [0..<16]" "d = int (nat d)" by auto
  ultimately show ?thesis by metis
qed

lemma unquote_percent:
  "0 \<le> b \<Longrightarrow> b < 256 \<Longrightarrow> unquote_bytes (percent_byte b @ r) = b # unquote_bytes r"
  by (simp add: percent_byte_def upper_hex_val div_less_dividend pos_imp_zdiv_nonneg_iff)

lemma unquote_segment: "unquote_bytes (quote_segment s) = utf8_encode s"
proof (induction s)
  case (Cons c s)
  have b: "0 \<le> code c" "code c < 256" by (rule code_bounds)+
  have "unquote_bytes (concat (map percent_byte (utf8_char c)) @ r) = utf8_char c @ unquote_bytes r" for r
    using b unquote_percent by (auto simp: utf8_char_def)
  moreover have "c \<noteq> CHR ''%'' \<and> code c < 128" if "unreserved c"
    using that by (auto simp: unreserved_def is_dec_def code_def)
  ultimately show ?case using Cons by (auto simp: quote_segment_def utf8_encode_def utf8_char_def)
qed (simp add: quote_segment_def utf8_encode_def)

lemma segment_chars: "c \<in> set (quote_segment s) \<Longrightarrow> unreserved c \<or> c = CHR ''%''"
proof -
  have "\<forall>d\<in>set [0..<16]. unreserved (upper_hex (int d))" by code_simp
  then have u: "unreserved (upper_hex d)" if "0 \<le> d" "d < 16" for d using that by (metis atLeastLessThan_iff int_nat_eq nat_less_iff of_nat_numeral set_upt zero_le)
  have "unreserved c \<or> c = CHR ''%''" if "c \<in> set (percent_byte b)" "0 \<le> b" "b < 256" for b
    using that u[of "b div 16"] u[of "b mod 16"] by (auto simp: percent_byte_def)
  moreover have "0 \<le> b \<and> b < 256" if "b \<in> set (utf8_char d)" for b d
    using that code_bounds[of d] by (auto simp: utf8_char_def split: if_splits)
  ultimately show "c \<in> set (quote_segment s) \<Longrightarrow> ?thesis" by (fastforce simp: quote_segment_def split: if_splits)
qed

text \<open>
  The path of a status request names exactly the order asked about: percent-decoding its last
  segment gives the order id back, so that no two ids share a path, and the
  segment holds unreserved characters and escapes only, so that an id cannot add a segment, a
  query or a fragment.
\<close>

theorem status_path_roundtrip:
  "utf8_decode (unquote_bytes (quote_segment s)) = Inr s
   \<and> set (quote_segment s) \<subseteq> {c. unreserved c} \<union> {CHR ''%''}
   \<and> set (quote_segment s) \<inter> set ''/?#:@ '' = {}"
proof (intro conjI)
  show "utf8_decode (unquote_bytes (quote_segment s)) = Inr s" by (simp add: unquote_segment utf8_roundtrip)
  show sub: "set (quote_segment s) \<subseteq> {c. unreserved c} \<union> {CHR ''%''}" using segment_chars by blast
  have "\<forall>c\<in>set ''/?#:@ ''. \<not> unreserved c \<and> c \<noteq> CHR ''%''" by code_simp
  with sub show "set (quote_segment s) \<inter> set ''/?#:@ '' = {}" by blast
qed

end
