(* ===== verification/Sut_Wire.thy ===== *)
theory Sut_Wire
  imports Sut_Adapter Sut_Properties
begin

text \<open>
  The strict adapter (\<^verbatim>\<open>psv/sut.py\<close>) talking to the reference system
  (\<^verbatim>\<open>psv/reference_sut/server.py\<close>) through its HTTP application.  FastAPI and the HTTP client are
  parameters: what is used of them is that a request reaches its endpoint with the body it
  carries and that the answer comes back as a JSON text of the endpoint's result (\<open>carries\<close>).
\<close>

section \<open>The endpoints\<close>

text \<open>
  \<^verbatim>\<open>dict(v)\<close> of a decoded JSON value: an object is copied, a list or a string is read as
  pairs, and everything else cannot be iterated.
\<close>

definition pair_of :: "pyval \<Rightarrow> (pyval \<times> pyval) result" where
  "pair_of v =
     (case v of
        PList [a, b] \<Rightarrow> if is_dict a \<or> (\<exists>xs. a = PList xs) then Inl (TypeError ''unhashable type'') else Inr (a, b)
      | PStr [a, b] \<Rightarrow> Inr (PStr [a], PStr [b])
      | PDict [(a, x), (b, y)] \<Rightarrow> Inr (a, b)
      | PList xs \<Rightarrow> Inl (ValueError ''dictionary update sequence element has wrong length'')
      | PStr s \<Rightarrow> Inl (ValueError ''dictionary update sequence element has wrong length'')
      | PDict d \<Rightarrow> Inl (ValueError ''dictionary update sequence element has wrong length'')
      | _ \<Rightarrow> Inl (TypeError ''cannot convert dictionary update sequence element to a sequence''))"

definition dict_put :: "pydict \<Rightarrow> pyval \<times> pyval \<Rightarrow> pydict" where
  "dict_put d kv = AList.update (fst kv) (snd kv) d"

definition dict_of :: "pyval \<Rightarrow> pydict result" where
  "dict_of v =
     (case v of
        PDict d \<Rightarrow> Inr d
      | PList xs \<Rightarrow> bindR (traverseR pair_of xs) (\<lambda>kvs. Inr (foldl dict_put [] kvs))
      | PStr s \<Rightarrow> bindR (traverseR (\<lambda>c. pair_of (PStr [c])) s) (\<lambda>kvs. Inr (foldl dict_put [] kvs))
      | _ \<Rightarrow> Inl (TypeError ''object is not iterable''))"

definition app_pay :: "sut_env \<Rightarrow> sut_config \<Rightarrow> int \<Rightarrow> pydict \<Rightarrow> pydict sut_op" where
  "app_pay env cfg now body =
     bindS (liftS (str_item env body ''order_id'')) (\<lambda>oid.
     bindS (liftS (bindR (dict_item body ''authorization'') dict_of)) (\<lambda>authorization.
     pay env cfg now oid authorization))"

definition pay_body :: "string \<Rightarrow> pydict \<Rightarrow> pydict" where
  "pay_body oid authorization = obj [(''order_id'', PStr oid), (''authorization'', PDict authorization)]"

lemma app_pay_body: "app_pay env cfg now (pay_body oid authorization) = pay env cfg now oid authorization"
  by (simp add: app_pay_def pay_body_def str_item_def dict_item_def map_of_obj dict_of_def py_str_def)

section \<open>Answers over the wire\<close>

definition carries :: "(pyfloat \<Rightarrow> string) \<Rightarrow> http_response \<Rightarrow> pydict \<Rightarrow> bool" where
  "carries ft r d \<longleftrightarrow> hr_status r = Inr () \<and>
     (\<exists>st. good_style st \<and> hr_content r = Inr (utf8_encode (json_text st ft 0 (PDict d))) \<and>
        int (length (utf8_encode (json_text st ft 0 (PDict d)))) \<le> 1048576)"

lemma sut_reader_faithful: "faithful_reader (sut_reader pf) pf"
  by (simp add: faithful_reader_def sut_reader_def sut_object.hook_ok)

lemma str_keys_obj [simp]: "str_keys (obj kvs)"
  by (auto simp: str_keys_def obj_def is_str_def)

lemma decode_carried:
  assumes "carries ft r d" "json_plain ft pf dep (PDict d)" "str_keys d"
  shows "decode_response pf dep r what = Inr d"
proof -
  from assms(1) obtain st where st: "good_style st" "hr_content r = Inr (utf8_encode (json_text st ft 0 (PDict d)))"
    "int (length (utf8_encode (json_text st ft 0 (PDict d)))) \<le> 1048576" by (auto simp: carries_def)
  then show ?thesis
    using loads_text(1)[OF st(1) sut_reader_faithful assms(2)] assms(3)
    by (simp add: decode_response_def utf8_roundtrip bindR_ok body_object_ok del: json_text.simps)
qed

lemma adapter_request_carried:
  assumes "he_open he (ad_world s) = (Inr (), ad_world s)"
    and "he_request he meth path json (ad_world s) = (Inr r, w')" "carries ft r d"
    and "json_plain ft (he_float he) (he_depth he) (PDict d)" "str_keys d"
  shows "adapter_request he meth path json s = (Inr d, \<lparr>ad_open = True, ad_world = w'\<rparr>)"
proof -
  have h: "adapter_http he s = (Inr (), \<lparr>ad_open = True, ad_world = ad_world s\<rparr>)"
    using assms(1) by (cases s) (simp add: adapter_http_def on_world_def bindS_def)
  have "hr_status r = Inr ()" using assms(3) by (simp add: carries_def)
  then show ?thesis
    using h assms(2) decode_carried[OF assms(3-5)]
    by (simp add: adapter_request_def wrapS_def bindS_def on_world_def)
qed

text \<open>An object whose members are strings, booleans, nulls or short integers.\<close>

definition scalar_fields :: "(string \<times> pyval) list \<Rightarrow> bool" where
  "scalar_fields kvs \<longleftrightarrow> distinct (map fst kvs) \<and>
     (\<forall>v\<in>snd ` set kvs. is_str v \<or> v = PNone \<or> v = PBool True \<or> v = PBool False)"

lemma scalar_plain: "scalar_fields kvs \<Longrightarrow> 0 < dep \<Longrightarrow> json_plain ft pf dep (PDict (obj kvs))"
proof -
  assume s: "scalar_fields kvs" and d: "0 < dep"
  have "distinct (map fst (obj kvs))"
    using s by (auto simp: scalar_fields_def obj_def distinct_map comp_def split_def inj_on_def)
  moreover have "json_plain ft pf n x" if "is_str x \<or> x = PNone \<or> x = PBool True \<or> x = PBool False" for n x
    using that by (cases x) (auto simp: is_str_def)
  then have "\<forall>(k, x)\<in>set (obj kvs). is_str k \<and> json_plain ft pf (dep - 1) x"
    using s by (force simp: scalar_fields_def obj_def is_str_def simp del: json_plain.simps)
  ultimately show ?thesis
    using d by (subst json_plain.simps) (simp add: plain_fields_iff del: json_plain.simps)
qed

section \<open>What the reference system answers\<close>

definition hash_option :: "string option \<Rightarrow> bool" where
  "hash_option t \<longleftrightarrow> (case t of None \<Rightarrow> True | Some h \<Rightarrow> match_hex 64 h)"

text \<open>The order, if there is one, is stored under its id and names 32-byte transaction hashes.\<close>

definition wire_ready :: "ledger \<Rightarrow> string \<Rightarrow> bool" where
  "wire_ready os oid \<longleftrightarrow>
     (case map_of os oid of None \<Rightarrow> True
      | Some o' \<Rightarrow> order_id o' = oid \<and> hash_option (submitted_tx o') \<and> hash_option (pending_tx o'))"

lemma submitted_hash: "submit_settlement env cfg authorization c = (Inr tx, c') \<Longrightarrow> match_hex 64 tx"
  unfolding submit_settlement_def bindS_ok send_raw_transaction_def by (auto simp: ok_iff)

lemma record_settlement_paid:
  assumes "record_settlement cfg key oid tx i s = (Inr (), t)" "map_of (orders s) key \<noteq> None"
  shows "\<exists>o'. map_of (orders t) key = Some o' \<and> paid o'"
  using assms by (auto simp: record_settlement_def bindS_ok modify_order_ok map_of_map_entry unlock_def)

lemma settle_receipt_answer:
  assumes "settle_receipt env cfg key ord authorization tx receipt s = (Inr d, t)" "map_of (orders s) key \<noteq> None"
  shows "\<exists>b. d = obj [(''order_id'', PStr (order_id ord)), (''submitted_tx'', PStr tx), (''settled'', PBool b)] \<and>
    (b \<longrightarrow> (\<exists>o'. map_of (orders t) key = Some o' \<and> paid o'))"
proof -
  let ?u = "\<lambda>c. s\<lparr>orders := AList.map_entry key clear_pending (orders s), sut_rpc := c\<rparr>"
  from assms(1) obtain index c where
    u: "(case index of None \<Rightarrow> retS () | Some i \<Rightarrow> record_settlement cfg key (order_id ord) tx i) (?u c) = (Inr (), t)"
    "d = obj [(''order_id'', PStr (order_id ord)), (''submitted_tx'', PStr tx), (''settled'', PBool (index \<noteq> None))]"
    by (auto simp: settle_receipt_def bindS_ok modify_order_ok on_rpc_ok)
  moreover have "map_of (orders (?u c)) key \<noteq> None" using assms(2) by (auto simp: map_of_map_entry)
  ultimately show ?thesis using record_settlement_paid[of cfg key "order_id ord" tx _ "?u c" t] by (cases index) auto
qed

definition pending_answer :: "string \<Rightarrow> string \<Rightarrow> pydict" where
  "pending_answer oid tx = obj
     [(''order_id'', PStr oid), (''submitted_tx'', PStr tx), (''settled'', PBool False), (''reason'', PStr ''settlement_pending'')]"

definition decided_answer :: "string \<Rightarrow> string \<Rightarrow> bool \<Rightarrow> pydict" where
  "decided_answer oid tx b = obj [(''order_id'', PStr oid), (''submitted_tx'', PStr tx), (''settled'', PBool b)]"

definition repeated_answer :: "string \<Rightarrow> string option \<Rightarrow> pydict" where
  "repeated_answer oid tx = obj
     [(''order_id'', PStr oid), (''settled'', PBool True), (''submitted_tx'', opt_text tx), (''idempotent'', PBool True)]"

definition pay_answer_ok :: "ledger \<Rightarrow> string \<Rightarrow> pydict \<Rightarrow> bool" where
  "pay_answer_ok os oid d \<longleftrightarrow>
     (\<exists>why\<in>{''unknown_order'', ''quote_expired'', ''stale_quote''}. d = refused oid why) \<or>
     (\<exists>tx o'. d = repeated_answer oid tx \<and> hash_option tx \<and> map_of os oid = Some o' \<and> paid o') \<or>
     (\<exists>tx o'. d = pending_answer oid tx \<and> match_hex 64 tx \<and> map_of os oid = Some o' \<and> pending_tx o' = Some tx) \<or>
     (\<exists>tx b. d = decided_answer oid tx b \<and> match_hex 64 tx \<and> (b \<longrightarrow> (\<exists>o'. map_of os oid = Some o' \<and> paid o')))"

lemma confirm_answered:
  assumes "confirm env cfg (order_id ord) ord authorization tx s = (Inr d, t)"
    and "map_of (orders s) (order_id ord) \<noteq> None" "match_hex 64 tx"
  shows "pay_answer_ok (orders t) (order_id ord) d"
proof -
  from assms(1) obtain outcome u where o: "await_receipt cfg tx s = (Inr outcome, u)"
    and r: "(case outcome of None \<Rightarrow>
         bindS (modify_order (order_id ord) (set_pending tx authorization)) (\<lambda>_.
         retS (obj [(''order_id'', PStr (order_id ord)), (''submitted_tx'', PStr tx),
                    (''settled'', PBool False), (''reason'', PStr ''settlement_pending'')]))
     | Some receipt \<Rightarrow> settle_receipt env cfg (order_id ord) ord authorization tx receipt) u = (Inr d, t)"
    by (auto simp: confirm_def bindS_ok)
  have "orders u = orders s"
    using o by (auto simp: await_receipt_def catchS_ok bindS_ok bindS_err on_rpc_ok split: if_splits)
  then have k: "map_of (orders u) (order_id ord) \<noteq> None" using assms(2) by simp
  show ?thesis
  proof (cases outcome)
    case None
    then show ?thesis
      using r k assms(3) by (auto simp: pay_answer_ok_def pending_answer_def bindS_ok modify_order_ok map_of_map_entry set_pending_def)
  next
    case (Some receipt)
    obtain b where "d = decided_answer (order_id ord) tx b"
      "b \<longrightarrow> (\<exists>o'. map_of (orders t) (order_id ord) = Some o' \<and> paid o')"
      using settle_receipt_answer[OF r[unfolded Some option.case] k] by (auto simp: decided_answer_def)
    then show ?thesis unfolding pay_answer_ok_def using assms(3) by blast
  qed
qed

lemma pay_answered:
  assumes run: "pay env cfg now oid authorization s = (Inr d, t)" and ready: "wire_ready (orders s) oid"
  shows "pay_answer_ok (orders t) oid d"
proof (cases "map_of (orders s) oid")
  case None
  then have "d = refused oid ''unknown_order''" using run by (auto simp: pay_def bindS_ok get_order_ok)
  then show ?thesis by (auto simp: pay_answer_ok_def)
next
  case (Some ord)
  then have o: "order_id ord = oid" "hash_option (submitted_tx ord)" "hash_option (pending_tx ord)"
    using ready by (auto simp: wire_ready_def)
  consider (again) "paid ord" "cfg_idempotent_pay cfg"
    | (pending) "\<not> (paid ord \<and> cfg_idempotent_pay cfg)"
        "pending_tx ord \<noteq> None \<and> pending_authorization ord \<noteq> None \<and> cfg_idempotent_pay cfg"
    | (fresh) "\<not> (paid ord \<and> cfg_idempotent_pay cfg)"
        "\<not> (pending_tx ord \<noteq> None \<and> pending_authorization ord \<noteq> None \<and> cfg_idempotent_pay cfg)" by blast
  then show ?thesis
  proof cases
    case again
    then have "d = repeated_answer oid (submitted_tx ord)" "t = s"
      using run Some by (auto simp: pay_def bindS_ok get_order_ok repeated_answer_def)
    then show ?thesis using Some again o by (auto simp: pay_answer_ok_def)
  next
    case pending
    then have "confirm env cfg (order_id ord) ord (the (pending_authorization ord)) (the (pending_tx ord)) s = (Inr d, t)"
      using run Some o by (auto simp: pay_def bindS_ok get_order_ok)
    moreover have "match_hex 64 (the (pending_tx ord))" using pending o by (auto simp: hash_option_def)
    ultimately show ?thesis using confirm_answered Some o by fastforce
  next
    case fresh
    from run Some fresh o consider "d = refused oid ''quote_expired''" | "d = refused oid ''stale_quote''"
      | tx u c where "submit_settlement env cfg authorization (sut_rpc s) = (Inr tx, c)"
        "confirm env cfg (order_id ord) ord authorization tx u = (Inr d, t)" "map_of (orders u) oid \<noteq> None"
      by (auto simp: pay_def bindS_ok frame_ok map_of_map_entry split: if_splits)
    then show ?thesis
    proof cases
      case 3
      then show ?thesis using confirm_answered submitted_hash o by metis
    qed (auto simp: pay_answer_ok_def)
  qed
qed

section \<open>The answers as the adapter reads them\<close>

lemma parse_pay_fields:
  assumes "scalar_fields kvs" "map_of kvs ''order_id'' = Some (PStr oid)" "map_of kvs ''settled'' = Some (PBool b)"
    and "map_of kvs ''reason'' = map_option PStr why" "(case map_of kvs ''submitted_tx'' of None \<Rightarrow> PNone | Some v \<Rightarrow> v) = opt_text tx"
    and "valid_order_id oid" "\<forall>t. why = Some t \<longrightarrow> valid_text t" "hash_option tx"
    and "b \<Longrightarrow> why \<noteq> Some settlement_pending_code"
  shows "parse_pay (PDict (obj kvs)) (Some oid) =
    Inr \<lparr>pr_order_id = oid, pr_submitted_tx = tx, pr_settled = b, pr_reason = why\<rparr>"
proof -
  have "dict_get (obj kvs) ''reason'' = opt_text why" using assms(4) by (cases why) (simp_all add: dict_get_obj opt_text_def)
  moreover have "dict_get (obj kvs) ''submitted_tx'' = opt_text tx" using assms(5) by (simp add: dict_get_obj)
  ultimately show ?thesis
    using assms(2,3,6-9)
    by (auto simp: parse_pay_def ok_iff map_of_obj opt_text_def hash_option_def bad_def split: option.splits)
qed

lemma pay_answer_read:
  assumes "pay_answer_ok os oid d" "valid_order_id oid"
  shows "\<exists>kvs tx b why. d = obj kvs \<and> scalar_fields kvs \<and>
    parse_pay (PDict d) (Some oid) = Inr \<lparr>pr_order_id = oid, pr_submitted_tx = tx, pr_settled = b, pr_reason = why\<rparr> \<and>
    (b \<longrightarrow> (\<exists>o'. map_of os oid = Some o' \<and> paid o')) \<and>
    (\<not> b \<and> why = Some settlement_pending_code \<and> tx \<noteq> None \<longrightarrow> (\<exists>o'. map_of os oid = Some o' \<and> pending_tx o' = tx))"
proof -
  have scalars: "scalar_fields [(''order_id'', PStr oid), (''settled'', PBool b), (''reason'', PStr t)]"
    "scalar_fields [(''order_id'', PStr oid), (''settled'', PBool True), (''submitted_tx'', opt_text x), (''idempotent'', PBool True)]"
    "scalar_fields [(''order_id'', PStr oid), (''submitted_tx'', PStr t), (''settled'', PBool False), (''reason'', PStr u)]"
    "scalar_fields [(''order_id'', PStr oid), (''submitted_tx'', PStr t), (''settled'', PBool b)]" for b t u x
    by (auto simp: scalar_fields_def is_str_def opt_text_def split: option.splits)
  have code: "settlement_pending_code \<notin> {''unknown_order'', ''quote_expired'', ''stale_quote''}"
    "\<forall>t\<in>{''unknown_order'', ''quote_expired'', ''stale_quote'', settlement_pending_code}. valid_text t"
    by (simp_all add: settlement_pending_code_def valid_text_def)
  consider (refused) t where "t \<in> {''unknown_order'', ''quote_expired'', ''stale_quote''}" "d = refused oid t"
    | (repeated) tx o' where "d = repeated_answer oid tx" "hash_option tx" "map_of os oid = Some o'" "paid o'"
    | (pending) tx o' where "d = pending_answer oid tx" "match_hex 64 tx" "map_of os oid = Some o'" "pending_tx o' = Some tx"
    | (decided) tx b where "d = decided_answer oid tx b" "match_hex 64 tx" "b \<longrightarrow> (\<exists>o'. map_of os oid = Some o' \<and> paid o')"
    using assms(1) unfolding pay_answer_ok_def by (elim disjE bexE exE conjE) metis+
  then show ?thesis
  proof cases
    case refused
    let ?k = "[(''order_id'', PStr oid), (''settled'', PBool False), (''reason'', PStr t)]"
    have "parse_pay (PDict (obj ?k)) (Some oid) =
        Inr \<lparr>pr_order_id = oid, pr_submitted_tx = None, pr_settled = False, pr_reason = Some t\<rparr>"
      using scalars(1) code(2) refused(1) assms(2)
      by (intro parse_pay_fields) (auto simp: opt_text_def hash_option_def)
    then show ?thesis using refused scalars(1) code(1) by (intro exI[of _ ?k]) (auto simp: Reference_Sut.refused_def)
  next
    case repeated
    let ?k = "[(''order_id'', PStr oid), (''settled'', PBool True), (''submitted_tx'', opt_text tx), (''idempotent'', PBool True)]"
    have "parse_pay (PDict (obj ?k)) (Some oid) =
        Inr \<lparr>pr_order_id = oid, pr_submitted_tx = tx, pr_settled = True, pr_reason = None\<rparr>"
      using scalars(2) repeated(2) assms(2) by (intro parse_pay_fields) auto
    then show ?thesis using repeated scalars(2) by (intro exI[of _ ?k]) (auto simp: repeated_answer_def)
  next
    case pending
    let ?k = "[(''order_id'', PStr oid), (''submitted_tx'', PStr tx), (''settled'', PBool False), (''reason'', PStr ''settlement_pending'')]"
    have "parse_pay (PDict (obj ?k)) (Some oid) =
        Inr \<lparr>pr_order_id = oid, pr_submitted_tx = Some tx, pr_settled = False, pr_reason = Some ''settlement_pending''\<rparr>"
      using scalars(3) pending(2) assms(2) code(2)
      by (intro parse_pay_fields) (auto simp: opt_text_def hash_option_def settlement_pending_code_def)
    then show ?thesis using pending scalars(3) by (intro exI[of _ ?k]) (auto simp: pending_answer_def)
  next
    case decided
    let ?k = "[(''order_id'', PStr oid), (''submitted_tx'', PStr tx), (''settled'', PBool b)]"
    have "parse_pay (PDict (obj ?k)) (Some oid) =
        Inr \<lparr>pr_order_id = oid, pr_submitted_tx = Some tx, pr_settled = b, pr_reason = None\<rparr>"
      using scalars(4) decided(2) assms(2) by (intro parse_pay_fields) (auto simp: opt_text_def hash_option_def)
    then show ?thesis using decided scalars(4) by (intro exI[of _ ?k]) (auto simp: decided_answer_def)
  qed
qed

lemma pay_read_back:
  assumes "app_pay env cfg now (pay_body oid authorization) (ad_world s) = (Inr d, w')"
    and "he_request he ''POST'' ''/pay'' (Some (pay_body oid authorization)) (ad_world s) = (Inr r, w')"
    and "carries ft r d" "he_open he (ad_world s) = (Inr (), ad_world s)" "0 < he_depth he"
    and "valid_order_id oid" "wire_ready (orders (ad_world s)) oid"
  shows "\<exists>p. adapter_pay he oid authorization s = (Inr p, \<lparr>ad_open = True, ad_world = w'\<rparr>) \<and> pr_order_id p = oid \<and>
    (pay_outcome_of p = SETTLED \<longrightarrow> (\<exists>o'. map_of (orders w') oid = Some o' \<and> paid o')) \<and>
    (pay_outcome_of p = PENDING \<longrightarrow>
       (\<exists>o' tx. map_of (orders w') oid = Some o' \<and> pending_tx o' = Some tx \<and> pr_submitted_tx p = Some tx))"
proof -
  have "pay_answer_ok (orders w') oid d" using pay_answered assms(1,7) by (simp add: app_pay_body)
  from pay_answer_read[OF this assms(6)] obtain kvs tx b why where d: "d = obj kvs" "scalar_fields kvs"
    and p: "parse_pay (PDict d) (Some oid) = Inr \<lparr>pr_order_id = oid, pr_submitted_tx = tx, pr_settled = b, pr_reason = why\<rparr>"
      "b \<longrightarrow> (\<exists>o'. map_of (orders w') oid = Some o' \<and> paid o')"
      "\<not> b \<and> why = Some settlement_pending_code \<and> tx \<noteq> None \<longrightarrow> (\<exists>o'. map_of (orders w') oid = Some o' \<and> pending_tx o' = tx)"
    by blast
  have "adapter_request he ''POST'' ''/pay'' (Some (pay_body oid authorization)) s = (Inr d, \<lparr>ad_open = True, ad_world = w'\<rparr>)"
    using assms(2-5) d scalar_plain[OF d(2) assms(5)] by (intro adapter_request_carried) auto
  then have "adapter_pay he oid authorization s =
      (Inr \<lparr>pr_order_id = oid, pr_submitted_tx = tx, pr_settled = b, pr_reason = why\<rparr>, \<lparr>ad_open = True, ad_world = w'\<rparr>)"
    using p(1) assms(6) by (auto simp: adapter_pay_def bindS_ok ok_iff pay_body_def)
  with p(2,3) show ?thesis by (auto simp: pay_outcome_of_def split: if_splits)
qed

section \<open>Reachable ledgers\<close>

text \<open>
  Every transaction an order of a reachable ledger names is a 32-byte hash: a submitted one because the client checks the
  node's answer, a recovered one because the client checks every log.
\<close>

definition hashes_ok :: "order \<Rightarrow> bool" where
  "hashes_ok o' \<longleftrightarrow> hash_option (submitted_tx o') \<and> hash_option (pending_tx o')"

definition ledger_hashes :: "ledger \<Rightarrow> bool" where
  "ledger_hashes os \<longleftrightarrow> (\<forall>(k, o')\<in>set os. hashes_ok o')"

abbreviation sut_hashes :: "sut \<Rightarrow> bool" where
  "sut_hashes s \<equiv> ledger_hashes (orders s)"

lemma ledger_hashes_Cons: "ledger_hashes ((k, o') # os) \<longleftrightarrow> hashes_ok o' \<and> ledger_hashes os"
  by (simp add: ledger_hashes_def)

lemma ledger_hashes_update: "ledger_hashes os \<Longrightarrow> hashes_ok o' \<Longrightarrow> ledger_hashes (AList.update k o' os)"
  by (induction os) (auto simp: ledger_hashes_def)

lemma ledger_hashes_entry:
  "ledger_hashes os \<Longrightarrow> (\<And>o'. hashes_ok o' \<Longrightarrow> hashes_ok (f o')) \<Longrightarrow> ledger_hashes (AList.map_entry k f os)"
  by (induction os) (auto simp: ledger_hashes_Cons)

lemma hashes_rpc: "holdsS sut_hashes (on_rpc m)"
  by (rule holdsS_on_rpc) simp

lemma hashes_modify: "(\<And>o'. hashes_ok o' \<Longrightarrow> hashes_ok (f o')) \<Longrightarrow> holdsS sut_hashes (modify_order k f)"
  by (rule holdsS_I) (simp add: modify_order_def ledger_hashes_entry)

lemma hashes_put: "hashes_ok o' \<Longrightarrow> holdsS sut_hashes (put_order o')"
  by (rule holdsS_I) (simp add: put_order_def ledger_hashes_update)

text \<open>What follows an operation may rely on what it returns.\<close>

lemma holdsS_value:
  assumes "holdsS P m" "\<And>s x t. m s = (Inr x, t) \<Longrightarrow> holdsS P (f x)"
  shows "holdsS P (bindS m f)"
proof (rule holdsS_I)
  fix s assume s: "P s"
  obtain r t where m: "m s = (r, t)" by fastforce
  have t: "P t" by (rule holdsS_D[OF assms(1) s m])
  show "P (snd (bindS m f s))"
  proof (cases r)
    case (Inr x)
    then have "holdsS P (f x)" using assms(2) m by blast
    from holdsS_D[OF this t prod.collapse[symmetric]] show ?thesis using m Inr by (simp add: bindS_def)
  qed (use m t in \<open>simp add: bindS_def\<close>)
qed

lemma record_hashes: "holdsS sut_hashes (record_settlement cfg k oid tx i)"
proof -
  have "holdsS sut_hashes (modify_order k (unlock oid))" "holdsS sut_hashes (modify_order k (\<lambda>o'. o'\<lparr>ord_identity := Some x\<rparr>))" for x
    by (rule hashes_modify, simp add: hashes_ok_def unlock_def)+
  then show ?thesis unfolding record_settlement_def by (intro holdsS_intros)
qed

lemma confirm_hashes:
  assumes "match_hex 64 tx"
  shows "holdsS sut_hashes (confirm env cfg k ord authorization tx)"
proof -
  have 1: "holdsS sut_hashes (modify_order k (set_pending tx authorization))" "holdsS sut_hashes (modify_order k clear_pending)"
    by (rule hashes_modify, simp add: assms hashes_ok_def hash_option_def set_pending_def clear_pending_def)+
  have "holdsS sut_hashes (await_receipt cfg tx)"
    unfolding await_receipt_def by (intro holdsS_intros holdsS_catch hashes_rpc)
  then show ?thesis
    unfolding confirm_def settle_receipt_def by (intro holdsS_intros holdsS_case_option 1 hashes_rpc record_hashes)
qed

lemma pay_hashes: "holdsS sut_hashes (pay env cfg now oid authorization)"
proof (rule holdsS_I)
  fix s assume s: "sut_hashes s"
  show "sut_hashes (snd (pay env cfg now oid authorization s))"
  proof (cases "map_of (orders s) oid")
    case None
    then show ?thesis using s by (simp add: pay_def get_order_def bindS_def)
  next
    case (Some ord)
    then have "hash_option (pending_tx ord)" using s by (auto simp: ledger_hashes_def hashes_ok_def dest: map_of_SomeD)
    then have again: "pending_tx ord \<noteq> None \<Longrightarrow> holdsS sut_hashes (confirm env cfg oid ord a (the (pending_tx ord)))" for a
      by (auto simp: hash_option_def intro: confirm_hashes)
    have fresh: "holdsS sut_hashes (bindS (on_rpc (submit_settlement env cfg authorization)) (\<lambda>tx_hash.
         bindS (modify_order oid (\<lambda>o'. o'\<lparr>submitted_tx := Some tx_hash\<rparr>)) (\<lambda>_. confirm env cfg oid ord authorization tx_hash)))"
    proof (rule holdsS_value[OF hashes_rpc])
      fix s tx t assume "on_rpc (submit_settlement env cfg authorization) s = (Inr tx, t)"
      then have "match_hex 64 tx" using submitted_hash by (auto simp: on_rpc_ok)
      moreover from this have "holdsS sut_hashes (modify_order oid (\<lambda>o'. o'\<lparr>submitted_tx := Some tx\<rparr>))"
        by (intro hashes_modify) (simp add: hashes_ok_def hash_option_def)
      ultimately show "holdsS sut_hashes (bindS (modify_order oid (\<lambda>o'. o'\<lparr>submitted_tx := Some tx\<rparr>)) (\<lambda>_. confirm env cfg oid ord authorization tx))"
        by (intro holdsS_intros(4) confirm_hashes)
    qed
    have begun: "holdsS sut_hashes (modify_order oid (begin_attempt n))" for n
      by (rule hashes_modify) (simp add: hashes_ok_def begin_attempt_def)
    let ?rest = "(if paid ord \<and> cfg_idempotent_pay cfg
         then retS (obj [(''order_id'', PStr oid), (''settled'', PBool True),
                         (''submitted_tx'', opt_text (submitted_tx ord)), (''idempotent'', PBool True)])
         else if pending_tx ord \<noteq> None \<and> pending_authorization ord \<noteq> None \<and> cfg_idempotent_pay cfg
         then confirm env cfg oid ord (the (pending_authorization ord)) (the (pending_tx ord))
         else if now > expires_at ord then retS (refused oid ''quote_expired'')
         else
         bindS read_fair_price (\<lambda>fair.
         bindS (liftS (if cfg_reprice_on_pay cfg
                       then quote_is_stale (ord_amount ord) fair (cfg_reprice_tolerance cfg)
                       else Inr False)) (\<lambda>stale.
         if stale then retS (refused oid ''stale_quote'')
         else
         bindS (liftS (str_item env authorization ''nonce'')) (\<lambda>nonce.
         bindS (modify_order oid (begin_attempt nonce)) (\<lambda>_.
         bindS (on_rpc (submit_settlement env cfg authorization)) (\<lambda>tx_hash.
         bindS (modify_order oid (\<lambda>o'. o'\<lparr>submitted_tx := Some tx_hash\<rparr>)) (\<lambda>_.
         confirm env cfg oid ord authorization tx_hash)))))))"
    have rest: "holdsS sut_hashes ?rest"
      by (intro holdsS_intros(5) holdsS_intros(1) holdsS_intros(4)[OF holdsS_reads(2)] holdsS_intros(4)[OF holdsS_intros(3)]
          holdsS_intros(4)[OF begun] fresh again) simp
    have run: "pay env cfg now oid authorization s = ?rest s" using Some by (simp add: pay_def get_order_def bindS_def)
    show ?thesis unfolding run by (rule holdsS_D[OF rest s prod.collapse[symmetric]])
  qed
qed

lemma quote_hashes: "holdsS sut_hashes (quote cfg token_hex now)"
  unfolding quote_def Let_def
  by (intro holdsS_intros holdsS_reads hashes_rpc hashes_put) (simp add: hashes_ok_def hash_option_def new_order_def)

lemma credit_hash:
  assumes "decode_transfer_log cid raw = Inr c" "log_shape raw"
  shows "match_hex 64 (oc_tx_hash c)"
proof -
  obtain h where h: "dict_get raw ''transactionHash'' = PStr h" "match_hex 64 h"
    using assms(2) by (auto simp: log_shape_def hash_field_def)
  then have "recon_exact_hex what 32 (PStr h) = Inr (lower h)" for what using recon_exact_hex_hex[of 32 h] by simp
  then have "\<exists>a i. mk_identity cid a (lower h) i = Inr (oc_identity c)"
    using assms(1) h(1)
    by (auto simp: decode_transfer_log_def ok_iff dest!: mk_credit_ok split: pyval.splits list.splits if_splits) blast
  then have "oc_tx_hash c = lower (lower h)" using mk_identity_ok by (fastforce simp: oc_tx_hash_def)
  then show ?thesis using h(2) by simp
qed

lemma book_hashes: "\<forall>c\<in>set cs. match_hex 64 (oc_tx_hash c) \<Longrightarrow> holdsS sut_hashes (book_credits env cs)"
  by (induction cs) (auto intro!: holdsS_intros hashes_put simp: hashes_ok_def hash_option_def recovered_order_def new_order_def)

lemma reconcile_hashes: "holdsS sut_hashes (reconcile env cfg from_block)"
  unfolding reconcile_def
proof (rule holdsS_lift, rule holdsS_value[OF hashes_rpc])
  fix merchant s logs t
  assume "on_rpc (get_logs (cfg_token_address cfg) [Some topic_transfer, None, Some merchant] (BlockNumber from_block)
    (BlockTag ''latest'')) s = (Inr logs, t)"
  then have shape: "\<forall>log\<in>set logs. log_shape log" using get_logs_shape by (auto simp: on_rpc_ok)
  have "match_hex 64 (oc_tx_hash c)" if "find_unreconciled logs l cid a p = Inr cs" "c \<in> set cs" for l cid a p cs c
    using snapshot_recon.found[OF that(1)] that(2) shape credit_hash by (auto simp: unknown_live_def log_credits_def)
  then show "holdsS sut_hashes (bindS backup_ledger (\<lambda>os.
     bindS (liftS (find_unreconciled logs (known_identities os) (cfg_chain_id cfg)
              (Some (cfg_token_address cfg)) (Some (cfg_merchant_address cfg)))) (\<lambda>unreconciled.
     bindS (if cfg_reconciliation_enabled cfg then book_credits env unreconciled else retS ()) (\<lambda>_.
     retS unreconciled))))"
    by (intro holdsS_intros(4) holdsS_lift holdsS_reads) (auto intro!: holdsS_intros book_hashes)
qed

definition world_hashes :: "sut \<times> ledger list \<Rightarrow> bool" where
  "world_hashes w \<longleftrightarrow> sut_hashes (fst w) \<and> (\<forall>b\<in>set (snd w). ledger_hashes b)"

lemma sut_step_hashes: "sut_step env cfg w w' \<Longrightarrow> world_hashes w \<Longrightarrow> world_hashes w'"
proof (induction rule: sut_step.induct)
  case (quoted token_hex now s r t bs)
  then show ?case using holdsS_D[OF quote_hashes, of s] by (auto simp: world_hashes_def)
next
  case (paid now oid authorization s r t bs)
  then show ?case using holdsS_D[OF pay_hashes, of s] by (auto simp: world_hashes_def)
next
  case (asked oid s r t bs)
  then show ?case using resource_endpoint_state[of oid s] by (simp add: world_hashes_def)
next
  case (reconciled from_block s r t bs)
  then show ?case using holdsS_D[OF reconcile_hashes, of s] by (auto simp: world_hashes_def)
qed (auto simp: world_hashes_def backup_ledger_def restore_ledger_def)

lemma reachable_ready:
  assumes "(sut_step env cfg)\<^sup>*\<^sup>* (s0, []) (s, bs)" "sut_init cfg client = Inr s0"
  shows "wire_ready (orders s) oid"
proof -
  have empty: "orders s0 = []" using assms(2) by (auto simp: sut_init_def ok_iff)
  have "world_hashes (s, bs)"
    using assms(1)
  proof (induction "(s, bs)" arbitrary: s bs rule: rtranclp_induct)
    case base
    then show ?case by (simp add: empty world_hashes_def ledger_hashes_def)
  qed (metis prod.collapse sut_step_hashes)
  moreover have "world_inv env (s0, [])" using empty by (simp add: world_inv_def ledger_inv_def)
  then have "ledger_inv env (orders s)" using world_inv_reachable[OF assms(1)] by (simp add: world_inv_def)
  then have "order_id o' = oid" if "map_of (orders s) oid = Some o'" for o'
    using ledger_inv_lookup that by (auto simp: order_inv_def)
  ultimately show ?thesis
    by (auto simp: wire_ready_def world_hashes_def ledger_hashes_def hashes_ok_def dest: map_of_SomeD split: option.splits)
qed

text \<open>
  C13: Over the wire, a payment to the reference system is graded by its ledger.  Take any state of the system that is reachable from
  its construction, through any interleaving of quotes, payments, price moves, backups, restorations and reconciliations.
  If the system answers a payment for a valid order id and the answer is delivered (the HTTP client is
  open, and the response has a success status and is the answer's JSON text of at most 1 MiB), then the strict adapter accepts
  it; the parsed result is for that order; when it counts as settled the order in the ledger is paid, and when it
  counts as pending the ledger holds the very transaction that the result names as the order's
  pending one.
\<close>

theorem pay_over_wire:
  assumes "(sut_step env cfg)\<^sup>*\<^sup>* (s0, []) (ad_world s, bs)" "sut_init cfg client = Inr s0"
    and "app_pay env cfg now (pay_body oid authorization) (ad_world s) = (Inr d, w')"
    and "he_request he ''POST'' ''/pay'' (Some (pay_body oid authorization)) (ad_world s) = (Inr r, w')"
    and "carries ft r d" "he_open he (ad_world s) = (Inr (), ad_world s)" "0 < he_depth he" "valid_order_id oid"
  shows "\<exists>p. adapter_pay he oid authorization s = (Inr p, \<lparr>ad_open = True, ad_world = w'\<rparr>) \<and> pr_order_id p = oid \<and>
    (pay_outcome_of p = SETTLED \<longrightarrow> (\<exists>o'. map_of (orders w') oid = Some o' \<and> paid o')) \<and>
    (pay_outcome_of p = PENDING \<longrightarrow>
       (\<exists>o' tx. map_of (orders w') oid = Some o' \<and> pending_tx o' = Some tx \<and> pr_submitted_tx p = Some tx))"
  using assms by (intro pay_read_back reachable_ready[OF assms(1,2)])

lemma status_answer:
  "status oid s =
     (Inr (obj [(''order_id'', PStr oid),
        (''paid'', PBool (case map_of (orders s) oid of None \<Rightarrow> False | Some o' \<Rightarrow> paid o')),
        (''resource'', opt_text (Option.bind (map_of (orders s) oid) resource)),
        (''submitted_tx'', opt_text (Option.bind (map_of (orders s) oid) submitted_tx)),
        (''known'', PBool (map_of (orders s) oid \<noteq> None))]), s)"
  by (simp add: status_def get_order_def bindS_def opt_text_def split: option.splits)

text \<open>
  Over the wire, the status of an order is the ledger's.  For a valid order id the adapter reads
  exactly whether the order is paid, its resource and its transaction, nothing for an unknown order,
  and the reference system does not change.
\<close>

theorem status_over_wire:
  assumes "status oid (ad_world s) = (Inr d, w')"
    and "he_request he ''GET'' (''/status/'' @ quote_segment oid) None (ad_world s) = (Inr r, w')"
    and "carries ft r d" "he_open he (ad_world s) = (Inr (), ad_world s)" "0 < he_depth he"
    and "valid_order_id oid" "wire_ready (orders (ad_world s)) oid"
    and "\<forall>o' t. map_of (orders (ad_world s)) oid = Some o' \<and> resource o' = Some t \<longrightarrow> valid_text t"
  shows "adapter_status he oid s =
    (Inr \<lparr>ws_order_id = oid, ws_paid = (case map_of (orders (ad_world s)) oid of None \<Rightarrow> False | Some o' \<Rightarrow> paid o'),
          ws_resource = Option.bind (map_of (orders (ad_world s)) oid) resource,
          ws_submitted_tx = Option.bind (map_of (orders (ad_world s)) oid) submitted_tx\<rparr>,
     \<lparr>ad_open = True, ad_world = ad_world s\<rparr>)"
proof -
  let ?o = "map_of (orders (ad_world s)) oid"
  let ?k = "[(''order_id'', PStr oid), (''paid'', PBool (case ?o of None \<Rightarrow> False | Some o' \<Rightarrow> paid o')),
    (''resource'', opt_text (Option.bind ?o resource)), (''submitted_tx'', opt_text (Option.bind ?o submitted_tx)),
    (''known'', PBool (?o \<noteq> None))]"
  have d: "d = obj ?k" "w' = ad_world s" using assms(1)[unfolded status_answer] by (auto simp only: prod.inject sum.inject)
  have sc: "scalar_fields ?k" by (auto simp: scalar_fields_def is_str_def opt_text_def split: option.splits)
  have "adapter_request he ''GET'' (''/status/'' @ quote_segment oid) None s = (Inr d, \<lparr>ad_open = True, ad_world = ad_world s\<rparr>)"
    using assms(2-5) d scalar_plain[OF sc assms(5)] by (intro adapter_request_carried) auto
  moreover have "hash_option (Option.bind ?o submitted_tx)" "\<forall>t. Option.bind ?o resource = Some t \<longrightarrow> valid_text t"
    using assms(7,8) by (auto simp: wire_ready_def hash_option_def split: option.splits)
  then have "parse_status (PDict d) (Some oid) = Inr \<lparr>ws_order_id = oid, ws_paid = (case ?o of None \<Rightarrow> False | Some o' \<Rightarrow> paid o'),
      ws_resource = Option.bind ?o resource, ws_submitted_tx = Option.bind ?o submitted_tx\<rparr>"
    using assms(6) d by (auto simp: parse_status_def ok_iff map_of_obj opt_text_def hash_option_def split: option.splits)
  ultimately show ?thesis using assms(6) by (auto simp: adapter_status_def bindS_ok ok_iff)
qed

definition wire_config :: "sut_config \<Rightarrow> bool" where
  "wire_config cfg \<longleftrightarrow>
     match_hex 40 (cfg_token_address cfg) \<and> match_hex 40 (cfg_merchant_address cfg) \<and>
     1 \<le> cfg_chain_id cfg \<and> cfg_chain_id cfg \<le> uint256_max \<and> 1 \<le> cfg_price cfg \<and> cfg_price cfg \<le> uint256_max \<and>
     valid_text (cfg_token_name cfg) \<and> valid_text (cfg_token_version cfg)"

lemma quote_response_read:
  fixes tok :: string and now created fair :: int
  assumes "wire_config cfg" "valid_order_id (''ord_'' @ tok)" "length (digits_of 10 \<bar>now + cfg_quote_ttl cfg\<bar>) \<le> 4300"
  defines "o' \<equiv> new_order (''ord_'' @ tok) (cfg_price cfg) (now + cfg_quote_ttl cfg) fair created"
  shows "2 \<le> dep \<Longrightarrow> json_plain ft pf dep (PDict (quote_response cfg o'))"
    and "\<exists>q. parse_quote (PDict (quote_response cfg o')) = Inr q \<and>
      wq_order_id q = ''ord_'' @ tok \<and> wq_amount q = cfg_price cfg \<and> wq_pay_to q = cfg_merchant_address cfg \<and>
      wq_asset q = cfg_token_address cfg \<and> quote_chain_id q = Inr (cfg_chain_id cfg) \<and>
      wq_token_name q = cfg_token_name cfg \<and> wq_token_version q = cfg_token_version cfg"
proof -
  assume "2 \<le> dep"
  then obtain k where "dep = Suc (Suc k)" by (metis add_2_eq_Suc le_Suc_ex)
  then show "json_plain ft pf dep (PDict (quote_response cfg o'))"
    using assms(3) by (simp add: quote_response_def o'_def new_order_def obj_def is_str_def)
next
  let ?q = "\<lparr>wq_order_id = ''ord_'' @ tok, wq_amount = cfg_price cfg, wq_pay_to = cfg_merchant_address cfg,
    wq_asset = cfg_token_address cfg, wq_network = ''eip155:'' @ py_str_int (cfg_chain_id cfg),
    wq_token_name = cfg_token_name cfg, wq_token_version = cfg_token_version cfg\<rparr>"
  have "quote_chain_id ?q = Inr (cfg_chain_id cfg)"
    using assms(1) uint256_text[of "cfg_chain_id cfg"] by (auto simp: quote_chain_id_def match_network_iff wire_config_def)
  moreover from this have "parse_quote (PDict (quote_response cfg o')) = Inr ?q"
    using assms(1,2)
    by (auto simp: parse_quote_def ok_iff quote_response_def o'_def new_order_def map_of_obj wire_config_def)
  ultimately show "\<exists>q. parse_quote (PDict (quote_response cfg o')) = Inr q \<and>
      wq_order_id q = ''ord_'' @ tok \<and> wq_amount q = cfg_price cfg \<and> wq_pay_to q = cfg_merchant_address cfg \<and>
      wq_asset q = cfg_token_address cfg \<and> quote_chain_id q = Inr (cfg_chain_id cfg) \<and>
      wq_token_name q = cfg_token_name cfg \<and> wq_token_version q = cfg_token_version cfg" by auto
qed

text \<open>
  Over the wire, a quote of the reference system is accepted and is the order it booked: the
  parsed quote carries the configured price, recipient, token, chain and token metadata, and the
  ledger holds an unpaid order of that id and amount.
\<close>

theorem quote_over_wire:
  assumes "quote cfg tok now (ad_world s) = (Inr d, w')"
    and "he_request he ''POST'' ''/quote'' None (ad_world s) = (Inr r, w')"
    and "carries ft r d" "he_open he (ad_world s) = (Inr (), ad_world s)" "2 \<le> he_depth he"
    and "wire_config cfg" "valid_order_id (''ord_'' @ tok)" "length (digits_of 10 \<bar>now + cfg_quote_ttl cfg\<bar>) \<le> 4300"
  shows "\<exists>q. adapter_quote he s = (Inr q, \<lparr>ad_open = True, ad_world = w'\<rparr>) \<and>
    wq_order_id q = ''ord_'' @ tok \<and> wq_amount q = cfg_price cfg \<and> wq_pay_to q = cfg_merchant_address cfg \<and>
    wq_asset q = cfg_token_address cfg \<and> quote_chain_id q = Inr (cfg_chain_id cfg) \<and>
    wq_token_name q = cfg_token_name cfg \<and> wq_token_version q = cfg_token_version cfg \<and>
    (\<exists>o'. map_of (orders w') (wq_order_id q) = Some o' \<and> ord_amount o' = wq_amount q \<and> \<not> paid o' \<and>
       expires_at o' = now + cfg_quote_ttl cfg)"
proof -
  let ?o = "\<lambda>created. new_order (''ord_'' @ tok) (cfg_price cfg) (now + cfg_quote_ttl cfg) (fair_price (ad_world s)) created"
  from assms(1) obtain created c where d: "d = quote_response cfg (?o created)"
    and w: "w' = (ad_world s)\<lparr>sut_rpc := c, orders := AList.update (''ord_'' @ tok) (?o created) (orders (ad_world s))\<rparr>"
    by (auto simp: quote_def bindS_ok read_fair_price_ok on_rpc_ok Let_def put_order_def new_order_def)
  note q = quote_response_read[OF assms(6,7,8), where fair = "fair_price (ad_world s)" and created = created]
  have "adapter_request he ''POST'' ''/quote'' None s = (Inr d, \<lparr>ad_open = True, ad_world = w'\<rparr>)"
    using assms(2-5) d q(1)[of "he_depth he" ft "he_float he"]
    by (intro adapter_request_carried) (auto simp: quote_response_def)
  then show ?thesis
    using q(2) d w by (auto simp: adapter_quote_def bindS_ok update_conv' new_order_def)
qed

section \<open>A concrete connection\<close>

text \<open>One request of the demonstration system, served as JSON by a client that is always open.\<close>

definition json_answer :: "pydict \<Rightarrow> http_response" where
  "json_answer d = \<lparr>hr_status = Inr (), hr_content = Inr (utf8_encode (json_text default_style (\<lambda>_. []) 0 (PDict d)))\<rparr>"

definition one_request :: "(sut, pydict) op \<Rightarrow> sut http_env" where
  "one_request m =
     \<lparr>he_open = retS (),
      he_request = \<lambda>meth path json w. (case m w of (Inr d, w') \<Rightarrow> (Inr (json_answer d), w') | (Inl e, w') \<Rightarrow> (Inl e, w')),
      he_close = retS (), he_float = \<lambda>_. NaN, he_depth = 100\<rparr>"

definition closed_adapter :: "sut \<Rightarrow> sut adapter" where
  "closed_adapter w = \<lparr>ad_open = False, ad_world = w\<rparr>"

lemma one_request_run:
  assumes "m w = (Inr d, w')"
  shows "he_request (one_request m) meth path json (ad_world (closed_adapter w)) = (Inr (json_answer d), w')"
    "he_open (one_request m) (ad_world (closed_adapter w)) = (Inr (), ad_world (closed_adapter w))"
    "he_depth (one_request m) = 100"
  using assms by (simp_all add: one_request_def closed_adapter_def)

lemma json_answer_carries:
  "int (length (utf8_encode (json_text default_style (\<lambda>_. []) 0 (PDict d)))) \<le> 1048576 \<Longrightarrow> carries (\<lambda>_. []) (json_answer d) d"
  using good_styles(1) by (auto simp: carries_def json_answer_def simp del: json_text.simps intro!: exI[of _ default_style])

text \<open>
  A node that also accepts transactions, a system that quoted an order on it, and a payment of that order that is
  submitted, mined and confirmed.
\<close>

definition settling_answer :: "string \<Rightarrow> pyval" where
  "settling_answer meth =
     (if meth = ''eth_chainId'' then PStr ''0x7a69''
      else if meth = ''eth_getCode'' then PStr ''0x6000''
      else if meth = ''eth_getTransactionCount'' then PStr ''0x0''
      else if meth = ''eth_gasPrice'' then PStr ''0x1''
      else if meth = ''eth_sendRawTransaction'' then PStr (sample_hash (CHR ''e''))
      else demo_answer meth)"

definition settling_node :: transport where
  "settling_node req =
     (case req of
        PDict d \<Rightarrow>
          Inr (PDict [(PStr ''jsonrpc'', PStr ''2.0''), (PStr ''id'', dict_get d ''id''),
            (PStr ''result'', settling_answer (str_of (dict_get d ''method'')))])
      | _ \<Rightarrow> Inl (RpcError ''no object''))"

definition fresh_sut :: sut where
  "fresh_sut = \<lparr>orders = [], fair_price = 1000, sut_rpc = \<lparr>rpc_id = 0, rpc_transport = settling_node\<rparr>\<rparr>"

definition quoted_sut :: sut where
  "quoted_sut = snd (quote (demo_cfg 31337) ''1'' 100 fresh_sut)"

definition full_authorization :: pydict where
  "full_authorization = demo_authorization @ obj
     [(''validAfter'', PInt 0), (''validBefore'', PInt 5000), (''signature'', PStr (''0x'' @ replicate 130 (CHR ''7'')))]"

definition settled_answer :: pydict where
  "settled_answer = decided_answer ''ord_1'' (sample_hash (CHR ''e'')) True"

lemma fresh_init: "sut_init (demo_cfg 31337) \<lparr>rpc_id = 0, rpc_transport = settling_node\<rparr> = Inr fresh_sut"
proof -
  have "slot_addr (cfg_token_address (demo_cfg 31337)) \<noteq> Inl e" for e by code_simp
  then show ?thesis
    by (cases "slot_addr (cfg_token_address (demo_cfg 31337))")
      (simp_all add: sut_init_def token_view_init_def fresh_sut_def demo_cfg_def)
qed

lemma quoted_reachable: "(sut_step demo_env (demo_cfg 31337))\<^sup>*\<^sup>* (fresh_sut, []) (quoted_sut, [])"
  unfolding quoted_sut_def by (rule r_into_rtranclp, rule sut_step.quoted[OF prod.collapse[symmetric]])

lemma quoted_pay: "fst (pay demo_env (demo_cfg 31337) 110 ''ord_1'' full_authorization quoted_sut) = Inr settled_answer"
  by code_simp

theorem pay_over_wire_witness:
  "\<exists>p t. adapter_pay (one_request (app_pay demo_env (demo_cfg 31337) 110 (pay_body ''ord_1'' full_authorization)))
       ''ord_1'' full_authorization (closed_adapter quoted_sut) = (Inr p, t) \<and> pr_order_id p = ''ord_1''"
proof -
  let ?m = "app_pay demo_env (demo_cfg 31337) 110 (pay_body ''ord_1'' full_authorization)"
  obtain w' where run: "?m quoted_sut = (Inr settled_answer, w')"
    using quoted_pay by (metis app_pay_body prod.collapse)
  note served = one_request_run[where m = "?m" and w = quoted_sut, OF run]
  have "int (length (utf8_encode (json_text default_style (\<lambda>_. []) 0 (PDict settled_answer)))) \<le> 1048576" by code_simp
  then have c: "carries (\<lambda>_. []) (json_answer settled_answer) settled_answer" by (rule json_answer_carries)
  have w: "ad_world (closed_adapter quoted_sut) = quoted_sut" by (simp add: closed_adapter_def)
  have "valid_order_id ''ord_1''" by code_simp
  then show ?thesis
    using pay_over_wire[where s = "closed_adapter quoted_sut", unfolded w,
        OF quoted_reachable fresh_init run served(1)[unfolded w] c served(2)[unfolded w]] served(3) by auto
qed

definition known_status :: pydict where
  "known_status = obj [(''order_id'', PStr ''ord_1''), (''paid'', PBool True),
     (''resource'', PStr ''premium-content::ord_1''), (''submitted_tx'', PNone), (''known'', PBool True)]"

theorem status_over_wire_witness:
  "adapter_status (one_request (status ''ord_1'')) ''ord_1'' (closed_adapter (demo_sut [(''ord_1'', paid_order)] 0)) =
     (Inr \<lparr>ws_order_id = ''ord_1'', ws_paid = True, ws_resource = Some ''premium-content::ord_1'', ws_submitted_tx = None\<rparr>,
      \<lparr>ad_open = True, ad_world = demo_sut [(''ord_1'', paid_order)] 0\<rparr>)"
proof -
  let ?m = "status ''ord_1''" and ?w = "demo_sut [(''ord_1'', paid_order)] 0"
  have run: "status ''ord_1'' ?w = (Inr known_status, ?w)"
    by (simp add: status_answer demo_sut_def paid_order_def unlock_def demo_order_def new_order_def known_status_def opt_text_def)
  note served = one_request_run[where m = "?m" and w = "?w", OF run]
  have "int (length (utf8_encode (json_text default_style (\<lambda>_. []) 0 (PDict known_status)))) \<le> 1048576" by code_simp
  then have c: "carries (\<lambda>_. []) (json_answer known_status) known_status" by (rule json_answer_carries)
  have "valid_order_id ''ord_1''" "wire_ready (orders (ad_world (closed_adapter ?w))) ''ord_1''"
    "valid_text ''premium-content::ord_1''" by code_simp+
  then show ?thesis
    using status_over_wire[OF _ served(1) c served(2)] run
    by (simp add: closed_adapter_def served(3) demo_sut_def paid_order_def unlock_def demo_order_def new_order_def)
qed

theorem quote_over_wire_witness:
  "\<exists>q t. adapter_quote (one_request (quote (demo_cfg 31337) ''1'' 100)) (closed_adapter (demo_sut [] 0)) = (Inr q, t) \<and>
     wq_order_id q = ''ord_1'' \<and> wq_amount q = 1000 \<and> quote_chain_id q = Inr 31337"
proof -
  let ?m = "quote (demo_cfg 31337) ''1'' 100" and ?w = "demo_sut [] 0"
  let ?d = "quote_response (demo_cfg 31337) (new_order ''ord_1'' 1000 3700 1000 5)"
  have "fst (?m ?w) = Inr ?d" by code_simp
  then obtain w' where run: "?m ?w = (Inr ?d, w')" by (metis prod.collapse)
  note served = one_request_run[where m = "?m" and w = "?w", OF run]
  have "int (length (utf8_encode (json_text default_style (\<lambda>_. []) 0 (PDict ?d)))) \<le> 1048576" by code_simp
  then have c: "carries (\<lambda>_. []) (json_answer ?d) ?d" by (rule json_answer_carries)
  have "wire_config (demo_cfg 31337)" "valid_order_id (''ord_'' @ ''1'')"
    "length (digits_of 10 \<bar>100 + cfg_quote_ttl (demo_cfg 31337)\<bar>) \<le> 4300" by code_simp+
  moreover have "cfg_price (demo_cfg 31337) = 1000" "cfg_chain_id (demo_cfg 31337) = 31337" by (simp_all add: demo_cfg_def)
  ultimately show ?thesis
    using quote_over_wire[OF _ served(1) c served(2)] run
    by (fastforce simp: closed_adapter_def served(3))
qed

end
