(* ===== verification/Urls.thy ===== *)
theory Urls
  imports Py_Values
begin

text \<open>
  \<^verbatim>\<open>urllib.parse.urlsplit\<close> and the properties \<^verbatim>\<open>hostname\<close>, \<^verbatim>\<open>port\<close>, \<^verbatim>\<open>username\<close> of its result, which
  three modules use to keep credentials out of messages and records and to check an endpoint.
  The parameter \<open>ip6\<close> says which texts between brackets are IPv6 addresses.  The Unicode check of the
  host never refuses a character of the model.
\<close>

section \<open>Cutting strings\<close>

text \<open>\<^verbatim>\<open>s.partition(c)\<close> without the separator, and \<^verbatim>\<open>s.rpartition(c)[2]\<close>.\<close>

definition before :: "char \<Rightarrow> string \<Rightarrow> string" where
  "before c s = takeWhile (\<lambda>x. x \<noteq> c) s"

definition after :: "char \<Rightarrow> string \<Rightarrow> string" where
  "after c s = drop 1 (dropWhile (\<lambda>x. x \<noteq> c) s)"

definition after_last :: "char \<Rightarrow> string \<Rightarrow> string" where
  "after_last c s = rev (takeWhile (\<lambda>x. x \<noteq> c) (rev s))"

lemma before_after: "c \<in> set s \<Longrightarrow> s = before c s @ [c] @ after c s"
  by (induction s) (auto simp: before_def after_def)

lemma before_none: "c \<notin> set s \<Longrightarrow> before c s = s" "c \<notin> set s \<Longrightarrow> after c s = []"
  by (induction s) (auto simp: before_def after_def)

lemma before_append: "c \<notin> set s \<Longrightarrow> before c (s @ c # t) = s" "c \<notin> set s \<Longrightarrow> after c (s @ c # t) = t"
  by (induction s) (auto simp: before_def after_def)

lemma after_last_append: "c \<notin> set t \<Longrightarrow> after_last c (s @ c # t) = t"
  by (simp add: after_last_def takeWhile_append)

lemma after_last_none: "c \<notin> set s \<Longrightarrow> after_last c s = s"
proof -
  assume "c \<notin> set s"
  then have "takeWhile (\<lambda>x. x \<noteq> c) (rev s) = rev s" by (auto simp: takeWhile_eq_all_conv)
  then show ?thesis unfolding after_last_def by (simp only: rev_rev_ident)
qed

section \<open>urlsplit\<close>

record url_parts =
  up_scheme :: string
  up_netloc :: string
  up_path :: string
  up_query :: string
  up_fragment :: string

definition url_clean :: "string \<Rightarrow> string" where
  "url_clean url =
     filter (\<lambda>c. c \<noteq> CHR 0x09 \<and> c \<noteq> CHR 0x0D \<and> c \<noteq> CHR 0x0A) (dropWhile (\<lambda>c. code c \<le> 32) url)"

definition ascii_alpha :: "char \<Rightarrow> bool" where
  "ascii_alpha c \<longleftrightarrow> 65 \<le> code c \<and> code c \<le> 90 \<or> 97 \<le> code c \<and> code c \<le> 122"

definition scheme_char :: "char \<Rightarrow> bool" where
  "scheme_char c \<longleftrightarrow> ascii_alpha c \<or> is_dec c \<or> c \<in> set ''+-.''"

definition has_scheme :: "string \<Rightarrow> bool" where
  "has_scheme url \<longleftrightarrow>
     CHR '':'' \<in> set url \<and> before (CHR '':'') url \<noteq> [] \<and> ascii_alpha (hd url) \<and>
     (\<forall>c\<in>set (before (CHR '':'') url). scheme_char c)"

definition netloc_delim :: "char \<Rightarrow> bool" where
  "netloc_delim c \<longleftrightarrow> c \<in> set ''/?#''"

text \<open>\<^verbatim>\<open>_check_bracketed_netloc\<close>: nothing before the bracket, a port or nothing after it.\<close>

definition future_ip :: "string \<Rightarrow> bool" where
  "future_ip h \<longleftrightarrow>
     (let d = drop 1 h in before (CHR ''.'') d \<noteq> [] \<and> (\<forall>c\<in>set (before (CHR ''.'') d). is_hex c) \<and>
        after (CHR ''.'') d \<noteq> [] \<and> CHR 0x0A \<notin> set (after (CHR ''.'') d))"

definition bracketed_ok :: "(string \<Rightarrow> bool) \<Rightarrow> string \<Rightarrow> bool" where
  "bracketed_ok ip6 netloc =
     (let hostport = after_last (CHR ''@'') netloc in
      if CHR ''['' \<in> set hostport then
        let b = after (CHR ''['') hostport; host = before (CHR '']'') b; port = after (CHR '']'') b in
        before (CHR ''['') hostport = [] \<and> (port = [] \<or> startswith port '':'') \<and>
        (if startswith host ''v'' then future_ip host else ip6 host)
      else
        let host = before (CHR '':'') hostport in
        if startswith host ''v'' then future_ip host else ip6 host)"

definition urlsplit :: "(string \<Rightarrow> bool) \<Rightarrow> string \<Rightarrow> url_parts result" where
  "urlsplit ip6 url0 =
     (let url1 = url_clean url0;
          scheme = (if has_scheme url1 then lower (before (CHR '':'') url1) else []);
          url2 = (if has_scheme url1 then after (CHR '':'') url1 else url1);
          netloc = (if startswith url2 ''//'' then takeWhile (\<lambda>c. \<not> netloc_delim c) (drop 2 url2) else []);
          url3 = (if startswith url2 ''//'' then dropWhile (\<lambda>c. \<not> netloc_delim c) (drop 2 url2) else url2);
          url4 = before (CHR ''#'') url3
      in
      if (CHR ''['' \<in> set netloc) \<noteq> (CHR '']'' \<in> set netloc) then Inl (ValueError ''Invalid IPv6 URL'')
      else if CHR ''['' \<in> set netloc \<and> \<not> bracketed_ok ip6 netloc then Inl (ValueError ''Invalid IPv6 URL'')
      else Inr \<lparr>up_scheme = scheme, up_netloc = netloc, up_path = before (CHR ''?'') url4,
                up_query = after (CHR ''?'') url4, up_fragment = after (CHR ''#'') url3\<rparr>)"

definition host_info :: "url_parts \<Rightarrow> string \<times> string" where
  "host_info p =
     (let h = after_last (CHR ''@'') (up_netloc p) in
      if CHR ''['' \<in> set h then
        let b = after (CHR ''['') h in (before (CHR '']'') b, after (CHR '':'') (after (CHR '']'') b))
      else (before (CHR '':'') h, after (CHR '':'') h))"

definition hostname :: "url_parts \<Rightarrow> string option" where
  "hostname p =
     (let h = fst (host_info p) in
      if h = [] then None
      else Some (lower (before (CHR ''%'') h) @ drop (length (before (CHR ''%'') h)) h))"

definition port :: "url_parts \<Rightarrow> int option result" where
  "port p =
     (let t = snd (host_info p) in
      if t = [] then Inr None
      else if \<not> (py_isdigit t \<and> py_isascii t) then Inl (ValueError ''Port could not be cast to integer value'')
      else bindR (int_base 10 t) (\<lambda>n.
        if 0 \<le> n \<and> n \<le> 65535 then Inr (Some n) else Inl (ValueError ''Port out of range 0-65535'')))"

definition has_userinfo :: "url_parts \<Rightarrow> bool" where
  "has_userinfo p \<longleftrightarrow> CHR ''@'' \<in> set (up_netloc p)"

lemma urlsplit_raises: "urlsplit ip6 url = Inl e \<Longrightarrow> \<exists>m. e = ValueError m"
  by (auto simp: urlsplit_def Let_def split: if_splits)

lemma port_raises: "port p = Inl e \<Longrightarrow> \<exists>m. e = ValueError m"
  by (auto simp: port_def Let_def int_base_def err_iff split: if_splits option.splits)

text \<open>A well-formed URL is taken apart at its delimiters.\<close>

lemma takeWhile_stop: "(\<forall>c\<in>set s. P c) \<Longrightarrow> (t = [] \<or> \<not> P (hd t)) \<Longrightarrow> takeWhile P (s @ t) = s \<and> dropWhile P (s @ t) = t"
  by (induction s) (cases t; auto)+

lemma urlsplit_parts:
  assumes scheme: "scheme \<noteq> []" "ascii_alpha (hd scheme)" "\<forall>c\<in>set scheme. scheme_char c"
    and net: "\<forall>c\<in>set netloc. 32 < code c \<and> \<not> netloc_delim c"
    and rest: "\<forall>c\<in>set rest. 32 < code c" "rest = [] \<or> netloc_delim (hd rest)"
  shows "urlsplit ip6 (scheme @ ''://'' @ netloc @ rest) =
    (if (CHR ''['' \<in> set netloc) \<noteq> (CHR '']'' \<in> set netloc) \<or> CHR ''['' \<in> set netloc \<and> \<not> bracketed_ok ip6 netloc
     then Inl (ValueError ''Invalid IPv6 URL'')
     else Inr \<lparr>up_scheme = lower scheme, up_netloc = netloc, up_path = before (CHR ''?'') (before (CHR ''#'') rest),
         up_query = after (CHR ''?'') (before (CHR ''#'') rest), up_fragment = after (CHR ''#'') rest\<rparr>)"
proof -
  let ?u = "scheme @ ''://'' @ netloc @ rest"
  have codes: "code (CHR '':'') = 58" "code (CHR ''+'') = 43" "code (CHR ''-'') = 45" "code (CHR ''.'') = 46"
    "code (CHR ''/'') = 47" "code (CHR 0x09) = 9" "code (CHR 0x0D) = 13" "code (CHR 0x0A) = 10" "\<not> is_dec (CHR '':'')"
    by code_simp+
  have sc: "32 < code c \<and> c \<noteq> CHR '':''" if "scheme_char c" for c
  proof -
    from that consider "65 \<le> code c" | "is_dec c" | "c = CHR ''+''" | "c = CHR ''-''" | "c = CHR ''.''"
      by (auto simp: scheme_char_def ascii_alpha_def)
    then show ?thesis
      by cases (use codes is_hex_code[OF is_dec_hex, of c] in auto)
  qed
  have all: "32 < code c" if "c \<in> set ?u" for c
  proof -
    from that consider "c \<in> set scheme" | "c \<in> set ''://''" | "c \<in> set netloc" | "c \<in> set rest"
      by (auto simp only: set_append)
    then show ?thesis
    proof cases
      case 1
      then show ?thesis using scheme(3) sc by blast
    next
      case 2
      then show ?thesis using codes(1,5) by auto
    qed (use net rest(1) in blast)+
  qed
  have clean: "url_clean ?u = ?u"
  proof -
    have "dropWhile (\<lambda>c. code c \<le> 32) ?u = ?u"
      using all[of "hd scheme"] scheme(1) by (cases scheme) auto
    moreover have "c \<noteq> CHR 0x09 \<and> c \<noteq> CHR 0x0D \<and> c \<noteq> CHR 0x0A" if "c \<in> set ?u" for c
      using all[OF that] codes by auto
    ultimately show ?thesis by (simp add: url_clean_def filter_id_conv)
  qed
  have colon: "CHR '':'' \<notin> set scheme" using scheme(3) sc by blast
  have b: "before (CHR '':'') ?u = scheme" "after (CHR '':'') ?u = ''//'' @ netloc @ rest"
    using before_append[OF colon, of "''//'' @ netloc @ rest"] by simp_all
  have hs: "has_scheme ?u" using scheme b by (simp add: has_scheme_def)
  have nl: "takeWhile (\<lambda>c. \<not> netloc_delim c) (netloc @ rest) = netloc"
    "dropWhile (\<lambda>c. \<not> netloc_delim c) (netloc @ rest) = rest"
    using takeWhile_stop[of netloc "\<lambda>c. \<not> netloc_delim c" rest] net rest(2) by auto
  have "startswith (''//'' @ netloc @ rest) ''//''" "drop 2 (''//'' @ netloc @ rest) = netloc @ rest" by simp_all
  then show ?thesis unfolding urlsplit_def Let_def clean b if_P[OF hs] by (simp only: nl if_True) simp
qed

end
