(* ===== verification/Run_Record.thy ===== *)
theory Run_Record
  imports Json_Roundtrip Json_Errors Urls "HOL-Library.AList"
begin

text \<open>
  \<^verbatim>\<open>psv/run_record.py\<close>: the audit record of a run, its checksum, its exclusive creation on disk and
  the journal that indexes the records.

  Parameters (record \<open>run_env\<close>): SHA-256, the texts that describe the interpreter and the machine,
  \<^verbatim>\<open>str\<close> of an input, the rounded duration as a float, the text of a float and its reading, the
  depth the decoder's stack allows, the test for an IPv6 literal.  The disk is the log directory: its files by name, and the plan
  of what the operating system answers to the next calls (\<open>io_step\<close>): success, failure, or for a
  write the number of bytes it takes.
\<close>

section \<open>Time stamps\<close>

text \<open>A \<^verbatim>\<open>datetime\<close>: naive, or aware, then the instant in microseconds since 1970.\<close>

datatype datetime = Naive | Aware int

definition pad :: "nat \<Rightarrow> int \<Rightarrow> string" where
  "pad n k = rjust n (CHR ''0'') (py_str_int k)"

text \<open>The civil date of a day number, in the proleptic Gregorian calendar.\<close>

definition civil :: "int \<Rightarrow> int \<times> int \<times> int" where
  "civil days =
     (let z = days + 719468; era = z div 146097; doe = z mod 146097;
          yoe = (doe - doe div 1460 + doe div 36524 - doe div 146096) div 365;
          doy = doe - (365 * yoe + yoe div 4 - yoe div 100);
          mp = (5 * doy + 2) div 153; d = doy - (153 * mp + 2) div 5 + 1;
          m = (if mp < 10 then mp + 3 else mp - 9)
      in (yoe + era * 400 + (if m \<le> 2 then 1 else 0), m, d))"

text \<open>\<^verbatim>\<open>astimezone(UTC).isoformat()\<close>.\<close>

definition isoformat :: "int \<Rightarrow> string" where
  "isoformat us =
     (let (y, m, d) = civil (us div 86400000000); s = us mod 86400000000 div 1000000; f = us mod 1000000 in
      pad 4 y @ ''-'' @ pad 2 m @ ''-'' @ pad 2 d @ ''T'' @ pad 2 (s div 3600) @ '':'' @ pad 2 (s mod 3600 div 60) @ '':'' @
      pad 2 (s mod 60) @ (if f = 0 then [] else ''.'' @ pad 6 f) @ ''+00:00'')"

section \<open>Building a record\<close>

record run_env =
  re_sha256 :: "int list \<Rightarrow> string"
  re_version :: string
  re_python :: string
  re_platform :: string
  re_machine :: string
  re_text :: "pyval \<Rightarrow> string"
  re_seconds :: "int \<Rightarrow> pyfloat"
  re_float_text :: "pyfloat \<Rightarrow> string"
  re_float :: "string \<Rightarrow> pyfloat"
  re_depth :: nat
  re_ip6 :: "string \<Rightarrow> bool"

definition redact_url :: "(string \<Rightarrow> bool) \<Rightarrow> string \<Rightarrow> string" where
  "redact_url ip6 url =
     (if url = [] then url
      else case urlsplit ip6 url of
        Inl e \<Rightarrow> ''<unparseable>''
      | Inr parts \<Rightarrow>
          (case hostname parts of
             None \<Rightarrow> ''<redacted>''
           | Some host \<Rightarrow>
               if up_scheme parts = [] then ''<redacted>''
               else (case port parts of
                  Inl e \<Rightarrow> ''<unparseable>''
                | Inr p \<Rightarrow>
                    up_scheme parts @ ''://'' @ host @
                    (case p of None \<Rightarrow> [] | Some n \<Rightarrow> if n = 0 then [] else '':'' @ py_str_int n))))"

definition secret_name :: "string \<Rightarrow> bool" where
  "secret_name k \<longleftrightarrow> contains ''key'' (lower k) \<or> contains ''secret'' (lower k) \<or> contains ''password'' (lower k)"

definition clean_input :: "run_env \<Rightarrow> string \<times> pyval \<Rightarrow> (string \<times> pyval) option" where
  "clean_input env kv =
     (let (k, v) = kv in
      if v = PNone then None
      else if secret_name k then None
      else if k = ''rpc_url'' \<or> k = ''rpcUrl''
      then Some (k, PStr (redact_url (re_ip6 env) (case v of PStr s \<Rightarrow> s | _ \<Rightarrow> re_text env v)))
      else Some (k, v))"

definition clean_inputs :: "run_env \<Rightarrow> (string \<times> pyval) list \<Rightarrow> (string \<times> pyval) list" where
  "clean_inputs env inputs = List.map_filter (clean_input env) inputs"

definition record_payload :: "pydict \<Rightarrow> pydict" where
  "record_payload r = filter (\<lambda>(k, v). k \<noteq> PStr ''runId'') r"

definition content_hash :: "run_env \<Rightarrow> pydict \<Rightarrow> string result" where
  "content_hash env r =
     bindR (dumps compact_style (re_float_text env) (PDict (record_payload r))) (\<lambda>canonical.
     Inr (''sha256:'' @ re_sha256 env (utf8_encode canonical)))"

definition run_fields ::
  "run_env \<Rightarrow> string \<Rightarrow> (string \<times> pyval) list \<Rightarrow> pydict option \<Rightarrow> int \<Rightarrow> int \<Rightarrow> int \<Rightarrow> string option \<Rightarrow> (string \<times> pyval) list" where
  "run_fields env command inputs report exit_code started finished err =
     [(''schemaVersion'', PStr ''1.1''),
      (''tool'', PDict (obj [(''name'', PStr ''psv''), (''version'', PStr (re_version env))])),
      (''command'', PStr command),
      (''startedAt'', PStr (isoformat started)),
      (''finishedAt'', PStr (isoformat finished)),
      (''durationSeconds'', PFloat (re_seconds env (finished - started))),
      (''inputs'', PDict (obj (clean_inputs env inputs))),
      (''environment'', PDict (obj [(''python'', PStr (re_python env)), (''platform'', PStr (re_platform env)),
                                   (''machine'', PStr (re_machine env))])),
      (''report'', case report of None \<Rightarrow> PNone | Some d \<Rightarrow> PDict d),
      (''exitCode'', PInt exit_code),
      (''consistent'', PBool (err = None \<and> exit_code = 0)),
      (''error'', case err of None \<Rightarrow> PNone | Some m \<Rightarrow> PStr m)]"

definition build_run_record ::
  "run_env \<Rightarrow> string \<Rightarrow> (string \<times> pyval) list \<Rightarrow> pydict option \<Rightarrow> int \<Rightarrow> datetime \<Rightarrow> datetime \<Rightarrow> string option \<Rightarrow> pydict result" where
  "build_run_record env command inputs report exit_code started_at finished_at err =
     (if \<forall>c\<in>set command. py_isspace c then Inl (ValueError ''command must not be empty'')
      else if exit_code < 0 then Inl (ValueError ''exit_code must be a non-negative integer'')
      else case (started_at, finished_at) of
        (Aware started, Aware finished) \<Rightarrow>
          if finished < started then Inl (ValueError ''finished_at must not precede started_at'')
          else let r = obj (run_fields env command inputs report exit_code started finished err) in
            bindR (content_hash env r) (\<lambda>h. Inr (dict_set r ''runId'' (PStr h)))
      | _ \<Rightarrow> Inl (ValueError ''run timestamps must be timezone-aware''))"

definition verify_run_record :: "run_env \<Rightarrow> pydict \<Rightarrow> bool result" where
  "verify_run_record env r =
     (case dict_get r ''runId'' of
        PStr claimed \<Rightarrow> bindR (content_hash env r) (\<lambda>h. Inr (claimed = h))
      | _ \<Rightarrow> Inr False)"

section \<open>The disk\<close>

datatype io_step = Done | Fail | Short int

record disk =
  dk_files :: "(string \<times> int list) list"
  dk_plan :: "io_step list"

text \<open>The answer to the next system call; an exhausted plan means that nothing fails.\<close>

definition next_step :: "disk \<Rightarrow> io_step \<times> disk" where
  "next_step d = (case dk_plan d of [] \<Rightarrow> (Done, d) | x # xs \<Rightarrow> (x, d\<lparr>dk_plan := xs\<rparr>))"

definition os_error :: exn where
  "os_error = OSError ''system call failed''"

definition sys_call :: "(disk, unit) op" where
  "sys_call = (\<lambda>d. case next_step d of (Fail, d') \<Rightarrow> (Inl os_error, d') | (_, d') \<Rightarrow> (Inr (), d'))"

text \<open>\<^verbatim>\<open>os.write(fd, data)\<close> appends at the end of the file; the result is the number of bytes taken.\<close>

definition os_write :: "string \<Rightarrow> int list \<Rightarrow> (disk, int) op" where
  "os_write path data = (\<lambda>d.
     case next_step d of
       (Fail, d') \<Rightarrow> (Inl os_error, d')
     | (Done, d') \<Rightarrow> (Inr (int (length data)), d'\<lparr>dk_files := AList.map_entry path (\<lambda>c. c @ data) (dk_files d')\<rparr>)
     | (Short n, d') \<Rightarrow>
         (Inr (min n (int (length data))),
          d'\<lparr>dk_files := AList.map_entry path (\<lambda>c. c @ take (nat n) data) (dk_files d')\<rparr>))"

definition create_file :: "string \<Rightarrow> (disk, unit) op" where
  "create_file path = (\<lambda>d. (Inr (), d\<lparr>dk_files := AList.update path [] (dk_files d)\<rparr>))"

definition remove_file :: "string \<Rightarrow> (disk, unit) op" where
  "remove_file path = (\<lambda>d. (Inr (), d\<lparr>dk_files := AList.delete path (dk_files d)\<rparr>))"

text \<open>\<^verbatim>\<open>os.open\<close> with \<^verbatim>\<open>O_CREAT | O_EXCL\<close>, and with \<^verbatim>\<open>O_CREAT | O_APPEND\<close>.\<close>

definition open_exclusive :: "string \<Rightarrow> (disk, unit) op" where
  "open_exclusive path =
     bindS sys_call (\<lambda>_ d.
       if map_of (dk_files d) path \<noteq> None then (Inl (FileExistsError ''File exists''), d) else create_file path d)"

definition open_append :: "string \<Rightarrow> (disk, unit) op" where
  "open_append path =
     bindS sys_call (\<lambda>_ d. if map_of (dk_files d) path \<noteq> None then (Inr (), d) else create_file path d)"

section \<open>Writing\<close>

function write_all :: "string \<Rightarrow> int list \<Rightarrow> (disk, unit) op" where
  "write_all path view d =
     (if view = [] then (Inr (), d)
      else case os_write path view d of
        (Inl e, d') \<Rightarrow> (Inl e, d')
      | (Inr written, d') \<Rightarrow>
          if written \<le> 0 then (Inl (OSError ''failed to write run record''), d')
          else write_all path (drop (nat written) view) d')"
  by pat_completeness auto
termination
  by (relation "measure (\<lambda>(path, view, d). length view)") auto

text \<open>
  The \<^verbatim>\<open>finally\<close> clause: the file is closed, and removed unless it is complete.  An exception
  there replaces the pending one.
\<close>

definition finish_write :: "string \<Rightarrow> unit result \<Rightarrow> (disk, unit) op" where
  "finish_write path outcome =
     bindS sys_call (\<lambda>_.
     case outcome of
       Inr u \<Rightarrow> retS ()
     | Inl e \<Rightarrow> bindS sys_call (\<lambda>_. bindS (remove_file path) (\<lambda>_. raiseS e)))"

definition write_exclusive :: "string \<Rightarrow> int list \<Rightarrow> (disk, unit) op" where
  "write_exclusive path payload =
     bindS (open_exclusive path) (\<lambda>_ d.
       case bindS (write_all path payload) (\<lambda>_. sys_call) d of (outcome, d') \<Rightarrow> finish_write path outcome d')"

definition record_name :: "string \<Rightarrow> nat \<Rightarrow> string" where
  "record_name stem sequence =
     stem @ (if sequence = 0 then [] else ''-'' @ py_str_int (int sequence)) @ ''.json''"

fun try_names :: "string \<Rightarrow> int list \<Rightarrow> nat list \<Rightarrow> (disk, string) op" where
  "try_names stem payload [] d = (Inl (FileExistsError ''could not allocate a unique run-record filename''), d)"
| "try_names stem payload (n # ns) d =
     (case write_exclusive (record_name stem n) payload d of
        (Inr u, d') \<Rightarrow> (Inr (record_name stem n), d')
      | (Inl (FileExistsError m), d') \<Rightarrow> try_names stem payload ns d'
      | (Inl e, d') \<Rightarrow> (Inl e, d'))"

definition exclusive_record_path :: "string \<Rightarrow> int list \<Rightarrow> (disk, string) op" where
  "exclusive_record_path stem payload = try_names stem payload [0..<10000]"

definition append_journal :: "string \<Rightarrow> int list \<Rightarrow> (disk, unit) op" where
  "append_journal path line =
     bindS (open_append path) (\<lambda>_ d.
       case bindS (os_write path line) (\<lambda>written.
              bindS (liftS (guardR (written = int (length line)) (OSError ''partial run journal write''))) (\<lambda>_. sys_call)) d of
         (outcome, d') \<Rightarrow> bindS sys_call (\<lambda>_. liftS outcome) d')"

definition str_member :: "pydict \<Rightarrow> string \<Rightarrow> string result" where
  "str_member r k =
     bindR (dict_item r k) (\<lambda>v. case v of PStr s \<Rightarrow> Inr s | _ \<Rightarrow> Inl (OtherException ''AttributeError''))"

definition remove_prefix :: "string \<Rightarrow> string \<Rightarrow> string" where
  "remove_prefix p s = (if startswith s p then drop (length p) s else s)"

definition file_stem :: "string \<Rightarrow> string \<Rightarrow> string" where
  "file_stem started run_id =
     ''run-'' @ filter (\<lambda>c. c \<notin> set '':-.'') started @ ''-'' @ take 12 (remove_prefix ''sha256:'' run_id)"

definition journal_entry :: "pydict \<Rightarrow> string \<Rightarrow> pydict result" where
  "journal_entry r name =
     bindR (dict_item r ''runId'') (\<lambda>a.
     bindR (dict_item r ''startedAt'') (\<lambda>b.
     bindR (dict_item r ''command'') (\<lambda>c.
     bindR (dict_item r ''consistent'') (\<lambda>d.
     bindR (dict_item r ''exitCode'') (\<lambda>e.
     bindR (dict_item r ''error'') (\<lambda>f.
     Inr (obj [(''runId'', a), (''startedAt'', b), (''command'', c), (''consistent'', d), (''exitCode'', e), (''error'', f),
               (''file'', PStr name)])))))))"

definition json_line :: "run_env \<Rightarrow> json_style \<Rightarrow> pydict \<Rightarrow> int list result" where
  "json_line env st d =
     bindR (dumps st (re_float_text env) (PDict d)) (\<lambda>t. Inr (utf8_encode (t @ [CHR 0x0A])))"

definition write_run_record :: "run_env \<Rightarrow> pydict \<Rightarrow> (disk, string) op" where
  "write_run_record env r =
     bindS (liftS (verify_run_record env r)) (\<lambda>ok.
     if \<not> ok then raiseS (ValueError ''refusing to persist a run record with an invalid checksum'')
     else
     bindS sys_call (\<lambda>_.
     bindS (liftS (str_member r ''startedAt'')) (\<lambda>started.
     bindS (liftS (str_member r ''runId'')) (\<lambda>run_id.
     bindS (liftS (json_line env indented_style r)) (\<lambda>payload.
     bindS (exclusive_record_path (file_stem started run_id) payload) (\<lambda>name.
     bindS (liftS (journal_entry r name)) (\<lambda>entry.
     bindS (liftS (json_line env default_style entry)) (\<lambda>line.
     bindS (append_journal ''runs.jsonl'' line) (\<lambda>_.
     retS name)))))))))"

section \<open>Verifying the journal\<close>

text \<open>\<^verbatim>\<open>read_text\<close> translates line ends, \<^verbatim>\<open>splitlines\<close> then cuts at every line boundary.\<close>

fun universal_newlines :: "string \<Rightarrow> string" where
  "universal_newlines [] = []"
| "universal_newlines (c # cs) =
     (if c = CHR 0x0D then
        CHR 0x0A # (case cs of [] \<Rightarrow> [] | d # ds \<Rightarrow> universal_newlines (if d = CHR 0x0A then ds else cs))
      else c # universal_newlines cs)"

definition line_boundary :: "char \<Rightarrow> bool" where
  "line_boundary c \<longleftrightarrow> 10 \<le> code c \<and> code c \<le> 13 \<or> 28 \<le> code c \<and> code c \<le> 30 \<or> code c = 133"

fun split_lines :: "string \<Rightarrow> string \<Rightarrow> string list" where
  "split_lines cur [] = (if cur = [] then [] else [rev cur])"
| "split_lines cur (c # cs) =
     (if line_boundary c then rev cur # split_lines [] (if c = CHR 0x0D \<and> startswith cs [CHR 0x0A] then drop 1 cs else cs)
      else split_lines (c # cur) cs)"

definition read_text :: "string \<Rightarrow> disk \<Rightarrow> string result" where
  "read_text path d =
     (if CHR 0x00 \<in> set path then Inl (ValueError ''embedded null byte'')
      else case map_of (dk_files d) path of
        None \<Rightarrow> Inl (OSError ''No such file or directory'')
      | Some bytes \<Rightarrow> bindR (utf8_decode bytes) (\<lambda>s. Inr (universal_newlines s)))"

definition plain_reader :: "run_env \<Rightarrow> json_reader" where
  "plain_reader env = \<lparr>jr_object = plain_object, jr_constant = float_constant, jr_float = re_float env\<rparr>"

text \<open>
  \<^verbatim>\<open>json.JSONDecodeError\<close> is the decoder's own \<open>ValueError\<close>; the one of a number beyond the digit
  limit and the one of invalid UTF-8 are not.
\<close>

definition is_json_error :: "exn \<Rightarrow> bool" where
  "is_json_error e \<longleftrightarrow> (\<exists>m. e = ValueError m) \<and>
     e \<notin> {ValueError ''invalid literal for int()'', bad_utf8, ValueError ''embedded null byte''}"

datatype finding =
    JournalMissing
  | InvalidLine nat
  | NotAnObject nat
  | UnsafeName nat
  | RecordMissing nat
  | BadChecksum nat
  | RunIdMismatch nat

definition safe_name :: "string \<Rightarrow> bool" where
  "safe_name f \<longleftrightarrow> CHR ''/'' \<notin> set f \<and> f \<noteq> ''.''"

text \<open>\<^verbatim>\<open>None\<close> is no finding.  The entry's record is read, decoded, checked and compared.\<close>

definition check_record :: "run_env \<Rightarrow> disk \<Rightarrow> nat \<Rightarrow> pydict \<Rightarrow> string \<Rightarrow> finding option result" where
  "check_record env d n entry filename =
     (case bindR (read_text filename d) (\<lambda>t. loads (plain_reader env) (re_depth env) t) of
        Inl e \<Rightarrow> if is_os_error e \<or> is_json_error e then Inr (Some (RecordMissing n)) else Inl e
      | Inr (PDict r) \<Rightarrow>
          bindR (verify_run_record env r) (\<lambda>ok.
          Inr (if \<not> ok then Some (BadChecksum n)
               else if dict_get entry ''runId'' \<noteq> dict_get r ''runId'' then Some (RunIdMismatch n)
               else None))
      | Inr v \<Rightarrow> Inr (Some (BadChecksum n)))"

definition check_line :: "run_env \<Rightarrow> disk \<Rightarrow> nat \<Rightarrow> string \<Rightarrow> finding option result" where
  "check_line env d n raw =
     (case loads (plain_reader env) (re_depth env) raw of
        Inl e \<Rightarrow> if is_json_error e then Inr (Some (InvalidLine n)) else Inl e
      | Inr (PDict entry) \<Rightarrow>
          (case dict_get entry ''file'' of
             PStr filename \<Rightarrow>
               if safe_name filename then check_record env d n entry filename else Inr (Some (UnsafeName n))
           | _ \<Rightarrow> Inr (Some (UnsafeName n)))
      | Inr v \<Rightarrow> Inr (Some (NotAnObject n)))"

fun check_lines :: "run_env \<Rightarrow> disk \<Rightarrow> nat \<Rightarrow> string list \<Rightarrow> finding list result" where
  "check_lines env d n [] = Inr []"
| "check_lines env d n (l # ls) =
     bindR (check_line env d n l) (\<lambda>f.
     bindR (check_lines env d (n + 1) ls) (\<lambda>fs.
     Inr (case f of None \<Rightarrow> fs | Some x \<Rightarrow> x # fs)))"

definition verify_run_journal :: "run_env \<Rightarrow> disk \<Rightarrow> finding list result" where
  "verify_run_journal env d =
     (if map_of (dk_files d) ''runs.jsonl'' = None then Inr [JournalMissing]
      else bindR (read_text ''runs.jsonl'' d) (\<lambda>t. check_lines env d 1 (split_lines [] t)))"

end
