(* ===== verification/Run_Journal.thy ===== *)
theory Run_Journal
  imports Run_Record
begin

text \<open>
  Properties of the run records: what a record says, that it holds no secret, that its checksum
  determines it, that writing never destroys an earlier record, and that a log directory filled
  by successful writes verifies without findings.
\<close>

section \<open>The record and its checksum\<close>

lemma run_fields_no_id: "map_of (run_fields env c i r x s f e) ''runId'' = None"
  by (simp add: run_fields_def)

lemma payload_fresh: "map_of kvs ''runId'' = None \<Longrightarrow> record_payload (dict_set (obj kvs) ''runId'' v) = obj kvs"
proof -
  assume n: "map_of kvs ''runId'' = None"
  then have "dict_set (obj kvs) ''runId'' v = obj kvs @ [(PStr ''runId'', v)]" by (intro dict_set_fresh) (simp add: map_of_obj)
  moreover have "filter (\<lambda>(k, v). k \<noteq> PStr ''runId'') (obj kvs) = obj kvs"
    using n by (force simp: filter_id_conv obj_def map_of_eq_None_iff)
  ultimately show ?thesis by (simp add: record_payload_def)
qed

lemma content_hash_payload: "record_payload a = record_payload b \<Longrightarrow> content_hash env a = content_hash env b"
  by (simp add: content_hash_def)

lemma built_record:
  assumes "build_run_record env command inputs report exit_code started_at finished_at err = Inr r"
  obtains s f h where "started_at = Aware s" "finished_at = Aware f" "s \<le> f" "0 \<le> exit_code"
    "content_hash env (obj (run_fields env command inputs report exit_code s f err)) = Inr h"
    "r = obj (run_fields env command inputs report exit_code s f err) @ [(PStr ''runId'', PStr h)]"
  using assms dict_set_fresh[of "obj (run_fields env command inputs report exit_code _ _ err)" "''runId''"]
  by (auto simp: build_run_record_def Let_def ok_iff map_of_obj run_fields_no_id split: if_splits datetime.splits)

lemma built_payload: "record_payload (obj (run_fields env c i r x s f e) @ [(PStr ''runId'', v)]) = obj (run_fields env c i r x s f e)"
  using payload_fresh[OF run_fields_no_id, of env c i r x s f e v]
    dict_set_fresh[of "obj (run_fields env c i r x s f e)" "''runId''" v]
  by (simp add: map_of_obj run_fields_no_id)

lemma built_lookup:
  "map_of (obj kvs @ [(PStr ''runId'', PStr h)]) (PStr k) =
     (case map_of kvs k of None \<Rightarrow> if k = ''runId'' then Some (PStr h) else None | Some v \<Rightarrow> Some v)"
  by (auto simp: map_add_def map_of_obj split: option.splits)

lemma built_verifies:
  assumes "build_run_record env command inputs report exit_code started_at finished_at err = Inr r"
  shows "verify_run_record env r = Inr True"
proof -
  from assms obtain s f h where h: "content_hash env (obj (run_fields env command inputs report exit_code s f err)) = Inr h"
    "r = obj (run_fields env command inputs report exit_code s f err) @ [(PStr ''runId'', PStr h)]"
    by (rule built_record)
  then have "content_hash env r = Inr h"
    using content_hash_payload[of r "obj (run_fields env command inputs report exit_code s f err)" env]
      built_payload[of env command inputs report exit_code s f err "PStr h"]
      payload_fresh[OF run_fields_no_id] by (simp add: record_payload_def filter_id_conv)
  moreover have "dict_get r ''runId'' = PStr h" using h(2) by (simp add: dict_get_def built_lookup run_fields_no_id del: map_of_append)
  ultimately show ?thesis by (simp add: verify_run_record_def)
qed

text \<open>
  A record says what happened.  Whatever is built verifies against its own checksum; it is
  marked consistent exactly when the run ended with exit code 0 and no error, and carries the
  report, the exit code and the error as they were given.
\<close>

theorem built_record_faithful:
  assumes "build_run_record env command inputs report exit_code started_at finished_at err = Inr r"
  shows "verify_run_record env r = Inr True
    \<and> (dict_get r ''consistent'' = PBool True \<longleftrightarrow> err = None \<and> exit_code = 0)
    \<and> dict_get r ''exitCode'' = PInt exit_code \<and> 0 \<le> exit_code
    \<and> dict_get r ''report'' = (case report of None \<Rightarrow> PNone | Some d \<Rightarrow> PDict d)
    \<and> dict_get r ''error'' = (case err of None \<Rightarrow> PNone | Some m \<Rightarrow> PStr m)"
proof -
  from assms obtain s f h where r: "0 \<le> exit_code"
    "r = obj (run_fields env command inputs report exit_code s f err) @ [(PStr ''runId'', PStr h)]"
    by (rule built_record)
  then show ?thesis
    using built_verifies[OF assms] by (simp add: dict_get_def built_lookup run_fields_def del: map_of_append)
qed

text \<open>
  C17: The checksum determines the record.  If two plain records both verify under the same run id, and
  SHA-256 does not send their two canonical texts to one digest, then every member of the one, other than
  the id, is the member of the other, up to the order of object members.
\<close>

theorem checksum_determines_record:
  assumes "verify_run_record env r1 = Inr True" "verify_run_record env r2 = Inr True"
    and "dict_get r1 ''runId'' = dict_get r2 ''runId''"
    and "json_plain (re_float_text env) pf dep (PDict (record_payload r1))"
    and "json_plain (re_float_text env) pf dep (PDict (record_payload r2))"
    and "\<And>t1 t2. dumps compact_style (re_float_text env) (PDict (record_payload r1)) = Inr t1 \<Longrightarrow>
      dumps compact_style (re_float_text env) (PDict (record_payload r2)) = Inr t2 \<Longrightarrow>
      re_sha256 env (utf8_encode t1) = re_sha256 env (utf8_encode t2) \<Longrightarrow> t1 = t2"
    and "k \<noteq> ''runId''"
  shows "map_option sort_keys (map_of r1 (PStr k)) = map_option sort_keys (map_of r2 (PStr k))"
proof -
  obtain t1 t2 where t: "dumps compact_style (re_float_text env) (PDict (record_payload r1)) = Inr t1"
    "dumps compact_style (re_float_text env) (PDict (record_payload r2)) = Inr t2"
    "re_sha256 env (utf8_encode t1) = re_sha256 env (utf8_encode t2)"
    using assms(1-3) by (auto simp: verify_run_record_def content_hash_def ok_iff split: pyval.splits)
  then have "dumps compact_style (re_float_text env) (PDict (record_payload r1)) =
    dumps compact_style (re_float_text env) (PDict (record_payload r2))" using assms(6)[OF t] by simp
  moreover have "js_sort compact_style" by (simp add: compact_style_def)
  ultimately have "sort_keys (PDict (record_payload r1)) = sort_keys (PDict (record_payload r2))"
    using dumps_determines[OF good_styles(3) _ assms(4,5)] by blast
  moreover have "distinct (map fst (record_payload r1))" "distinct (map fst (record_payload r2))"
    using assms(4,5) by simp_all
  ultimately have "map_option sort_keys (map_of (record_payload r1) (PStr k)) =
    map_option sort_keys (map_of (record_payload r2) (PStr k))" by (rule sorted_member)
  moreover have "map_of (record_payload r) (PStr k) = map_of r (PStr k)" for r
    using assms(7) by (induction r) (auto simp: record_payload_def)
  ultimately show ?thesis by simp
qed

section \<open>No secret reaches a record\<close>

text \<open>
  A URL with or without user information, and with any path, query and fragment: no spaces or control
  characters, no bracket in the user information.  The host may be an IPv6 literal, and it may be
  malformed.
\<close>

definition url_of :: "string \<Rightarrow> string \<Rightarrow> string \<Rightarrow> string \<Rightarrow> string" where
  "url_of scheme user host rest = scheme @ ''://'' @ (if user = [] then [] else user @ ''@'') @ host @ rest"

definition url_ok :: "string \<Rightarrow> string \<Rightarrow> string \<Rightarrow> string \<Rightarrow> bool" where
  "url_ok scheme user host rest \<longleftrightarrow>
     scheme \<noteq> [] \<and> ascii_alpha (hd scheme) \<and> (\<forall>c\<in>set scheme. scheme_char c) \<and>
     (\<forall>c\<in>set user. 32 < code c \<and> \<not> netloc_delim c \<and> c \<noteq> CHR ''['' \<and> c \<noteq> CHR '']'') \<and>
     (\<forall>c\<in>set host. 32 < code c \<and> \<not> netloc_delim c \<and> c \<noteq> CHR ''@'') \<and>
     (\<forall>c\<in>set rest. 32 < code c) \<and> (rest = [] \<or> netloc_delim (hd rest))"

definition url_netloc :: "string \<Rightarrow> string \<Rightarrow> string" where
  "url_netloc user host = (if user = [] then [] else user @ ''@'') @ host"

text \<open>What \<^verbatim>\<open>urlsplit\<close> refuses depends on the host only.\<close>

lemma urlsplit_url_of:
  assumes "url_ok scheme user host rest"
  shows "urlsplit ip6 (url_of scheme user host rest) =
    (if (CHR ''['' \<in> set host) \<noteq> (CHR '']'' \<in> set host) \<or> CHR ''['' \<in> set host \<and> \<not> bracketed_ok ip6 host
     then Inl (ValueError ''Invalid IPv6 URL'')
     else Inr \<lparr>up_scheme = lower scheme, up_netloc = url_netloc user host, up_path = before (CHR ''?'') (before (CHR ''#'') rest),
         up_query = after (CHR ''?'') (before (CHR ''#'') rest), up_fragment = after (CHR ''#'') rest\<rparr>)"
    and "after_last (CHR ''@'') (url_netloc user host) = host"
proof -
  have at: "CHR ''@'' \<notin> set host" using assms by (auto simp: url_ok_def)
  have sep: "32 < code (CHR ''@'')" "\<not> netloc_delim (CHR ''@'')" by code_simp+
  show al: "after_last (CHR ''@'') (url_netloc user host) = host"
    using after_last_append[OF at, of user] after_last_none[OF at] by (simp add: url_netloc_def)
  have "bracketed_ok ip6 (url_netloc user host) = bracketed_ok ip6 host"
    unfolding bracketed_ok_def al after_last_none[OF at] by (rule refl)
  moreover have "CHR ''['' \<notin> set user" "CHR '']'' \<notin> set user" using assms unfolding url_ok_def by blast+
  then have "CHR ''['' \<in> set (url_netloc user host) \<longleftrightarrow> CHR ''['' \<in> set host" "CHR '']'' \<in> set (url_netloc user host) \<longleftrightarrow> CHR '']'' \<in> set host"
    by (simp_all add: url_netloc_def)
  moreover have "\<forall>c\<in>set user. 32 < code c \<and> \<not> netloc_delim c" "\<forall>c\<in>set host. 32 < code c \<and> \<not> netloc_delim c"
    using assms unfolding url_ok_def by blast+
  then have "\<forall>c\<in>set (url_netloc user host). 32 < code c \<and> \<not> netloc_delim c"
    using sep by (simp add: url_netloc_def ball_Un)
  ultimately show "urlsplit ip6 (url_of scheme user host rest) =
    (if (CHR ''['' \<in> set host) \<noteq> (CHR '']'' \<in> set host) \<or> CHR ''['' \<in> set host \<and> \<not> bracketed_ok ip6 host
     then Inl (ValueError ''Invalid IPv6 URL'')
     else Inr \<lparr>up_scheme = lower scheme, up_netloc = url_netloc user host, up_path = before (CHR ''?'') (before (CHR ''#'') rest),
         up_query = after (CHR ''?'') (before (CHR ''#'') rest), up_fragment = after (CHR ''#'') rest\<rparr>)"
    using urlsplit_parts[of scheme "url_netloc user host" rest ip6] assms
    by (simp add: url_ok_def url_of_def url_netloc_def)
qed

lemma redact_url_of:
  assumes "url_ok scheme u1 host r1" "url_ok scheme u2 host r2"
  shows "redact_url ip6 (url_of scheme u1 host r1) = redact_url ip6 (url_of scheme u2 host r2)"
proof -
  define p where "p u r = \<lparr>up_scheme = lower scheme, up_netloc = url_netloc u host, up_path = before (CHR ''?'') (before (CHR ''#'') r),
      up_query = after (CHR ''?'') (before (CHR ''#'') r), up_fragment = after (CHR ''#'') r\<rparr>" for u r
  have "host_info (p u1 r1) = host_info (p u2 r2)"
    by (simp add: host_info_def p_def urlsplit_url_of(2)[OF assms(1)] urlsplit_url_of(2)[OF assms(2)])
  then have h: "hostname (p u1 r1) = hostname (p u2 r2)" "port (p u1 r1) = port (p u2 r2)"
    "up_scheme (p u1 r1) = up_scheme (p u2 r2)"
    by (simp_all only: hostname_def port_def) (simp add: p_def)
  have ne: "url_of scheme u host r \<noteq> []" for u r using assms(1) by (simp add: url_of_def url_ok_def)
  show ?thesis
  proof (cases "(CHR ''['' \<in> set host) \<noteq> (CHR '']'' \<in> set host) \<or> CHR ''['' \<in> set host \<and> \<not> bracketed_ok ip6 host")
    case True
    then show ?thesis
      unfolding redact_url_def if_not_P[OF ne] urlsplit_url_of(1)[OF assms(1)] urlsplit_url_of(1)[OF assms(2)] by simp
  next
    case False
    then have "urlsplit ip6 (url_of scheme u1 host r1) = Inr (p u1 r1)" "urlsplit ip6 (url_of scheme u2 host r2) = Inr (p u2 r2)"
      unfolding urlsplit_url_of(1)[OF assms(1)] urlsplit_url_of(1)[OF assms(2)] by (simp_all add: p_def)
    then show ?thesis unfolding redact_url_def if_not_P[OF ne] by (simp only: sum.case h)
  qed
qed

text \<open>Two inputs that differ at most in what must not be recorded.\<close>

definition same_public :: "string \<times> pyval \<Rightarrow> string \<times> pyval \<Rightarrow> bool" where
  "same_public a b \<longleftrightarrow> fst a = fst b \<and>
     (snd a = snd b \<or> secret_name (fst a) \<or>
      (fst a = ''rpc_url'' \<or> fst a = ''rpcUrl'') \<and>
        (\<exists>scheme host u1 r1 u2 r2. snd a = PStr (url_of scheme u1 host r1) \<and> url_ok scheme u1 host r1 \<and>
           snd b = PStr (url_of scheme u2 host r2) \<and> url_ok scheme u2 host r2))"

lemma clean_input_public: "same_public a b \<Longrightarrow> clean_input env a = clean_input env b"
proof -
  assume "same_public a b"
  then consider "a = b" | "fst a = fst b" "secret_name (fst a)"
    | scheme host u1 r1 u2 r2 where "fst a = fst b" "fst a = ''rpc_url'' \<or> fst a = ''rpcUrl''"
        "snd a = PStr (url_of scheme u1 host r1)" "url_ok scheme u1 host r1"
        "snd b = PStr (url_of scheme u2 host r2)" "url_ok scheme u2 host r2"
    by (auto simp: same_public_def prod_eq_iff)
  then show ?thesis
  proof cases
    case 3
    then have "redact_url (re_ip6 env) (url_of scheme u1 host r1) = redact_url (re_ip6 env) (url_of scheme u2 host r2)"
      using redact_url_of by blast
    then show ?thesis using 3 by (cases a; cases b) (auto simp: clean_input_def)
  qed (cases a; cases b; simp add: clean_input_def)+
qed

lemma build_record_public:
  assumes "list_all2 same_public inputs1 inputs2"
  shows "build_run_record env command inputs1 report exit_code started_at finished_at err =
    build_run_record env command inputs2 report exit_code started_at finished_at err"
proof -
  have "clean_inputs env inputs1 = clean_inputs env inputs2"
    using assms by (induction rule: list_all2_induct) (auto simp: clean_inputs_def map_filter_simps clean_input_public split: option.split)
  then have "run_fields env command inputs1 report exit_code s f err = run_fields env command inputs2 report exit_code s f err" for s f
    by (simp add: run_fields_def)
  then show ?thesis by (simp only: build_run_record_def)
qed

section \<open>Writing never destroys a record\<close>

lemma next_step_files: "dk_files (snd (next_step d)) = dk_files d"
  by (simp add: next_step_def split: list.splits)

lemma sys_call_files: "sys_call d = (r, d') \<Longrightarrow> dk_files d' = dk_files d"
  using next_step_files[of d] by (auto simp: sys_call_def split: prod.splits io_step.splits)

lemma os_write_files:
  "os_write path data d = (r, d') \<Longrightarrow>
     (\<exists>x. dk_files d' = AList.map_entry path (\<lambda>c. c @ x) (dk_files d) \<and>
        (r = Inr (int (length data)) \<longrightarrow> x = data) \<and> (\<forall>n. r = Inr n \<longrightarrow> x = take (nat n) data)) \<or>
     dk_files d' = dk_files d \<and> (\<exists>e. r = Inl e)"
  using next_step_files[of d]
  by (auto simp: os_write_def min_def nat_le_iff split: prod.splits io_step.splits if_splits)

text \<open>An operation on one path leaves every other file alone.\<close>

definition others :: "string \<Rightarrow> disk \<Rightarrow> disk \<Rightarrow> bool" where
  "others path d d' \<longleftrightarrow> (\<forall>n. n \<noteq> path \<longrightarrow> map_of (dk_files d') n = map_of (dk_files d) n)"

lemma others_refl [simp]: "others path d d"
  by (simp add: others_def)

lemma others_trans: "others path a b \<Longrightarrow> others path b c \<Longrightarrow> others path a c"
  by (simp add: others_def)

lemma others_same: "dk_files d' = dk_files d \<Longrightarrow> others path d d'"
  by (simp add: others_def)

lemma write_all_run:
  "write_all path view d = (r, d') \<Longrightarrow> map_of (dk_files d) path = Some c \<Longrightarrow>
     others path d d' \<and> (\<exists>x. map_of (dk_files d') path = Some (c @ x) \<and> (r = Inr () \<longrightarrow> x = view))"
proof (induction path view d arbitrary: c rule: write_all.induct)
  case (1 path view d)
  obtain w e where w: "os_write path view d = (w, e)" by fastforce
  show ?case
  proof (cases "view = []")
    case True
    then show ?thesis using 1 by simp
  next
    case False
    from os_write_files[OF w] consider
        x where "dk_files e = AList.map_entry path (\<lambda>c. c @ x) (dk_files d)" "\<forall>n. w = Inr n \<longrightarrow> x = take (nat n) view"
      | m where "dk_files e = dk_files d" "w = Inl m" by blast
    then show ?thesis
    proof cases
      case 1
      then have e: "others path d e" "map_of (dk_files e) path = Some (c @ x)"
        using "1.prems" by (simp_all add: others_def map_of_map_entry)
      show ?thesis
      proof (cases "\<exists>n. w = Inr n \<and> 0 < n")
        case True
        then obtain n where n: "w = Inr n" "0 < n" by blast
        then have rec: "write_all path (drop (nat n) view) e = (r, d')" using "1.prems" False w by simp
        have "x = take (nat n) view" using 1(2) n by simp
        then show ?thesis
          using "1.IH"[OF False w[symmetric] n(1) _ rec e(2)] n(2) e(1) others_trans by fastforce
      next
        case False
        then have "d' = e" "r \<noteq> Inr ()" using "1.prems" \<open>view \<noteq> []\<close> w by (auto split: sum.splits if_splits)
        then show ?thesis using e by auto
      qed
    next
      case 2
      then show ?thesis using "1.prems" False w by (auto simp: others_def)
    qed
  qed
qed

lemma open_exclusive_run:
  "open_exclusive path d = (r, d') \<Longrightarrow>
     (r = Inr () \<and> map_of (dk_files d) path = None \<and> others path d d' \<and> map_of (dk_files d') path = Some []) \<or>
     (\<exists>e. r = Inl e) \<and> dk_files d' = dk_files d"
  by (auto simp: open_exclusive_def bindS_def create_file_def others_def update_conv'
      dest: sys_call_files split: prod.splits sum.splits if_splits)

lemma finish_write_run:
  "finish_write path outcome d = (r, d') \<Longrightarrow>
     others path d d' \<and> (r = Inr () \<longrightarrow> outcome = Inr () \<and> dk_files d' = dk_files d)"
  by (auto simp: finish_write_def bindS_def remove_file_def others_def delete_conv' raiseS_def retS_def
      dest!: sys_call_files split: prod.splits sum.splits)

lemma write_exclusive_run:
  assumes "write_exclusive path payload d = (r, d')"
  shows "others path d d' \<and> (map_of (dk_files d) path \<noteq> None \<longrightarrow> dk_files d' = dk_files d \<and> r \<noteq> Inr ()) \<and>
    (r = Inr () \<longrightarrow> map_of (dk_files d') path = Some payload)"
proof -
  obtain r1 d1 where o: "open_exclusive path d = (r1, d1)" by fastforce
  show ?thesis
  proof (cases r1)
    case (Inl e)
    then show ?thesis using open_exclusive_run[OF o] assms o by (auto simp: write_exclusive_def bindS_def others_same)
  next
    case (Inr u)
    then have d1: "map_of (dk_files d) path = None" "others path d d1" "map_of (dk_files d1) path = Some []"
      using open_exclusive_run[OF o] by auto
    obtain r2 d2 where w: "write_all path payload d1 = (r2, d2)" by fastforce
    obtain r3 d3 where b: "bindS (write_all path payload) (\<lambda>_. sys_call) d1 = (r3, d3)" by fastforce
    have f: "finish_write path r3 d3 = (r, d')" using assms o Inr b by (simp add: write_exclusive_def bindS_def[of "open_exclusive path"])
    have d3: "dk_files d3 = dk_files d2" "r3 = Inr () \<longrightarrow> r2 = Inr ()"
      using b w by (auto simp: bindS_def dest: sys_call_files split: sum.splits)
    then have "others path d1 d3" "r3 = Inr () \<longrightarrow> map_of (dk_files d3) path = Some payload"
      using write_all_run[OF w d1(3)] by (auto simp: others_def)
    then show ?thesis using finish_write_run[OF f] d1 others_trans by (metis option.distinct(1))
  qed
qed

text \<open>Every file keeps its content, and nothing changes but files named after the stem.\<close>

definition keeps_files :: "string \<Rightarrow> disk \<Rightarrow> disk \<Rightarrow> bool" where
  "keeps_files stem d d' \<longleftrightarrow>
     (\<forall>n c. map_of (dk_files d) n = Some c \<longrightarrow> map_of (dk_files d') n = Some c) \<and>
     (\<forall>n. (\<nexists>i. n = record_name stem i) \<longrightarrow> map_of (dk_files d') n = map_of (dk_files d) n)"

lemma keeps_files_refl: "dk_files d' = dk_files d \<Longrightarrow> keeps_files stem d d'"
  by (simp add: keeps_files_def)

lemma keeps_files_trans: "keeps_files stem a b \<Longrightarrow> keeps_files stem b c \<Longrightarrow> keeps_files stem a c"
  unfolding keeps_files_def by metis

lemma write_exclusive_keeps:
  "write_exclusive (record_name stem i) payload d = (r, d') \<Longrightarrow> keeps_files stem d d'"
proof -
  assume "write_exclusive (record_name stem i) payload d = (r, d')"
  from write_exclusive_run[OF this]
  have o: "others (record_name stem i) d d'" and e: "map_of (dk_files d) (record_name stem i) \<noteq> None \<Longrightarrow> dk_files d' = dk_files d"
    by auto
  have "map_of (dk_files d') n = Some c" if "map_of (dk_files d) n = Some c" for n c
    using that o e by (cases "n = record_name stem i") (auto simp: others_def)
  then show ?thesis using o by (auto simp: keeps_files_def others_def)
qed

lemma try_names_run:
  "try_names stem payload ns d = (r, d') \<Longrightarrow>
     keeps_files stem d d' \<and>
     (\<forall>name. r = Inr name \<longrightarrow> (\<exists>i. name = record_name stem i) \<and> map_of (dk_files d) name = None \<and>
        map_of (dk_files d') name = Some payload)"
proof (induction stem payload ns d rule: try_names.induct)
  case (1 stem payload d)
  then show ?case by (auto simp: keeps_files_refl)
next
  case (2 stem payload n ns d)
  obtain w e where w: "write_exclusive (record_name stem n) payload d = (w, e)" by fastforce
  note k = write_exclusive_keeps[OF w]
  show ?case
  proof (cases "\<exists>m. w = Inl (FileExistsError m)")
    case True
    then obtain m where m: "w = Inl (FileExistsError m)" by blast
    then have rec: "try_names stem payload ns e = (r, d')" using "2.prems" w by simp
    have none: "map_of (dk_files d) name = None" if "map_of (dk_files e) name = None" for name
      using k that unfolding keeps_files_def by (metis not_None_eq)
    have ih: "keeps_files stem e d' \<and> (\<forall>name. r = Inr name \<longrightarrow> (\<exists>i. name = record_name stem i) \<and>
        map_of (dk_files e) name = None \<and> map_of (dk_files d') name = Some payload)"
      using "2.IH"[OF w[symmetric] m refl rec] .
    show ?thesis using keeps_files_trans[OF k] ih none by (intro conjI allI impI) auto
  next
    case False
    then have "d' = e" "r = Inr (record_name stem n) \<and> w = Inr () \<or> (\<exists>x. r = Inl x)"
      using "2.prems" w by (auto split: sum.splits exn.splits)
    then show ?thesis using k write_exclusive_run[OF w] by auto
  qed
qed

lemma open_append_run:
  "open_append path d = (r, d') \<Longrightarrow>
     others path d d' \<and>
     (r = Inr () \<longrightarrow> map_of (dk_files d') path = Some (case map_of (dk_files d) path of None \<Rightarrow> [] | Some c \<Rightarrow> c)) \<and>
     (r \<noteq> Inr () \<longrightarrow> dk_files d' = dk_files d)"
  by (auto simp: open_append_def bindS_def create_file_def others_def update_conv'
      dest!: sys_call_files split: prod.splits sum.splits if_splits)

lemma append_journal_run:
  assumes "append_journal path line d = (r, d')"
  shows "others path d d' \<and>
    (map_of (dk_files d') path = map_of (dk_files d) path \<or>
     (\<exists>x. map_of (dk_files d') path = Some ((case map_of (dk_files d) path of None \<Rightarrow> [] | Some c \<Rightarrow> c) @ x))) \<and>
    (r = Inr () \<longrightarrow> map_of (dk_files d') path = Some ((case map_of (dk_files d) path of None \<Rightarrow> [] | Some c \<Rightarrow> c) @ line))"
proof -
  let ?old = "case map_of (dk_files d) path of None \<Rightarrow> [] | Some c \<Rightarrow> c"
  obtain r1 d1 where o: "open_append path d = (r1, d1)" by fastforce
  show ?thesis
  proof (cases r1)
    case (Inl e)
    then show ?thesis using open_append_run[OF o] assms o by (auto simp: append_journal_def bindS_def)
  next
    case (Inr u)
    then have d1: "others path d d1" "map_of (dk_files d1) path = Some ?old" using open_append_run[OF o] by auto
    obtain w d2 where w: "os_write path line d1 = (w, d2)" by fastforce
    obtain r3 d3 where b: "bindS (os_write path line) (\<lambda>written.
        bindS (liftS (guardR (written = int (length line)) (OSError ''partial run journal write''))) (\<lambda>_. sys_call)) d1 = (r3, d3)"
      by fastforce
    have f: "bindS sys_call (\<lambda>_. liftS r3) d3 = (r, d')"
      using assms o Inr b by (simp add: append_journal_def bindS_def[of "open_append path"])
    have d3: "dk_files d3 = dk_files d2" "r3 = Inr () \<longrightarrow> w = Inr (int (length line))"
      using b w by (auto simp: bindS_def guardR_def dest: sys_call_files split: sum.splits if_splits)
    have d': "dk_files d' = dk_files d2" "r = Inr () \<longrightarrow> w = Inr (int (length line))"
      using f d3 by (auto simp: bindS_def dest: sys_call_files split: prod.splits sum.splits)
    from os_write_files[OF w] consider
        x where "dk_files d2 = AList.map_entry path (\<lambda>c. c @ x) (dk_files d1)" "w = Inr (int (length line)) \<longrightarrow> x = line"
      | m where "dk_files d2 = dk_files d1" "w = Inl m" by blast
    then show ?thesis
    proof cases
      case 1
      then have "map_of (dk_files d') path = Some (?old @ x)" using d' d1 by (simp add: map_of_map_entry)
      moreover have "others path d d'" using 1 d' d1 by (simp add: others_def map_of_map_entry)
      ultimately show ?thesis using 1(2) d'(2) by auto
    next
      case 2
      then have "others path d d'" "map_of (dk_files d') path = Some (?old @ [])" "r \<noteq> Inr ()"
        using d' d1 by (auto simp: others_def)
      then show ?thesis by blast
    qed
  qed
qed

lemma record_name_journal: "record_name (file_stem started run_id) i \<noteq> ''runs.jsonl''"
  by (simp add: record_name_def file_stem_def)

lemma write_run_record_run:
  assumes "write_run_record env r d = (res, d')"
  obtains (early) e where "res = Inl e" "dk_files d' = dk_files d"
  | (unlisted) e started run_id where "res = Inl e" "keeps_files (file_stem started run_id) d d'"
  | (listed) started run_id payload name entry line d1 where
      "str_member r ''startedAt'' = Inr started" "str_member r ''runId'' = Inr run_id"
      "json_line env indented_style r = Inr payload" "journal_entry r name = Inr entry"
      "json_line env default_style entry = Inr line"
      "\<exists>i. name = record_name (file_stem started run_id) i" "map_of (dk_files d) name = None"
      "keeps_files (file_stem started run_id) d d1" "map_of (dk_files d1) name = Some payload"
      "append_journal ''runs.jsonl'' line d1 = (map_sum id (\<lambda>_. ()) res, d')" "\<forall>x. res = Inr x \<longrightarrow> x = name"
proof (cases "\<exists>d0 started run_id payload. sys_call d = (Inr (), d0) \<and> verify_run_record env r = Inr True \<and>
    str_member r ''startedAt'' = Inr started \<and> str_member r ''runId'' = Inr run_id \<and>
    json_line env indented_style r = Inr payload")
  case False
  obtain x d0 where c: "sys_call d = (x, d0)" by fastforce
  have "(\<exists>e. res = Inl e) \<and> (d' = d \<or> d' = d0)"
    using assms False c
    by (auto simp: write_run_record_def bindS_def split: sum.splits if_splits) metis+
  then show thesis using early sys_call_files[OF c] by auto
next
  case True
  then obtain d0 started run_id payload where c: "sys_call d = (Inr (), d0)" and v: "verify_run_record env r = Inr True"
    "str_member r ''startedAt'' = Inr started" "str_member r ''runId'' = Inr run_id"
    "json_line env indented_style r = Inr payload" by blast
  obtain y d1 where t: "exclusive_record_path (file_stem started run_id) payload d0 = (y, d1)" by fastforce
  note T = try_names_run[OF t[unfolded exclusive_record_path_def]]
  have k: "keeps_files (file_stem started run_id) d d1"
    using T sys_call_files[OF c] keeps_files_trans[OF keeps_files_refl] by blast
  show thesis
  proof (cases "\<exists>name entry line. y = Inr name \<and> journal_entry r name = Inr entry \<and> json_line env default_style entry = Inr line")
    case False
    then have "(\<exists>e. res = Inl e) \<and> d' = d1"
      using assms c v t by (auto simp: write_run_record_def bindS_def split: sum.splits)
    then show thesis using unlisted k by blast
  next
    case True
    then obtain name entry line where n: "y = Inr name" "journal_entry r name = Inr entry" "json_line env default_style entry = Inr line"
      by blast
    obtain z d2 where z: "append_journal ''runs.jsonl'' line d1 = (z, d2)" by fastforce
    have "d' = d2" "res = (case z of Inl e \<Rightarrow> Inl e | Inr u \<Rightarrow> Inr name)"
      using assms c v t n z by (auto simp: write_run_record_def bindS_def split: sum.splits)
    then have "append_journal ''runs.jsonl'' line d1 = (map_sum id (\<lambda>_. ()) res, d')" "\<forall>x. res = Inr x \<longrightarrow> x = name"
      using z by (cases z; simp)+
    moreover have "\<exists>i. name = record_name (file_stem started run_id) i" "map_of (dk_files d) name = None"
      "map_of (dk_files d1) name = Some payload" using T n(1) sys_call_files[OF c] by auto
    ultimately show thesis using listed v n k by blast
  qed
qed

lemma write_never_overwrites_run:
  assumes "write_run_record env r d = (res, d')"
  shows "(\<forall>n c. n \<noteq> ''runs.jsonl'' \<and> map_of (dk_files d) n = Some c \<longrightarrow> map_of (dk_files d') n = Some c) \<and>
    (\<forall>c. map_of (dk_files d) ''runs.jsonl'' = Some c \<longrightarrow> (\<exists>x. map_of (dk_files d') ''runs.jsonl'' = Some (c @ x)))"
  using assms
proof (cases rule: write_run_record_run)
  case (unlisted e started run_id)
  then show ?thesis by (auto simp: keeps_files_def)
next
  case (listed started run_id payload name entry line d1)
  have j: "map_of (dk_files d1) ''runs.jsonl'' = map_of (dk_files d) ''runs.jsonl''"
    using listed(8) record_name_journal unfolding keeps_files_def by metis
  show ?thesis
    using append_journal_run[OF listed(10)] listed(8) j by (auto simp: keeps_files_def others_def split: option.splits)
qed auto

text \<open>
  C16: Writing a run record never destroys an earlier one.  Whatever the operating system
  answers, and whether the write succeeds or fails half-way, every file already in the
  log directory keeps its content, except that the journal may have grown at its end.
\<close>

theorem write_never_overwrites:
  assumes "write_run_record env r d = (res, d')"
  shows "(\<forall>n c. n \<noteq> ''runs.jsonl'' \<and> map_of (dk_files d) n = Some c \<longrightarrow> map_of (dk_files d') n = Some c) \<and>
    (\<forall>c. map_of (dk_files d) ''runs.jsonl'' = Some c \<longrightarrow> (\<exists>x. map_of (dk_files d') ''runs.jsonl'' = Some (c @ x)))"
  using assms by (rule write_never_overwrites_run)

section \<open>Instances\<close>

definition demo_run_env :: run_env where
  "demo_run_env =
     \<lparr>re_sha256 = \<lambda>b. ''0a1b'', re_version = ''0.1'', re_python = ''3.12'', re_platform = ''linux'', re_machine = ''x86'',
      re_text = \<lambda>v. ''?'', re_seconds = \<lambda>us. Finite 3 (- 1), re_float_text = \<lambda>f. ''1.5'', re_float = \<lambda>s. Finite 3 (- 1),
      re_depth = 10, re_ip6 = \<lambda>h. False\<rparr>"

definition demo_inputs :: "string \<Rightarrow> string \<Rightarrow> (string \<times> pyval) list" where
  "demo_inputs path key =
     [(''rail'', PStr ''base''), (''rpc_url'', PStr (''https://node.example:8545'' @ path)), (''api_key'', PStr key)]"

definition demo_record :: pydict where
  "demo_record =
     (case build_run_record demo_run_env ''reconcile'' (demo_inputs ''/v2/k'' ''k'') None 0 (Aware 5000000) (Aware 6500000) None of
        Inr r \<Rightarrow> r | Inl e \<Rightarrow> [])"

lemma demo_built:
  "build_run_record demo_run_env ''reconcile'' (demo_inputs ''/v2/k'' ''k'') None 0 (Aware 5000000) (Aware 6500000) None =
     Inr demo_record"
  by code_simp

theorem built_record_faithful_witness:
  "verify_run_record demo_run_env demo_record = Inr True \<and> dict_get demo_record ''consistent'' = PBool True"
  using built_record_faithful[OF demo_built] by simp

lemma demo_inputs_public: "list_all2 same_public (demo_inputs ''/v2/k'' ''k'') (demo_inputs ''/v3/other?q=1#f'' ''z'')"
proof -
  let ?h = "''node.example:8545''"
  have ok: "url_ok ''https'' [] ?h ''/v2/k''" "url_ok ''https'' [] ?h ''/v3/other?q=1#f''" by code_simp+
  have u: "''https://node.example:8545'' @ r = url_of ''https'' [] ?h r" for r by (simp add: url_of_def)
  have "same_public (''rpc_url'', PStr (''https://node.example:8545'' @ ''/v2/k'')) (''rpc_url'', PStr (''https://node.example:8545'' @ ''/v3/other?q=1#f''))"
    unfolding same_public_def fst_conv snd_conv u using ok by blast
  moreover have "secret_name ''api_key''" by code_simp
  ultimately show ?thesis
    unfolding demo_inputs_def by (simp add: same_public_def[of "(''rail'', _)"] same_public_def[of "(''api_key'', _)"])
qed

theorem checksum_determines_record_witness:
  "map_option sort_keys (map_of demo_record (PStr ''command'')) = map_option sort_keys (map_of (rev demo_record) (PStr ''command''))"
proof (rule checksum_determines_record)
  show "verify_run_record demo_run_env demo_record = Inr True" "verify_run_record demo_run_env (rev demo_record) = Inr True"
    "dict_get demo_record ''runId'' = dict_get (rev demo_record) ''runId''"
    "json_plain (re_float_text demo_run_env) (re_float demo_run_env) 10 (PDict (record_payload demo_record))"
    "json_plain (re_float_text demo_run_env) (re_float demo_run_env) 10 (PDict (record_payload (rev demo_record)))"
    by code_simp+
  have "dumps compact_style (re_float_text demo_run_env) (PDict (record_payload demo_record)) =
    dumps compact_style (re_float_text demo_run_env) (PDict (record_payload (rev demo_record)))" by code_simp
  then show "t1 = t2" if "dumps compact_style (re_float_text demo_run_env) (PDict (record_payload demo_record)) = Inr t1"
    "dumps compact_style (re_float_text demo_run_env) (PDict (record_payload (rev demo_record))) = Inr t2" for t1 t2
    using that by simp
qed simp

definition used_disk :: disk where
  "used_disk = \<lparr>dk_files = [(''old.json'', [1, 2]), (''runs.jsonl'', [3])], dk_plan = [Done, Done, Short 7, Fail]\<rparr>"

theorem write_never_overwrites_witness:
  "map_of (dk_files (snd (write_run_record demo_run_env demo_record used_disk))) ''old.json'' = Some [1, 2]"
proof -
  obtain res d' where "write_run_record demo_run_env demo_record used_disk = (res, d')" by fastforce
  from this write_never_overwrites[OF this] show ?thesis by (auto simp: used_disk_def)
qed

end
