(* ===== verification/Log_Directory.thy ===== *)
theory Log_Directory
  imports Run_Journal
begin

text \<open>
  A log directory that only successful writes of built records, and failed ones that did not reach the journal, have filled:
  its journal verifies without findings.  The step relation interleaves any number of runs.
\<close>

section \<open>The characters of a JSON text\<close>

definition printable :: "char \<Rightarrow> bool" where
  "printable c \<longleftrightarrow> 32 \<le> code c \<and> code c \<le> 126"

lemma printable_digit: "is_hex c \<Longrightarrow> printable c"
  using is_hex_code[of c] by (auto simp: printable_def is_hex_def hex_chars_def code_def)

lemma digits_printable: "c \<in> set (py_str_int n) \<Longrightarrow> printable c"
proof -
  have m: "printable (CHR ''-'')" by code_simp
  assume "c \<in> set (py_str_int n)"
  then have "c = CHR ''-'' \<or> is_dec c"
    using digits_of_chars[of 10 n c] digits_of_chars[of 10 "- n" c] by (auto simp: py_str_int_def split: if_splits)
  then show ?thesis using m printable_digit[OF is_dec_hex] by blast
qed

lemma json_char_printable: "c \<in> set (json_char True x) \<Longrightarrow> printable c"
proof -
  have l: "\<forall>c\<in>set [CHR 0x22, CHR 0x5C, CHR ''n'', CHR ''r'', CHR ''t'', CHR ''f'', CHR ''b'', CHR ''u'', CHR ''0'']. printable c"
    by code_simp
  have d: "printable (digit_char (code x div 16))" "printable (digit_char (code x mod 16))"
    using code_bounds[of x] print_digit[of "code x div 16"] print_digit[of "code x mod 16"]
    by (auto intro!: printable_digit)
  assume "c \<in> set (json_char True x)"
  then show ?thesis using l d by (auto simp: json_char_def printable_def split: if_splits)
qed

lemma number_printable:
  assumes "float_text s" "c \<in> set s"
  shows "printable c"
proof -
  have l: "\<forall>c\<in>set ''-+.eE0''. printable c" by code_simp
  have d: "printable c" if "c \<in> set (takeWhile is_dec t)" for c t
    using that printable_digit[OF is_dec_hex] by (auto dest: set_takeWhileD)
  have "printable c" if "c \<in> set (int_part t)" for c t
    using that l d by (auto simp: int_part_def Let_def split: if_splits)
  moreover have "printable c" if "c \<in> set (frac_part t)" for c t
    using that l d by (auto simp: frac_part_def split: if_splits)
  moreover have "printable c" if "c \<in> set (exp_part t)" for c t
  proof -
    have "take 1 t = ''e'' \<or> take 1 t = ''E''" if "startswith t ''e'' \<or> startswith t ''E''" for t
      using that by (cases t) auto
    moreover have "take 1 t = ''-'' \<or> take 1 t = ''+''" if "startswith t ''-'' \<or> startswith t ''+''" for t
      using that by (cases t) auto
    ultimately show ?thesis using that l d by (auto simp: exp_part_def Let_def split: if_splits) force+
  qed
  moreover have "s = int_part s @ frac_part (drop (length (int_part s)) s) @
      exp_part (drop (length (frac_part (drop (length (int_part s)) s))) (drop (length (int_part s)) s))"
    using assms(1) by (auto simp: float_text_def json_number_def Let_def split: if_splits)
  ultimately show ?thesis using assms(2) by (metis Un_iff set_append)
qed

lemma json_str_printable: "c \<in> set (json_str True t) \<Longrightarrow> printable c"
proof -
  have "printable (CHR 0x22)" by code_simp
  then show "c \<in> set (json_str True t) \<Longrightarrow> ?thesis" using json_char_printable by (auto simp: json_str_def)
qed

definition line_char :: "json_style \<Rightarrow> char \<Rightarrow> bool" where
  "line_char st c \<longleftrightarrow> printable c \<or> c = CHR 0x0A \<and> js_indent st \<noteq> None"

definition plain_style :: "json_style \<Rightarrow> bool" where
  "plain_style st \<longleftrightarrow> js_ascii st \<and> (\<forall>c\<in>set (js_item_sep st @ js_key_sep st). printable c)"

lemma newline_chars: "c \<in> set (json_newline st lv) \<Longrightarrow> line_char st c"
proof -
  have "printable (CHR '' '')" by code_simp
  then show "c \<in> set (json_newline st lv) \<Longrightarrow> ?thesis"
    by (cases "js_indent st") (auto simp: json_newline_def line_char_def)
qed

lemma style_chars:
  assumes "plain_style st"
  shows "c \<in> set (js_item_sep st) \<Longrightarrow> line_char st c" "c \<in> set (js_key_sep st) \<Longrightarrow> line_char st c"
    "c \<in> set (json_str (js_ascii st) t) \<Longrightarrow> line_char st c"
  using assms json_str_printable by (auto simp: plain_style_def line_char_def)

lemma json_text_chars:
  "json_plain ft pf dep v \<Longrightarrow> plain_style st \<Longrightarrow> \<forall>c\<in>set (json_text st ft lv v). line_char st c"
  "plain_items ft pf dep vs \<Longrightarrow> plain_style st \<Longrightarrow> \<forall>c\<in>set (json_items st ft lv vs). line_char st c"
  "plain_fields ft pf dep kvs \<Longrightarrow> plain_style st \<Longrightarrow> \<forall>c\<in>set (json_fields st ft lv kvs). line_char st c"
proof (induction ft pf dep v and ft pf dep vs and ft pf dep kvs arbitrary: lv and lv and lv
    rule: json_plain_plain_items_plain_fields.induct)
  case (1 ft pf dep v)
  have l: "\<forall>c\<in>set ''nulltruefalse[]{}''. line_char st c" by (simp add: line_char_def) code_simp
  show ?case
  proof (cases v)
    case (PInt n)
    then show ?thesis using digits_printable by (auto simp: line_char_def)
  next
    case (PFloat f)
    then show ?thesis using "1.prems" number_printable by (cases f) (auto simp: line_char_def json_float_def)
  next
    case (PStr t)
    then show ?thesis using "1.prems" style_chars(3)[of st] by auto
  next
    case (PList xs)
    then have "\<forall>c\<in>set (json_items st ft (lv + 1) xs). line_char st c" using 1 by auto
    then show ?thesis using PList l newline_chars by (auto simp del: json_plain.simps)
  next
    case (PDict kvs)
    then have "\<forall>c\<in>set (json_fields st ft (lv + 1) kvs). line_char st c" using 1 by auto
    then show ?thesis using PDict l newline_chars by (auto simp del: json_plain.simps)
  qed (use 1 l in auto)
next
  case (3 ft pf dep x xs)
  then show ?case using newline_chars style_chars[of st] by (auto simp del: json_text.simps json_plain.simps)
next
  case (5 ft pf dep k x kvs)
  then show ?case using newline_chars style_chars[of st] by (auto simp del: json_text.simps json_plain.simps)
qed simp_all

section \<open>Reading a file of lines\<close>

lemma universal_id: "CHR 0x0D \<notin> set s \<Longrightarrow> universal_newlines s = s"
  by (induction s rule: universal_newlines.induct) auto

lemma printable_inner: "printable c \<Longrightarrow> \<not> line_boundary c" "\<not> printable (CHR 0x0D)"
proof -
  show "printable c \<Longrightarrow> \<not> line_boundary c" by (auto simp: printable_def line_boundary_def)
  show "\<not> printable (CHR 0x0D)" by code_simp
qed

lemma split_one_line:
  "\<forall>c\<in>set l. printable c \<Longrightarrow> split_lines cur (l @ CHR 0x0A # t) = (rev cur @ l) # split_lines [] t"
proof (induction l arbitrary: cur)
  case Nil
  have "line_boundary (CHR 0x0A)" by code_simp
  then show ?case by simp
next
  case (Cons c l)
  then show ?case using printable_inner by simp
qed

lemma split_lines_concat:
  "\<forall>l\<in>set ls. \<forall>c\<in>set l. printable c \<Longrightarrow> split_lines [] (concat (map (\<lambda>l. l @ [CHR 0x0A]) ls)) = ls"
  by (induction ls) (simp_all add: split_one_line)

section \<open>What a logged run looks like\<close>

type_synonym logged_run = "pydict \<times> string \<times> pydict"

abbreviation entry_text :: "run_env \<Rightarrow> pydict \<Rightarrow> string" where
  "entry_text env e \<equiv> json_text default_style (re_float_text env) 0 (PDict e)"

abbreviation record_text :: "run_env \<Rightarrow> pydict \<Rightarrow> string" where
  "record_text env r \<equiv> json_text indented_style (re_float_text env) 0 (PDict r) @ [CHR 0x0A]"

definition plain_record :: "run_env \<Rightarrow> pydict \<Rightarrow> bool" where
  "plain_record env r \<longleftrightarrow> json_plain (re_float_text env) (re_float env) (re_depth env) (PDict r)"

definition logged_ok :: "run_env \<Rightarrow> disk \<Rightarrow> logged_run \<Rightarrow> bool" where
  "logged_ok env d x =
     (case x of (r, n, e) \<Rightarrow>
        map_of (dk_files d) n = Some (utf8_encode (record_text env r)) \<and> n \<noteq> ''runs.jsonl'' \<and> safe_name n \<and> CHR 0x00 \<notin> set n \<and>
        verify_run_record env r = Inr True \<and> plain_record env r \<and> journal_entry r n = Inr e)"

definition journal_of :: "run_env \<Rightarrow> logged_run list \<Rightarrow> string" where
  "journal_of env xs = concat (map (\<lambda>l. l @ [CHR 0x0A]) (map (\<lambda>(r, n, e). entry_text env e) xs))"

definition logged :: "run_env \<Rightarrow> disk \<Rightarrow> logged_run list \<Rightarrow> bool" where
  "logged env d xs \<longleftrightarrow>
     (case map_of (dk_files d) ''runs.jsonl'' of
        None \<Rightarrow> xs = []
      | Some c \<Rightarrow> c = utf8_encode (journal_of env xs)) \<and> (\<forall>x\<in>set xs. logged_ok env d x)"

lemma styles_plain: "plain_style default_style" "plain_style indented_style" "js_indent default_style = None"
  by code_simp+

lemma plain_reader_faithful: "faithful_reader (plain_reader env) (re_float env)"
proof -
  have "plain_object kvs = Inr (obj kvs)" if "distinct (map fst kvs)" for kvs
  proof -
    have "distinct (map fst kvs) \<Longrightarrow> \<forall>k\<in>fst ` set kvs. map_of d (PStr k) = None \<Longrightarrow>
        foldl (\<lambda>d (k, v). dict_set d k v) d kvs = d @ obj kvs" for d
    proof (induction kvs arbitrary: d)
      case (Cons kv kvs)
      obtain k v where kv: "kv = (k, v)" by fastforce
      have "dict_set d k v = d @ [(PStr k, v)]" using Cons.prems kv by (intro dict_set_fresh) auto
      moreover have "\<forall>j\<in>fst ` set kvs. map_of (d @ [(PStr k, v)]) (PStr j) = None"
        using Cons.prems kv by (auto simp: map_add_def)
      ultimately show ?case using Cons kv by (simp add: obj_def)
    qed (simp add: obj_def)
    from this[of "[]"] that show ?thesis by (simp add: plain_object_def)
  qed
  then show ?thesis by (simp add: faithful_reader_def plain_reader_def)
qed

lemma entry_plain:
  assumes "plain_record env r" "journal_entry r n = Inr e"
  shows "json_plain (re_float_text env) (re_float env) (re_depth env) (PDict e)"
    and "dict_get e ''file'' = PStr n" "dict_get e ''runId'' = dict_get r ''runId''"
proof -
  let ?p = "json_plain (re_float_text env) (re_float env)"
  have d: "0 < re_depth env" "\<forall>(k, x)\<in>set r. is_str k \<and> ?p (re_depth env - 1) x"
    using assms(1) by (simp_all add: plain_record_def plain_fields_iff)
  obtain k where k: "re_depth env = Suc k" using d(1) by (cases "re_depth env") auto
  have m: "?p k v" if "map_of r (PStr q) = Some v" for q v
    using d(2) k map_of_SomeD[OF that] by (auto simp del: json_plain.simps)
  from assms(2) obtain a b c f g h where e: "e = obj [(''runId'', a), (''startedAt'', b), (''command'', c), (''consistent'', f),
      (''exitCode'', g), (''error'', h), (''file'', PStr n)]" and
    v: "map_of r (PStr ''runId'') = Some a" "map_of r (PStr ''startedAt'') = Some b" "map_of r (PStr ''command'') = Some c"
      "map_of r (PStr ''consistent'') = Some f" "map_of r (PStr ''exitCode'') = Some g" "map_of r (PStr ''error'') = Some h"
    by (auto simp: journal_entry_def ok_iff)
  have "?p k (PStr n)" by simp
  then have "plain_fields (re_float_text env) (re_float env) k e"
    using v m by (auto simp: e obj_def is_str_def simp del: json_plain.simps)
  moreover have "distinct (map fst e)" by (simp add: e obj_def)
  ultimately show "?p (re_depth env) (PDict e)" using k by simp
  show "dict_get e ''file'' = PStr n" "dict_get e ''runId'' = dict_get r ''runId''"
    using v(1) by (simp_all add: e dict_get_obj dict_get_def[of r])
qed

lemma logged_record_clean:
  assumes "logged_ok env d (r, n, e)"
  shows "check_line env d k (entry_text env e) = Inr None"
proof -
  have x: "map_of (dk_files d) n = Some (utf8_encode (record_text env r))" "safe_name n" "CHR 0x00 \<notin> set n"
    "verify_run_record env r = Inr True" "plain_record env r" "journal_entry r n = Inr e"
    using assms by (auto simp: logged_ok_def simp del: json_text.simps)
  note e = entry_plain[OF x(5,6)]
  have l: "loads (plain_reader env) (re_depth env) (entry_text env e) = Inr (PDict e)"
    using loads_text(1)[OF good_styles(1) plain_reader_faithful e(1)] .
  have "\<forall>c\<in>set (record_text env r). line_char indented_style c"
    using json_text_chars(1)[OF x(5)[unfolded plain_record_def] styles_plain(2)]
    by (auto simp: line_char_def indented_style_def simp del: json_text.simps)
  then have "CHR 0x0D \<notin> set (record_text env r)"
    using printable_inner(2) by (auto simp: line_char_def simp del: json_text.simps)
  then have "read_text n d = Inr (record_text env r)"
    using x(1,3) by (simp add: read_text_def utf8_roundtrip universal_id del: json_text.simps)
  moreover have "loads (plain_reader env) (re_depth env) (record_text env r) = Inr (PDict r)"
    using loads_text(2)[OF good_styles(2) plain_reader_faithful x(5)[unfolded plain_record_def]] .
  ultimately have "check_record env d k e n = Inr None"
    using x(4) e(3) by (simp add: check_record_def del: json_text.simps)
  then show ?thesis using l e(2) x(2) by (simp add: check_line_def del: json_text.simps)
qed

lemma logged_verifies:
  assumes "logged env d xs" "map_of (dk_files d) ''runs.jsonl'' \<noteq> None"
  shows "verify_run_journal env d = Inr []"
proof -
  let ?ls = "map (\<lambda>(r, n, e). entry_text env e) xs"
  have ok: "\<forall>x\<in>set xs. logged_ok env d x" using assms(1) by (simp add: logged_def)
  have c: "map_of (dk_files d) ''runs.jsonl'' = Some (utf8_encode (journal_of env xs))"
    using assms by (auto simp: logged_def)
  have lines: "\<forall>l\<in>set ?ls. \<forall>c\<in>set l. printable c"
  proof (intro ballI)
    fix l c assume "l \<in> set ?ls" "c \<in> set l"
    then obtain r n e where x: "(r, n, e) \<in> set xs" "l = entry_text env e" by (auto simp del: json_text.simps)
    then have "plain_record env r" "journal_entry r n = Inr e" using ok by (auto simp: logged_ok_def simp del: json_text.simps)
    from json_text_chars(1)[OF entry_plain(1)[OF this] styles_plain(1)] \<open>c \<in> set l\<close> x(2)
    show "printable c" by (auto simp: line_char_def styles_plain(3) simp del: json_text.simps)
  qed
  then have "CHR 0x0D \<notin> set (journal_of env xs)"
    using printable_inner(2) unfolding journal_of_def by (auto simp del: json_text.simps)
  moreover have "check_lines env d k (map (\<lambda>(r, n, e). entry_text env e) ys) = Inr []" if "set ys \<subseteq> set xs" for k ys
    using that ok
  proof (induction ys arbitrary: k)
    case (Cons y ys)
    obtain r n e where "y = (r, n, e)" by (metis prod_cases3)
    then show ?case using Cons logged_record_clean[of env d r n e] by (simp del: json_text.simps)
  qed simp
  ultimately show ?thesis
    using c split_lines_concat[OF lines]
    by (simp add: verify_run_journal_def read_text_def utf8_roundtrip universal_id journal_of_def del: json_text.simps map_map)
qed

section \<open>File names\<close>

definition name_char :: "char \<Rightarrow> bool" where
  "name_char c \<longleftrightarrow> is_hex c \<or> c \<in> set ''-+T:.runjsonsha''"

definition hex_digest :: "run_env \<Rightarrow> bool" where
  "hex_digest env \<longleftrightarrow> (\<forall>b. \<forall>c\<in>set (re_sha256 env b). is_hex c)"

lemma name_char_safe: "\<not> name_char (CHR ''/'')" "\<not> name_char (CHR 0x00)"
  by code_simp+

lemma int_name_chars: "c \<in> set (py_str_int n) \<Longrightarrow> name_char c"
  using digits_of_chars[of 10 n c] digits_of_chars[of 10 "- n" c]
  by (auto simp: py_str_int_def name_char_def is_dec_hex split: if_splits)

lemma pad_chars: "c \<in> set (pad k n) \<Longrightarrow> name_char c"
proof -
  have "name_char (CHR ''0'')" by code_simp
  then show "c \<in> set (pad k n) \<Longrightarrow> ?thesis" using int_name_chars[of c n] by (auto simp: pad_def rjust_def)
qed

lemma isoformat_chars: "\<forall>c\<in>set (isoformat us). name_char c"
proof -
  have l: "name_char (CHR ''-'')" "name_char (CHR ''T'')" "name_char (CHR '':'')" "name_char (CHR ''.'')"
    "name_char (CHR ''+'')" "name_char (CHR ''0'')" by code_simp+
  have p: "\<forall>c\<in>set (pad k n). name_char c" for k n using pad_chars by blast
  obtain y m d where "civil (us div 86400000000) = (y, m, d)" by (metis prod_cases3)
  then show ?thesis using p l by (simp add: isoformat_def Let_def ball_Un)
qed

lemma stem_chars:
  assumes "\<forall>c\<in>set started. name_char c" "\<forall>c\<in>set digest. is_hex c"
    and "c \<in> set (record_name (file_stem started (''sha256:'' @ digest)) i)"
  shows "name_char c"
proof -
  have l: "\<forall>c\<in>set ''run-.json''. name_char c" by code_simp
  have "name_char c" if "c \<in> set (take 12 digest)" for c using that assms(2) by (auto simp: name_char_def dest: in_set_takeD)
  moreover have "name_char c" if "c \<in> set (filter (\<lambda>c. c \<notin> set '':-.'') started)" for c using that assms(1) by simp
  ultimately show ?thesis
    using assms(3) l int_name_chars by (auto simp: record_name_def file_stem_def remove_prefix_def split: if_splits)
qed

section \<open>Runs of the log directory\<close>

text \<open>
  One run: a record is built from any invocation, and its write succeeds, or fails and leaves the
  journal as it was.
\<close>

inductive log_step :: "run_env \<Rightarrow> disk \<Rightarrow> disk \<Rightarrow> bool" where
  logged: "\<lbrakk>build_run_record env command inputs report ec started finished err = Inr r; plain_record env r;
            write_run_record env r d = (Inr name, d')\<rbrakk> \<Longrightarrow> log_step env d d'"
| failed: "\<lbrakk>build_run_record env command inputs report ec started finished err = Inr r;
            write_run_record env r d = (Inl e, d');
            map_of (dk_files d') ''runs.jsonl'' = map_of (dk_files d) ''runs.jsonl''\<rbrakk> \<Longrightarrow> log_step env d d'"

lemma logged_kept:
  assumes "logged env d xs" "\<forall>n c. n \<noteq> ''runs.jsonl'' \<and> map_of (dk_files d) n = Some c \<longrightarrow> map_of (dk_files d') n = Some c"
  shows "\<forall>x\<in>set xs. logged_ok env d' x"
  using assms by (auto simp: logged_def logged_ok_def simp del: json_text.simps)

lemma utf8_append: "utf8_encode (s @ t) = utf8_encode s @ utf8_encode t"
  by (simp add: utf8_encode_def)

lemma built_names:
  assumes "build_run_record env command inputs report ec started_at finished_at err = Inr r" "hex_digest env"
    and "str_member r ''startedAt'' = Inr started" "str_member r ''runId'' = Inr run_id"
    and "name = record_name (file_stem started run_id) i"
  shows "safe_name name \<and> CHR 0x00 \<notin> set name"
proof -
  from assms(1) obtain s f h where h: "content_hash env (obj (run_fields env command inputs report ec s f err)) = Inr h"
    and r: "r = obj (run_fields env command inputs report ec s f err) @ [(PStr ''runId'', PStr h)]"
    by (rule built_record)
  obtain t where t: "h = ''sha256:'' @ re_sha256 env t" using h by (auto simp: content_hash_def ok_iff)
  have "map_of r (PStr ''startedAt'') = Some (PStr (isoformat s))" "map_of r (PStr ''runId'') = Some (PStr h)"
    unfolding r built_lookup by (simp_all add: run_fields_def)
  then have "started = isoformat s" "run_id = ''sha256:'' @ re_sha256 env t"
    using assms(3,4) t by (auto simp: str_member_def dict_item_def)
  then have c: "\<forall>c\<in>set name. name_char c"
    using stem_chars[of started "re_sha256 env t" _ i] isoformat_chars assms(2,5) by (auto simp: hex_digest_def)
  moreover have "name \<noteq> ''.''" using assms(5) by (simp add: record_name_def file_stem_def)
  ultimately show ?thesis using name_char_safe by (auto simp: safe_name_def)
qed

lemma json_line_plain:
  assumes "json_plain (re_float_text env) pf dep (PDict d)" "\<not> js_sort st" "json_line env st d = Inr b"
  shows "b = utf8_encode (json_text st (re_float_text env) 0 (PDict d) @ [CHR 0x0A])"
  using assms(2,3) dumps_plain[OF assms(1), of st] by (auto simp: json_line_def ok_iff simp del: json_text.simps)

lemma log_step_logged:
  assumes "log_step env d d'" "logged env d xs" "hex_digest env"
  shows "\<exists>ys. logged env d' ys"
  using assms(1)
proof (cases rule: log_step.cases)
  case (failed command inputs report ec started finished err r e)
  have "logged env d' xs"
    using assms(2) failed(3) logged_kept[OF assms(2)] write_never_overwrites_run[OF failed(2)] by (simp add: logged_def)
  then show ?thesis by blast
next
  case (logged command inputs report ec started finished err r name)
  from logged(3) show ?thesis
  proof (cases rule: write_run_record_run)
    case (listed started' run_id payload name' entry line d1)
    then have n: "name' = name" by simp
    have j: "map_of (dk_files d1) ''runs.jsonl'' = map_of (dk_files d) ''runs.jsonl''"
      using listed(8) record_name_journal unfolding keeps_files_def by metis
    have app: "append_journal ''runs.jsonl'' line d1 = (Inr (), d')" using listed(10) by simp
    note a = append_journal_run[OF app]
    have payload: "payload = utf8_encode (record_text env r)"
      using json_line_plain[OF logged(2)[unfolded plain_record_def] _ listed(3)] by (simp add: indented_style_def default_style_def)
    have line: "line = utf8_encode (entry_text env entry @ [CHR 0x0A])"
      using json_line_plain[OF entry_plain(1)[OF logged(2) listed(4)] _ listed(5)] by (simp add: default_style_def)
    have nj: "name \<noteq> ''runs.jsonl''" using listed(6) n record_name_journal by auto
    have safe: "safe_name name \<and> CHR 0x00 \<notin> set name"
      using listed(1,2,6) n built_names[OF logged(1) assms(3)] by blast
    have stored: "map_of (dk_files d') name = Some payload" using a nj n listed(9) by (simp add: others_def)
    have new: "logged_ok env d' (r, name, entry)"
      using stored payload nj safe built_verifies[OF logged(1)] logged(2) listed(4) n by (simp add: logged_ok_def del: json_text.simps)
    have "map_of (dk_files d') ''runs.jsonl'' = Some (utf8_encode (journal_of env (xs @ [(r, name, entry)])))"
      using a j assms(2) line
      by (auto simp: logged_def journal_of_def utf8_append utf8_encode_def simp del: json_text.simps split: option.splits)
    then have "logged env d' (xs @ [(r, name, entry)])"
      using new logged_kept[OF assms(2)] write_never_overwrites_run[OF logged(3)] by (auto simp: logged_def)
    then show ?thesis by blast
  qed simp_all
qed

text \<open>
  C15: A log directory verifies.  Start from an empty directory and let any runs be recorded, one after the
  other, with any answers of the operating system, as long as each write succeeds or fails before
  it reaches the journal; then, once there is a journal, verification finds nothing wrong:
  every line names a record that is there, is intact and has the line's run id.
\<close>

theorem log_directory_verifies:
  assumes "(log_step env)\<^sup>*\<^sup>* d0 d" "dk_files d0 = []" "hex_digest env" "map_of (dk_files d) ''runs.jsonl'' \<noteq> None"
  shows "verify_run_journal env d = Inr []"
proof -
  have "\<exists>xs. logged env d xs"
    using assms(1)
  proof (induction rule: rtranclp_induct)
    case base
    then show ?case using assms(2) by (auto simp: logged_def intro!: exI[of _ "[]"])
  next
    case (step y z)
    then show ?case using log_step_logged assms(3) by blast
  qed
  then show ?thesis using logged_verifies assms(4) by blast
qed

section \<open>Writing succeeds when nothing fails\<close>

lemma quiet_calls:
  assumes "dk_plan d = []"
  shows "sys_call d = (Inr (), d)"
    and "os_write path data d = (Inr (int (length data)), d\<lparr>dk_files := AList.map_entry path (\<lambda>c. c @ data) (dk_files d)\<rparr>)"
  using assms by (simp_all add: sys_call_def os_write_def next_step_def)

lemma quiet_write_all: "dk_plan d = [] \<Longrightarrow> \<exists>d'. write_all path view d = (Inr (), d') \<and> dk_plan d' = []"
  by (cases "view = []") (simp_all add: quiet_calls)

lemma quiet_write_exclusive:
  assumes "dk_plan d = []" "map_of (dk_files d) path = None"
  shows "\<exists>d'. write_exclusive path payload d = (Inr (), d') \<and> dk_plan d' = []"
proof -
  let ?d = "d\<lparr>dk_files := AList.update path [] (dk_files d)\<rparr>"
  have "open_exclusive path d = (Inr (), ?d)"
    using assms by (simp add: open_exclusive_def bindS_def quiet_calls create_file_def)
  moreover obtain d1 where "write_all path payload ?d = (Inr (), d1)" "dk_plan d1 = []"
    using quiet_write_all[of ?d] assms(1) by auto
  ultimately show ?thesis
    by (simp add: write_exclusive_def bindS_def quiet_calls finish_write_def del: write_all.simps)
qed

lemma quiet_append:
  assumes "dk_plan d = []"
  shows "\<exists>d'. append_journal path line d = (Inr (), d')"
  using assms by (simp add: append_journal_def open_append_def bindS_def quiet_calls create_file_def)

lemma built_members:
  assumes "build_run_record env command inputs report ec started_at finished_at err = Inr r"
  obtains s h where "str_member r ''startedAt'' = Inr (isoformat s)" "str_member r ''runId'' = Inr h"
    "\<And>n. \<exists>e. journal_entry r n = Inr e"
proof -
  from assms obtain s f h where r: "r = obj (run_fields env command inputs report ec s f err) @ [(PStr ''runId'', PStr h)]"
    by (rule built_record)
  have "dict_item r ''runId'' = Inr (PStr h)" "dict_item r ''startedAt'' = Inr (PStr (isoformat s))"
    "dict_item r ''command'' = Inr (PStr command)" "dict_item r ''exitCode'' = Inr (PInt ec)"
    "dict_item r ''consistent'' = Inr (PBool (err = None \<and> ec = 0))"
    "dict_item r ''error'' = Inr (case err of None \<Rightarrow> PNone | Some m \<Rightarrow> PStr m)"
    unfolding dict_item_def r built_lookup by (simp_all add: run_fields_def)
  then show thesis using that by (simp add: str_member_def journal_entry_def)
qed

lemma write_succeeds:
  assumes "build_run_record env command inputs report ec started_at finished_at err = Inr r" "plain_record env r"
    and "dk_plan d = []" "\<And>n. startswith n ''run-'' \<Longrightarrow> map_of (dk_files d) n = None"
  shows "\<exists>name d'. write_run_record env r d = (Inr name, d') \<and> map_of (dk_files d') ''runs.jsonl'' \<noteq> None"
proof -
  from assms(1) obtain s h where m: "str_member r ''startedAt'' = Inr (isoformat s)" "str_member r ''runId'' = Inr h"
    and j: "\<And>n. \<exists>e. journal_entry r n = Inr e" by (rule built_members) blast
  let ?n = "record_name (file_stem (isoformat s) h) 0"
  obtain e where e: "journal_entry r ?n = Inr e" using j by blast
  have line: "\<exists>b. json_line env st q = Inr b" if "plain_record env q" for st q
    using dumps_plain[OF that[unfolded plain_record_def], of st] by (auto simp: json_line_def ok_iff simp del: json_text.simps)
  obtain p where p: "json_line env indented_style r = Inr p" using line[OF assms(2)] by blast
  obtain l where l: "json_line env default_style e = Inr l"
    using line[of e] entry_plain(1)[OF assms(2) e] by (auto simp: plain_record_def)
  have "map_of (dk_files d) ?n = None" by (rule assms(4)) (simp add: record_name_def file_stem_def)
  then obtain d1 where d1: "write_exclusive ?n p d = (Inr (), d1)" "dk_plan d1 = []"
    using quiet_write_exclusive assms(3) by blast
  then have x: "exclusive_record_path (file_stem (isoformat s) h) p d = (Inr ?n, d1)"
    using upt_conv_Cons[of 0 10000] by (simp add: exclusive_record_path_def)
  obtain d2 where d2: "append_journal ''runs.jsonl'' l d1 = (Inr (), d2)" using quiet_append[OF d1(2)] by blast
  have "write_run_record env r d = (Inr ?n, d2)"
    using built_verifies[OF assms(1)] m p x e l d2 quiet_calls(1)[OF assms(3)] by (simp add: write_run_record_def bindS_def)
  moreover have "map_of (dk_files d2) ''runs.jsonl'' \<noteq> None" using append_journal_run[OF d2] by simp
  ultimately show ?thesis by blast
qed

section \<open>An instance\<close>

definition empty_disk :: disk where
  "empty_disk = \<lparr>dk_files = [], dk_plan = []\<rparr>"

lemma demo_written:
  "\<exists>name d'. write_run_record demo_run_env demo_record empty_disk = (Inr name, d') \<and> map_of (dk_files d') ''runs.jsonl'' \<noteq> None"
proof (rule write_succeeds[OF demo_built])
  show "plain_record demo_run_env demo_record" by code_simp
qed (simp_all add: empty_disk_def)

theorem log_directory_verifies_witness:
  "verify_run_journal demo_run_env (snd (write_run_record demo_run_env demo_record empty_disk)) = Inr []"
proof -
  obtain d' name where w: "write_run_record demo_run_env demo_record empty_disk = (Inr name, d')"
    and j: "map_of (dk_files d') ''runs.jsonl'' \<noteq> None" using demo_written by blast
  have "plain_record demo_run_env demo_record" by code_simp
  then have "(log_step demo_run_env)\<^sup>*\<^sup>* empty_disk d'" using log_step.logged[OF demo_built _ w] by blast
  moreover have "is_hex (CHR ''0'')" "is_hex (CHR ''a'')" "is_hex (CHR ''1'')" "is_hex (CHR ''b'')" by code_simp+
  then have "hex_digest demo_run_env" by (simp add: hex_digest_def demo_run_env_def)
  ultimately show ?thesis using log_directory_verifies[OF _ _ _ j] w by (simp add: empty_disk_def)
qed

text \<open>
  Verification is meant to report a damaged record, but a record (or journal) with a byte that
  is not UTF-8 makes it raise instead: \<^verbatim>\<open>UnicodeDecodeError\<close> is not among the exceptions it catches.
\<close>

lemma corrupt_byte_raises:
  assumes "safe_name n" "CHR 0x00 \<notin> set n" "map_of (dk_files d) n = Some (255 # bytes)" "dict_get e ''file'' = PStr n"
    and "loads (plain_reader env) (re_depth env) line = Inr (PDict e)"
  shows "check_line env d k line = Inl bad_utf8"
  using assms by (simp add: check_line_def check_record_def read_text_def is_json_error_def bad_utf8_def)

end
