(* ===== verification/Report.thy ===== *)
theory Report
  imports Live_Properties Run_Record
begin

text \<open>
  \<^verbatim>\<open>psv/report.py\<close>: the versioned reconciliation report, its JSON and Markdown forms, its exit code
  and the validation of a report document.  The time stamp is the caller's or the current one.
  A text with a character above 255 stands for its UTF-8 bytes, also in the JSON form.
\<close>

section \<open>The report\<close>

definition report_version :: string where
  "report_version = ''2.0''"

definition report_schema_id :: string where
  "report_schema_id = ''https://github.com/moped2110/psv/schemas/reconciliation-report-v2.json''"

definition privacy_policy :: string where
  "privacy_policy = ''Contains public on-chain identifiers and caller-supplied payment metadata; '' @
     ''RPC URLs, credentials, signatures, and private keys are never included.''"

definition reason_codes :: "(string \<times> string) list" where
  "reason_codes =
     [(''consistent_paid'', ''PSV-RECON-CONSISTENT-PAID''),
      (''consistent_unpaid'', ''PSV-RECON-CONSISTENT-UNPAID''),
      (''silent_loss'', ''PSV-RECON-SILENT-LOSS''),
      (''phantom_credit'', ''PSV-RECON-PHANTOM-CREDIT''),
      (''underpaid_credit'', ''PSV-RECON-UNDERPAID-CREDIT'')]"

record recon_report =
  rr_generated_at :: string
  rr_rail_key :: string
  rr_rail_label :: string
  rr_chain_id :: int
  rr_token_address :: string
  rr_payer :: string
  rr_payee :: string
  rr_nonce :: string
  rr_sut_believes_paid :: bool
  rr_kind :: string
  rr_severity :: string
  rr_reason_code :: string
  rr_message :: string
  rr_is_failure :: bool
  rr_evidence :: chain_evidence

definition build_report ::
  "rail_config \<Rightarrow> string \<Rightarrow> string \<Rightarrow> string \<Rightarrow> bool \<Rightarrow> divergence \<Rightarrow> chain_evidence \<Rightarrow> datetime \<Rightarrow> recon_report result" where
  "build_report rail payer payee nonce believes d e generated_at =
     (case generated_at of
        Naive \<Rightarrow> Inl (ValueError ''generated_at must be timezone-aware'')
      | Aware us \<Rightarrow>
          if ev_chain_id e \<noteq> rail_chain_id rail \<or> ev_token_address e \<noteq> lower (rail_token_address rail)
          then Inl (ValueError ''evidence does not match the selected rail'')
          else
            (case map_of reason_codes (kind_value (kind d)) of
               None \<Rightarrow> Inl (KeyError (kind_value (kind d)))
             | Some reason \<Rightarrow>
                 Inr \<lparr>rr_generated_at = isoformat us, rr_rail_key = rail_key rail, rr_rail_label = rail_label rail,
                      rr_chain_id = rail_chain_id rail, rr_token_address = lower (rail_token_address rail),
                      rr_payer = lower payer, rr_payee = lower payee, rr_nonce = lower nonce,
                      rr_sut_believes_paid = believes, rr_kind = kind_value (kind d),
                      rr_severity = severity_value (severity d), rr_reason_code = reason, rr_message = message d,
                      rr_is_failure = is_failure d, rr_evidence = e\<rparr>))"

definition opt_int :: "int option \<Rightarrow> pyval" where
  "opt_int v = (case v of None \<Rightarrow> PNone | Some n \<Rightarrow> PInt n)"

definition tool_metadata :: pydict where
  "tool_metadata = obj [(''name'', PStr ''psv''), (''mode'', PStr ''reconcile''), (''readOnly'', PBool True)]"

definition evidence_dict :: "chain_evidence \<Rightarrow> pydict" where
  "evidence_dict e = obj
     [(''chainId'', PInt (ev_chain_id e)),
      (''finalityBlock'', PDict (obj [(''number'', PInt (ev_finality_block_number e)), (''hash'', PStr (ev_finality_block_hash e)),
         (''tag'', PStr (ev_finality_block_tag e)), (''confirmations'', PInt (ev_confirmations e))])),
      (''settlementBlock'', PDict (obj [(''number'', PInt (ev_settlement_block_number e)), (''hash'', PStr (ev_settlement_block_hash e))])),
      (''transaction'', PDict (obj [(''hash'', PStr (ev_transaction_hash e)), (''receiptStatus'', PInt (ev_receipt_status e)),
         (''logIndex'', opt_int (ev_log_index e)), (''authorizationLogIndex'', opt_int (ev_authorization_log_index e)),
         (''removed'', PBool (ev_removed e))])),
      (''token'', PDict (obj [(''address'', PStr (ev_token_address e)), (''codeSha256'', PStr (ev_token_code_sha256 e)),
         (''implementationAddress'', opt_str (ev_implementation_address e)),
         (''implementationCodeSha256'', opt_str (ev_implementation_code_sha256 e)),
         (''railAttestationVersion'', PStr (ev_rail_attestation_version e))])),
      (''authorization'', PDict (obj [(''payer'', PStr (ev_payer e)), (''payee'', PStr (ev_payee e)), (''nonce'', PStr (ev_nonce e)),
         (''nonceConsumed'', PBool (ev_nonce_consumed e)), (''eventValue'', opt_int (ev_event_value e))])),
      (''balances'', PDict (obj [(''payerBefore'', PInt (ev_payer_balance_before e)), (''payerAfter'', PInt (ev_payer_balance_after e)),
         (''payeeBefore'', PInt (ev_payee_balance_before e)), (''payeeAfter'', PInt (ev_payee_balance_after e)),
         (''requiredAmount'', PInt (ev_required_amount e)), (''receivedAmount'', PInt (ev_received_amount e))]))]"

definition report_dict :: "recon_report \<Rightarrow> pydict" where
  "report_dict r = obj
     [(''$schema'', PStr report_schema_id),
      (''reportVersion'', PStr report_version),
      (''tool'', PDict tool_metadata),
      (''generatedAt'', PStr (rr_generated_at r)),
      (''privacy'', PDict (obj [(''policy'', PStr privacy_policy)])),
      (''rail'', PDict (obj [(''key'', PStr (rr_rail_key r)), (''label'', PStr (rr_rail_label r)),
         (''chainId'', PInt (rr_chain_id r)), (''token'', PStr (rr_token_address r))])),
      (''payment'', PDict (obj [(''payer'', PStr (rr_payer r)), (''payee'', PStr (rr_payee r)), (''nonce'', PStr (rr_nonce r)),
         (''sutBelievesPaid'', PBool (rr_sut_believes_paid r)),
         (''requiredAmount'', PInt (ev_required_amount (rr_evidence r))),
         (''receivedAmount'', PInt (ev_received_amount (rr_evidence r)))])),
      (''evidence'', PDict (evidence_dict (rr_evidence r))),
      (''divergence'', PDict (obj [(''kind'', PStr (rr_kind r)), (''severity'', PStr (rr_severity r)),
         (''reasonCode'', PStr (rr_reason_code r)), (''message'', PStr (rr_message r)), (''isFailure'', PBool (rr_is_failure r))]))]"

definition envelope_fields :: "string list" where
  "envelope_fields = [''$schema'', ''reportVersion'', ''tool'', ''generatedAt'', ''privacy'', ''rail'', ''payment'', ''evidence'', ''divergence'']"

definition validate_report :: "recon_report \<Rightarrow> unit result" where
  "validate_report r =
     (let doc = report_dict r in
      if set (map fst doc) \<noteq> set (map PStr envelope_fields) \<or> dict_get doc ''reportVersion'' \<noteq> PStr report_version
      then Inl (ValueError ''invalid reconciliation report envelope'')
      else if map_of reason_codes (rr_kind r) \<noteq> Some (rr_reason_code r) then Inl (ValueError ''invalid divergence reason code'')
      else if ev_required_amount (rr_evidence r) \<le> 0 \<or> ev_received_amount (rr_evidence r) < 0
      then Inl (ValueError ''invalid report amount evidence'')
      else if ev_chain_id (rr_evidence r) \<noteq> rr_chain_id r then Inl (ValueError ''report and evidence chain IDs differ'')
      else Inr ())"

definition report_style :: json_style where
  "report_style = indented_style\<lparr>js_sort := True\<rparr>"

definition report_json :: "(pyfloat \<Rightarrow> string) \<Rightarrow> recon_report \<Rightarrow> string result" where
  "report_json ft r = bindR (validate_report r) (\<lambda>_. dumps report_style ft (PDict (report_dict r)))"

section \<open>Markdown\<close>

text \<open>
  An int in an f-string: \<^verbatim>\<open>str\<close> refuses more than 4300 digits.
\<close>

definition format_int :: "int \<Rightarrow> string result" where
  "format_int n =
     (if 4300 < length (digits_of 10 \<bar>n\<bar>) then Inl (ValueError ''Exceeds the limit for integer string conversion'')
      else Inr (py_str_int n))"

definition format_opt :: "int option \<Rightarrow> string result" where
  "format_opt v = (case v of None \<Rightarrow> Inr ''None'' | Some n \<Rightarrow> format_int n)"

fun join_lines :: "string list \<Rightarrow> string" where
  "join_lines [] = []"
| "join_lines [l] = l"
| "join_lines (l # ls) = l @ CHR 0x0A # join_lines ls"

definition tick :: "string \<Rightarrow> string" where
  "tick s = [CHR 0x60] @ s @ [CHR 0x60]"

definition markdown_lines :: "recon_report \<Rightarrow> string list result" where
  "markdown_lines r =
     (let e = rr_evidence r in
      bindR (format_int (rr_chain_id r)) (\<lambda>chain.
      bindR (format_int (ev_receipt_status e)) (\<lambda>rs.
      bindR (format_opt (ev_log_index e)) (\<lambda>log_index.
      bindR (format_opt (ev_authorization_log_index e)) (\<lambda>auth_index.
      bindR (format_int (ev_settlement_block_number e)) (\<lambda>settled.
      bindR (format_int (ev_finality_block_number e)) (\<lambda>final.
      bindR (format_int (ev_confirmations e)) (\<lambda>confirmed.
      bindR (format_int (ev_required_amount e)) (\<lambda>required_amount.
      bindR (format_int (ev_received_amount e)) (\<lambda>received.
      bindR (format_opt (ev_event_value e)) (\<lambda>event.
      bindR (format_int (ev_payer_balance_before e)) (\<lambda>p0.
      bindR (format_int (ev_payer_balance_after e)) (\<lambda>p1.
      bindR (format_int (ev_payee_balance_before e)) (\<lambda>q0.
      bindR (format_int (ev_payee_balance_after e)) (\<lambda>q1.
      Inr
       [''# psv reconciliation report'', [],
        ''_Read-only: psv read the chain and compared it to the system's belief. No funds moved._'', [],
        ''**Verdict:** '' @ (if rr_is_failure r then ''DIVERGENCE'' else ''CONSISTENT'') @ '' - '' @ tick (rr_kind r) @ '' ('' @ rr_severity r @ '')'',
        ''**Reason code:** '' @ tick (rr_reason_code r),
        ''**Rail:** '' @ rr_rail_label r @ '' ('' @ tick (rr_rail_key r) @ '', chainId '' @ chain @ '')'',
        ''**Token:** '' @ tick (rr_token_address r),
        ''**Payer:** '' @ tick (rr_payer r) @ '' -> **Payee:** '' @ tick (rr_payee r),
        ''**Nonce:** '' @ tick (rr_nonce r),
        ''**Transaction:** '' @ tick (ev_transaction_hash e) @ '' (receipt status '' @ rs @ '')'',
        ''**Log:** '' @ tick log_index @ ''; authorization log '' @ tick auth_index,
        ''**Settlement block:** '' @ settled @ '' '' @ tick (ev_settlement_block_hash e),
        ''**Finality:** '' @ ev_finality_block_tag e @ '' block '' @ final @ '', '' @ confirmed @ '' confirmations'',
        ''**Amount:** required '' @ required_amount @ ''; received '' @ received @ ''; event '' @ event,
        ''**Balances:** payer '' @ p0 @ '' -> '' @ p1 @ ''; payee '' @ q0 @ '' -> '' @ q1,
        ''**System believed paid:** '' @ py_bool (rr_sut_believes_paid r), [],
        ''> '' @ rr_message r, [],
        ''Privacy: '' @ privacy_policy, []])))))))))))))))"

definition report_markdown :: "recon_report \<Rightarrow> string result" where
  "report_markdown r =
     bindR (validate_report r) (\<lambda>_. bindR (markdown_lines r) (\<lambda>ls. Inr (join_lines ls)))"

definition exit_code :: "recon_report \<Rightarrow> int" where
  "exit_code r = (if rr_is_failure r then 1 else 0)"

section \<open>Validating a document\<close>

text \<open>
  Python's \<^verbatim>\<open>==\<close> on decoded JSON: numbers of different types compare by value, objects as maps,
  and a NaN equals nothing.
\<close>

fun num_parts :: "pyval \<Rightarrow> (int \<times> int) option" where
  "num_parts (PBool b) = Some (if b then 1 else 0, 0)"
| "num_parts (PInt n) = Some (n, 0)"
| "num_parts (PFloat (Finite m e)) = Some (m, e)"
| "num_parts _ = None"

definition num_eq :: "pyval \<Rightarrow> pyval \<Rightarrow> bool" where
  "num_eq v w =
     (case (num_parts v, num_parts w) of
        (Some (m, e), Some (n, f)) \<Rightarrow> let b = min e f in m * 2 ^ nat (e - b) = n * 2 ^ nat (f - b)
      | _ \<Rightarrow> v = w \<and> v \<in> {PFloat PosInf, PFloat NegInf})"

fun py_eq :: "pyval \<Rightarrow> pyval \<Rightarrow> bool"
  and eq_items :: "pyval list \<Rightarrow> pyval list \<Rightarrow> bool"
  and eq_fields :: "pydict \<Rightarrow> pydict \<Rightarrow> bool" where
  "py_eq v w =
     (case v of
        PList xs \<Rightarrow> (case w of PList ys \<Rightarrow> eq_items xs ys | _ \<Rightarrow> False)
      | PDict d \<Rightarrow> (case w of PDict e \<Rightarrow> length d = length e \<and> eq_fields d e | _ \<Rightarrow> False)
      | PStr s \<Rightarrow> w = PStr s
      | PNone \<Rightarrow> w = PNone
      | POther t \<Rightarrow> w = v
      | _ \<Rightarrow> num_eq v w)"
| "eq_items [] ys \<longleftrightarrow> ys = []"
| "eq_items (x # xs) ys \<longleftrightarrow> (case ys of [] \<Rightarrow> False | y # zs \<Rightarrow> py_eq x y \<and> eq_items xs zs)"
| "eq_fields [] e = True"
| "eq_fields ((k, x) # d) e \<longleftrightarrow> (case map_of e k of None \<Rightarrow> False | Some y \<Rightarrow> py_eq x y \<and> eq_fields d e)"

definition validate_report_document :: "pydict \<Rightarrow> unit result" where
  "validate_report_document document =
     (if \<not> py_eq (dict_get document ''reportVersion'') (PStr report_version)
      then Inl (ValueError ''unsupported report version'')
      else if \<not> py_eq (dict_get document ''$schema'') (PStr report_schema_id) then Inl (ValueError ''unknown report schema'')
      else if \<not> py_eq (dict_get document ''tool'') (PDict tool_metadata) then Inl (ValueError ''invalid tool metadata'')
      else
        (case (dict_get document ''rail'', dict_get document ''evidence'') of
           (PDict rail, PDict evidence) \<Rightarrow>
             if \<not> py_eq (dict_get rail ''chainId'') (dict_get evidence ''chainId'')
             then Inl (ValueError ''report and evidence chain IDs differ'') else Inr ()
         | _ \<Rightarrow> Inl (ValueError ''rail/evidence must be objects'')))"

end
