(* ===== verification/Json_Strict.thy ===== *)
theory Json_Strict
  imports Py_Json
begin

text \<open>
  What a strict reader lets through.  A decoded value is well read if no object in it, at any depth,
  has two members of the same name and every float in it satisfies a given predicate; a decoder whose
  hooks refuse repeated names returns well-read values only.
\<close>

fun well_read :: "(pyfloat \<Rightarrow> bool) \<Rightarrow> pyval \<Rightarrow> bool"
  and well_read_items :: "(pyfloat \<Rightarrow> bool) \<Rightarrow> pyval list \<Rightarrow> bool"
  and well_read_fields :: "(pyfloat \<Rightarrow> bool) \<Rightarrow> pydict \<Rightarrow> bool" where
  "well_read F v =
     (case v of
        PDict d \<Rightarrow> distinct (map fst d) \<and> well_read_fields F d
      | PList xs \<Rightarrow> well_read_items F xs
      | PFloat f \<Rightarrow> F f
      | _ \<Rightarrow> True)"
| "well_read_items F [] = True"
| "well_read_items F (x # xs) \<longleftrightarrow> well_read F x \<and> well_read_items F xs"
| "well_read_fields F [] = True"
| "well_read_fields F ((k, x) # kvs) \<longleftrightarrow> well_read F x \<and> well_read_fields F kvs"

declare well_read.simps [simp del]

lemma well_read_simps [simp]:
  "well_read F (PDict d) \<longleftrightarrow> distinct (map fst d) \<and> (\<forall>kx\<in>set d. well_read F (snd kx))"
  "well_read F (PList xs) \<longleftrightarrow> (\<forall>x\<in>set xs. well_read F x)"
  "well_read F PNone" "well_read F (PBool b)" "well_read F (PInt n)" "well_read F (PFloat f) \<longleftrightarrow> F f" "well_read F (PStr t)" "well_read F (POther t)"
proof -
  have "well_read_items F xs \<longleftrightarrow> (\<forall>x\<in>set xs. well_read F x)" for xs by (induction xs) simp_all
  moreover have "well_read_fields F d \<longleftrightarrow> (\<forall>kx\<in>set d. well_read F (snd kx))" for d by (induction d) auto
  ultimately show "well_read F (PDict d) \<longleftrightarrow> distinct (map fst d) \<and> (\<forall>kx\<in>set d. well_read F (snd kx))"
    "well_read F (PList xs) \<longleftrightarrow> (\<forall>x\<in>set xs. well_read F x)"
    "well_read F PNone" "well_read F (PBool b)" "well_read F (PInt n)" "well_read F (PFloat f) \<longleftrightarrow> F f" "well_read F (PStr t)" "well_read F (POther t)"
    by (subst well_read.simps, simp)+
qed

lemma well_read_obj:
  assumes "distinct (map fst kvs)" "\<forall>kx\<in>set kvs. well_read F (snd kx)"
  shows "well_read F (PDict (obj kvs))"
proof -
  have "distinct (map fst (obj kvs)) \<longleftrightarrow> distinct (map fst kvs)"
    by (simp add: obj_def comp_def split_def distinct_map inj_on_def)
  then show ?thesis using assms by (auto simp: obj_def)
qed

text \<open>
  Hooks that refuse repeated member names, and whose floats are all read from numbers with a fraction
  or an exponent, or are accepted constants.
\<close>

definition strict_hooks :: "(pyfloat \<Rightarrow> bool) \<Rightarrow> json_reader \<Rightarrow> bool" where
  "strict_hooks F rd \<longleftrightarrow>
     (\<forall>kvs d. jr_object rd kvs = Inr d \<longrightarrow> distinct (map fst kvs) \<and> d = obj kvs) \<and>
     (\<forall>s v. jr_constant rd s = Inr v \<longrightarrow> well_read F v) \<and>
     (\<forall>s t r. json_number s = Some (t, True, r) \<longrightarrow> F (jr_float rd t))"

lemma read_well:
  assumes "strict_hooks F rd"
  shows "json_value n rd dep s = Inr (v, r) \<Longrightarrow> well_read F v"
    and "json_list n rd dep s = Inr (vs, r) \<Longrightarrow> \<forall>x\<in>set vs. well_read F x"
    and "json_members n rd dep s = Inr (kvs, r) \<Longrightarrow> \<forall>kx\<in>set kvs. well_read F (snd kx)"
  using assms
proof (induction n rd dep s and n rd dep s and n rd dep s arbitrary: v r and vs r and kvs r
    rule: json_value_json_list_json_members.induct)
  case (2 n rd dep s)
  have scalar: "well_read F v" if "json_scalar rd s = Inr (v, r)"
  proof -
    have "well_read F x" if "(t, x) \<in> set json_literals" for t x using that by (auto simp: json_literals_def)
    then show ?thesis
      using that "2.prems"(2)
      by (fastforce simp: json_scalar_def strict_hooks_def ok_iff find_Some_iff split: option.splits if_splits dest: nth_mem)
  qed
  show ?case
  proof (cases "startswith s [CHR 0x22]")
    case True
    then show ?thesis using "2.prems"(1) by (auto simp: ok_iff)
  next
    case False
    note ns = this
    show ?thesis
    proof (cases "startswith s ''[''")
      case True
      then have "0 < dep" using "2.prems"(1) ns by (auto split: if_splits)
      show ?thesis
      proof (cases "startswith (skip_ws (drop 1 s)) '']''")
        case False
        then obtain xs r' where xs: "json_list n rd (dep - 1) (skip_ws (drop 1 s)) = Inr (xs, r')" "v = PList xs"
          using "2.prems"(1) ns True \<open>0 < dep\<close> by (auto simp: ok_iff Let_def)
        then have "\<forall>x\<in>set xs. well_read F x"
          using "2.IH"(1)[OF ns True _ refl False xs(1) "2.prems"(2)] \<open>0 < dep\<close> by simp
        then show ?thesis using xs by simp
      qed (use "2.prems"(1) ns True \<open>0 < dep\<close> in \<open>auto simp: Let_def\<close>)
    next
      case False
      note nl = this
      show ?thesis
      proof (cases "startswith s ''{''")
        case True
        then have "0 < dep" using "2.prems"(1) ns nl by (auto split: if_splits)
        then obtain kvs r' d where k: "(if startswith (skip_ws (drop 1 s)) ''}'' then Inr ([], drop 1 (skip_ws (drop 1 s)))
            else json_members n rd (dep - 1) (skip_ws (drop 1 s))) = Inr (kvs, r')" and d: "jr_object rd kvs = Inr d" "v = PDict d"
          using "2.prems"(1) ns nl True unfolding json_value.simps(2) by (auto simp: ok_iff Let_def simp del: One_nat_def json_value.simps)
        have "\<forall>kx\<in>set kvs. well_read F (snd kx)"
        proof (cases "startswith (skip_ws (drop 1 s)) ''}''")
          case False
          then have "json_members n rd (dep - 1) (skip_ws (drop 1 s)) = Inr (kvs, r')" using k by simp
          then show ?thesis using "2.IH"(2)[OF ns nl True _ refl False _ "2.prems"(2)] \<open>0 < dep\<close> by simp
        qed (use k in simp)
        moreover have "distinct (map fst kvs)" "d = obj kvs" using "2.prems"(2) d(1) by (auto simp: strict_hooks_def)
        ultimately show ?thesis using d(2) well_read_obj[of kvs] by blast
      next
        case False
        then show ?thesis using scalar "2.prems"(1) ns nl by simp
      qed
    qed
  qed
next
  case (4 n rd dep s)
  from "4.prems"(1) obtain x r1 where x: "json_value n rd dep s = Inr (x, r1)" by (auto simp: ok_iff)
  have kx: "well_read F x" using "4.IH"(1)[OF x "4.prems"(2)] .
  show ?case
  proof (cases "startswith (skip_ws r1) '']''")
    case True
    then show ?thesis using "4.prems"(1) x kx by (auto simp: Let_def)
  next
    case False
    then have c: "startswith (skip_ws r1) '',''" using "4.prems"(1) x by (auto simp: Let_def split: if_splits)
    then obtain xs r2 where xs: "json_list n rd dep (skip_ws (drop 1 (skip_ws r1))) = Inr (xs, r2)" "vs = x # xs"
      using "4.prems"(1) x False by (auto simp: Let_def ok_iff)
    then show ?thesis using kx "4.IH"(2)[OF refl False c xs(1) "4.prems"(2)] by simp
  qed
next
  case (6 n rd dep s)
  from "6.prems"(1) obtain k r1 where q: "startswith s [CHR 0x22]" and k: "json_chars (drop 1 s) = Inr (k, r1)"
    by (auto simp: ok_iff split: if_splits)
  have c: "startswith (skip_ws r1) '':''" using "6.prems"(1) q k by (auto simp: Let_def split: if_splits)
  then obtain x r2 where x: "json_value n rd dep (skip_ws (drop 1 (skip_ws r1))) = Inr (x, r2)"
    using "6.prems"(1) q k by (auto simp: Let_def ok_iff)
  have kx: "well_read F x" using "6.IH"(1)[OF _ refl _ x "6.prems"(2)] q c by simp
  show ?case
  proof (cases "startswith (skip_ws r2) ''}''")
    case True
    then show ?thesis using "6.prems"(1) q k c x kx by (auto simp: Let_def)
  next
    case False
    then have c2: "startswith (skip_ws r2) '',''" using "6.prems"(1) q k c x by (auto simp: Let_def split: if_splits)
    then obtain kvs' r3 where m: "json_members n rd dep (skip_ws (drop 1 (skip_ws r2))) = Inr (kvs', r3)" "kvs = (k, x) # kvs'"
      using "6.prems"(1) q k c x False by (auto simp: Let_def ok_iff)
    then show ?thesis using kx "6.IH"(2)[OF _ refl _ refl False c2 m(1) "6.prems"(2)] q c by simp
  qed
qed simp_all

lemma loads_well_read:
  assumes "strict_hooks F rd" "loads rd dep s = Inr v"
  shows "well_read F v"
proof -
  from assms(2) obtain r where "json_value (2 * length s + 2) rd dep (skip_ws s) = Inr (v, r)"
    by (auto simp: loads_def bindR_ok simp del: json_value.simps split: if_splits)
  then show ?thesis by (rule read_well(1)[OF assms(1)])
qed

end
