(* ===== verification/Http_Transport.thy ===== *)
theory Http_Transport
  imports Anvil Json_Roundtrip Json_Errors Json_Strict Urls
begin

text \<open>
  The default transport of \<^verbatim>\<open>psv/anvil.py\<close> (\<^verbatim>\<open>_urllib_transport\<close>, \<^verbatim>\<open>_RefuseRedirects\<close>,
  \<^verbatim>\<open>_redacted\<close>): one bounded POST per request, refused redirects, a strict decoding of the answer.

  Parameters (record \<open>rpc_http\<close>): what \<^verbatim>\<open>urllib\<close> reports for a POST of some bytes to an endpoint,
  the text of a float and its reading, the depth the decoder's stack allows, the test for an IPv6
  literal.  The detail that \<^verbatim>\<open>_http_error_detail\<close> adds to the message of an HTTP error is in
  \<open>Http_Error_Detail\<close>; the message leaves it out, like every interpolated part.
\<close>

section \<open>The transport\<close>

text \<open>
  What opening a request gives: the whole body of a success, a redirect, an HTTP error with its
  status, a failed connection (\<^verbatim>\<open>URLError\<close>, \<^verbatim>\<open>OSError\<close>, \<^verbatim>\<open>TimeoutError\<close>), or another exception.
\<close>

datatype http_reply =
    Answer "int list"
  | Redirected int
  | Refused int
  | Unreachable
  | Broken exn

record rpc_http =
  rh_open :: "string \<Rightarrow> pyfloat \<Rightarrow> int list \<Rightarrow> http_reply"
  rh_float_text :: "pyfloat \<Rightarrow> string"
  rh_float :: "string \<Rightarrow> pyfloat"
  rh_depth :: nat
  rh_ip6 :: "string \<Rightarrow> bool"

definition redacted :: "(string \<Rightarrow> bool) \<Rightarrow> string \<Rightarrow> string result" where
  "redacted ip6 endpoint =
     bindR (urlsplit ip6 endpoint) (\<lambda>parsed.
     if up_scheme parsed = [] \<or> up_netloc parsed = [] then Inr ''the configured RPC endpoint''
     else Inr (up_scheme parsed @ ''://'' @ up_netloc parsed))"

text \<open>An \<open>RpcError\<close> whose message names the redacted endpoint.\<close>

definition raise_at :: "(string \<Rightarrow> bool) \<Rightarrow> string \<Rightarrow> string \<Rightarrow> string \<Rightarrow> 'a result" where
  "raise_at ip6 endpoint intro rest = bindR (redacted ip6 endpoint) (\<lambda>host. Inl (RpcError (intro @ host @ rest)))"

definition redirect_request :: "(string \<Rightarrow> bool) \<Rightarrow> string \<Rightarrow> int \<Rightarrow> 'a result" where
  "redirect_request ip6 full_url status =
     raise_at ip6 full_url ''RPC endpoint '' '' answered with a redirect; refusing to follow it''"

definition reject_json_constant :: "string \<Rightarrow> pyval result" where
  "reject_json_constant s = Inl (ValueError ''non-standard JSON constant'')"

definition strict_reader :: "(string \<Rightarrow> pyfloat) \<Rightarrow> json_reader" where
  "strict_reader pf = \<lparr>jr_object = reject_duplicate_keys, jr_constant = reject_json_constant, jr_float = pf\<rparr>"

text \<open>\<^verbatim>\<open>resp.read(n)\<close>: at most \<open>n\<close> bytes.\<close>

fun read_bytes :: "int \<Rightarrow> int list \<Rightarrow> int list" where
  "read_bytes n [] = []"
| "read_bytes n (b # bs) = (if n \<le> 0 then [] else b # read_bytes (n - 1) bs)"

definition decode_body :: "rpc_http \<Rightarrow> string \<Rightarrow> int list \<Rightarrow> pyval result" where
  "decode_body h endpoint raw =
     (case bindR (utf8_decode raw) (\<lambda>s. loads (strict_reader (rh_float h)) (rh_depth h) s) of
        Inr v \<Rightarrow> Inr v
      | Inl e \<Rightarrow>
          if is_value_error e then raise_at (rh_ip6 h) endpoint ''malformed (non-JSON) response from '' [] else Inl e)"

definition urllib_send :: "rpc_http \<Rightarrow> string \<Rightarrow> pyfloat \<Rightarrow> transport" where
  "urllib_send h endpoint timeout request =
     bindR (dumps default_style (rh_float_text h) request) (\<lambda>data.
     case rh_open h endpoint timeout (utf8_encode data) of
       Broken e \<Rightarrow> Inl e
     | Redirected status \<Rightarrow> redirect_request (rh_ip6 h) endpoint status
     | Refused status \<Rightarrow> raise_at (rh_ip6 h) endpoint ''transport failure contacting '' []
     | Unreachable \<Rightarrow> raise_at (rh_ip6 h) endpoint ''transport failure contacting '' []
     | Answer body \<Rightarrow>
         let raw = read_bytes 2097153 body in
         if 2097152 < int (length raw) then raise_at (rh_ip6 h) endpoint ''response from '' '' exceeds size limit''
         else decode_body h endpoint raw)"

text \<open>\<^verbatim>\<open>RpcClient(endpoint, timeout)\<close> with the default transport.\<close>

definition http_client :: "rpc_http \<Rightarrow> string \<Rightarrow> pyfloat \<Rightarrow> rpc_client" where
  "http_client h endpoint timeout = \<lparr>rpc_id = 0, rpc_transport = urllib_send h endpoint timeout\<rparr>"

text \<open>The redacted endpoint keeps the credentials that stand before the host.\<close>

lemma redacted_keeps_userinfo:
  "redacted (\<lambda>s. False) ''https://user:pw@host/v2/key'' = Inr ''https://user:pw@host''"
  by code_simp

section \<open>What comes through\<close>

lemma strict_reader_faithful: "faithful_reader (strict_reader pf) pf"
  by (simp add: faithful_reader_def strict_reader_def rpc_object.hook_ok)

lemma raise_at_never: "raise_at ip6 endpoint a b \<noteq> Inr v"
  by (simp add: raise_at_def bindR_ok)

lemma read_bytes_take: "read_bytes n xs = take (nat n) xs"
proof (induction n xs rule: read_bytes.induct)
  case (2 n b bs)
  then show ?case by (cases "nat n") (auto simp: nat_diff_distrib')
qed simp

lemma bounded_take: "int (length (read_bytes 2097153 xs)) \<le> 2097152 \<longleftrightarrow> int (length xs) \<le> 2097152"
  "int (length xs) \<le> 2097152 \<Longrightarrow> read_bytes 2097153 xs = xs"
  by (simp_all add: read_bytes_take min_def nat_le_iff)

text \<open>The body a POST was answered with, when it is one strict JSON document within the bounds.\<close>

definition http_document :: "rpc_http \<Rightarrow> string \<Rightarrow> pyfloat \<Rightarrow> string \<Rightarrow> pyval \<Rightarrow> bool" where
  "http_document h endpoint timeout data v \<longleftrightarrow>
     (\<exists>body s. rh_open h endpoint timeout (utf8_encode data) = Answer body \<and> int (length body) \<le> 2097152 \<and>
        utf8_decode body = Inr s \<and> loads (strict_reader (rh_float h)) (rh_depth h) s = Inr v)"

lemma decode_body_ok:
  "decode_body h endpoint raw = Inr v \<longleftrightarrow>
     (\<exists>s. utf8_decode raw = Inr s \<and> loads (strict_reader (rh_float h)) (rh_depth h) s = Inr v)"
  by (auto simp: decode_body_def raise_at_never bindR_ok split: sum.splits)

lemma urllib_send_ok:
  "urllib_send h endpoint timeout request = Inr v \<longleftrightarrow>
     (\<exists>data. dumps default_style (rh_float_text h) request = Inr data \<and> http_document h endpoint timeout data v)"
proof -
  have "(case rh_open h endpoint timeout b of
       Broken e \<Rightarrow> Inl e
     | Redirected status \<Rightarrow> redirect_request (rh_ip6 h) endpoint status
     | Refused status \<Rightarrow> raise_at (rh_ip6 h) endpoint ''transport failure contacting '' []
     | Unreachable \<Rightarrow> raise_at (rh_ip6 h) endpoint ''transport failure contacting '' []
     | Answer body \<Rightarrow>
         let raw = read_bytes 2097153 body in
         if 2097152 < int (length raw) then raise_at (rh_ip6 h) endpoint ''response from '' '' exceeds size limit''
         else decode_body h endpoint raw) = Inr v \<longleftrightarrow>
     (\<exists>body. rh_open h endpoint timeout b = Answer body \<and> int (length body) \<le> 2097152 \<and> decode_body h endpoint body = Inr v)"
    for b
  proof (cases "rh_open h endpoint timeout b")
    case (Answer body)
    show ?thesis
    proof (cases "int (length body) \<le> 2097152")
      case True
      then have "\<not> 2097152 < int (length (read_bytes 2097153 body))" "read_bytes 2097153 body = body"
        using bounded_take by auto
      then show ?thesis using Answer True by (simp only: http_reply.simps Let_def if_False) simp
    next
      case False
      then have "2097152 < int (length (read_bytes 2097153 body))" using bounded_take(1)[of body] by linarith
      then show ?thesis using Answer False raise_at_never by (simp only: http_reply.simps Let_def if_True) simp
    qed
  qed (auto simp: raise_at_never redirect_request_def)
  then show ?thesis by (auto simp: urllib_send_def bindR_ok http_document_def decode_body_ok)
qed

lemma served_document:
  assumes "rh_open h endpoint timeout (utf8_encode data) = Answer (utf8_encode (json_text st ft 0 v))"
    and "int (length (utf8_encode (json_text st ft 0 v))) \<le> 2097152" "good_style st" "json_plain ft (rh_float h) (rh_depth h) v"
  shows "http_document h endpoint timeout data w \<longleftrightarrow> w = v"
  using assms(1,2) loads_text(1)[OF assms(3) strict_reader_faithful assms(4)]
  by (auto simp: http_document_def utf8_roundtrip simp del: json_text.simps)

text \<open>The floats of a strict document are numbers of its text, so no constant like \<^verbatim>\<open>NaN\<close> is among them.\<close>

definition number_float :: "(string \<Rightarrow> pyfloat) \<Rightarrow> pyfloat \<Rightarrow> bool" where
  "number_float pf f \<longleftrightarrow> (\<exists>s t r. json_number s = Some (t, True, r) \<and> f = pf t)"

lemma strict_reader_hooks: "strict_hooks (number_float pf) (strict_reader pf)"
  by (auto simp: strict_hooks_def strict_reader_def rpc_object.hook_ok reject_json_constant_def number_float_def)

text \<open>
  C12: What the client returns over HTTP is what the configured host said.  A call returns \<open>r\<close>
  exactly if the host itself, and no redirect, answered the POST of this very request with at most
  2 MiB of UTF-8 that decode to one JSON object within the bounds of the client, whose member
  \<open>jsonrpc\<close> is the text 2.0, whose member \<open>id\<close> is the id of this request, whose member \<open>result\<close> is \<open>r\<close> and
  which has no member \<open>error\<close>.  Whatever decodes has no object with two members of the same name and
  no float that is not a number of the text (no NaN, no Infinity); and a host that prints a document
  in any JSON layout is read as that document and as no other.
\<close>

theorem rpc_over_http:
  assumes "rpc_transport c = urllib_send h endpoint timeout"
  shows "(call meth params c = (Inr r, c') \<longleftrightarrow>
      c' = c\<lparr>rpc_id := rpc_id c + 1\<rparr> \<and>
      (\<exists>data body s d. dumps default_style (rh_float_text h) (rpc_request (rpc_id c + 1) meth params) = Inr data \<and>
         rh_open h endpoint timeout (utf8_encode data) = Answer body \<and> int (length body) \<le> 2097152 \<and>
         utf8_decode body = Inr s \<and> loads (strict_reader (rh_float h)) (rh_depth h) s = Inr (PDict d) \<and>
         json_within 0 (PDict d) \<and> map_of d (PStr ''jsonrpc'') = Some (PStr ''2.0'') \<and>
         map_of d (PStr ''id'') = Some (PInt (rpc_id c + 1)) \<and>
         map_of d (PStr ''result'') = Some r \<and> map_of d (PStr ''error'') = None)) \<and>
    (\<forall>s v. loads (strict_reader (rh_float h)) (rh_depth h) s = Inr v \<longrightarrow> well_read (number_float (rh_float h)) v) \<and>
    (\<forall>st ft v data w. good_style st \<and> json_plain ft (rh_float h) (rh_depth h) v \<and>
       rh_open h endpoint timeout (utf8_encode data) = Answer (utf8_encode (json_text st ft 0 v)) \<and>
       int (length (utf8_encode (json_text st ft 0 v))) \<le> 2097152 \<longrightarrow>
       (http_document h endpoint timeout data w \<longleftrightarrow> w = v))"
proof (intro conjI)
  have "dict_get d k = x \<and> x \<noteq> PNone \<longleftrightarrow> map_of d (PStr k) = Some x \<and> x \<noteq> PNone" for d k x
    by (auto simp: dict_get_def split: option.splits)
  then have get: "dict_get d k = PStr t \<longleftrightarrow> map_of d (PStr k) = Some (PStr t)"
    "dict_get d k = PInt n \<longleftrightarrow> map_of d (PStr k) = Some (PInt n)" for d k t n by (metis pyval.distinct)+
  show "call meth params c = (Inr r, c') \<longleftrightarrow>
      c' = c\<lparr>rpc_id := rpc_id c + 1\<rparr> \<and>
      (\<exists>data body s d. dumps default_style (rh_float_text h) (rpc_request (rpc_id c + 1) meth params) = Inr data \<and>
         rh_open h endpoint timeout (utf8_encode data) = Answer body \<and> int (length body) \<le> 2097152 \<and>
         utf8_decode body = Inr s \<and> loads (strict_reader (rh_float h)) (rh_depth h) s = Inr (PDict d) \<and>
         json_within 0 (PDict d) \<and> map_of d (PStr ''jsonrpc'') = Some (PStr ''2.0'') \<and>
         map_of d (PStr ''id'') = Some (PInt (rpc_id c + 1)) \<and>
         map_of d (PStr ''result'') = Some r \<and> map_of d (PStr ''error'') = None)"
    unfolding call_ok assms urllib_send_ok http_document_def get has_key_def not_not by blast
qed (use loads_well_read[OF strict_reader_hooks] served_document in \<open>blast+\<close>)

definition demo_response :: pyval where
  "demo_response = PDict (obj [(''jsonrpc'', PStr ''2.0''), (''id'', PInt 1), (''result'', PStr ''0x1'')])"

definition demo_http :: rpc_http where
  "demo_http = \<lparr>rh_open = (\<lambda>endpoint timeout data. Answer (utf8_encode (json_text indented_style (\<lambda>f. ''0.0'') 0 demo_response))),
     rh_float_text = (\<lambda>f. ''0.0''), rh_float = (\<lambda>s. NaN), rh_depth = 100, rh_ip6 = (\<lambda>s. False)\<rparr>"

theorem rpc_over_http_witness:
  "call ''eth_chainId'' [] (http_client demo_http ''http://127.0.0.1:8545'' (Finite 10 0)) =
     (Inr (PStr ''0x1''), (http_client demo_http ''http://127.0.0.1:8545'' (Finite 10 0))\<lparr>rpc_id := 1\<rparr>)"
proof -
  let ?c = "http_client demo_http ''http://127.0.0.1:8545'' (Finite 10 0)"
  have t: "rpc_transport ?c = urllib_send demo_http ''http://127.0.0.1:8545'' (Finite 10 0)" "rpc_id ?c = 0"
    by (simp_all add: http_client_def)
  note ok = rpc_over_http[OF t(1)]
  obtain data where data: "dumps default_style (rh_float_text demo_http) (rpc_request 1 ''eth_chainId'' []) = Inr data"
  proof -
    have "case dumps default_style (rh_float_text demo_http) (rpc_request 1 ''eth_chainId'' []) of Inr d \<Rightarrow> True | Inl e \<Rightarrow> False"
      by code_simp
    then show ?thesis using that by (auto split: sum.splits)
  qed
  have "good_style indented_style" "json_plain (\<lambda>f. ''0.0'') (rh_float demo_http) (rh_depth demo_http) demo_response"
    "int (length (utf8_encode (json_text indented_style (\<lambda>f. ''0.0'') 0 demo_response))) \<le> 2097152" by code_simp+
  then have doc: "http_document demo_http ''http://127.0.0.1:8545'' (Finite 10 0) data demo_response"
    using conjunct2[OF conjunct2[OF ok]] by (auto simp: demo_http_def simp del: json_text.simps json_plain.simps)
  then obtain body s d where "rh_open demo_http ''http://127.0.0.1:8545'' (Finite 10 0) (utf8_encode data) = Answer body"
    "int (length body) \<le> 2097152" "utf8_decode body = Inr s"
    "loads (strict_reader (rh_float demo_http)) (rh_depth demo_http) s = Inr (PDict d)" "demo_response = PDict d"
    by (auto simp: http_document_def demo_response_def)
  moreover have "check_envelope ''eth_chainId'' 1 demo_response = Inr (PStr ''0x1'')" by code_simp
  then have "json_within 0 demo_response" by (auto simp: check_envelope_ok)
  ultimately show ?thesis
    using conjunct1[OF ok, of "''eth_chainId''" "[]" "PStr ''0x1''" "?c\<lparr>rpc_id := 1\<rparr>"] t(2) data
    by (auto simp: demo_response_def obj_def)
qed

end
