(* ===== verification/Cli.thy ===== *)
theory Cli
  imports Report Http_Transport Known_Rails
begin

text \<open>
  \<^verbatim>\<open>psv/cli.py\<close>: the validators of the arguments, the two commands and their exit codes.

  Parameters (record \<open>cli_env\<close>): those of the run record and of the HTTP transport, the environment
  variables, the clock, the text of an exception, \<^verbatim>\<open>float\<close> of a text.  The state of an invocation is
  the log directory, the disk the reports go to (outside the log directory), what was printed, what
  the terminal answers to the next prints, and the number of times the clock was read.  A command line is given
  as \<^verbatim>\<open>argparse\<close> cuts it: the command and its options with their texts, in order (a flag has an
  empty text); \<^verbatim>\<open>--help\<close> is left out.
\<close>

section \<open>Arguments\<close>

record cli_env =
  ce_run :: run_env
  ce_http :: rpc_http
  ce_getenv :: "string \<Rightarrow> string option"
  ce_time :: "nat \<Rightarrow> int"
  ce_exn_text :: "exn \<Rightarrow> string"
  ce_float :: "string \<Rightarrow> pyfloat option"

definition cli_address :: "string \<Rightarrow> string result" where
  "cli_address v = (if match_hex 40 v then Inr v else Inl (ArgumentTypeError ''must be an exact 20-byte EVM address''))"

definition cli_bytes32 :: "string \<Rightarrow> string result" where
  "cli_bytes32 v = (if match_hex 64 v then Inr v else Inl (ArgumentTypeError ''must be exactly 32 bytes of 0x-prefixed hex''))"

definition cli_uint256 :: "string \<Rightarrow> int result" where
  "cli_uint256 v =
     (case int_base 10 v of
        Inl e \<Rightarrow> Inl (ArgumentTypeError ''must be a base-10 uint256'')
      | Inr n \<Rightarrow> if 0 \<le> n \<and> n \<le> uint256_max then Inr n else Inl (ArgumentTypeError ''must be within uint256''))"

definition cli_positive_uint256 :: "string \<Rightarrow> int result" where
  "cli_positive_uint256 v =
     bindR (cli_uint256 v) (\<lambda>n. if n = 0 then Inl (ArgumentTypeError ''must be a positive uint256'') else Inr n)"

text \<open>\<^verbatim>\<open>a <= b\<close> for floats.\<close>

fun float_le :: "pyfloat \<Rightarrow> pyfloat \<Rightarrow> bool" where
  "float_le (Finite m e) (Finite n f) \<longleftrightarrow> (let b = min e f in m * 2 ^ nat (e - b) \<le> n * 2 ^ nat (f - b))"
| "float_le NaN y = False"
| "float_le x NaN = False"
| "float_le NegInf y = True"
| "float_le x PosInf = True"
| "float_le x y = False"

definition float_tenth :: pyfloat where
  "float_tenth = Finite 3602879701896397 (-55)"

definition cli_timeout :: "cli_env \<Rightarrow> string \<Rightarrow> pyfloat result" where
  "cli_timeout env v =
     (case ce_float env v of
        None \<Rightarrow> Inl (ArgumentTypeError ''must be a number'')
      | Some t \<Rightarrow>
          if float_le float_tenth t \<and> float_le t (Finite 120 0) then Inr t
          else Inl (ArgumentTypeError ''must be within [0.1, 120] seconds''))"

definition cli_rpc_url :: "(string \<Rightarrow> bool) \<Rightarrow> string \<Rightarrow> string result" where
  "cli_rpc_url ip6 v =
     (if 2048 < int (length v) \<or> CHR 0x00 \<in> set v
      then Inl (ArgumentTypeError ''RPC URL is too long or contains NUL'')
      else case bindR (urlsplit ip6 v) (\<lambda>parsed. bindR (port parsed) (\<lambda>p. Inr (parsed, p))) of
        Inl e \<Rightarrow> Inl (ArgumentTypeError ''invalid RPC URL'')
      | Inr (parsed, p) \<Rightarrow>
          if up_scheme parsed \<notin> {''http'', ''https''} \<or> hostname parsed = None
          then Inl (ArgumentTypeError ''RPC URL must use http(s) and include a host'')
          else if up_fragment parsed \<noteq> [] then Inl (ArgumentTypeError ''RPC URL must not contain a fragment'')
          else if has_userinfo parsed then Inl (ArgumentTypeError ''RPC URL must not contain inline credentials'')
          else if p \<noteq> None \<and> \<not> (1 \<le> the p \<and> the p \<le> 65535)
          then Inl (ArgumentTypeError ''RPC port must be within [1, 65535]'')
          else Inr v)"

definition cli_output_path :: "string \<Rightarrow> string result" where
  "cli_output_path v =
     (if v = [] \<or> 4096 < int (length v) \<or> CHR 0x00 \<in> set v
      then Inl (ArgumentTypeError ''output path is empty, too long, or contains NUL'') else Inr v)"

section \<open>The parser\<close>

record reconcile_args =
  ra_rail :: string
  ra_payer :: string
  ra_payee :: string
  ra_nonce :: string
  ra_tx_hash :: string
  ra_log_index :: int
  ra_required_amount :: int
  ra_payer_before :: int
  ra_payee_before :: int
  ra_sut_believes_paid :: bool
  ra_rpc_url :: string
  ra_rpc_timeout :: pyfloat
  ra_json_out :: "string option"
  ra_md_out :: "string option"
  ra_log_dir :: "string option"
  ra_no_log :: bool

definition default_args :: reconcile_args where
  "default_args = \<lparr>ra_rail = [], ra_payer = [], ra_payee = [], ra_nonce = [], ra_tx_hash = [], ra_log_index = 0,
     ra_required_amount = 0, ra_payer_before = 0, ra_payee_before = 0, ra_sut_believes_paid = False,
     ra_rpc_url = ''http://127.0.0.1:8545'', ra_rpc_timeout = Finite 10 0, ra_json_out = None, ra_md_out = None,
     ra_log_dir = None, ra_no_log = False\<rparr>"

text \<open>What an option with its text does to the arguments, or the error of its converter.\<close>

definition store :: "'a result \<Rightarrow> ('a \<Rightarrow> 'r \<Rightarrow> 'r) \<Rightarrow> ('r \<Rightarrow> 'r) result" where
  "store m upd = bindR m (\<lambda>x. Inr (upd x))"

definition reconcile_option :: "cli_env \<Rightarrow> string \<times> string \<Rightarrow> (reconcile_args \<Rightarrow> reconcile_args) result" where
  "reconcile_option env ov =
     (let (opt, v) = ov in
      if opt = ''--rail'' then store (Inr v) (\<lambda>x. ra_rail_update (\<lambda>_. x))
      else if opt = ''--payer'' then store (cli_address v) (\<lambda>x. ra_payer_update (\<lambda>_. x))
      else if opt = ''--payee'' then store (cli_address v) (\<lambda>x. ra_payee_update (\<lambda>_. x))
      else if opt = ''--nonce'' then store (cli_bytes32 v) (\<lambda>x. ra_nonce_update (\<lambda>_. x))
      else if opt = ''--tx-hash'' then store (cli_bytes32 v) (\<lambda>x. ra_tx_hash_update (\<lambda>_. x))
      else if opt = ''--log-index'' then store (cli_uint256 v) (\<lambda>x. ra_log_index_update (\<lambda>_. x))
      else if opt = ''--required-amount'' then store (cli_positive_uint256 v) (\<lambda>x. ra_required_amount_update (\<lambda>_. x))
      else if opt = ''--payer-before'' then store (cli_uint256 v) (\<lambda>x. ra_payer_before_update (\<lambda>_. x))
      else if opt = ''--payee-before'' then store (cli_uint256 v) (\<lambda>x. ra_payee_before_update (\<lambda>_. x))
      else if opt = ''--sut-paid'' then Inr (ra_sut_believes_paid_update (\<lambda>_. True))
      else if opt = ''--sut-unpaid'' then Inr (ra_sut_believes_paid_update (\<lambda>_. False))
      else if opt = ''--rpc-url'' then store (cli_rpc_url (rh_ip6 (ce_http env)) v) (\<lambda>x. ra_rpc_url_update (\<lambda>_. x))
      else if opt = ''--rpc-timeout'' then store (cli_timeout env v) (\<lambda>x. ra_rpc_timeout_update (\<lambda>_. x))
      else if opt = ''--json'' then store (cli_output_path v) (\<lambda>x. ra_json_out_update (\<lambda>_. Some x))
      else if opt = ''--markdown'' then store (cli_output_path v) (\<lambda>x. ra_md_out_update (\<lambda>_. Some x))
      else if opt = ''--log-dir'' then store (cli_output_path v) (\<lambda>x. ra_log_dir_update (\<lambda>_. Some x))
      else if opt = ''--no-log'' then Inr (ra_no_log_update (\<lambda>_. True))
      else Inl (ArgumentTypeError ''unrecognized arguments''))"

definition reconcile_required :: "string list" where
  "reconcile_required = [''--rail'', ''--payer'', ''--payee'', ''--nonce'', ''--tx-hash'', ''--log-index'', ''--required-amount'',
     ''--payer-before'', ''--payee-before'']"

text \<open>
  \<^verbatim>\<open>argparse\<close>: a converter's error, an unknown option, a missing required one, both or none of the
  exclusive group end in \<^verbatim>\<open>error\<close>, which raises \<^verbatim>\<open>CliUsageError\<close> (a \<^verbatim>\<open>ValueError\<close>).
\<close>

definition parse_reconcile :: "cli_env \<Rightarrow> (string \<times> string) list \<Rightarrow> reconcile_args result" where
  "parse_reconcile env opts =
     mapErrR (\<lambda>e. ValueError ''usage'')
       (bindR (traverseR (reconcile_option env) opts) (\<lambda>upds.
        let seen = set (map fst opts) in
        if \<not> set reconcile_required \<subseteq> seen then Inl (ArgumentTypeError ''the following arguments are required'')
        else if (''--sut-paid'' \<in> seen) = (''--sut-unpaid'' \<in> seen)
        then Inl (ArgumentTypeError ''exactly one of the arguments --sut-paid --sut-unpaid is required'')
        else Inr (fold (\<lambda>u a. u a) upds default_args)))"

record drift_args =
  da_rail :: string
  da_rpc_url :: string
  da_rpc_timeout :: pyfloat

definition drift_option :: "cli_env \<Rightarrow> string \<times> string \<Rightarrow> (drift_args \<Rightarrow> drift_args) result" where
  "drift_option env ov =
     (let (opt, v) = ov in
      if opt = ''--rail'' then store (Inr v) (\<lambda>x. da_rail_update (\<lambda>_. x))
      else if opt = ''--rpc-url'' then store (cli_rpc_url (rh_ip6 (ce_http env)) v) (\<lambda>x. da_rpc_url_update (\<lambda>_. x))
      else if opt = ''--rpc-timeout'' then store (cli_timeout env v) (\<lambda>x. da_rpc_timeout_update (\<lambda>_. x))
      else Inl (ArgumentTypeError ''unrecognized arguments''))"

definition parse_drift :: "cli_env \<Rightarrow> (string \<times> string) list \<Rightarrow> drift_args result" where
  "parse_drift env opts =
     mapErrR (\<lambda>e. ValueError ''usage'')
       (bindR (traverseR (drift_option env) opts) (\<lambda>upds.
        if \<not> {''--rail'', ''--rpc-url''} \<subseteq> set (map fst opts) then Inl (ArgumentTypeError ''the following arguments are required'')
        else Inr (fold (\<lambda>u a. u a) upds \<lparr>da_rail = [], da_rpc_url = [], da_rpc_timeout = Finite 10 0\<rparr>)))"

section \<open>Reconciling\<close>

definition run_reconcile ::
  "hash_fun \<Rightarrow> token_view \<Rightarrow> rail_config \<Rightarrow> string \<Rightarrow> string \<Rightarrow> string \<Rightarrow> string \<Rightarrow> int \<Rightarrow> int \<Rightarrow> int \<Rightarrow> int \<Rightarrow> bool \<Rightarrow> datetime \<Rightarrow>
     recon_report rpc" where
  "run_reconcile sha256 tok rc payer payee nonce transaction_hash log_index required_amount payer_before payee_before
       sut_believes_paid generated_at =
     bindS (reconcile_live sha256 tok rc payer payee nonce transaction_hash log_index required_amount payer_before
              payee_before sut_believes_paid) (\<lambda>result.
     liftS (build_report rc payer payee nonce sut_believes_paid (lr_divergence result) (lr_evidence result) generated_at))"

record cli_world =
  cw_logs :: disk
  cw_files :: disk
  cw_out :: "string list"
  cw_err :: "string list"
  cw_term :: "io_step list"
  cw_ticks :: nat

type_synonym 'a cli_op = "(cli_world, 'a) op"

definition on_logs :: "(disk, 'a) op \<Rightarrow> 'a cli_op" where
  "on_logs m = (\<lambda>w. case m (cw_logs w) of (r, d) \<Rightarrow> (r, w\<lparr>cw_logs := d\<rparr>))"

definition on_files :: "(disk, 'a) op \<Rightarrow> 'a cli_op" where
  "on_files m = (\<lambda>w. case m (cw_files w) of (r, d) \<Rightarrow> (r, w\<lparr>cw_files := d\<rparr>))"

definition read_clock :: "cli_env \<Rightarrow> int cli_op" where
  "read_clock env = (\<lambda>w. (Inr (ce_time env (cw_ticks w)), w\<lparr>cw_ticks := cw_ticks w + 1\<rparr>))"

definition terminal :: "(cli_world \<Rightarrow> cli_world) \<Rightarrow> unit cli_op" where
  "terminal show_line = (\<lambda>w.
     case cw_term w of
       [] \<Rightarrow> (Inr (), show_line w)
     | x # xs \<Rightarrow> if x = Fail then (Inl os_error, w\<lparr>cw_term := xs\<rparr>) else (Inr (), show_line (w\<lparr>cw_term := xs\<rparr>)))"

definition print_out :: "string \<Rightarrow> unit cli_op" where
  "print_out s = terminal (\<lambda>w. w\<lparr>cw_out := cw_out w @ [s]\<rparr>)"

definition print_err :: "string \<Rightarrow> unit cli_op" where
  "print_err s = terminal (\<lambda>w. w\<lparr>cw_err := cw_err w @ [s]\<rparr>)"

text \<open>\<^verbatim>\<open>mkdir\<close>, then \<^verbatim>\<open>write_bytes\<close>: the file is truncated, written and closed.\<close>

definition write_report :: "string \<Rightarrow> string \<Rightarrow> string \<Rightarrow> (disk, unit) op" where
  "write_report path payload label =
     (if 2097152 < int (length (utf8_encode payload)) then raiseS (OSError (label @ '' report exceeds the limit''))
      else
      bindS sys_call (\<lambda>_.
      bindS sys_call (\<lambda>_.
      bindS (create_file path) (\<lambda>_.
      bindS (write_all path (utf8_encode payload)) (\<lambda>_.
      sys_call)))))"

definition resolve_log_dir :: "cli_env \<Rightarrow> reconcile_args \<Rightarrow> string option" where
  "resolve_log_dir env args =
     (if ra_no_log args then None
      else case ra_log_dir args of
        Some d \<Rightarrow> Some d
      | None \<Rightarrow>
          (case ce_getenv env ''PSV_NO_LOG'' of
             Some v \<Rightarrow> if v \<noteq> [] then None else Some ''psv-runs''
           | None \<Rightarrow> Some ''psv-runs''))"

definition reconcile_inputs :: "reconcile_args \<Rightarrow> (string \<times> pyval) list" where
  "reconcile_inputs args =
     [(''rail'', PStr (ra_rail args)), (''payer'', PStr (ra_payer args)), (''payee'', PStr (ra_payee args)),
      (''nonce'', PStr (ra_nonce args)), (''transaction_hash'', PStr (ra_tx_hash args)),
      (''log_index'', PInt (ra_log_index args)), (''required_amount'', PInt (ra_required_amount args)),
      (''payer_before'', PInt (ra_payer_before args)), (''payee_before'', PInt (ra_payee_before args)),
      (''sut_believes_paid'', PBool (ra_sut_believes_paid args)), (''rpc_url'', PStr (ra_rpc_url args)),
      (''rpc_timeout'', PFloat (ra_rpc_timeout args))]"

definition write_record ::
  "cli_env \<Rightarrow> reconcile_args \<Rightarrow> int \<Rightarrow> pydict option \<Rightarrow> int \<Rightarrow> string option \<Rightarrow> bool cli_op" where
  "write_record env args started_at report exit_status err =
     (case resolve_log_dir env args of
        None \<Rightarrow> retS True
      | Some log_dir \<Rightarrow>
          bindS (read_clock env) (\<lambda>finished_at w.
          case bindS (liftS (build_run_record (ce_run env) ''reconcile'' (reconcile_inputs args) report exit_status
                               (Aware started_at) (Aware finished_at) err))
                 (\<lambda>r. on_logs (write_run_record (ce_run env) r)) w of
            (Inl e, w') \<Rightarrow>
              if is_os_error e \<or> is_value_error e
              then bindS (print_err (''audit-record error: '' @ ce_exn_text env e)) (\<lambda>_. retS False) w'
              else (Inl e, w')
          | (Inr name, w') \<Rightarrow> bindS (print_out (''Run record: '' @ log_dir @ ''/'' @ name)) (\<lambda>_. retS True) w'))"

definition write_reports :: "reconcile_args \<Rightarrow> string \<Rightarrow> string \<Rightarrow> (disk, unit) op" where
  "write_reports args json_payload markdown =
     bindS (case ra_json_out args of None \<Rightarrow> retS () | Some p \<Rightarrow> write_report p json_payload ''JSON'') (\<lambda>_.
     case ra_md_out args of None \<Rightarrow> retS () | Some p \<Rightarrow> write_report p markdown ''Markdown'')"

definition show_path :: "string \<Rightarrow> string option \<Rightarrow> unit cli_op" where
  "show_path label p = (case p of None \<Rightarrow> retS () | Some s \<Rightarrow> print_out (label @ s))"

text \<open>
  The \<^verbatim>\<open>try\<close> around the reconciliation.  The report is stamped with the next time of the clock; reading
  it ahead changes nothing, since the times are arbitrary.
\<close>

definition observe_settlement :: "cli_env \<Rightarrow> rail_config \<Rightarrow> reconcile_args \<Rightarrow> int \<Rightarrow> recon_report result" where
  "observe_settlement env rc args now =
     fst (bindS (liftS (token_for_rail rc)) (\<lambda>tok.
            run_reconcile (re_sha256 (ce_run env)) tok rc (ra_payer args) (ra_payee args) (ra_nonce args) (ra_tx_hash args)
              (ra_log_index args) (ra_required_amount args) (ra_payer_before args) (ra_payee_before args)
              (ra_sut_believes_paid args) (Aware now))
          (http_client (ce_http env) (ra_rpc_url args) (ra_rpc_timeout args)))"

definition emit_report :: "cli_env \<Rightarrow> reconcile_args \<Rightarrow> int \<Rightarrow> recon_report \<Rightarrow> int cli_op" where
  "emit_report env args started_at report =
     bindS (liftS (report_markdown report)) (\<lambda>markdown.
     bindS (liftS (report_json (re_float_text (ce_run env)) report)) (\<lambda>json_payload w.
     case on_files (write_reports args json_payload markdown) w of
       (Inl e, w') \<Rightarrow>
         if is_os_error e
         then bindS (write_record env args started_at (Some (report_dict report)) 2 (Some (''output error: '' @ ce_exn_text env e))) (\<lambda>_.
              bindS (print_err (''output error: '' @ ce_exn_text env e)) (\<lambda>_. retS 2)) w'
         else (Inl e, w')
     | (Inr u, w') \<Rightarrow>
         bindS (print_out markdown) (\<lambda>_.
         bindS (show_path ''JSON report: '' (ra_json_out args)) (\<lambda>_.
         bindS (show_path ''Markdown report: '' (ra_md_out args)) (\<lambda>_.
         bindS (write_record env args started_at (Some (report_dict report)) (exit_code report) None) (\<lambda>logged.
         retS (if logged then exit_code report else 2))))) w'))"

definition cmd_reconcile :: "cli_env \<Rightarrow> reconcile_args \<Rightarrow> int cli_op" where
  "cmd_reconcile env args =
     bindS (read_clock env) (\<lambda>started_at.
     case get_rail (ra_rail args) of
       Inl e \<Rightarrow> bindS (print_err (ce_exn_text env e)) (\<lambda>_. retS 2)
     | Inr rc \<Rightarrow>
         bindS (read_clock env) (\<lambda>now.
         case observe_settlement env rc args now of
           Inl e \<Rightarrow>
             if is_rpc_error e \<or> is_value_error e
             then bindS (write_record env args started_at None 2 (Some (''reconciliation error: '' @ ce_exn_text env e))) (\<lambda>_.
                  bindS (print_err (''reconciliation error: '' @ ce_exn_text env e)) (\<lambda>_. retS 2))
             else raiseS e
         | Inr report \<Rightarrow> emit_report env args started_at report))"

section \<open>Rail drift and dispatch\<close>

fun is_key_error :: "exn \<Rightarrow> bool" where
  "is_key_error (KeyError k) = True"
| "is_key_error _ = False"

definition cmd_rail_drift :: "cli_env \<Rightarrow> drift_args \<Rightarrow> int cli_op" where
  "cmd_rail_drift env args =
     (case bindR (get_rail (da_rail args)) (\<lambda>rc.
             fst (check_rail_drift (re_sha256 (ce_run env)) rc
                    (http_client (ce_http env) (da_rpc_url args) (da_rpc_timeout args)))) of
        Inl e \<Rightarrow>
          if is_key_error e \<or> is_rpc_error e \<or> is_value_error e
          then bindS (print_err (''rail-drift error: '' @ ce_exn_text env e)) (\<lambda>_. retS 2)
          else raiseS e
      | Inr check \<Rightarrow>
          bindS (liftS (dumps report_style (re_float_text (ce_run env)) (PDict (drift_as_dict check)))) (\<lambda>s.
          bindS (print_out s) (\<lambda>_. retS (if dc_matches check then 0 else 1))))"

datatype command_line =
    Reconcile "(string \<times> string) list"
  | RailDrift "(string \<times> string) list"
  | NoCommand

definition main :: "cli_env \<Rightarrow> command_line \<Rightarrow> int cli_op" where
  "main env argv w =
     (case argv of
        NoCommand \<Rightarrow> bindS (print_err ''psv: error: usage'') (\<lambda>_. retS 2) w
      | Reconcile opts \<Rightarrow>
          (case parse_reconcile env opts of
             Inl e \<Rightarrow> bindS (print_err (''psv: error: '' @ ce_exn_text env e)) (\<lambda>_. retS 2) w
           | Inr args \<Rightarrow>
               (case cmd_reconcile env args w of
                  (Inl e, w') \<Rightarrow>
                    if is_os_error e
                    then (case print_err (''output error: '' @ ce_exn_text env e) w' of
                            (Inl e', w'') \<Rightarrow> if is_os_error e' then (Inr 2, w'') else (Inl e', w'')
                          | (Inr u, w'') \<Rightarrow> (Inr 2, w''))
                    else (Inl e, w')
                | (Inr c, w') \<Rightarrow> (Inr c, w')))
      | RailDrift opts \<Rightarrow>
          (case parse_drift env opts of
             Inl e \<Rightarrow> bindS (print_err (''psv: error: '' @ ce_exn_text env e)) (\<lambda>_. retS 2) w
           | Inr args \<Rightarrow>
               (case cmd_rail_drift env args w of
                  (Inl e, w') \<Rightarrow> if is_os_error e then (Inr 2, w') else (Inl e, w')
                | (Inr c, w') \<Rightarrow> (Inr c, w'))))"

text \<open>\<^verbatim>\<open>SystemExit(main())\<close>: an exception that escapes ends the interpreter with status 1.\<close>

definition process_status :: "int result \<Rightarrow> int" where
  "process_status r = (case r of Inl e \<Rightarrow> 1 | Inr c \<Rightarrow> c)"

end
