(* ===== verification/Cli_Errors.thy ===== *)
theory Cli_Errors
  imports Cli Log_Directory
begin

text \<open>
  What the command line raises: writing the reports and the audit record ends in an \<^verbatim>\<open>OSError\<close> or in
  nothing, so that an exception that \<^verbatim>\<open>psv reconcile\<close> does not turn into an exit code was raised before
  anything was printed or recorded.
\<close>

section \<open>System calls\<close>

lemma raisesS_D: "raisesS P m \<Longrightarrow> m s = (Inl e, t) \<Longrightarrow> P e"
  by (auto simp: raisesS_def)

lemma read_clock_bind:
  "bindS (read_clock env) f w = f (ce_time env (cw_ticks w)) (w\<lparr>cw_ticks := cw_ticks w + 1\<rparr>)"
  by (simp add: bindS_def read_clock_def)

lemma sys_raises: "raisesS is_os_error sys_call" "raisesS is_os_error (os_write path data)"
  "raisesS is_os_error (create_file path)" "raisesS is_os_error (remove_file path)"
  by (auto simp: raisesS_def sys_call_def os_write_def create_file_def remove_file_def os_error_def split: prod.splits io_step.splits)

lemma open_raises: "raisesS is_os_error (open_exclusive path)" "raisesS is_os_error (open_append path)"
  unfolding open_exclusive_def open_append_def
  by (intro raisesS_bind sys_raises; auto simp: raisesS_def create_file_def split: if_splits)+

lemma write_all_raises: "write_all path view d = (Inl e, d') \<Longrightarrow> is_os_error e"
proof (induction path view d rule: write_all.induct)
  case (1 path view d)
  obtain r d1 where w: "os_write path view d = (r, d1)" by fastforce
  show ?case
  proof (cases r)
    case (Inl x)
    then have "is_os_error x" using sys_raises(2) w unfolding raisesS_def by blast
    then show ?thesis using 1 w Inl by (auto simp: write_all.simps[of path view d] split: if_splits)
  next
    case (Inr n)
    then show ?thesis using 1 w by (auto simp: write_all.simps[of path view d] split: if_splits)
  qed
qed

lemma write_all_raisesS: "raisesS is_os_error (write_all path view)"
  using write_all_raises by (auto simp: raisesS_def)

lemma write_exclusive_raises: "raisesS is_os_error (write_exclusive path payload)"
proof -
  have body: "raisesS is_os_error (bindS (write_all path payload) (\<lambda>_. sys_call))"
    by (intro raisesS_bind write_all_raisesS sys_raises)
  have fin: "raisesS is_os_error (finish_write path outcome)" if "raisesR is_os_error outcome" for outcome
    unfolding finish_write_def using that
    by (intro raisesS_bind sys_raises) (auto simp: raisesR_def intro!: raisesS_bind raisesS_intros sys_raises split: sum.split)
  show ?thesis
    unfolding write_exclusive_def
  proof (rule raisesS_bind[OF open_raises(1)], unfold raisesS_def, intro allI impI)
    fix d e d'
    assume "(case bindS (write_all path payload) (\<lambda>_. sys_call) d of (outcome, d') \<Rightarrow> finish_write path outcome d') = (Inl e, d')"
    then obtain outcome d1 where o: "bindS (write_all path payload) (\<lambda>_. sys_call) d = (outcome, d1)"
      "finish_write path outcome d1 = (Inl e, d')" by (auto split: prod.splits)
    then have "raisesR is_os_error outcome" using body by (auto simp: raisesS_def raisesR_def)
    then show "is_os_error e" using fin o(2) unfolding raisesS_def by blast
  qed
qed

lemma try_names_raises: "try_names stem payload ns d = (Inl e, d') \<Longrightarrow> is_os_error e"
proof (induction ns arbitrary: d)
  case (Cons n ns)
  obtain r d1 where w: "write_exclusive (record_name stem n) payload d = (r, d1)" by fastforce
  show ?case
  proof (cases r)
    case (Inl x)
    then have "is_os_error x" using write_exclusive_raises w unfolding raisesS_def by blast
    then show ?thesis using Cons w Inl by (cases x) auto
  qed (use Cons w in auto)
qed auto

lemma append_journal_raises: "raisesS is_os_error (append_journal path line)"
proof -
  have body: "raisesS is_os_error (bindS (os_write path line) (\<lambda>written.
      bindS (liftS (guardR (written = int (length line)) (OSError ''partial run journal write''))) (\<lambda>_. sys_call)))"
    by (intro raisesS_bind sys_raises raisesS_intros) (simp add: guardR_def raisesR_def)
  show ?thesis
    unfolding append_journal_def
  proof (rule raisesS_bind[OF open_raises(2)], unfold raisesS_def, intro allI impI)
    fix d e d'
    assume "(case bindS (os_write path line) (\<lambda>written. bindS (liftS (guardR (written = int (length line))
        (OSError ''partial run journal write''))) (\<lambda>_. sys_call)) d of
      (outcome, d') \<Rightarrow> bindS sys_call (\<lambda>_. liftS outcome) d') = (Inl e, d')"
    then obtain outcome d1 where o: "bindS (os_write path line) (\<lambda>written. bindS (liftS (guardR (written = int (length line))
        (OSError ''partial run journal write''))) (\<lambda>_. sys_call)) d = (outcome, d1)"
      "bindS sys_call (\<lambda>_. liftS outcome) d1 = (Inl e, d')" by (auto split: prod.splits)
    have "raisesR is_os_error outcome" using body o(1) unfolding raisesS_def raisesR_def by blast
    then have "raisesS is_os_error (bindS sys_call (\<lambda>_. liftS outcome) :: (disk, unit) op)"
      by (intro raisesS_bind sys_raises raisesS_intros)
    then show "is_os_error e" using o(2) unfolding raisesS_def by blast
  qed
qed

section \<open>The audit record\<close>

lemma fields_typed:
  assumes "\<forall>(k, x)\<in>set inputs. json_typed x" "\<forall>d. report = Some d \<longrightarrow> typed_fields d"
  shows "typed_fields (obj (run_fields env command inputs report ec s f err))"
proof -
  have "json_typed x" if "(k, x) \<in> set (clean_inputs env inputs)" for k x
    using that assms(1) by (auto simp: clean_inputs_def List.map_filter_def clean_input_def Let_def split: if_splits)
  then have "typed_fields (obj (clean_inputs env inputs))" by (auto simp: typed_obj)
  then show ?thesis using assms(2) by (auto simp: typed_obj run_fields_def split: option.splits)
qed

lemma build_raises:
  assumes "\<forall>(k, x)\<in>set inputs. json_typed x" "\<forall>d. report = Some d \<longrightarrow> typed_fields d"
  shows "raisesR is_value_error (build_run_record env command inputs report ec started_at finished_at err)"
proof -
  have "typed_fields (record_payload (obj (run_fields env command inputs report ec s f err)))" for s f
    using fields_typed[OF assms, of env command ec s f err] by (auto simp: typed_fields_iff record_payload_def)
  then have "raisesR is_value_error (content_hash env (obj (run_fields env command inputs report ec s f err)))" for s f
    unfolding content_hash_def by (intro raisesR_intros dumps_raises) simp_all
  then show ?thesis
    unfolding build_run_record_def Let_def
    by (auto intro!: raisesR_intros split: datetime.split)
qed

abbreviation io_or_value :: "exn \<Rightarrow> bool" where
  "io_or_value e \<equiv> is_os_error e \<or> is_value_error e"

lemma raisesS_weaken: "raisesS P m \<Longrightarrow> (\<And>e. P e \<Longrightarrow> Q e) \<Longrightarrow> raisesS Q m"
  by (auto simp: raisesS_def)

lemma json_line_raises: "typed_fields d \<Longrightarrow> raisesS io_or_value (liftS (json_line env st d))"
  using dumps_raises[of "PDict d" st "re_float_text env"]
  by (auto simp: json_line_def raisesS_def raisesR_def err_iff)

lemma write_run_record_raises:
  assumes "build_run_record env command inputs report ec started_at finished_at err = Inr r"
    and "\<forall>(k, x)\<in>set inputs. json_typed x" "\<forall>d. report = Some d \<longrightarrow> typed_fields d"
  shows "raisesS io_or_value (write_run_record env r)"
proof -
  from assms(1) obtain s f h where "r = obj (run_fields env command inputs report ec s f err) @ [(PStr ''runId'', PStr h)]"
    by (rule built_record)
  then have r: "typed_fields r" using fields_typed[OF assms(2,3), of env command ec s f err] by (auto simp: typed_fields_iff is_str_def)
  obtain s h where m: "str_member r ''startedAt'' = Inr (isoformat s)" "str_member r ''runId'' = Inr h"
    "\<And>n. \<exists>e. journal_entry r n = Inr e" using built_members[OF assms(1)] by blast
  have e: "typed_fields e" if "journal_entry r n = Inr e" for n e
  proof -
    have "json_typed v" if "dict_item r k = Inr v" for k v
      using that r by (auto simp: dict_item_def typed_fields_iff dest: map_of_SomeD split: option.splits)
    then show ?thesis using that by (auto simp: journal_entry_def bindR_ok typed_obj)
  qed
  have j: "raisesS io_or_value (bindS (liftS (journal_entry r n)) (\<lambda>entry. bindS (liftS (json_line env default_style entry)) (\<lambda>line.
      bindS (append_journal ''runs.jsonl'' line) (\<lambda>_. retS n))))" for n
  proof -
    obtain x where x: "journal_entry r n = Inr x" using m(3) by blast
    have "raisesS io_or_value (bindS (liftS (json_line env default_style x)) (\<lambda>line.
      bindS (append_journal ''runs.jsonl'' line) (\<lambda>_. retS n)))"
      by (intro raisesS_bind json_line_raises e[OF x] raisesS_intros raisesS_weaken[OF append_journal_raises]) simp
    then show ?thesis by (simp add: x)
  qed
  have p: "raisesS io_or_value (exclusive_record_path stem payload)" for stem payload
    using try_names_raises by (auto simp: raisesS_def exclusive_record_path_def)
  have "raisesS io_or_value (bindS sys_call (\<lambda>_. bindS (liftS (json_line env indented_style r)) (\<lambda>payload.
      bindS (exclusive_record_path (file_stem (isoformat s) h) payload) (\<lambda>name.
      bindS (liftS (journal_entry r name)) (\<lambda>entry. bindS (liftS (json_line env default_style entry)) (\<lambda>line.
      bindS (append_journal ''runs.jsonl'' line) (\<lambda>_. retS name)))))))"
    by (intro raisesS_bind[OF raisesS_weaken[OF sys_raises(1)]] raisesS_bind[OF json_line_raises[OF r]] raisesS_bind[OF p] j) simp
  then show ?thesis unfolding write_run_record_def by (simp add: built_verifies[OF assms(1)] m(1,2))
qed

lemma inputs_typed: "\<forall>(k, x)\<in>set (reconcile_inputs args). json_typed x"
  by (simp add: reconcile_inputs_def)

lemma report_typed: "typed_fields (report_dict r)"
  by (auto simp: report_dict_def evidence_dict_def tool_metadata_def typed_obj opt_int_def opt_str_def split: option.splits)

lemma print_raises: "raisesS is_os_error (print_out s)" "raisesS is_os_error (print_err s)"
  by (auto simp: raisesS_def print_out_def print_err_def terminal_def os_error_def split: list.splits if_splits)

lemma write_record_raises:
  assumes "\<forall>d. report = Some d \<longrightarrow> typed_fields d"
  shows "raisesS is_os_error (write_record env args started report k err)"
proof (cases "resolve_log_dir env args")
  case None
  then show ?thesis by (simp add: write_record_def raisesS_intros)
next
  case (Some dir)
  show ?thesis
    unfolding raisesS_def
  proof (intro allI impI)
    fix w w' :: cli_world and e
    let ?b = "build_run_record (ce_run env) ''reconcile'' (reconcile_inputs args) report k (Aware started)
      (Aware (ce_time env (cw_ticks w))) err"
    let ?w = "w\<lparr>cw_ticks := cw_ticks w + 1\<rparr>"
    obtain x w1 where x: "bindS (liftS ?b) (\<lambda>r. on_logs (write_run_record (ce_run env) r)) ?w = (x, w1)" by fastforce
    have pe: "raisesS is_os_error (bindS (print_err m) (\<lambda>_. retS False))"
      and po: "raisesS is_os_error (bindS (print_out m) (\<lambda>_. retS True))" for m
      by (intro raisesS_bind print_raises raisesS_intros)+
    assume "write_record env args started report k err w = (Inl e, w')"
    then have run: "(case x of
        Inl e \<Rightarrow> if io_or_value e then bindS (print_err (''audit-record error: '' @ ce_exn_text env e)) (\<lambda>_. retS False) w1 else (Inl e, w1)
      | Inr name \<Rightarrow> bindS (print_out (''Run record: '' @ dir @ ''/'' @ name)) (\<lambda>_. retS True) w1) = (Inl e, w')"
      using Some x by (cases x) (simp_all only: write_record_def option.case read_clock_bind prod.case sum.case)
    show "is_os_error e"
    proof (cases x)
      case (Inl y)
      have "io_or_value y"
      proof (cases ?b)
        case (Inl z)
        then show ?thesis using x build_raises[OF inputs_typed assms] \<open>x = Inl y\<close> by (auto simp: raisesR_def bindS_def)
      next
        case (Inr r)
        then show ?thesis
          using x write_run_record_raises[OF Inr inputs_typed assms] \<open>x = Inl y\<close>
          by (auto simp: raisesS_def on_logs_def split: prod.splits)
      qed
      then have "bindS (print_err (''audit-record error: '' @ ce_exn_text env y)) (\<lambda>_. retS False) w1 = (Inl e, w')"
        using run unfolding Inl by (simp only: sum.case if_True)
      then show ?thesis by (rule raisesS_D[OF pe])
    next
      case (Inr name)
      show ?thesis using run unfolding Inr sum.case by (rule raisesS_D[OF po])
    qed
  qed
qed

section \<open>What escapes\<close>

lemma write_reports_raises: "raisesS is_os_error (write_reports args json_payload markdown)"
proof -
  have "raisesS is_os_error (write_report path payload label)" for path payload label
    unfolding write_report_def by (intro raisesS_intros raisesS_bind sys_raises write_all_raisesS) simp
  then show ?thesis
    unfolding write_reports_def by (intro raisesS_bind) (auto intro: raisesS_intros split: option.split)
qed

lemma on_files_raises: "raisesS P m \<Longrightarrow> raisesS P (on_files m)"
  by (auto simp: raisesS_def on_files_def split: prod.splits)

lemma show_path_raises: "raisesS is_os_error (show_path label p)"
  by (auto simp: show_path_def intro: raisesS_intros print_raises split: option.split)

lemma emit_report_escapes:
  assumes "emit_report env args started report w = (Inl e, w')" "\<not> is_os_error e"
  shows "w' = w"
proof (rule ccontr)
  assume "w' \<noteq> w"
  then obtain markdown json_payload where
    run: "(case on_files (write_reports args json_payload markdown) w of
       (Inl e, w') \<Rightarrow>
         if is_os_error e
         then bindS (write_record env args started (Some (report_dict report)) 2 (Some (''output error: '' @ ce_exn_text env e))) (\<lambda>_.
              bindS (print_err (''output error: '' @ ce_exn_text env e)) (\<lambda>_. retS 2)) w'
         else (Inl e, w')
     | (Inr u, w') \<Rightarrow>
         bindS (print_out markdown) (\<lambda>_.
         bindS (show_path ''JSON report: '' (ra_json_out args)) (\<lambda>_.
         bindS (show_path ''Markdown report: '' (ra_md_out args)) (\<lambda>_.
         bindS (write_record env args started (Some (report_dict report)) (exit_code report) None) (\<lambda>logged.
         retS (if logged then exit_code report else 2))))) w') = (Inl e, w')"
    using assms(1) unfolding emit_report_def
    by (cases "report_markdown report"; cases "report_json (re_float_text (ce_run env)) report") auto
  obtain x w1 where x: "on_files (write_reports args json_payload markdown) w = (x, w1)" by fastforce
  have wr: "raisesS is_os_error (write_record env args started (Some (report_dict report)) k err)" for k err
    by (rule write_record_raises) (simp add: report_typed)
  have bad: "raisesS is_os_error (bindS (write_record env args started (Some (report_dict report)) 2 err) (\<lambda>_.
      bindS (print_err m) (\<lambda>_. retS 2)) :: int cli_op)" for err m
    by (intro raisesS_bind wr print_raises raisesS_intros)
  have good: "raisesS is_os_error (bindS (print_out markdown) (\<lambda>_.
      bindS (show_path ''JSON report: '' (ra_json_out args)) (\<lambda>_.
      bindS (show_path ''Markdown report: '' (ra_md_out args)) (\<lambda>_.
      bindS (write_record env args started (Some (report_dict report)) (exit_code report) None) (\<lambda>logged.
      retS (if logged then exit_code report else 2))))))"
    by (intro raisesS_bind wr print_raises show_path_raises raisesS_intros)
  have "is_os_error e"
  proof (cases x)
    case (Inl y)
    then have "is_os_error y" using on_files_raises[OF write_reports_raises] x unfolding raisesS_def by blast
    then have "bindS (write_record env args started (Some (report_dict report)) 2 (Some (''output error: '' @ ce_exn_text env y))) (\<lambda>_.
        bindS (print_err (''output error: '' @ ce_exn_text env y)) (\<lambda>_. retS 2 :: int cli_op)) w1 = (Inl e, w')"
      using run unfolding x Inl by (simp only: prod.case sum.case if_True)
    then show ?thesis by (rule raisesS_D[OF bad])
  next
    case (Inr u)
    show ?thesis using run unfolding x Inr prod.case sum.case by (rule raisesS_D[OF good])
  qed
  then show False using assms(2) by blast
qed

lemma cmd_reconcile_escapes:
  assumes "cmd_reconcile env args w = (Inl e, w')" "\<not> is_os_error e"
  shows "cw_logs w' = cw_logs w" "cw_files w' = cw_files w" "cw_out w' = cw_out w" "cw_err w' = cw_err w"
proof -
  have bad: "raisesS is_os_error (bindS (write_record env args started None 2 err) (\<lambda>_. bindS (print_err m) (\<lambda>_. retS 2)) :: int cli_op)"
    and msg: "raisesS is_os_error (bindS (print_err m) (\<lambda>_. retS 2) :: int cli_op)" for started err m
    by (intro raisesS_bind write_record_raises print_raises raisesS_intros; simp)+
  have "\<exists>n. w' = w\<lparr>cw_ticks := n\<rparr>"
  proof (cases "get_rail (ra_rail args)")
    case (Inl x)
    then have "bindS (print_err (ce_exn_text env x)) (\<lambda>_. retS 2 :: int cli_op) (w\<lparr>cw_ticks := cw_ticks w + 1\<rparr>) = (Inl e, w')"
      using assms(1) by (simp only: cmd_reconcile_def read_clock_bind sum.case)
    then show ?thesis using raisesS_D[OF msg] assms(2) by blast
  next
    case (Inr rc)
    let ?w = "w\<lparr>cw_ticks := cw_ticks w + 1, cw_ticks := cw_ticks w + 1 + 1\<rparr>"
    from assms(1) Inr have run: "(case observe_settlement env rc args (ce_time env (cw_ticks w + 1)) of
           Inl e \<Rightarrow>
             if is_rpc_error e \<or> is_value_error e
             then bindS (write_record env args (ce_time env (cw_ticks w)) None 2 (Some (''reconciliation error: '' @ ce_exn_text env e))) (\<lambda>_.
                  bindS (print_err (''reconciliation error: '' @ ce_exn_text env e)) (\<lambda>_. retS 2))
             else raiseS e
         | Inr report \<Rightarrow> emit_report env args (ce_time env (cw_ticks w)) report) ?w = (Inl e, w')"
      by (simp only: cmd_reconcile_def read_clock_bind sum.case) simp
    show ?thesis
    proof (cases "observe_settlement env rc args (ce_time env (cw_ticks w + 1))")
      case (Inl x)
      show ?thesis
      proof (cases "is_rpc_error x \<or> is_value_error x")
        case True
        then show ?thesis using run raisesS_D[OF bad] assms(2) unfolding Inl sum.case if_P[OF True] by blast
      next
        case False
        then show ?thesis using run unfolding Inl sum.case if_not_P[OF False] by auto
      qed
    next
      case (Inr report)
      then show ?thesis using run emit_report_escapes[OF _ assms(2)] unfolding Inr sum.case by fastforce
    qed
  qed
  then show "cw_logs w' = cw_logs w" "cw_files w' = cw_files w" "cw_out w' = cw_out w" "cw_err w' = cw_err w" by auto
qed

lemma main_escapes:
  assumes "main env (Reconcile opts) w = (Inl e, w')"
  shows "cw_logs w' = cw_logs w" "cw_files w' = cw_files w" "cw_out w' = cw_out w"
proof -
  have "cw_logs w' = cw_logs w \<and> cw_files w' = cw_files w \<and> cw_out w' = cw_out w"
  proof (cases "parse_reconcile env opts")
    case (Inl x)
    then show ?thesis
      using assms by (auto simp: main_def bindS_def print_err_def terminal_def split: list.splits if_splits)
  next
    case (Inr args)
    obtain r w1 where c: "cmd_reconcile env args w = (r, w1)" by fastforce
    have pe: "is_os_error e" if "print_err m v = (Inl e, v')" for m v v' e
      using that print_raises(2) unfolding raisesS_def by blast
    from assms Inr c pe have "r = Inl e \<and> \<not> is_os_error e \<and> w' = w1"
      by (cases r) (auto simp: main_def split: if_splits prod.splits sum.splits)
    then show ?thesis using cmd_reconcile_escapes[of env args w e w1] c by blast
  qed
  then show "cw_logs w' = cw_logs w" "cw_files w' = cw_files w" "cw_out w' = cw_out w" by blast+
qed

end
