(* ===== verification/Cli_Properties.thy ===== *)
theory Cli_Properties
  imports Cli_Errors
begin

text \<open>
  The properties of the command line: what its reports say, when it exits with which code, and what
  it accepts as an endpoint.
\<close>

section \<open>The report of a run\<close>

lemma report_envelope: "set (map fst (report_dict r)) = set (map PStr envelope_fields)"
  "dict_get (report_dict r) ''reportVersion'' = PStr report_version"
  by (auto simp: report_dict_def obj_def envelope_fields_def dict_get_def)

lemma validate_report_ok:
  "validate_report r = Inr () \<longleftrightarrow>
     map_of reason_codes (rr_kind r) = Some (rr_reason_code r) \<and> 1 \<le> ev_required_amount (rr_evidence r) \<and>
     0 \<le> ev_received_amount (rr_evidence r) \<and> ev_chain_id (rr_evidence r) = rr_chain_id r"
  using report_envelope[of r] by (auto simp: validate_report_def Let_def)

lemma build_report_ok:
  assumes "build_report rc payer payee nonce believes d e t = Inr r"
  shows "rr_kind r = kind_value (kind d)" "rr_is_failure r = is_failure d" "rr_evidence r = e" "rr_message r = message d"
    "map_of reason_codes (rr_kind r) = Some (rr_reason_code r)" "ev_chain_id e = rr_chain_id r"
    "rr_sut_believes_paid r = believes" "rr_rail_key r = rail_key rc"
  using assms by (auto simp: build_report_def split: datetime.splits if_splits option.splits)

lemma reported_kind: "map_of reason_codes (kind_value k) = None \<longleftrightarrow> k = OVER_AUTHORIZED_SETTLEMENT"
  by (cases k) (simp_all add: reason_codes_def kind_value_def)

lemma live_amounts:
  assumes "reconcile_live sha tok rc payer payee nonce tx li req pb qb believes c = (Inr r, c')"
  shows "ev_required_amount (lr_evidence r) = req" "1 \<le> req" "0 \<le> ev_received_amount (lr_evidence r)"
    "ev_chain_id (lr_evidence r) = rail_chain_id rc" "ev_token_address (lr_evidence r) = lower (rail_token_address rc)"
    "kind (lr_divergence r) \<noteq> OVER_AUTHORIZED_SETTLEMENT"
proof -
  from assms obtain p ab c1 c2 where args: "check_live_args tok rc nonce tx li req pb qb = Inr (lower tx)"
    and pin: "read_pinned sha tok rc (lower tx) payer payee nonce pb qb c = (Inr p, c1)"
    and ab: "attribute_settlement tok payer payee nonce (lower tx) li p c1 = (Inr ab, c2)"
    and d: "lr_divergence r = detect_payment_divergence (ab_truth ab) believes (Some req)"
    and e: "lr_evidence r = live_evidence tok rc payer payee nonce (lower tx) req p ab"
    by (rule reconcile_live_run)
  show "kind (lr_divergence r) \<noteq> OVER_AUTHORIZED_SETTLEMENT" using live_kind[OF ab, of believes req] d by (auto split: if_splits)
  show "0 \<le> ev_received_amount (lr_evidence r)"
    using ab by (auto simp: e live_evidence_def attribute_settlement_def ok_iff Let_def split: if_splits)
  show "ev_required_amount (lr_evidence r) = req" "1 \<le> req" "ev_chain_id (lr_evidence r) = rail_chain_id rc"
    "ev_token_address (lr_evidence r) = lower (rail_token_address rc)"
    using check_live_args_sound(3,5)[OF args] pinned_facts(2)[OF pin] by (simp_all add: e live_evidence_def)
qed

text \<open>Building never fails after a reconciliation, and the report passes its own validation.\<close>

lemma built_after_live:
  assumes "reconcile_live sha tok rc payer payee nonce tx li req pb qb believes c = (Inr x, c')"
  obtains r where "build_report rc payer payee nonce believes (lr_divergence x) (lr_evidence x) (Aware now) = Inr r"
    "validate_report r = Inr ()"
proof -
  note L = live_amounts[OF assms]
  obtain reason where "map_of reason_codes (kind_value (kind (lr_divergence x))) = Some reason"
    using reported_kind[of "kind (lr_divergence x)"] L(6) by blast
  then obtain r where r: "build_report rc payer payee nonce believes (lr_divergence x) (lr_evidence x) (Aware now) = Inr r"
    using L(4,5) by (simp add: build_report_def)
  then show thesis using that L build_report_ok[OF r] by (simp add: validate_report_ok)
qed

section \<open>Effects of the command\<close>

lemma terminal_logs: "terminal f w = (r, w') \<Longrightarrow> (\<And>v. cw_logs (f v) = cw_logs v) \<Longrightarrow> cw_logs w' = cw_logs w"
  by (auto simp: terminal_def split: list.splits if_splits)

lemma prints_keep:
  "print_out s w = (r, w') \<Longrightarrow> cw_logs w' = cw_logs w"
  "print_err s w = (r, w') \<Longrightarrow> cw_logs w' = cw_logs w"
  by (auto simp: print_out_def print_err_def intro: terminal_logs)

lemma print_out_adds: "print_out s w = (Inr u, w') \<Longrightarrow> cw_out w' = cw_out w @ [s]"
  by (auto simp: print_out_def terminal_def split: list.splits if_splits)

lemma prints_raise:
  "print_out s w = (Inl e, w') \<Longrightarrow> e = os_error" "print_err s w = (Inl e, w') \<Longrightarrow> e = os_error"
  by (auto simp: print_out_def print_err_def terminal_def split: list.splits if_splits)

lemma on_logs_iff: "on_logs m w = (r, w') \<longleftrightarrow> (\<exists>d. m (cw_logs w) = (r, d) \<and> w' = w\<lparr>cw_logs := d\<rparr>)"
  by (auto simp: on_logs_def split: prod.splits)

lemma write_record_unlogged: "resolve_log_dir env args = None \<Longrightarrow> write_record env args t report k err = retS True"
  by (simp add: write_record_def)

lemma write_record_logged:
  assumes "write_record env args started report k err w = (Inr True, w')" "resolve_log_dir env args = Some dir"
  obtains finished r name d where
    "build_run_record (ce_run env) ''reconcile'' (reconcile_inputs args) report k (Aware started) (Aware finished) err = Inr r"
    "write_run_record (ce_run env) r (cw_logs w) = (Inr name, cw_logs w')"
    "cw_out w' = cw_out w @ [''Run record: '' @ dir @ ''/'' @ name]"
proof -
  let ?b = "build_run_record (ce_run env) ''reconcile'' (reconcile_inputs args) report k (Aware started)
    (Aware (ce_time env (cw_ticks w))) err"
  let ?w = "w\<lparr>cw_ticks := cw_ticks w + 1\<rparr>"
  have run: "(case bindS (liftS ?b) (\<lambda>r. on_logs (write_run_record (ce_run env) r)) ?w of
      (Inl e, w') \<Rightarrow> if is_os_error e \<or> is_value_error e
        then bindS (print_err (''audit-record error: '' @ ce_exn_text env e)) (\<lambda>_. retS False) w' else (Inl e, w')
    | (Inr name, w') \<Rightarrow> bindS (print_out (''Run record: '' @ dir @ ''/'' @ name)) (\<lambda>_. retS True) w') = (Inr True, w')"
    using assms by (simp only: write_record_def option.simps read_clock_bind)
  from run obtain name w1 where ok: "bindS (liftS ?b) (\<lambda>r. on_logs (write_run_record (ce_run env) r)) ?w = (Inr name, w1)"
    and pr: "print_out (''Run record: '' @ dir @ ''/'' @ name) w1 = (Inr (), w')"
    by (auto simp: bindS_ok split: prod.splits sum.splits if_splits)
  from ok obtain r d where r: "?b = Inr r" "write_run_record (ce_run env) r (cw_logs w) = (Inr name, d)"
    "w1 = ?w\<lparr>cw_logs := d\<rparr>" by (auto simp: bindS_ok on_logs_iff)
  show thesis
  proof (rule that[of "ce_time env (cw_ticks w)" r name])
    show "write_run_record (ce_run env) r (cw_logs w) = (Inr name, cw_logs w')" using r prints_keep(1)[OF pr] by simp
    show "cw_out w' = cw_out w @ [''Run record: '' @ dir @ ''/'' @ name]" using r(3) print_out_adds[OF pr] by simp
  qed (use r in simp)
qed

lemma show_path_logs: "show_path l p w = (r, w') \<Longrightarrow> cw_logs w' = cw_logs w"
  by (auto simp: show_path_def prints_keep split: option.splits)

lemma on_files_logs: "on_files m w = (r, w') \<Longrightarrow> cw_logs w' = cw_logs w \<and> cw_out w' = cw_out w"
  by (auto simp: on_files_def split: prod.splits)

text \<open>A code other than 2 comes from the end of the command.\<close>

lemma emit_report_verdict:
  assumes "emit_report env args started report w = (Inr k, w')" "k \<noteq> 2"
  obtains markdown w1 where "report_markdown report = Inr markdown" "k = exit_code report"
    "cw_logs w1 = cw_logs w" "markdown \<in> set (cw_out w1)"
    "write_record env args started (Some (report_dict report)) (exit_code report) None w1 = (Inr True, w')"
proof -
  from assms(1) obtain markdown json_payload where m: "report_markdown report = Inr markdown"
    and run: "(case on_files (write_reports args json_payload markdown) w of
       (Inl e, w') \<Rightarrow>
         if is_os_error e
         then bindS (write_record env args started (Some (report_dict report)) 2 (Some (''output error: '' @ ce_exn_text env e))) (\<lambda>_.
              bindS (print_err (''output error: '' @ ce_exn_text env e)) (\<lambda>_. retS 2)) w'
         else (Inl e, w')
     | (Inr u, w') \<Rightarrow>
         bindS (print_out markdown) (\<lambda>_.
         bindS (show_path ''JSON report: '' (ra_json_out args)) (\<lambda>_.
         bindS (show_path ''Markdown report: '' (ra_md_out args)) (\<lambda>_.
         bindS (write_record env args started (Some (report_dict report)) (exit_code report) None) (\<lambda>logged.
         retS (if logged then exit_code report else 2))))) w') = (Inr k, w')"
    unfolding emit_report_def bindS_ok op_simps prod.inject by blast
  from run assms(2) obtain w0 where f: "on_files (write_reports args json_payload markdown) w = (Inr (), w0)"
    and rest: "bindS (print_out markdown) (\<lambda>_.
         bindS (show_path ''JSON report: '' (ra_json_out args)) (\<lambda>_.
         bindS (show_path ''Markdown report: '' (ra_md_out args)) (\<lambda>_.
         bindS (write_record env args started (Some (report_dict report)) (exit_code report) None) (\<lambda>logged.
         retS (if logged then exit_code report else 2))))) w0 = (Inr k, w')"
    by (cases "on_files (write_reports args json_payload markdown) w")
      (auto simp: bindS_ok split: sum.splits if_splits)
  from rest obtain w2 w3 w1 logged where p: "print_out markdown w0 = (Inr (), w2)"
    "show_path ''JSON report: '' (ra_json_out args) w2 = (Inr (), w3)"
    "show_path ''Markdown report: '' (ra_md_out args) w3 = (Inr (), w1)"
    "write_record env args started (Some (report_dict report)) (exit_code report) None w1 = (Inr logged, w')"
    "k = (if logged then exit_code report else 2)"
    by (auto simp: bindS_ok)
  have out: "set (cw_out v) \<subseteq> set (cw_out v')" if "show_path l q v = (Inr (), v')" for l q v v'
    using that print_out_adds by (auto simp: show_path_def split: option.splits)
  show thesis
  proof (rule that[OF m])
    show "markdown \<in> set (cw_out w1)" using print_out_adds[OF p(1)] out[OF p(2)] out[OF p(3)] by auto
    show "cw_logs w1 = cw_logs w"
      using show_path_logs[OF p(3)] show_path_logs[OF p(2)] prints_keep(1)[OF p(1)] on_files_logs[OF f] by simp
  qed (use p(4,5) assms(2) in \<open>auto split: if_splits\<close>)
qed

lemma cmd_reconcile_verdict:
  assumes "cmd_reconcile env args w = (Inr k, w')" "k \<noteq> 2"
  obtains rc started now report w1 where "get_rail (ra_rail args) = Inr rc" "observe_settlement env rc args now = Inr report"
    "cw_logs w1 = cw_logs w" "emit_report env args started report w1 = (Inr k, w')"
proof -
  from assms obtain rc report where "get_rail (ra_rail args) = Inr rc"
    "observe_settlement env rc args (ce_time env (cw_ticks w + 1)) = Inr report"
    "emit_report env args (ce_time env (cw_ticks w)) report (w\<lparr>cw_ticks := cw_ticks w + 2\<rparr>) = (Inr k, w')"
    by (auto simp: cmd_reconcile_def read_clock_bind bindS_ok split: sum.splits if_splits)
  then show thesis using that[of rc _ report "w\<lparr>cw_ticks := cw_ticks w + 2\<rparr>"] by simp
qed

section \<open>Exit codes\<close>

lemma observed_settlement:
  assumes "observe_settlement env rc args now = Inr report"
  obtains tok x c' where "token_for_rail rc = Inr tok"
    "reconcile_live (re_sha256 (ce_run env)) tok rc (ra_payer args) (ra_payee args) (ra_nonce args) (ra_tx_hash args)
       (ra_log_index args) (ra_required_amount args) (ra_payer_before args) (ra_payee_before args) (ra_sut_believes_paid args)
       (http_client (ce_http env) (ra_rpc_url args) (ra_rpc_timeout args)) = (Inr x, c')"
    "build_report rc (ra_payer args) (ra_payee args) (ra_nonce args) (ra_sut_believes_paid args) (lr_divergence x)
       (lr_evidence x) (Aware now) = Inr report"
proof -
  let ?c = "http_client (ce_http env) (ra_rpc_url args) (ra_rpc_timeout args)"
  from assms obtain tok where tok: "token_for_rail rc = Inr tok"
    and run: "fst (run_reconcile (re_sha256 (ce_run env)) tok rc (ra_payer args) (ra_payee args) (ra_nonce args) (ra_tx_hash args)
       (ra_log_index args) (ra_required_amount args) (ra_payer_before args) (ra_payee_before args) (ra_sut_believes_paid args)
       (Aware now) ?c) = Inr report"
    by (cases "token_for_rail rc") (auto simp: observe_settlement_def)
  then obtain c' where "run_reconcile (re_sha256 (ce_run env)) tok rc (ra_payer args) (ra_payee args) (ra_nonce args) (ra_tx_hash args)
       (ra_log_index args) (ra_required_amount args) (ra_payer_before args) (ra_payee_before args) (ra_sut_believes_paid args)
       (Aware now) ?c = (Inr report, c')" by (metis prod.collapse)
  then show thesis using that[OF tok] by (auto simp: run_reconcile_def bindS_ok)
qed

text \<open>
  A record \<open>r\<close> is stored under the name \<open>name\<close> and listed: its file is new and holds the printed record, and the
  journal gained exactly one line, the record's entry with this name.
\<close>

definition stored_and_listed :: "run_env \<Rightarrow> pydict \<Rightarrow> string \<Rightarrow> disk \<Rightarrow> disk \<Rightarrow> bool" where
  "stored_and_listed env r name d d' \<longleftrightarrow>
     map_of (dk_files d) name = None \<and> name \<noteq> ''runs.jsonl'' \<and>
     (\<exists>payload. json_line env indented_style r = Inr payload \<and> map_of (dk_files d') name = Some payload) \<and>
     (\<exists>entry line. journal_entry r name = Inr entry \<and> json_line env default_style entry = Inr line \<and>
        map_of (dk_files d') ''runs.jsonl'' = Some (case map_of (dk_files d) ''runs.jsonl'' of None \<Rightarrow> line | Some c \<Rightarrow> c @ line))"

lemma written_is_listed:
  assumes "write_run_record env r d = (Inr name, d')"
  shows "stored_and_listed env r name d d'"
  using assms
proof (cases rule: write_run_record_run)
  case (listed started run_id payload name' entry line d1)
  then have n: "name' = name" and app: "append_journal ''runs.jsonl'' line d1 = (Inr (), d')" by simp_all
  note a = append_journal_run[OF app]
  have j: "map_of (dk_files d1) ''runs.jsonl'' = map_of (dk_files d) ''runs.jsonl''"
    using listed(8) record_name_journal unfolding keeps_files_def by metis
  have nj: "name \<noteq> ''runs.jsonl''" using listed(6) n record_name_journal by auto
  have "map_of (dk_files d') name = Some payload" using a nj n listed(9) by (simp add: others_def)
  moreover have "map_of (dk_files d') ''runs.jsonl'' = Some (case map_of (dk_files d) ''runs.jsonl'' of None \<Rightarrow> line | Some c \<Rightarrow> c @ line)"
    using a j by (auto split: option.splits)
  ultimately show ?thesis using nj n listed(3,4,5,7) unfolding stored_and_listed_def by blast
qed auto

text \<open>What a command that ends with a verdict has done.\<close>

definition verdict_given :: "cli_env \<Rightarrow> (string \<times> string) list \<Rightarrow> int \<Rightarrow> cli_world \<Rightarrow> cli_world \<Rightarrow> bool" where
  "verdict_given env opts k w w' \<longleftrightarrow> (\<exists>args rc tok x c' report markdown.
    parse_reconcile env opts = Inr args \<and> get_rail (ra_rail args) = Inr rc \<and> token_for_rail rc = Inr tok \<and>
    reconcile_live (re_sha256 (ce_run env)) tok rc (ra_payer args) (ra_payee args) (ra_nonce args) (ra_tx_hash args)
      (ra_log_index args) (ra_required_amount args) (ra_payer_before args) (ra_payee_before args) (ra_sut_believes_paid args)
      (http_client (ce_http env) (ra_rpc_url args) (ra_rpc_timeout args)) = (Inr x, c') \<and>
    k = (if lr_is_failure x then 1 else 0) \<and>
    rr_kind report = kind_value (lr_kind x) \<and> rr_evidence report = lr_evidence x \<and>
    report_markdown report = Inr markdown \<and> markdown \<in> set (cw_out w') \<and>
    (if resolve_log_dir env args = None then cw_logs w' = cw_logs w
     else \<exists>r started finished name.
        build_run_record (ce_run env) ''reconcile'' (reconcile_inputs args) (Some (report_dict report)) k (Aware started)
          (Aware finished) None = Inr r \<and>
        verify_run_record (ce_run env) r = Inr True \<and> stored_and_listed (ce_run env) r name (cw_logs w) (cw_logs w')))"

lemma returned_code_is_verdict:
  assumes "main env (Reconcile opts) w = (Inr k, w')" "k \<noteq> 2"
  shows "verdict_given env opts k w w'"
proof -
  from assms obtain args where args: "parse_reconcile env opts = Inr args" and cmd: "cmd_reconcile env args w = (Inr k, w')"
    by (auto simp: main_def bindS_ok split: sum.splits prod.splits if_splits)
  from cmd assms(2) obtain rc started now report w1 where rc: "get_rail (ra_rail args) = Inr rc"
    and obs: "observe_settlement env rc args now = Inr report" and l1: "cw_logs w1 = cw_logs w"
    and em: "emit_report env args started report w1 = (Inr k, w')" by (rule cmd_reconcile_verdict)
  from em assms(2) obtain markdown w2 where md: "report_markdown report = Inr markdown" and k: "k = exit_code report"
    and l2: "cw_logs w2 = cw_logs w1" and out: "markdown \<in> set (cw_out w2)"
    and wr: "write_record env args started (Some (report_dict report)) (exit_code report) None w2 = (Inr True, w')"
    by (rule emit_report_verdict)
  from obs obtain tok x c' where live: "token_for_rail rc = Inr tok"
    "reconcile_live (re_sha256 (ce_run env)) tok rc (ra_payer args) (ra_payee args) (ra_nonce args) (ra_tx_hash args)
      (ra_log_index args) (ra_required_amount args) (ra_payer_before args) (ra_payee_before args) (ra_sut_believes_paid args)
      (http_client (ce_http env) (ra_rpc_url args) (ra_rpc_timeout args)) = (Inr x, c')"
    and rep: "build_report rc (ra_payer args) (ra_payee args) (ra_nonce args) (ra_sut_believes_paid args) (lr_divergence x)
      (lr_evidence x) (Aware now) = Inr report" by (rule observed_settlement)
  have code: "k = (if lr_is_failure x then 1 else 0)" "rr_kind report = kind_value (lr_kind x)" "rr_evidence report = lr_evidence x"
    using build_report_ok[OF rep] k by (simp_all add: exit_code_def lr_is_failure_def lr_kind_def)
  have logs: "verdict_given env opts k w w'" if "markdown \<in> set (cw_out w')" "if resolve_log_dir env args = None then cw_logs w' = cw_logs w
     else \<exists>r started finished name.
        build_run_record (ce_run env) ''reconcile'' (reconcile_inputs args) (Some (report_dict report)) k (Aware started)
          (Aware finished) None = Inr r \<and>
        verify_run_record (ce_run env) r = Inr True \<and> stored_and_listed (ce_run env) r name (cw_logs w) (cw_logs w')"
    unfolding verdict_given_def using that args rc live code md by blast
  show ?thesis
  proof (cases "resolve_log_dir env args")
    case None
    then have "w' = w2" using wr by (simp add: write_record_def)
    then have "cw_logs w' = cw_logs w" "markdown \<in> set (cw_out w')" using l1 l2 out by simp_all
    then show ?thesis using None by (intro logs) simp_all
  next
    case (Some dir)
    from wr Some obtain finished r name where r:
      "build_run_record (ce_run env) ''reconcile'' (reconcile_inputs args) (Some (report_dict report)) (exit_code report)
         (Aware started) (Aware finished) None = Inr r"
      "write_run_record (ce_run env) r (cw_logs w2) = (Inr name, cw_logs w')"
      "cw_out w' = cw_out w2 @ [''Run record: '' @ dir @ ''/'' @ name]"
      by (rule write_record_logged)
    then have "write_run_record (ce_run env) r (cw_logs w) = (Inr name, cw_logs w')" and out': "markdown \<in> set (cw_out w')"
      using l1 l2 out by simp_all
    then have "stored_and_listed (ce_run env) r name (cw_logs w) (cw_logs w')" by (intro written_is_listed)
    then have "\<exists>r started finished name.
        build_run_record (ce_run env) ''reconcile'' (reconcile_inputs args) (Some (report_dict report)) k (Aware started)
          (Aware finished) None = Inr r \<and>
        verify_run_record (ce_run env) r = Inr True \<and> stored_and_listed (ce_run env) r name (cw_logs w) (cw_logs w')"
      using r(1)[folded k] built_verifies[OF r(1)] by blast
    then show ?thesis using out' Some by (intro logs) simp_all
  qed
qed

text \<open>
  C10: Exit status 0 is always a verdict, and status 1 is one whenever a report was printed.  If the process of
  \<^verbatim>\<open>psv reconcile\<close> ends with a status other than 2, there are two cases.  Either the command returned a code \<open>k\<close>: then the
  arguments were accepted, the rail is reviewed, the live reconciliation of exactly these
  arguments over the configured endpoint gave a result \<open>x\<close>, \<open>k\<close> is 1 if its verdict is a
  divergence and 0 if not, the report printed carries this verdict and its evidence, and,
  unless logging is switched off, a record with this report and this code, which verifies, is in a new
  file of the log directory and has its line at the end of the journal.  Or an exception escaped from the command: then
  the status is 1, nothing was printed on the standard output, and neither the log directory nor
  any report file has changed.
\<close>

theorem exit_code_is_verdict:
  assumes "main env (Reconcile opts) w = (res, w')" "process_status res \<noteq> 2"
  shows "(\<exists>k args rc tok x c' report markdown.
      res = Inr k \<and> process_status res = k \<and>
      parse_reconcile env opts = Inr args \<and> get_rail (ra_rail args) = Inr rc \<and> token_for_rail rc = Inr tok \<and>
      reconcile_live (re_sha256 (ce_run env)) tok rc (ra_payer args) (ra_payee args) (ra_nonce args) (ra_tx_hash args)
        (ra_log_index args) (ra_required_amount args) (ra_payer_before args) (ra_payee_before args) (ra_sut_believes_paid args)
        (http_client (ce_http env) (ra_rpc_url args) (ra_rpc_timeout args)) = (Inr x, c') \<and>
      k = (if lr_is_failure x then 1 else 0) \<and>
      rr_kind report = kind_value (lr_kind x) \<and> rr_evidence report = lr_evidence x \<and>
      report_markdown report = Inr markdown \<and> markdown \<in> set (cw_out w') \<and>
      (if resolve_log_dir env args = None then cw_logs w' = cw_logs w
       else \<exists>r started finished name.
          build_run_record (ce_run env) ''reconcile'' (reconcile_inputs args) (Some (report_dict report)) k (Aware started)
            (Aware finished) None = Inr r \<and>
          verify_run_record (ce_run env) r = Inr True \<and> stored_and_listed (ce_run env) r name (cw_logs w) (cw_logs w'))) \<or>
    (\<exists>e. res = Inl e \<and> process_status res = 1 \<and> cw_logs w' = cw_logs w \<and> cw_files w' = cw_files w \<and> cw_out w' = cw_out w)"
proof (cases res)
  case (Inl e)
  then show ?thesis using main_escapes[of env opts w e w'] assms(1) by (simp add: process_status_def)
next
  case (Inr k)
  then have "verdict_given env opts k w w'" using assms by (intro returned_code_is_verdict) (simp_all add: process_status_def)
  moreover have "process_status res = k" using Inr by (simp add: process_status_def)
  ultimately show ?thesis using Inr unfolding verdict_given_def by blast
qed

section \<open>What an invocation keeps of its endpoint\<close>

text \<open>The path, query and fragment of the endpoint reach nothing but the call that opens it.\<close>

lemma redacted_url_of:
  assumes "url_ok scheme user host r1" "url_ok scheme user host r2"
  shows "redacted ip6 (url_of scheme user host r1) = redacted ip6 (url_of scheme user host r2)"
  unfolding redacted_def urlsplit_url_of(1)[OF assms(1)] urlsplit_url_of(1)[OF assms(2)] by simp

lemma urllib_send_public:
  assumes "url_ok scheme user host r1" "url_ok scheme user host r2"
    and "rh_open h (url_of scheme user host r1) = rh_open h (url_of scheme user host r2)"
  shows "urllib_send h (url_of scheme user host r1) = urllib_send h (url_of scheme user host r2)"
  by (intro ext) (simp only: urllib_send_def raise_at_def redirect_request_def decode_body_def redacted_url_of[OF assms(1,2)] assms(3))

lemma write_record_public:
  assumes "url_ok scheme user host r1" "url_ok scheme user host r2" "ra_rpc_url args = url_of scheme user host r1"
  shows "write_record env (args\<lparr>ra_rpc_url := url_of scheme user host r2\<rparr>) = write_record env args"
proof -
  let ?args = "args\<lparr>ra_rpc_url := url_of scheme user host r2\<rparr>"
  have "same_public (''rpc_url'', PStr (url_of scheme user host r2)) (''rpc_url'', PStr (url_of scheme user host r1))"
    unfolding same_public_def fst_conv snd_conv using assms(1,2) by blast
  then have "list_all2 same_public (reconcile_inputs ?args) (reconcile_inputs args)"
    using assms(3) by (simp add: reconcile_inputs_def) (simp add: same_public_def)
  then have "build_run_record (ce_run env) ''reconcile'' (reconcile_inputs ?args) report k started finished err =
      build_run_record (ce_run env) ''reconcile'' (reconcile_inputs args) report k started finished err" for report k started finished err
    by (rule build_record_public)
  moreover have "resolve_log_dir env ?args = resolve_log_dir env args" by (simp add: resolve_log_dir_def)
  ultimately show ?thesis by (intro ext) (simp only: write_record_def)
qed

lemma observe_public:
  assumes "url_ok scheme user host r1" "url_ok scheme user host r2" "ra_rpc_url args = url_of scheme user host r1"
    and "rh_open (ce_http env) (url_of scheme user host r1) = rh_open (ce_http env) (url_of scheme user host r2)"
  shows "observe_settlement env rc (args\<lparr>ra_rpc_url := url_of scheme user host r2\<rparr>) now = observe_settlement env rc args now"
  by (simp add: observe_settlement_def http_client_def assms(3) urllib_send_public[OF assms(1,2,4)])

text \<open>
  C14: No credential reaches a run record through its inputs.  First, two lists of inputs with the same names that agree
  except in values whose name contains \<open>key\<close>, \<open>secret\<close> or \<open>password\<close> and in the user information, path, query and
  fragment of the endpoint give the same record, of every command, for the same report, exit code, times and error text.
  Second, report and error text bring nothing in: a whole invocation of \<^verbatim>\<open>psv reconcile\<close> does not depend on the path,
  query and fragment of its endpoint, if the host answers the same under both: log directory, report files, output and
  exit code are the same.  (The detail quoted from an HTTP error status is not in this model of the messages;
  the theory \<open>Http_Error_Detail\<close> is about it.)  The endpoints are \<^verbatim>\<open>scheme://user@host\<close> or \<^verbatim>\<open>scheme://host\<close> and a rest,
  without spaces and control characters and without brackets in the user information; the host may be an IPv6 literal or malformed.
\<close>

theorem record_keeps_no_secret:
  "(list_all2 same_public inputs1 inputs2 \<longrightarrow>
     build_run_record renv command inputs1 report exit_status started_at finished_at err =
     build_run_record renv command inputs2 report exit_status started_at finished_at err) \<and>
   (url_ok scheme user host r1 \<and> url_ok scheme user host r2 \<and> ra_rpc_url args = url_of scheme user host r1 \<and>
    rh_open (ce_http env) (url_of scheme user host r1) = rh_open (ce_http env) (url_of scheme user host r2) \<longrightarrow>
      cmd_reconcile env (args\<lparr>ra_rpc_url := url_of scheme user host r2\<rparr>) = cmd_reconcile env args)"
proof (intro conjI impI)
  assume "list_all2 same_public inputs1 inputs2"
  then show "build_run_record renv command inputs1 report exit_status started_at finished_at err =
     build_run_record renv command inputs2 report exit_status started_at finished_at err" by (rule build_record_public)
next
  let ?args = "args\<lparr>ra_rpc_url := url_of scheme user host r2\<rparr>"
  assume a: "url_ok scheme user host r1 \<and> url_ok scheme user host r2 \<and> ra_rpc_url args = url_of scheme user host r1 \<and>
    rh_open (ce_http env) (url_of scheme user host r1) = rh_open (ce_http env) (url_of scheme user host r2)"
  then have wr: "write_record env ?args = write_record env args" and obs: "observe_settlement env rc ?args = observe_settlement env rc args" for rc
    by (auto intro!: write_record_public observe_public)
  have keep: "ra_json_out ?args = ra_json_out args" "ra_md_out ?args = ra_md_out args" "ra_rail ?args = ra_rail args"
    by simp_all
  have em: "emit_report env ?args = emit_report env args"
    unfolding emit_report_def write_reports_def wr keep ..
  show "cmd_reconcile env ?args = cmd_reconcile env args"
    unfolding cmd_reconcile_def keep wr obs em ..
qed

section \<open>The report as a document\<close>

definition opt_numbers :: "int option \<Rightarrow> int list" where
  "opt_numbers v = (case v of None \<Rightarrow> [] | Some n \<Rightarrow> [n])"

definition report_numbers :: "recon_report \<Rightarrow> int list" where
  "report_numbers r =
     (let e = rr_evidence r in
      [rr_chain_id r, ev_chain_id e, ev_finality_block_number e, ev_confirmations e, ev_settlement_block_number e, ev_receipt_status e,
       ev_payer_balance_before e, ev_payer_balance_after e, ev_payee_balance_before e, ev_payee_balance_after e,
       ev_required_amount e, ev_received_amount e] @
      opt_numbers (ev_log_index e) @ opt_numbers (ev_authorization_log_index e) @ opt_numbers (ev_event_value e))"

definition printable_number :: "int \<Rightarrow> bool" where
  "printable_number n \<longleftrightarrow> length (digits_of 10 \<bar>n\<bar>) \<le> 4300"

lemma opt_plain:
  "json_plain ft pf k (opt_str s)" "json_plain ft pf k (opt_int v) \<longleftrightarrow> (\<forall>n\<in>set (opt_numbers v). printable_number n)"
  by (auto simp: opt_str_def opt_int_def printable_number_def opt_numbers_def split: option.splits)

lemma leaf_plain:
  "json_plain ft pf k (PStr s)" "json_plain ft pf k (PBool b)" "json_plain ft pf k (PInt n) \<longleftrightarrow> printable_number n"
  by (simp_all add: printable_number_def)

lemma object_plain:
  "json_plain ft pf (Suc k) (PDict (obj kvs)) \<longleftrightarrow> distinct (map fst kvs) \<and> list_all (\<lambda>(n, x). json_plain ft pf k x) kvs"
proof -
  have "plain_fields ft pf k (obj kvs) \<longleftrightarrow> list_all (\<lambda>(n, x). json_plain ft pf k x) kvs"
    by (induction kvs) (auto simp: obj_def is_str_def simp del: json_plain.simps)
  moreover have "distinct (map fst (obj kvs)) \<longleftrightarrow> distinct (map fst kvs)"
    by (simp add: obj_def comp_def split_def distinct_map inj_on_def)
  ultimately show ?thesis by simp
qed

lemma report_plain:
  assumes "\<forall>n\<in>set (report_numbers r). printable_number n" "3 \<le> dep"
  shows "json_plain ft pf dep (PDict (report_dict r))"
proof -
  define k where "k = dep - 3"
  have k: "dep = Suc (Suc (Suc k))" using assms(2) by (simp add: k_def)
  have e: "json_plain ft pf (Suc (Suc k)) (PDict (evidence_dict (rr_evidence r)))"
    using assms(1)
    by (simp add: evidence_dict_def object_plain leaf_plain opt_plain report_numbers_def Let_def del: json_plain.simps)
  show ?thesis
    using assms(1)
    by (simp add: k report_dict_def tool_metadata_def object_plain leaf_plain e report_numbers_def Let_def del: json_plain.simps)
qed

text \<open>Reading a printed report back.\<close>

definition sorted_doc :: "pydict \<Rightarrow> pydict" where
  "sorted_doc d = sort_key (\<lambda>(k, x). str_of k) (sort_fields d)"

lemma sorted_lookup:
  assumes "distinct (map fst d)"
  shows "dict_get (sorted_doc d) k = sort_keys (dict_get d k)"
proof -
  have "distinct (map fst (sort_fields d))" using assms by (simp add: sort_fields_map comp_def split_def)
  then have "map_of (sorted_doc d) (PStr k) = map_option sort_keys (map_of d (PStr k))"
    by (simp only: sorted_doc_def map_of_sorted map_of_sort_fields)
  then show ?thesis by (simp add: dict_get_def del: sort_keys.simps split: option.splits) simp
qed

lemma sort_scalar: "sort_keys (PStr s) = PStr s" "sort_keys (PInt n) = PInt n" "sort_keys (PDict d) = PDict (sorted_doc d)"
  by (simp_all add: sorted_doc_def)

lemma report_keys: "distinct (map fst (report_dict r))"
  by (simp add: report_dict_def obj_def)

lemma report_members:
  "dict_get (report_dict r) ''reportVersion'' = PStr report_version"
  "dict_get (report_dict r) ''$schema'' = PStr report_schema_id"
  "dict_get (report_dict r) ''tool'' = PDict tool_metadata"
  "dict_get (report_dict r) ''evidence'' = PDict (evidence_dict (rr_evidence r))"
  "\<exists>rail. dict_get (report_dict r) ''rail'' = PDict rail \<and> distinct (map fst rail) \<and> dict_get rail ''chainId'' = PInt (rr_chain_id r)"
  by (simp_all add: report_dict_def obj_def dict_get_def)

lemma evidence_members: "distinct (map fst (evidence_dict e))" "dict_get (evidence_dict e) ''chainId'' = PInt (ev_chain_id e)"
  by (simp_all add: evidence_dict_def obj_def dict_get_def)

lemma tool_sorted: "py_eq (PDict (sorted_doc tool_metadata)) (PDict tool_metadata)"
  by code_simp

lemma report_document:
  assumes "validate_report r = Inr ()"
  shows "validate_report_document (sorted_doc (report_dict r)) = Inr ()"
proof -
  obtain rail where rail: "dict_get (report_dict r) ''rail'' = PDict rail" "distinct (map fst rail)"
    "dict_get rail ''chainId'' = PInt (rr_chain_id r)" using report_members(5) by blast
  have "ev_chain_id (rr_evidence r) = rr_chain_id r" using assms by (simp add: validate_report_ok)
  moreover have "py_eq (PInt n) (PInt n)" "py_eq (PStr t) (PStr t)" for n t by (simp_all add: num_eq_def)
  moreover have "dict_get (sorted_doc rail) ''chainId'' = PInt (rr_chain_id r)"
    "dict_get (sorted_doc (evidence_dict (rr_evidence r))) ''chainId'' = PInt (ev_chain_id (rr_evidence r))"
    using sorted_lookup[OF rail(2)] sorted_lookup[OF evidence_members(1)] by (simp_all only: rail(3) evidence_members(2) sort_scalar)
  ultimately show ?thesis
    unfolding validate_report_document_def sorted_lookup[OF report_keys] report_members(1-4) rail(1) sort_scalar
    using tool_sorted by (simp del: py_eq.simps)
qed

text \<open>
  C18: A report is valid and survives its JSON form.  The report of every reconciliation that
  returned passes its own validation, and if no number in it has more than 4300 digits, its JSON
  text is printed, reads back to one document that has, up to the order of members, every member of the
  report, and this document passes the validation of report documents.
\<close>

theorem report_json_roundtrip:
  assumes "run_reconcile sha tok rc payer payee nonce tx li req pb qb believes (Aware now) c = (Inr report, c')"
    and "\<forall>n\<in>set (report_numbers report). printable_number n" "3 \<le> re_depth env"
  shows "validate_report report = Inr () \<and>
    (\<exists>t doc. report_json (re_float_text env) report = Inr t \<and> loads (plain_reader env) (re_depth env) t = Inr (PDict doc) \<and>
       validate_report_document doc = Inr () \<and> (\<forall>k. dict_get doc k = sort_keys (dict_get (report_dict report) k)))"
proof -
  from assms(1) obtain x c1 where live: "reconcile_live sha tok rc payer payee nonce tx li req pb qb believes c = (Inr x, c1)"
    and b: "build_report rc payer payee nonce believes (lr_divergence x) (lr_evidence x) (Aware now) = Inr report"
    by (auto simp: run_reconcile_def bindS_ok)
  from live obtain r where "build_report rc payer payee nonce believes (lr_divergence x) (lr_evidence x) (Aware now) = Inr r"
    and v: "validate_report r = Inr ()" by (rule built_after_live)
  then have valid: "validate_report report = Inr ()" using b by simp
  have style: "good_style report_style" "js_sort report_style" by code_simp+
  let ?v = "PDict (report_dict report)"
  note plain = report_plain[OF assms(2,3), of "re_float_text env" "re_float env"]
  obtain t where t: "dumps report_style (re_float_text env) ?v = Inr t" using dumps_plain[OF plain] by blast
  have "loads (plain_reader env) (re_depth env) t = Inr (PDict (sorted_doc (report_dict report)))"
    using loads_dumps[OF style(1) plain_reader_faithful plain t] style(2) by (simp only: sort_scalar if_True)
  then show ?thesis
    using valid t report_document[OF valid] sorted_lookup[OF report_keys] by (auto simp: report_json_def simp del: sort_keys.simps)
qed

section \<open>Numbers that cannot be printed\<close>

lemma format_int_ok: "format_int n = (if printable_number n then Inr (py_str_int n) else Inl (ValueError ''Exceeds the limit for integer string conversion''))"
  by (simp add: format_int_def printable_number_def)

lemma format_opt_ok:
  "(\<exists>s. format_opt v = Inr s) \<longleftrightarrow> (\<forall>n\<in>set (opt_numbers v). printable_number n)"
  "format_opt v = Inl e \<Longrightarrow> e = ValueError ''Exceeds the limit for integer string conversion''"
  by (auto simp: format_opt_def format_int_ok opt_numbers_def split: option.splits if_splits)

lemma bindR_raises_only: "(\<And>e. m = Inl e \<Longrightarrow> e = x) \<Longrightarrow> (\<And>v e. m = Inr v \<Longrightarrow> f v = Inl e \<Longrightarrow> e = x) \<Longrightarrow> bindR m f = Inl e \<Longrightarrow> e = x"
  by (auto simp: bindR_err)

lemma markdown_lines_raises: "markdown_lines r = Inl e \<Longrightarrow> e = ValueError ''Exceeds the limit for integer string conversion''"
  unfolding markdown_lines_def Let_def
  by (elim bindR_raises_only[rotated 2]) (auto simp: format_int_ok dest: format_opt_ok(2) split: if_splits)

lemma markdown_lines_prints:
  assumes "markdown_lines r = Inr ls" "ev_chain_id (rr_evidence r) = rr_chain_id r"
  shows "\<forall>n\<in>set (report_numbers r). printable_number n"
proof -
  have i: "printable_number n" if "format_int n = Inr s" for n s using that by (simp add: format_int_ok split: if_splits)
  have o: "\<forall>n\<in>set (opt_numbers v). printable_number n" if "format_opt v = Inr s" for v s using that format_opt_ok(1) by blast
  show ?thesis
    using assms unfolding markdown_lines_def Let_def bindR_ok
    by (elim exE conjE) (auto simp: report_numbers_def Let_def dest!: i o)
qed

text \<open>
  A node may answer with a block number of any length.  If the evidence holds a number of more than 4300 digits, the
  command reads the chain, finds a verdict and then ends with an exception that nothing handles: no
  report, no record, and the exit status 1 that stands for a divergence.
\<close>

lemma unprintable_number_escapes:
  assumes "parse_reconcile env opts = Inr args" "get_rail (ra_rail args) = Inr rc"
    and obs: "observe_settlement env rc args (ce_time env (cw_ticks w + 1)) = Inr report"
    and "n \<in> set (report_numbers report)" "\<not> printable_number n"
  shows "\<exists>w'. main env (Reconcile opts) w = (Inl (ValueError ''Exceeds the limit for integer string conversion''), w') \<and>
      cw_logs w' = cw_logs w \<and> cw_out w' = cw_out w"
    and "process_status (fst (main env (Reconcile opts) w)) = 1"
proof -
  from obs obtain tok x c' where live: "reconcile_live (re_sha256 (ce_run env)) tok rc (ra_payer args) (ra_payee args) (ra_nonce args) (ra_tx_hash args)
      (ra_log_index args) (ra_required_amount args) (ra_payer_before args) (ra_payee_before args) (ra_sut_believes_paid args)
      (http_client (ce_http env) (ra_rpc_url args) (ra_rpc_timeout args)) = (Inr x, c')"
    and rep: "build_report rc (ra_payer args) (ra_payee args) (ra_nonce args) (ra_sut_believes_paid args) (lr_divergence x)
      (lr_evidence x) (Aware (ce_time env (cw_ticks w + 1))) = Inr report" by (rule observed_settlement)
  have valid: "validate_report report = Inr ()" using built_after_live[OF live] rep by (metis sum.inject(2))
  then have "markdown_lines report \<noteq> Inr ls" for ls using markdown_lines_prints[of report ls] assms(4,5) by (auto simp: validate_report_ok)
  then have "markdown_lines report = Inl (ValueError ''Exceeds the limit for integer string conversion'')"
    using markdown_lines_raises by (metis sum.exhaust)
  then have "report_markdown report = Inl (ValueError ''Exceeds the limit for integer string conversion'')"
    using valid by (simp add: report_markdown_def)
  then have "main env (Reconcile opts) w = (Inl (ValueError ''Exceeds the limit for integer string conversion''), w\<lparr>cw_ticks := cw_ticks w + 2\<rparr>)"
    using assms(1,2) obs by (simp add: main_def cmd_reconcile_def read_clock_bind emit_report_def)
  then show "\<exists>w'. main env (Reconcile opts) w = (Inl (ValueError ''Exceeds the limit for integer string conversion''), w') \<and>
      cw_logs w' = cw_logs w \<and> cw_out w' = cw_out w" "process_status (fst (main env (Reconcile opts) w)) = 1"
    by (simp_all add: process_status_def)
qed

end
