(* ===== verification/Cli_Sample.thy ===== *)
theory Cli_Sample
  imports Cli_Properties
begin

text \<open>
  A concrete run of the command line over HTTP, which instantiates its properties: a server that
  decodes each request, asks a node and prints the answer, and the local rail with a settlement
  that reverted and an order that is unpaid.
\<close>

section \<open>A node behind HTTP\<close>

fun json_size :: "pyval \<Rightarrow> int" and items_size :: "pyval list \<Rightarrow> int" and fields_size :: "pydict \<Rightarrow> int" where
  "json_size v =
     (case v of
        PInt n \<Rightarrow> int (length (py_str_int n))
      | PStr s \<Rightarrow> 6 * int (length s) + 2
      | PList xs \<Rightarrow> items_size xs + 2
      | PDict kvs \<Rightarrow> fields_size kvs + 2
      | PFloat f \<Rightarrow> 9
      | _ \<Rightarrow> 5)"
| "items_size [] = 0"
| "items_size (x # xs) = json_size x + 2 + items_size xs"
| "fields_size [] = 0"
| "fields_size ((k, x) # kvs) = 6 * int (length (str_of k)) + json_size x + 6 + fields_size kvs"

lemma json_str_size: "int (length (json_str a s)) \<le> 6 * int (length s) + 2"
proof -
  have "length (json_char a c) \<le> 6" for c by (simp add: json_char_def)
  then have "length (concat (map (json_char a) s)) \<le> 6 * length s" by (induction s) (auto simp: add_mono)
  then show ?thesis by (simp add: json_str_def)
qed

lemma default_layout:
  "json_newline default_style n = []" "js_ascii default_style" "js_item_sep default_style = '', ''" "js_key_sep default_style = '': ''"
  by (simp_all add: json_newline_def default_style_def)

lemma json_text_size:
  "int (length (json_text default_style (\<lambda>f. ''0.0'') lv v)) \<le> json_size v"
  "int (length (json_items default_style (\<lambda>f. ''0.0'') lv vs)) \<le> items_size vs"
  "int (length (json_fields default_style (\<lambda>f. ''0.0'') lv kvs)) \<le> fields_size kvs"
proof (induction v and vs and kvs arbitrary: lv and lv and lv rule: json_size_items_size_fields_size.induct)
  case (1 v)
  show ?case
    using 1 json_str_size[of True] by (cases v) (auto simp: default_layout json_float_def split: pyfloat.splits)
next
  case (3 x xs)
  from "3.IH"(1)[of lv] "3.IH"(2)[of lv] show ?case by (auto simp: default_layout simp del: json_text.simps json_size.simps)
next
  case (5 k x kvs)
  have "int (length (json_str True (str_of k))) \<le> 6 * int (length (str_of k)) + 2" by (rule json_str_size)
  with "5.IH"(1)[of lv] "5.IH"(2)[of lv] show ?case by (auto simp: default_layout simp del: json_text.simps json_size.simps)
qed simp_all

lemma utf8_size: "length (utf8_encode s) \<le> 2 * length s"
  by (induction s) (auto simp: utf8_encode_def utf8_char_def)

definition node_http :: "transport \<Rightarrow> rpc_http" where
  "node_http node = \<lparr>rh_open = (\<lambda>endpoint timeout data.
       case bindR (utf8_decode data) (\<lambda>s. bindR (loads (strict_reader (\<lambda>s. Finite 0 0)) 100 s) node) of
         Inl e \<Rightarrow> Refused 400
       | Inr v \<Rightarrow> Answer (utf8_encode (json_text default_style (\<lambda>f. ''0.0'') 0 v))),
     rh_float_text = (\<lambda>f. ''0.0''), rh_float = (\<lambda>s. Finite 0 0), rh_depth = 100, rh_ip6 = (\<lambda>s. False)\<rparr>"

abbreviation wire_plain :: "pyval \<Rightarrow> bool" where
  "wire_plain \<equiv> json_plain (\<lambda>f. ''0.0'') (\<lambda>s. Finite 0 0) 100"

definition served :: "transport \<Rightarrow> pyval \<Rightarrow> bool" where
  "served node req \<longleftrightarrow> wire_plain req \<and> (case node req of Inl e \<Rightarrow> False | Inr v \<Rightarrow> wire_plain v \<and> json_size v \<le> 1048576)"

definition wire_node :: "transport \<Rightarrow> transport" where
  "wire_node node req = (if served node req then node req else urllib_send (node_http node) ''http://127.0.0.1:8545'' (Finite 10 0) req)"

lemma wire_node_eq: "urllib_send (node_http node) ''http://127.0.0.1:8545'' (Finite 10 0) = wire_node node"
proof
  fix req
  show "urllib_send (node_http node) ''http://127.0.0.1:8545'' (Finite 10 0) req = wire_node node req"
  proof (cases "served node req")
    case True
    then obtain v where p: "wire_plain req" "node req = Inr v" "wire_plain v" "json_size v \<le> 1048576"
      by (auto simp: served_def simp del: json_plain.simps json_size.simps split: sum.splits)
    let ?t = "json_text default_style (\<lambda>f. ''0.0'') 0"
    have d: "dumps default_style (\<lambda>f. ''0.0'') req = Inr (?t req)"
      using dumps_plain[OF p(1), of default_style] by (simp add: default_style_def del: json_text.simps sort_keys.simps)
    have "rh_open (node_http node) ''http://127.0.0.1:8545'' (Finite 10 0) (utf8_encode (?t req)) = Answer (utf8_encode (?t v))"
      using loads_text(1)[OF good_styles(1) strict_reader_faithful p(1)] p(2)
      by (simp add: node_http_def utf8_roundtrip del: json_text.simps)
    moreover have "int (length (utf8_encode (?t v))) \<le> 2097152"
      using utf8_size[of "?t v"] json_text_size(1)[of 0 v] p(4) by linarith
    ultimately have "http_document (node_http node) ''http://127.0.0.1:8545'' (Finite 10 0) (?t req) v"
      using served_document[OF _ _ good_styles(1), of "node_http node" _ _ _ _ v] p(3) by (simp add: node_http_def del: json_text.simps json_plain.simps)
    then show ?thesis
      using d True p(2) urllib_send_ok[of "node_http node" "''http://127.0.0.1:8545''" "Finite 10 0" req v]
      by (simp add: wire_node_def node_http_def del: json_text.simps)
  qed (simp add: wire_node_def)
qed

text \<open>The node of the sample settlement that reverted, under the chain id of the local rail.\<close>

definition mock_node :: transport where
  "mock_node req =
     (case req of
        PDict d \<Rightarrow>
          if dict_get d ''method'' = PStr ''eth_chainId''
          then Inr (PDict [(PStr ''jsonrpc'', PStr ''2.0''), (PStr ''id'', dict_get d ''id''), (PStr ''result'', PStr ''0x14a34'')])
          else sample_node ''0x0'' req
      | _ \<Rightarrow> Inl (RpcError ''no object''))"

definition mock_at :: "int \<Rightarrow> rpc_client" where
  "mock_at i = \<lparr>rpc_id = i, rpc_transport = wire_node mock_node\<rparr>"

lemma mock_step:
  assumes "keepsS rpc_mono m" "(case m (mock_at i) of (r, c) \<Rightarrow> (r, rpc_id c)) = (r, j)"
  shows "m (mock_at i) = (r, mock_at j)"
proof -
  obtain r' c where m: "m (mock_at i) = (r', c)" by fastforce
  have "rpc_transport c = rpc_transport (mock_at i)"
    using keepsS_D[OF assms(1) m] by (simp add: rpc_mono_def)
  then show ?thesis using assms(2) m by (cases c) (auto simp: mock_at_def)
qed

definition mock_tok :: token_view where
  "mock_tok = \<lparr>address = rail_token_address rail_mock_anvil\<rparr>"

definition mock_pinned :: pinned_snapshot where
  "mock_pinned =
     \<lparr>pin_chain = 84532, pin_finality_number = 20, pin_finality_hash = sample_hash (CHR ''f''),
      pin_receipt = sample_receipt ''0x0'', pin_number = 16, pin_hash = sample_hash (CHR ''b''),
      pin_status = 0, pin_confirmations = 5, pin_token_code = replicate 64 (CHR ''c''),
      pin_implementation_address = None, pin_implementation_hash = None, pin_payer_parent = 5000,
      pin_payee_parent = 0, pin_payer_after = 5000, pin_payee_after = 0, pin_nonce_consumed = False\<rparr>"

lemma mock_recheck: "recheck_settlement tx_e 16 (sample_hash (CHR ''b'')) (mock_at 10) = (Inr (), mock_at 12)"
  by (rule mock_step[OF recheck_keeps]) code_simp

lemma mock_read_pinned:
  "read_pinned sample_sha256 mock_tok rail_mock_anvil tx_e payer1 payee2 nonce_d 5000 0 (mock_at 0) = (Inr mock_pinned, mock_at 10)"
  by (rule mock_step[OF read_pinned_keeps]) code_simp


definition mock_run_env :: run_env where
  "mock_run_env = \<lparr>re_sha256 = sample_sha256, re_version = ''0.1'', re_python = ''3.12'', re_platform = ''Linux'',
     re_machine = ''x86_64'', re_text = (\<lambda>v. ''v''), re_seconds = (\<lambda>n. Finite 0 0), re_float_text = (\<lambda>f. ''0.0''),
     re_float = (\<lambda>s. Finite 0 0), re_depth = 100, re_ip6 = (\<lambda>s. False)\<rparr>"

definition mock_env :: cli_env where
  "mock_env = \<lparr>ce_run = mock_run_env, ce_http = node_http mock_node, ce_getenv = (\<lambda>v. None), ce_time = (\<lambda>n. 1784332800000000),
     ce_exn_text = (\<lambda>e. ''error''), ce_float = (\<lambda>s. None)\<rparr>"

definition mock_opts :: "(string \<times> string) list" where
  "mock_opts = [(''--rail'', ''mock-anvil''), (''--payer'', payer1), (''--payee'', payee2), (''--nonce'', nonce_d), (''--tx-hash'', tx_e),
     (''--log-index'', ''3''), (''--required-amount'', ''1000''), (''--payer-before'', ''5000''), (''--payee-before'', ''0''),
     (''--sut-unpaid'', []), (''--no-log'', [])]"

definition mock_args :: reconcile_args where
  "mock_args = default_args\<lparr>ra_rail := ''mock-anvil'', ra_payer := payer1, ra_payee := payee2, ra_nonce := nonce_d, ra_tx_hash := tx_e,
     ra_log_index := 3, ra_required_amount := 1000, ra_payer_before := 5000, ra_no_log := True\<rparr>"

lemma mock_parse: "parse_reconcile mock_env mock_opts = Inr mock_args"
  by code_simp

definition mock_live :: live_reconciliation where
  "mock_live =
     \<lparr>lr_divergence = detect_payment_divergence (ab_truth reverted_attribution) False (Some 1000),
      lr_evidence = live_evidence mock_tok rail_mock_anvil payer1 payee2 nonce_d tx_e 1000 mock_pinned reverted_attribution\<rparr>"

lemma mock_run:
  "reconcile_live sample_sha256 mock_tok rail_mock_anvil payer1 payee2 nonce_d tx_e 3 1000 5000 0 False (mock_at 0) =
     (Inr mock_live, mock_at 12)"
proof -
  have "check_live_args mock_tok rail_mock_anvil nonce_d tx_e 3 1000 5000 0 = Inr tx_e" by code_simp
  moreover have "attribute_settlement mock_tok payer1 payee2 nonce_d tx_e 3 mock_pinned (mock_at 10) = (Inr reverted_attribution, mock_at 10)"
    by (simp add: attribute_settlement_def mock_pinned_def reverted_attribution_def)
  moreover have "recheck_settlement tx_e (pin_number mock_pinned) (pin_hash mock_pinned) (mock_at 10) = (Inr (), mock_at 12)"
    using mock_recheck by (simp add: mock_pinned_def)
  ultimately show ?thesis by (simp add: reconcile_live_def bindS_ok mock_read_pinned mock_live_def)
qed

definition mock_report :: recon_report where
  "mock_report = (case build_report rail_mock_anvil payer1 payee2 nonce_d False (lr_divergence mock_live) (lr_evidence mock_live)
     (Aware 1784332800000000) of Inr r \<Rightarrow> r)"

lemma mock_built:
  "build_report rail_mock_anvil payer1 payee2 nonce_d False (lr_divergence mock_live) (lr_evidence mock_live) (Aware 1784332800000000) =
     Inr mock_report"
proof -
  let ?b = "build_report rail_mock_anvil payer1 payee2 nonce_d False (lr_divergence mock_live) (lr_evidence mock_live) (Aware 1784332800000000)"
  have "\<not> isl ?b" by code_simp
  then show "?b = Inr mock_report" by (cases ?b) (simp_all add: mock_report_def)
qed

lemma mock_observed: "observe_settlement mock_env rail_mock_anvil mock_args 1784332800000000 = Inr mock_report"
proof -
  have "token_for_rail rail_mock_anvil = Inr mock_tok" by code_simp
  moreover have "http_client (node_http mock_node) ''http://127.0.0.1:8545'' (Finite 10 0) = mock_at 0"
    by (simp add: http_client_def mock_at_def wire_node_eq)
  ultimately show ?thesis
    using mock_run mock_built by (simp add: observe_settlement_def mock_env_def mock_run_env_def mock_args_def default_args_def
        run_reconcile_def bindS_step)
qed

definition quiet_world :: cli_world where
  "quiet_world = \<lparr>cw_logs = \<lparr>dk_files = [], dk_plan = []\<rparr>, cw_files = \<lparr>dk_files = [], dk_plan = []\<rparr>, cw_out = [], cw_err = [],
     cw_term = [], cw_ticks = 0\<rparr>"

lemma mock_emitted:
  "fst (emit_report mock_env mock_args 1784332800000000 mock_report (quiet_world\<lparr>cw_ticks := 2\<rparr>)) = Inr 0"
  by code_simp

lemma mock_cmd: "fst (cmd_reconcile mock_env mock_args quiet_world) = Inr 0"
proof -
  have "get_rail ''mock-anvil'' = Inr rail_mock_anvil" by (simp add: get_rail_def known_rails_def)
  moreover have "ce_time mock_env n = 1784332800000000" "ra_rail mock_args = ''mock-anvil''" "cw_ticks quiet_world = 0" for n
    by (simp_all add: mock_env_def mock_args_def quiet_world_def)
  ultimately show ?thesis
    using mock_observed mock_emitted by (simp add: cmd_reconcile_def read_clock_bind numeral_2_eq_2)
qed

lemma mock_main: "fst (main mock_env (Reconcile mock_opts) quiet_world) = Inr 0"
  using mock_cmd by (auto simp: main_def mock_parse split: prod.splits sum.splits)

theorem exit_code_is_verdict_witness:
  "process_status (fst (main mock_env (Reconcile mock_opts) quiet_world)) = 0 \<and>
   (\<exists>tok x c'. token_for_rail rail_mock_anvil = Inr tok \<and>
     reconcile_live sample_sha256 tok rail_mock_anvil payer1 payee2 nonce_d tx_e 3 1000 5000 0 False
       (http_client (node_http mock_node) ''http://127.0.0.1:8545'' (Finite 10 0)) = (Inr x, c') \<and> \<not> lr_is_failure x)"
proof -
  obtain w' where m: "main mock_env (Reconcile mock_opts) quiet_world = (Inr 0, w')" using mock_main by (metis prod.collapse)
  have s: "process_status (Inr 0) \<noteq> 2" "process_status (Inr 0) = 0" by (simp_all add: process_status_def)
  from exit_code_is_verdict[OF m s(1)] mock_parse m s(2) show ?thesis
    by (auto simp: mock_args_def default_args_def mock_env_def mock_run_env_def get_rail_def known_rails_def split: if_splits)
qed

text \<open>The same run under an endpoint with a key in its path, and two recorded inputs with different keys.\<close>

theorem record_keeps_no_secret_witness:
  "build_run_record demo_run_env ''reconcile'' (demo_inputs ''/v2/k'' ''k'') None 0 (Aware 5000000) (Aware 6500000) None =
     build_run_record demo_run_env ''reconcile'' (demo_inputs ''/v3/other?q=1#f'' ''z'') None 0 (Aware 5000000) (Aware 6500000) None \<and>
   cmd_reconcile mock_env (mock_args\<lparr>ra_rpc_url := ''http://127.0.0.1:8545/v2/k?key=s''\<rparr>) quiet_world =
     cmd_reconcile mock_env mock_args quiet_world \<and>
   fst (cmd_reconcile mock_env (mock_args\<lparr>ra_rpc_url := ''http://127.0.0.1:8545/v2/k?key=s''\<rparr>) quiet_world) = Inr 0"
proof -
  let ?h = "''127.0.0.1:8545''" and ?k = "''/v2/k?key=s''"
  have ok: "url_ok ''http'' [] ?h []" "url_ok ''http'' [] ?h ?k" by code_simp+
  have u: "url_of ''http'' [] ?h [] = ''http://127.0.0.1:8545''" "url_of ''http'' [] ?h ?k = ''http://127.0.0.1:8545/v2/k?key=s''"
    by (simp_all add: url_of_def)
  have a: "ra_rpc_url mock_args = url_of ''http'' [] ?h []"
    "rh_open (ce_http mock_env) (url_of ''http'' [] ?h []) = rh_open (ce_http mock_env) (url_of ''http'' [] ?h ?k)"
    by (simp_all add: u mock_args_def default_args_def mock_env_def node_http_def)
  show ?thesis
    using record_keeps_no_secret[of "demo_inputs ''/v2/k'' ''k''" "demo_inputs ''/v3/other?q=1#f'' ''z''" demo_run_env
        "''reconcile''" None 0 "Aware 5000000" "Aware 6500000" None "''http''" "[]" ?h "[]" ?k mock_args mock_env]
      demo_inputs_public ok a mock_cmd unfolding u by simp
qed

lemma mock_run_report:
  "run_reconcile sample_sha256 mock_tok rail_mock_anvil payer1 payee2 nonce_d tx_e 3 1000 5000 0 False (Aware 1784332800000000) (mock_at 0) =
     (Inr mock_report, mock_at 12)"
  using mock_run mock_built by (simp add: run_reconcile_def bindS_step)

theorem report_json_roundtrip_witness:
  "\<exists>t doc. report_json (re_float_text mock_run_env) mock_report = Inr t \<and>
     loads (plain_reader mock_run_env) (re_depth mock_run_env) t = Inr (PDict doc) \<and> validate_report_document doc = Inr ()"
proof -
  have "list_all printable_number (report_numbers mock_report)" "3 \<le> re_depth mock_run_env" by code_simp+
  then show ?thesis using report_json_roundtrip[OF mock_run_report, of mock_run_env] by (auto simp: list_all_iff)
qed

end
