(* ===== verification/Mcp_Server.thy ===== *)
theory Mcp_Server
  imports Cli_Sample
begin

text \<open>
  \<^verbatim>\<open>psv/mcp_server.py\<close>: the tools an agent can call.  The MCP library is not modelled: a tool is the
  function it registers.  The parameters are those of the command line (record \<open>cli_env\<close>); what a
  tool logs is left out.  \<^verbatim>\<open>_as_dict\<close> picks the \<^verbatim>\<open>to_dict\<close> of a report and the \<^verbatim>\<open>as_dict\<close> of a drift check.
\<close>

section \<open>Configuration\<close>

definition no_endpoint :: exn where
  "no_endpoint = ConfigurationError ''no RPC endpoint configured''"

definition rpc_endpoint :: "cli_env \<Rightarrow> string result" where
  "rpc_endpoint env =
     (let endpoint = py_strip (case ce_getenv env ''PSV_RPC_URL'' of None \<Rightarrow> [] | Some v \<Rightarrow> v) in
      if endpoint = [] then Inl no_endpoint else Inr endpoint)"

definition rpc_timeout :: "cli_env \<Rightarrow> pyfloat" where
  "rpc_timeout env =
     (case ce_getenv env ''PSV_RPC_TIMEOUT'' of
        None \<Rightarrow> Finite 10 0
      | Some v \<Rightarrow> (case ce_float env v of None \<Rightarrow> Finite 10 0 | Some t \<Rightarrow> t))"

section \<open>Tools\<close>

definition error_reply :: "string \<Rightarrow> pydict" where
  "error_reply m = obj [(''error'', PStr m)]"

definition rail_entry :: "string \<times> rail_config \<Rightarrow> pyval" where
  "rail_entry kr =
     (let (key, rc) = kr in PDict (obj
       [(''key'', PStr key), (''label'', PStr (rail_label rc)), (''chain_id'', PInt (rail_chain_id rc)),
        (''token_address'', PStr (rail_token_address rc)), (''decimals'', PInt (rail_decimals rc))]))"

definition list_rails :: pydict where
  "list_rails = obj [(''rails'', PList (map rail_entry (sort_key fst known_rails)))]"

definition reconcile_settlement ::
  "cli_env \<Rightarrow> string \<Rightarrow> string \<Rightarrow> string \<Rightarrow> string \<Rightarrow> string \<Rightarrow> int \<Rightarrow> int \<Rightarrow> int \<Rightarrow> int \<Rightarrow> bool \<Rightarrow> int \<Rightarrow> pydict" where
  "reconcile_settlement env rail_name payer payee nonce transaction_hash log_index required_amount payer_before payee_before
       sut_believes_paid now =
     (case rpc_endpoint env of
        Inl e \<Rightarrow> error_reply (ce_exn_text env e)
      | Inr endpoint \<Rightarrow>
          (case get_rail rail_name of
             Inl e \<Rightarrow> error_reply (ce_exn_text env e)
           | Inr rc \<Rightarrow>
               (case fst (bindS (liftS (token_for_rail rc)) (\<lambda>tok.
                       run_reconcile (re_sha256 (ce_run env)) tok rc payer payee nonce transaction_hash log_index
                         required_amount payer_before payee_before sut_believes_paid (Aware now))
                     (http_client (ce_http env) endpoint (rpc_timeout env))) of
                  Inl e \<Rightarrow> error_reply ''reconciliation could not be completed''
                | Inr report \<Rightarrow> report_dict report)))"

definition rail_drift :: "cli_env \<Rightarrow> string \<Rightarrow> pydict" where
  "rail_drift env rail_name =
     (case rpc_endpoint env of
        Inl e \<Rightarrow> error_reply (ce_exn_text env e)
      | Inr endpoint \<Rightarrow>
          (case get_rail rail_name of
             Inl e \<Rightarrow> error_reply (ce_exn_text env e)
           | Inr rc \<Rightarrow>
               (case fst (check_rail_drift (re_sha256 (ce_run env)) rc (http_client (ce_http env) endpoint (rpc_timeout env))) of
                  Inl e \<Rightarrow> error_reply ''drift observation could not be completed''
                | Inr check \<Rightarrow>
                    foldl (\<lambda>d (k, v). AList.update k v d) (obj [(''matches'', PBool (dc_matches check))]) (drift_as_dict check))))"

definition mcp_transports :: "string list" where
  "mcp_transports = [''stdio'', ''sse'', ''streamable-http'']"

text \<open>\<^verbatim>\<open>main\<close>: the transport the server runs on, or \<^verbatim>\<open>SystemExit(2)\<close>.\<close>

definition mcp_main :: "cli_env \<Rightarrow> string result" where
  "mcp_main env =
     (let transport = (case ce_getenv env ''PSV_MCP_TRANSPORT'' of None \<Rightarrow> ''stdio'' | Some t \<Rightarrow> t) in
      if transport \<notin> set mcp_transports then Inl (OtherException ''SystemExit(2)'') else Inr transport)"

section \<open>Properties\<close>

lemma report_dict_no_error: "\<not> has_key (report_dict r) ''error''"
  by (simp add: report_dict_def obj_def has_key_def)

text \<open>
  C11: The agent's answer is a proof or an error that tells nothing.  What \<^verbatim>\<open>reconcile_settlement\<close>
  returns is the document of a valid report of a live reconciliation of exactly the given
  arguments over the endpoint the operator configured, with its verdict and its evidence; or it is an
  error document whose text depends on whether an endpoint is configured and the rail is known,
  and on nothing the node, the transport or an exception said.
\<close>

theorem agent_answer_is_proof:
  "(\<exists>endpoint rc tok x c' report.
      rpc_endpoint env = Inr endpoint \<and> get_rail rail_name = Inr rc \<and> token_for_rail rc = Inr tok \<and>
      reconcile_live (re_sha256 (ce_run env)) tok rc payer payee nonce tx li req pb qb believes
        (http_client (ce_http env) endpoint (rpc_timeout env)) = (Inr x, c') \<and>
      validate_report report = Inr () \<and> rr_kind report = kind_value (lr_kind x) \<and> rr_evidence report = lr_evidence x \<and>
      reconcile_settlement env rail_name payer payee nonce tx li req pb qb believes now = report_dict report \<and>
      \<not> has_key (report_dict report) ''error'') \<or>
   reconcile_settlement env rail_name payer payee nonce tx li req pb qb believes now =
     error_reply (if rpc_endpoint env = Inl no_endpoint then ce_exn_text env no_endpoint
       else if get_rail rail_name = Inl (KeyError ''unknown rail'') then ce_exn_text env (KeyError ''unknown rail'')
       else ''reconciliation could not be completed'')"
proof (cases "rpc_endpoint env")
  case (Inl e)
  then show ?thesis by (auto simp: reconcile_settlement_def rpc_endpoint_def Let_def split: if_splits)
next
  case (Inr endpoint)
  note ep = this
  show ?thesis
  proof (cases "get_rail rail_name")
    case (Inl e)
    then have "e = KeyError ''unknown rail''" by (auto simp: get_rail_def split: option.splits)
    then show ?thesis using ep Inl by (simp add: reconcile_settlement_def)
  next
    case (Inr rc)
    let ?c = "http_client (ce_http env) endpoint (rpc_timeout env)"
    let ?m = "bindS (liftS (token_for_rail rc)) (\<lambda>tok.
        run_reconcile (re_sha256 (ce_run env)) tok rc payer payee nonce tx li req pb qb believes (Aware now))"
    show ?thesis
    proof (cases "fst (?m ?c)")
      case (Inl e)
      then show ?thesis using ep Inr by (simp add: reconcile_settlement_def)
    next
      case (Inr report)
      then obtain c' where "?m ?c = (Inr report, c')" by (metis prod.collapse)
      then obtain tok x c1 where tok: "token_for_rail rc = Inr tok"
        and live: "reconcile_live (re_sha256 (ce_run env)) tok rc payer payee nonce tx li req pb qb believes ?c = (Inr x, c1)"
        and b: "build_report rc payer payee nonce believes (lr_divergence x) (lr_evidence x) (Aware now) = Inr report"
        by (auto simp: bindS_ok run_reconcile_def)
      have "validate_report report = Inr ()" using built_after_live[OF live] b by (metis sum.inject(2))
      moreover have "reconcile_settlement env rail_name payer payee nonce tx li req pb qb believes now = report_dict report"
        using ep \<open>get_rail rail_name = Inr rc\<close> Inr by (simp add: reconcile_settlement_def)
      ultimately show ?thesis
        using ep \<open>get_rail rail_name = Inr rc\<close> tok live build_report_ok[OF b] report_dict_no_error by (auto simp: lr_kind_def)
    qed
  qed
qed

end
