(* ===== verification/Svm_Chain.thy ===== *)
theory Svm_Chain
  imports Divergence Rails
begin

text \<open>
  \<^verbatim>\<open>psv/svm_chain.py\<close>: settlement truth from the metadata of a Solana transaction, and the rails of
  that chain.  A mint or owner given by the caller is a \<open>string\<close>; what the metadata holds is a \<open>pyval\<close>.
\<close>

section \<open>Scalars\<close>

definition solana_mainnet :: string where
  "solana_mainnet = ''solana:5eykt4UsFv8P8NJdTREpY1vzqKqZKvdp''"

definition solana_devnet :: string where
  "solana_devnet = ''solana:EtWTRABZaYq6iMfeYKouRu166VU2xqa1''"

definition solana_testnet :: string where
  "solana_testnet = ''solana:4uhcVJyU9pJkvQyS88uRDiswHXSCkY3z''"

definition solana_networks :: "string list" where
  "solana_networks = [solana_mainnet, solana_devnet, solana_testnet]"

definition token_programs :: "string list" where
  "token_programs = [''TokenkegQfeZyiNwAJbNbGKPFXCWuBvf9Ss623VQ5DA'', ''TokenzQdBNbLqP5VEhdkAS6EPFLC1PHnBqCXEpPxuEb'']"

definition base58_char :: "char \<Rightarrow> bool" where
  "base58_char c \<longleftrightarrow> 49 \<le> code c \<and> code c \<le> 57 \<or> 65 \<le> code c \<and> code c \<le> 72 \<or> 74 \<le> code c \<and> code c \<le> 78 \<or>
     80 \<le> code c \<and> code c \<le> 90 \<or> 97 \<le> code c \<and> code c \<le> 107 \<or> 109 \<le> code c \<and> code c \<le> 122"

definition match_base58 :: "string \<Rightarrow> bool" where
  "match_base58 s \<longleftrightarrow> 32 \<le> length s \<and> length s \<le> 44 \<and> (\<forall>c\<in>set s. base58_char c)"

definition u64_max :: int where
  "u64_max = 18446744073709551615"

definition svm_address :: "string \<Rightarrow> pyval \<Rightarrow> string result" where
  "svm_address what v =
     (case v of
        PStr s \<Rightarrow> if match_base58 s then Inr s else Inl (SvmEvidenceError (what @ '' must be a base58 Solana address''))
      | _ \<Rightarrow> Inl (SvmEvidenceError (what @ '' must be a base58 Solana address'')))"

definition svm_amount :: "string \<Rightarrow> pyval \<Rightarrow> int result" where
  "svm_amount what v =
     (case v of
        PStr s \<Rightarrow>
          if \<not> py_isdigit s then Inl (SvmEvidenceError (what @ '' must be a decimal uint64 string''))
          else bindR (int_base 10 s) (\<lambda>n.
            if \<not> (0 \<le> n \<and> n \<le> u64_max) then Inl (SvmEvidenceError (what @ '' is outside uint64'')) else Inr n)
      | _ \<Rightarrow> Inl (SvmEvidenceError (what @ '' must be a decimal uint64 string'')))"

section \<open>Balances\<close>

text \<open>The amounts of the entries of one owner and mint, in order.\<close>

fun found_amounts :: "string \<Rightarrow> string \<Rightarrow> string \<Rightarrow> pyval list \<Rightarrow> int list result" where
  "found_amounts what owner mint [] = Inr []"
| "found_amounts what owner mint (entry # entries) =
     (case entry of
        PDict d \<Rightarrow>
          if dict_get d ''owner'' = PStr owner \<and> dict_get d ''mint'' = PStr mint then
            (case dict_get d ''uiTokenAmount'' of
               PDict ui \<Rightarrow>
                 bindR (svm_amount (what @ '' amount'') (dict_get ui ''amount'')) (\<lambda>n.
                 bindR (found_amounts what owner mint entries) (\<lambda>ns. Inr (n # ns)))
             | _ \<Rightarrow> Inl (SvmEvidenceError (what @ '' uiTokenAmount must be an object'')))
          else found_amounts what owner mint entries
      | _ \<Rightarrow> Inl (SvmEvidenceError (what @ '' entry must be an object'')))"

definition balance_for :: "string \<Rightarrow> string \<Rightarrow> string \<Rightarrow> pyval list \<Rightarrow> int result" where
  "balance_for what owner mint balances =
     bindR (found_amounts what owner mint balances) (\<lambda>found.
     case found of
       [] \<Rightarrow> Inr 0
     | [n] \<Rightarrow> Inr n
     | _ \<Rightarrow> Inl (SvmEvidenceError (what @ '': more than one token account for owner+mint'')))"

definition settlement_truth_from_svm_meta :: "pyval \<Rightarrow> string \<Rightarrow> string \<Rightarrow> string \<Rightarrow> settlement_truth result" where
  "settlement_truth_from_svm_meta meta mint payer_owner payee_owner =
     (case meta of
        PDict d \<Rightarrow>
          bindR (svm_address ''mint'' (PStr mint)) (\<lambda>mint.
          bindR (svm_address ''payer_owner'' (PStr payer_owner)) (\<lambda>payer_owner.
          bindR (svm_address ''payee_owner'' (PStr payee_owner)) (\<lambda>payee_owner.
          if payer_owner = payee_owner then Inl (SvmEvidenceError ''payer and payee owners must differ'')
          else if \<not> has_key d ''err'' then Inl (SvmEvidenceError ''meta must carry an err field'')
          else
            (case (dict_get d ''preTokenBalances'', dict_get d ''postTokenBalances'') of
               (PList before, PList after) \<Rightarrow>
                 bindR (balance_for ''pre payer'' payer_owner mint before) (\<lambda>payer_before.
                 bindR (balance_for ''post payer'' payer_owner mint after) (\<lambda>payer_after.
                 bindR (balance_for ''pre payee'' payee_owner mint before) (\<lambda>payee_before.
                 bindR (balance_for ''post payee'' payee_owner mint after) (\<lambda>payee_after.
                 Inr (settlement_truth_from_balances (dict_get d ''err'' = PNone) payer_before payer_after
                        payee_before payee_after)))))
             | _ \<Rightarrow> Inl (SvmEvidenceError ''meta must carry pre/postTokenBalances lists'')))))
      | _ \<Rightarrow> Inl (SvmEvidenceError ''meta must be an object''))"

section \<open>Rails\<close>

record svm_attestation =
  sa_version :: string
  sa_reviewed_on :: date
  sa_authoritative_sources :: "string list"
  sa_network_class :: string
  sa_expected_decimals :: int
  sa_calibrated :: bool

definition mk_svm_attestation :: "svm_attestation \<Rightarrow> svm_attestation result" where
  "mk_svm_attestation a =
     (if sa_version a = [] \<or> sa_authoritative_sources a = []
      then Inl (ValueError ''svm rail attestation needs a version and authoritative source'')
      else if sa_network_class a \<notin> {''local'', ''testnet'', ''mainnet''} then Inl (ValueError ''invalid network classification'')
      else if \<not> (0 \<le> sa_expected_decimals a \<and> sa_expected_decimals a \<le> 36)
      then Inl (ValueError ''attested decimals must be within [0, 36]'')
      else Inr a)"

record svm_rail_config =
  sr_key :: string
  sr_label :: string
  sr_network :: string
  sr_mint :: string
  sr_decimals :: int
  sr_token_program :: string
  sr_attestation :: svm_attestation
  sr_signing_enabled :: bool

definition mk_svm_rail :: "svm_rail_config \<Rightarrow> svm_rail_config result" where
  "mk_svm_rail r =
     (if sr_network r \<notin> set solana_networks then Inl (ValueError ''svm rail network must be a known solana CAIP-2 id'')
      else if \<not> match_base58 (sr_mint r) then Inl (ValueError ''svm rail mint must be a base58 Solana address'')
      else if sr_token_program r \<notin> set token_programs
      then Inl (ValueError ''svm rail token_program must be SPL Token or Token-2022'')
      else if \<not> (0 \<le> sr_decimals r \<and> sr_decimals r \<le> 36) then Inl (ValueError ''svm rail decimals must be within [0, 36]'')
      else if sr_signing_enabled r then Inl (ValueError ''signing is disabled for every reconciliation rail'')
      else if sa_expected_decimals (sr_attestation r) \<noteq> sr_decimals r
      then Inl (ValueError ''svm rail decimals differ from the reviewed attestation'')
      else Inr r)"

definition svm_rails :: "(string \<times> svm_rail_config) list" where
  "svm_rails =
     [(''usdc-solana-devnet'',
       \<lparr>sr_key = ''usdc-solana-devnet'', sr_label = ''USDC on Solana devnet'', sr_network = solana_devnet,
        sr_mint = ''4zMMC9srt5Ri5X14GAgXhaHii3GnPAEERYPJgZJDncDU'', sr_decimals = 6,
        sr_token_program = ''TokenkegQfeZyiNwAJbNbGKPFXCWuBvf9Ss623VQ5DA'',
        sr_attestation =
          \<lparr>sa_version = ''2026-07-19'', sa_reviewed_on = (2026, 7, 19),
           sa_authoritative_sources = [''https://developers.circle.com/stablecoins/usdc-contract-addresses''],
           sa_network_class = ''testnet'', sa_expected_decimals = 6, sa_calibrated = False\<rparr>,
        sr_signing_enabled = False\<rparr>)]"

definition get_svm_rail :: "string \<Rightarrow> svm_rail_config result" where
  "get_svm_rail key = (case map_of svm_rails key of None \<Rightarrow> Inl (KeyError ''unknown svm rail'') | Some r \<Rightarrow> Inr r)"

lemma svm_rails_valid:
  "list_all (\<lambda>(key, r). sr_key r = key \<and> mk_svm_attestation (sr_attestation r) = Inr (sr_attestation r) \<and> mk_svm_rail r = Inr r)
     svm_rails"
  by code_simp

section \<open>Properties\<close>

text \<open>A balance in untrusted metadata: no matching account, or exactly one with a uint64 amount.\<close>

definition account_entry :: "string \<Rightarrow> string \<Rightarrow> pyval \<Rightarrow> bool" where
  "account_entry owner mint entry \<longleftrightarrow>
     (\<exists>d. entry = PDict d \<and> dict_get d ''owner'' = PStr owner \<and> dict_get d ''mint'' = PStr mint)"

definition amount_of :: "pyval \<Rightarrow> int \<Rightarrow> bool" where
  "amount_of entry n \<longleftrightarrow>
     (\<exists>d ui s. entry = PDict d \<and> dict_get d ''uiTokenAmount'' = PDict ui \<and> dict_get ui ''amount'' = PStr s \<and>
        py_isdigit s \<and> int_base 10 s = Inr n \<and> 0 \<le> n \<and> n \<le> u64_max)"

definition svm_balance :: "pyval list \<Rightarrow> string \<Rightarrow> string \<Rightarrow> int \<Rightarrow> bool" where
  "svm_balance entries owner mint n \<longleftrightarrow>
     (\<forall>entry\<in>set entries. is_dict entry) \<and>
     (filter (account_entry owner mint) entries = [] \<and> n = 0 \<or>
      (\<exists>entry. filter (account_entry owner mint) entries = [entry] \<and> amount_of entry n))"

lemma svm_amount_ok:
  "svm_amount what v = Inr n \<longleftrightarrow>
     (\<exists>s. v = PStr s \<and> py_isdigit s \<and> int_base 10 s = Inr n \<and> 0 \<le> n \<and> n \<le> u64_max)"
  by (cases v) (auto simp: svm_amount_def ok_iff)

lemma found_amounts_ok:
  "found_amounts what owner mint entries = Inr ns \<longleftrightarrow>
     (\<forall>entry\<in>set entries. is_dict entry) \<and> list_all2 amount_of (filter (account_entry owner mint) entries) ns"
proof (induction entries arbitrary: ns)
  case (Cons entry entries)
  show ?case
  proof (cases "\<exists>d. entry = PDict d")
    case True
    then obtain d where d: "entry = PDict d" by blast
    show ?thesis
    proof (cases "account_entry owner mint entry")
      case True
      then have g: "dict_get d ''owner'' = PStr owner" "dict_get d ''mint'' = PStr mint" by (auto simp: account_entry_def d)
      show ?thesis
      proof (cases "dict_get d ''uiTokenAmount''")
        case (PDict ui)
        have "svm_amount (what @ '' amount'') (dict_get ui ''amount'') = Inr n \<longleftrightarrow> amount_of entry n" for n
          by (auto simp: svm_amount_ok amount_of_def d PDict)
        then show ?thesis using True g PDict Cons by (auto simp: d ok_iff is_dict_def list_all2_Cons1)
      qed (use True g in \<open>auto simp: d amount_of_def list_all2_Cons1\<close>)
    next
      case False
      then show ?thesis using Cons by (auto simp: d account_entry_def is_dict_def)
    qed
  next
    case False
    then show ?thesis by (cases entry) (auto simp: is_dict_def)
  qed
qed auto

lemma balance_for_ok: "balance_for what owner mint entries = Inr n \<longleftrightarrow> svm_balance entries owner mint n"
proof -
  have "(case found of [] \<Rightarrow> Inr 0 | [n] \<Rightarrow> Inr n | _ \<Rightarrow> Inl e) = Inr n \<longleftrightarrow> found = [] \<and> n = 0 \<or> found = [n]"
    for found :: "int list" and e :: exn
    by (auto split: list.splits)
  then show ?thesis by (auto simp: balance_for_def bindR_ok found_amounts_ok svm_balance_def list_all2_Cons2 ex_disj_distrib conj_disj_distribL)
qed

text \<open>
  The truth of a Solana settlement is read from exact metadata only.  A truth is returned
  exactly if mint and owners are base58 addresses, the owners differ, the metadata says whether
  the transaction failed, and for each side before and after there is no token account of that
  owner and mint (balance 0) or exactly one with a uint64 amount; the truth then has these balances,
  their differences, and counts the authorization as used exactly if the transaction did not fail.
\<close>

theorem svm_truth_exact:
  "settlement_truth_from_svm_meta (PDict d) mint payer payee = Inr t \<longleftrightarrow>
     match_base58 mint \<and> match_base58 payer \<and> match_base58 payee \<and> payer \<noteq> payee \<and> has_key d ''err'' \<and>
     (\<exists>before after pb pa qb qa.
        dict_get d ''preTokenBalances'' = PList before \<and> dict_get d ''postTokenBalances'' = PList after \<and>
        svm_balance before payer mint pb \<and> svm_balance after payer mint pa \<and>
        svm_balance before payee mint qb \<and> svm_balance after payee mint qa \<and>
        t = \<lparr>nonce_consumed = (dict_get d ''err'' = PNone), payer_balance_after = pa, payee_balance_after = qa,
             payer_delta = pa - pb, payee_delta = qa - qb\<rparr>)"
  by (auto simp: settlement_truth_from_svm_meta_def svm_address_def ok_iff balance_for_ok settlement_truth_from_balances_def
      split: pyval.splits if_splits)

text \<open>
  C21: The verdict on a Solana settlement.  A failed transaction moved nothing: whoever believes it
  paid gives a phantom credit.  After a transaction that debited the payer and credited the payee, an
  order left unpaid is a silent loss, and a paid one an underpayment exactly if the payee received
  less than required.
\<close>

theorem svm_verdict:
  assumes "settlement_truth_from_svm_meta (PDict d) mint payer payee = Inr t"
    and "dict_get d ''preTokenBalances'' = PList before" "dict_get d ''postTokenBalances'' = PList after"
    and "svm_balance before payer mint pb" "svm_balance after payer mint pa"
    and "svm_balance before payee mint qb" "svm_balance after payee mint qa"
  shows "kind (detect_payment_divergence t believes (Some required)) =
    (if dict_get d ''err'' = PNone \<and> pa < pb \<and> qb < qa
     then if \<not> believes then SILENT_LOSS else if qa - qb < required then UNDERPAID_CREDIT else CONSISTENT_PAID
     else if believes then PHANTOM_CREDIT else CONSISTENT_UNPAID)"
proof -
  have uniq: "m = n" if "svm_balance es owner mint m" "svm_balance es owner mint n" for es owner m n
    using that by (auto simp: svm_balance_def amount_of_def)
  from assms(1)[unfolded svm_truth_exact] assms(2,3) obtain pb' pa' qb' qa' where b:
    "svm_balance before payer mint pb'" "svm_balance after payer mint pa'"
    "svm_balance before payee mint qb'" "svm_balance after payee mint qa'"
    and t: "t = \<lparr>nonce_consumed = (dict_get d ''err'' = PNone), payer_balance_after = pa', payee_balance_after = qa',
             payer_delta = pa' - pb', payee_delta = qa' - qb'\<rparr>" by auto
  have "pb' = pb" "pa' = pa" "qb' = qb" "qa' = qa" using uniq b assms(4-7) by blast+
  then show ?thesis
    using exact.grade_kind[OF refl, of t believes "Some required"] by (simp add: t funds_moved_def underpaid_def)
qed

definition svm_entry :: "string \<Rightarrow> string \<Rightarrow> string \<Rightarrow> pyval" where
  "svm_entry owner mint amount = PDict (obj [(''owner'', PStr owner), (''mint'', PStr mint),
     (''uiTokenAmount'', PDict (obj [(''amount'', PStr amount)]))])"

abbreviation "demo_mint \<equiv> ''4zMMC9srt5Ri5X14GAgXhaHii3GnPAEERYPJgZJDncDU''"
abbreviation "demo_payer \<equiv> replicate 40 (CHR ''A'')"
abbreviation "demo_payee \<equiv> replicate 40 (CHR ''B'')"

definition demo_meta :: pydict where
  "demo_meta = obj [(''err'', PNone), (''preTokenBalances'', PList [svm_entry demo_payer demo_mint ''5000'']),
     (''postTokenBalances'', PList [svm_entry demo_payer demo_mint ''4000'', svm_entry demo_payee demo_mint ''1000''])]"

theorem svm_verdict_witness:
  "\<exists>t. settlement_truth_from_svm_meta (PDict demo_meta) demo_mint demo_payer demo_payee = Inr t \<and>
     kind (detect_payment_divergence t False (Some 1000)) = SILENT_LOSS"
proof -
  have m: "dict_get demo_meta ''preTokenBalances'' = PList [svm_entry demo_payer demo_mint ''5000'']"
    "dict_get demo_meta ''postTokenBalances'' = PList [svm_entry demo_payer demo_mint ''4000'', svm_entry demo_payee demo_mint ''1000'']"
    "dict_get demo_meta ''err'' = PNone" by (simp_all add: demo_meta_def obj_def dict_get_def)
  have "case settlement_truth_from_svm_meta (PDict demo_meta) demo_mint demo_payer demo_payee of Inr t \<Rightarrow> True | Inl e \<Rightarrow> False"
    by code_simp
  then obtain t where t: "settlement_truth_from_svm_meta (PDict demo_meta) demo_mint demo_payer demo_payee = Inr t"
    by (auto split: sum.splits)
  have "balance_for [] demo_payer demo_mint [svm_entry demo_payer demo_mint ''5000''] = Inr 5000"
    "balance_for [] demo_payer demo_mint [svm_entry demo_payer demo_mint ''4000'', svm_entry demo_payee demo_mint ''1000''] = Inr 4000"
    "balance_for [] demo_payee demo_mint [svm_entry demo_payer demo_mint ''5000''] = Inr 0"
    "balance_for [] demo_payee demo_mint [svm_entry demo_payer demo_mint ''4000'', svm_entry demo_payee demo_mint ''1000''] = Inr 1000"
    by code_simp+
  from svm_verdict[OF t m(1,2) this[unfolded balance_for_ok], of False 1000] t m(3) show ?thesis by auto
qed

text \<open>The digit test accepts superscripts, which \<^verbatim>\<open>int\<close> refuses with another exception.\<close>

lemma superscript_amount_escapes:
  "svm_amount ''amount'' (PStr [char_of (178 :: int)]) = Inl (ValueError ''invalid literal for int()'')"
  by code_simp

end
