(* ===== verification/Payloads.thy ===== *)
theory Payloads
  imports Safety
begin

text \<open>
  \<^verbatim>\<open>psv/payloads.py\<close> and \<^verbatim>\<open>psv/security_checks.py\<close>: signing an EIP-3009 authorization, and the checks
  of a system on authorizations, assets and order ids.

  Parameters (record \<open>evm_lib\<close>): \<^verbatim>\<open>eth_account\<close>, that is whether it is installed, the account of a
  key, the encoding of typed data (its result is the type \<open>'b\<close>), its digest, signing and
  recovery; the random tokens; \<^verbatim>\<open>str\<close> of a value that is no string.
\<close>

section \<open>Signing\<close>

record transfer_message =
  tm_from :: pyval
  tm_to :: pyval
  tm_value :: int
  tm_valid_after :: int
  tm_valid_before :: int
  tm_nonce :: "int list"

record 'b evm_lib =
  el_available :: bool
  el_from_key :: "string \<Rightarrow> string result"
  el_address :: "string \<Rightarrow> string"
  el_encode :: "pydict \<Rightarrow> (string \<times> string) list \<Rightarrow> transfer_message \<Rightarrow> 'b result"
  el_digest :: "'b \<Rightarrow> int list"
  el_sign :: "string \<Rightarrow> 'b \<Rightarrow> string"
  el_recover :: "'b \<Rightarrow> pyval \<Rightarrow> string result"
  el_token_hex :: "nat \<Rightarrow> string"
  el_text :: "pyval \<Rightarrow> string"

definition authorization_types :: "(string \<times> string) list" where
  "authorization_types =
     [(''from'', ''address''), (''to'', ''address''), (''value'', ''uint256''), (''validAfter'', ''uint256''),
      (''validBefore'', ''uint256''), (''nonce'', ''bytes32'')]"

definition require_evm :: "'b evm_lib \<Rightarrow> unit result" where
  "require_evm lib = guardR (el_available lib) (RuntimeError ''EIP-3009 signing requires eth-account'')"

text \<open>An \<^verbatim>\<open>EvmSigner\<close> is the account of its key.\<close>

definition signer_from_key :: "'b evm_lib \<Rightarrow> string \<Rightarrow> string result" where
  "signer_from_key lib private_key = bindR (require_evm lib) (\<lambda>_. el_from_key lib private_key)"

definition random_signer :: "'b evm_lib \<Rightarrow> string result" where
  "random_signer lib = bindR (require_evm lib) (\<lambda>_. el_from_key lib (''0x'' @ el_token_hex lib 32))"

definition eip712_domain :: "int \<Rightarrow> string \<Rightarrow> string \<Rightarrow> string \<Rightarrow> pydict" where
  "eip712_domain cid verifying_contract name version = obj
     [(''name'', PStr name), (''version'', PStr version), (''chainId'', PInt cid),
      (''verifyingContract'', PStr verifying_contract)]"

definition text_of :: "'b evm_lib \<Rightarrow> pyval \<Rightarrow> string" where
  "text_of lib v = (case v of PStr s \<Rightarrow> s | _ \<Rightarrow> el_text lib v)"

definition authorization_message :: "'b evm_lib \<Rightarrow> pydict \<Rightarrow> transfer_message result" where
  "authorization_message lib a =
     bindR (dict_item a ''from'') (\<lambda>from_addr.
     bindR (dict_item a ''to'') (\<lambda>to_addr.
     bindR (bindR (dict_item a ''value'') int_of) (\<lambda>value.
     bindR (bindR (dict_item a ''validAfter'') int_of) (\<lambda>valid_after.
     bindR (bindR (dict_item a ''validBefore'') int_of) (\<lambda>valid_before.
     bindR (dict_item a ''nonce'') (\<lambda>nonce.
     case bytes_fromhex (removeprefix (text_of lib nonce) ''0x'') of
       None \<Rightarrow> Inl (ValueError ''non-hexadecimal number found in fromhex()'')
     | Some raw \<Rightarrow>
         Inr \<lparr>tm_from = from_addr, tm_to = to_addr, tm_value = value, tm_valid_after = valid_after,
              tm_valid_before = valid_before, tm_nonce = raw\<rparr>))))))"

definition encode_authorization :: "'b evm_lib \<Rightarrow> pydict \<Rightarrow> int \<Rightarrow> string \<Rightarrow> string \<Rightarrow> string \<Rightarrow> 'b result" where
  "encode_authorization lib a cid verifying_contract token_name token_version =
     bindR (authorization_message lib a) (\<lambda>m.
     el_encode lib (eip712_domain cid verifying_contract token_name token_version) authorization_types m)"

definition eip712_digest :: "'b evm_lib \<Rightarrow> pydict \<Rightarrow> int \<Rightarrow> string \<Rightarrow> string \<Rightarrow> string \<Rightarrow> int list result" where
  "eip712_digest lib a cid verifying_contract token_name token_version =
     bindR (require_evm lib) (\<lambda>_.
     bindR (encode_authorization lib a cid verifying_contract token_name token_version) (\<lambda>b.
     Inr (el_digest lib b)))"

record authorization =
  au_from_addr :: string
  au_to :: string
  au_value :: int
  au_valid_after :: int
  au_valid_before :: int
  au_nonce :: string
  au_signature :: string

definition authorization_dict :: "authorization \<Rightarrow> pydict" where
  "authorization_dict a = obj
     [(''from'', PStr (au_from_addr a)), (''to'', PStr (au_to a)), (''value'', PStr (py_str_int (au_value a))),
      (''validAfter'', PStr (py_str_int (au_valid_after a))), (''validBefore'', PStr (py_str_int (au_valid_before a))),
      (''nonce'', PStr (au_nonce a)), (''signature'', PStr (au_signature a))]"

definition unsigned_dict :: "string \<Rightarrow> string \<Rightarrow> int \<Rightarrow> int \<Rightarrow> int \<Rightarrow> string \<Rightarrow> pydict" where
  "unsigned_dict from_addr to_addr value valid_after valid_before nonce = obj
     [(''from'', PStr from_addr), (''to'', PStr to_addr), (''value'', PStr (py_str_int value)),
      (''validAfter'', PStr (py_str_int valid_after)), (''validBefore'', PStr (py_str_int valid_before)), (''nonce'', PStr nonce)]"

text \<open>\<^verbatim>\<open>str\<close> of an int of more than 4300 digits raises the error that \<^verbatim>\<open>int\<close> of its text would raise next.\<close>

definition sign_authorization ::
  "'b evm_lib \<Rightarrow> string \<Rightarrow> string \<Rightarrow> int \<Rightarrow> int \<Rightarrow> string \<Rightarrow> string \<Rightarrow> string \<Rightarrow> int \<Rightarrow> int \<Rightarrow> string option \<Rightarrow> authorization result" where
  "sign_authorization lib account to_addr value cid token_address token_name token_version valid_after valid_before nonce =
     bindR (require_evm lib) (\<lambda>_.
     let n = (case nonce of Some x \<Rightarrow> x | None \<Rightarrow> ''0x'' @ el_token_hex lib 32);
         a = unsigned_dict (el_address lib account) to_addr value valid_after valid_before n in
     bindR (encode_authorization lib a cid token_address token_name token_version) (\<lambda>b.
     Inr \<lparr>au_from_addr = el_address lib account, au_to = to_addr, au_value = value, au_valid_after = valid_after,
          au_valid_before = valid_before, au_nonce = n, au_signature = el_sign lib account b\<rparr>))"

section \<open>Checks\<close>

definition recovered_signer :: "'b evm_lib \<Rightarrow> pydict \<Rightarrow> int \<Rightarrow> string \<Rightarrow> string \<Rightarrow> string \<Rightarrow> string result" where
  "recovered_signer lib auth cid token_address token_name token_version =
     bindR (require_evm lib) (\<lambda>_.
     bindR (encode_authorization lib auth cid token_address token_name token_version) (\<lambda>b.
     bindR (dict_item auth ''signature'') (\<lambda>sig.
     el_recover lib b sig)))"

definition authorization_binds_to_chain ::
  "'b evm_lib \<Rightarrow> pydict \<Rightarrow> int \<Rightarrow> string \<Rightarrow> string \<Rightarrow> string \<Rightarrow> bool result" where
  "authorization_binds_to_chain lib auth expected_chain_id token_address token_name token_version =
     (case recovered_signer lib auth expected_chain_id token_address token_name token_version of
        Inl e \<Rightarrow> Inr False
      | Inr recovered \<Rightarrow>
          bindR (dict_item auth ''from'') (\<lambda>f. Inr (lower recovered = lower (text_of lib f))))"

definition any_prefix_address :: "string \<Rightarrow> bool" where
  "any_prefix_address s \<longleftrightarrow>
     length s = 42 \<and> (startswith s ''0x'' \<or> startswith s ''0X'') \<and> (\<forall>c\<in>set (drop 2 s). is_hex c)"

definition asset_matches :: "string \<Rightarrow> string \<Rightarrow> bool result" where
  "asset_matches log_address expected_token =
     (if \<not> any_prefix_address log_address \<or> \<not> any_prefix_address expected_token
      then Inl (ValueError ''asset addresses must be exact 20-byte EVM addresses'')
      else Inr (lower log_address = lower expected_token))"

text \<open>The pattern ends in a dollar sign, which also matches before a line feed at the end.\<close>

definition hex_line :: "string \<Rightarrow> bool" where
  "hex_line s \<longleftrightarrow>
     (let body = (if s \<noteq> [] \<and> last s = CHR 0x0A then butlast s else s) in body \<noteq> [] \<and> (\<forall>c\<in>set body. is_hex c))"

definition sufficient_id_entropy :: "string \<Rightarrow> string \<Rightarrow> nat \<Rightarrow> bool" where
  "sufficient_id_entropy order_id prefix min_random_hex \<longleftrightarrow>
     (let body = (if startswith order_id prefix then drop (length prefix) order_id else order_id) in
      min_random_hex \<le> length body \<and> hex_line body)"

definition asset_is_deployed_contract :: "string \<Rightarrow> bool result" where
  "asset_is_deployed_contract bytecode =
     (if \<not> match_data bytecode then Inl (ValueError ''code must be 0x-prefixed even-length hex data'')
      else Inr (drop 2 bytecode \<noteq> [] \<and> (\<exists>c\<in>set (lower (drop 2 bytecode)). c \<noteq> CHR ''0'')))"

section \<open>Properties\<close>

lemma domain_chain: "dict_get (eip712_domain cid token name version) ''chainId'' = PInt cid"
  by (simp add: eip712_domain_def obj_def dict_get_def)

lemma message_same:
  "authorization_message lib (authorization_dict a) =
     authorization_message lib (unsigned_dict (au_from_addr a) (au_to a) (au_value a) (au_valid_after a) (au_valid_before a) (au_nonce a))"
  by (simp add: authorization_message_def authorization_dict_def unsigned_dict_def obj_def dict_item_def)

lemma encode_same:
  "encode_authorization lib (authorization_dict a) =
     encode_authorization lib (unsigned_dict (au_from_addr a) (au_to a) (au_value a) (au_valid_after a) (au_valid_before a) (au_nonce a))"
  by (simp add: encode_authorization_def message_same fun_eq_iff)

text \<open>
  C22: An authorization is bound to the chain it was signed for.  The hypotheses are the library's:
  recovery returns the signer's address from the data that was signed and another address from any
  other data, and typed data under different chain ids have different encodings.  Then what
  \<^verbatim>\<open>sign_authorization\<close> signed for chain \<open>c\<close> is accepted for a chain \<open>c'\<close>, by the same token, exactly
  if \<open>c' = c\<close>, so a replay on another chain is refused before it is submitted.
\<close>

theorem authorization_bound_to_chain:
  assumes signed: "sign_authorization lib account to_addr value c token name version va vb nonce = Inr a"
    and recovers: "\<And>k b. el_recover lib b (PStr (el_sign lib k b)) = Inr (el_address lib k)"
    and exclusive: "\<And>k b b' r. el_recover lib b' (PStr (el_sign lib k b)) = Inr r \<Longrightarrow> lower r = lower (el_address lib k) \<Longrightarrow> b' = b"
    and separated: "\<And>d d' t m m' b. el_encode lib d t m = Inr b \<Longrightarrow> el_encode lib d' t m' = Inr b \<Longrightarrow>
      dict_get d ''chainId'' = dict_get d' ''chainId''"
  shows "authorization_binds_to_chain lib (authorization_dict a) c' token name version = Inr (c' = c)"
proof -
  from signed obtain b where avail: "require_evm lib = Inr ()"
    and enc: "encode_authorization lib (authorization_dict a) c token name version = Inr b"
    and a: "au_from_addr a = el_address lib account" "au_signature a = el_sign lib account b"
    by (auto simp: sign_authorization_def ok_iff Let_def encode_same)
  have sig: "dict_item (authorization_dict a) ''signature'' = Inr (PStr (el_sign lib account b))"
    "dict_item (authorization_dict a) ''from'' = Inr (PStr (el_address lib account))"
    using a by (simp_all add: authorization_dict_def obj_def dict_item_def)
  show ?thesis
  proof (cases "c' = c")
    case True
    then show ?thesis
      using avail enc sig recovers[of b account] by (simp add: authorization_binds_to_chain_def recovered_signer_def text_of_def)
  next
    case False
    show ?thesis
    proof (cases "recovered_signer lib (authorization_dict a) c' token name version")
      case (Inl e)
      then show ?thesis using False by (simp add: authorization_binds_to_chain_def)
    next
      case (Inr r)
      then obtain b' where b': "encode_authorization lib (authorization_dict a) c' token name version = Inr b'"
        "el_recover lib b' (PStr (el_sign lib account b)) = Inr r"
        using sig avail by (auto simp: recovered_signer_def ok_iff)
      have "b' \<noteq> b"
      proof
        assume "b' = b"
        then obtain m where "el_encode lib (eip712_domain c token name version) authorization_types m = Inr b"
          "el_encode lib (eip712_domain c' token name version) authorization_types m = Inr b"
          using enc b'(1) by (auto simp: encode_authorization_def ok_iff)
        from separated[OF this] False show False by (simp add: domain_chain)
      qed
      then have "lower r \<noteq> lower (el_address lib account)" using exclusive[OF b'(2)] by blast
      then show ?thesis using Inr sig False by (simp add: authorization_binds_to_chain_def text_of_def)
    qed
  qed
qed

text \<open>A library in which data are the chain id and a signature names the data and the key.\<close>

definition demo_lib :: "int evm_lib" where
  "demo_lib = \<lparr>el_available = True, el_from_key = Inr, el_address = (\<lambda>k. ''0x'' @ k),
     el_encode = (\<lambda>d t m. case dict_get d ''chainId'' of PInt n \<Rightarrow> Inr n | _ \<Rightarrow> Inl (ValueError ''chainId'')),
     el_digest = (\<lambda>n. [n]), el_sign = (\<lambda>k n. py_str_int n @ ''/'' @ k),
     el_recover = (\<lambda>n s. case s of
         PStr t \<Rightarrow> Inr (if startswith t (py_str_int n @ ''/'') then ''0x'' @ drop (length (py_str_int n) + 1) t else [])
       | _ \<Rightarrow> Inl (TypeError ''signature'')),
     el_token_hex = (\<lambda>n. replicate (2 * n) (CHR ''a'')), el_text = (\<lambda>v. [])\<rparr>"

lemma int_text_chars: "c \<in> set (py_str_int n) \<Longrightarrow> c = CHR ''-'' \<or> is_dec c"
  using digits_of_chars[of 10 n c] digits_of_chars[of 10 "- n" c] by (auto simp: py_str_int_def split: if_splits)

lemma py_str_int_inj: "py_str_int m = py_str_int n \<Longrightarrow> m = n"
proof -
  assume eq: "py_str_int m = py_str_int n"
  have d: "\<not> is_dec (CHR ''-'')" by code_simp
  have s: "k < 0 \<longleftrightarrow> hd (py_str_int k) = CHR ''-''" for k
  proof -
    have "hd (digits_of 10 k) \<noteq> CHR ''-''" if "0 \<le> k"
      using digits_of_chars[of 10 k "hd (digits_of 10 k)"] d that by auto
    then show ?thesis by (auto simp: py_str_int_def)
  qed
  show "m = n"
  proof (cases "m < 0")
    case True
    then have "n < 0" using s eq by metis
    then have "py_str_int (- m) = py_str_int (- n)" using True eq by (simp add: py_str_int_def)
    then show ?thesis using digits_inj[of "- m" "- n"] True \<open>n < 0\<close> by simp
  next
    case False
    then have "\<not> n < 0" using s eq by metis
    then show ?thesis using digits_inj[OF _ _ eq] False by simp
  qed
qed

lemma demo_lib_laws:
  "el_recover demo_lib b (PStr (el_sign demo_lib k b)) = Inr (el_address demo_lib k)"
  "el_recover demo_lib b' (PStr (el_sign demo_lib k b)) = Inr r \<Longrightarrow> lower r = lower (el_address demo_lib k) \<Longrightarrow> b' = b"
  "el_encode demo_lib d t m = Inr n \<Longrightarrow> el_encode demo_lib d' t m' = Inr n \<Longrightarrow> dict_get d ''chainId'' = dict_get d' ''chainId''"
proof -
  show "el_recover demo_lib b (PStr (el_sign demo_lib k b)) = Inr (el_address demo_lib k)"
    by (simp add: demo_lib_def startswith_append)
  have slash: "CHR ''/'' \<notin> set (py_str_int n)" for n
  proof -
    have "\<not> is_dec (CHR ''/'')" by code_simp
    then show ?thesis using int_text_chars[of "CHR ''/''" n] by auto
  qed
  assume r: "el_recover demo_lib b' (PStr (el_sign demo_lib k b)) = Inr r" "lower r = lower (el_address demo_lib k)"
  then have "startswith (py_str_int b @ ''/'' @ k) (py_str_int b' @ ''/'')"
    by (auto simp: demo_lib_def lower_def split: if_splits)
  then obtain t where "py_str_int b @ ''/'' @ k = (py_str_int b' @ ''/'') @ t" unfolding startswith_append by blast
  then have "takeWhile (\<lambda>c. c \<noteq> CHR ''/'') (py_str_int b @ ''/'' @ k) = takeWhile (\<lambda>c. c \<noteq> CHR ''/'') (py_str_int b' @ ''/'' @ t)"
    by simp
  moreover have "takeWhile (\<lambda>c. c \<noteq> CHR ''/'') (py_str_int n @ ''/'' @ u) = py_str_int n" for n u
    using slash[of n] by (subst takeWhile_append2) auto
  ultimately show "b' = b" using py_str_int_inj[of b b'] by simp
next
  show "el_encode demo_lib d t m = Inr n \<Longrightarrow> el_encode demo_lib d' t m' = Inr n \<Longrightarrow> dict_get d ''chainId'' = dict_get d' ''chainId''"
    by (auto simp: demo_lib_def split: pyval.splits)
qed

theorem authorization_bound_to_chain_witness:
  "\<exists>a. sign_authorization demo_lib ''k'' ''0xb'' 1000 84532 ''0xc'' ''USDC'' ''2'' 0 99 None = Inr a \<and>
     authorization_binds_to_chain demo_lib (authorization_dict a) 84532 ''0xc'' ''USDC'' ''2'' = Inr True \<and>
     authorization_binds_to_chain demo_lib (authorization_dict a) 8453 ''0xc'' ''USDC'' ''2'' = Inr False"
proof -
  let ?s = "sign_authorization demo_lib ''k'' ''0xb'' 1000 84532 ''0xc'' ''USDC'' ''2'' 0 99 None"
  have "case ?s of Inr a \<Rightarrow> True | Inl e \<Rightarrow> False" by code_simp
  then obtain a where a: "?s = Inr a" by (auto split: sum.splits)
  from authorization_bound_to_chain[OF a demo_lib_laws, where c' = 84532] authorization_bound_to_chain[OF a demo_lib_laws, where c' = 8453] a
  show ?thesis by simp
qed

text \<open>An id with a line feed at its end passes the entropy check; bytecode of zero bytes counts as not deployed.\<close>

lemma check_quirks:
  "sufficient_id_entropy (''ord_0123456789ab'' @ [CHR 0x0A]) ''ord_'' 12" "asset_is_deployed_contract ''0x00'' = Inr False"
  by code_simp+

end
