(* ===== verification/Load.thy ===== *)
theory Load
  imports Py_Values "HOL-Library.Multiset"
begin

text \<open>
  \<^verbatim>\<open>psv/load.py\<close>: load profiles.  A task is a parameter, an operation on a state of any type \<open>'w\<close>: its
  invocation with an id raises an exception or takes some milliseconds, and may change the state.
  Each invocation is one step; the order in which the workers of a thread pool take the steps is a
  parameter too (\<open>le_order\<close>), of which is used what \<^verbatim>\<open>Executor.map\<close> documents: the function is called once
  for each id, and the results come back in the order of the ids.  Times are values of an ordered
  type \<open>'t\<close>, and the divisions of floats in the rates are parameters (record \<open>load_env\<close>), like the
  class name and the text of an exception.
\<close>

section \<open>Results of one stage\<close>

record 't load_env =
  le_ratio :: "int \<Rightarrow> int \<Rightarrow> 't"
  le_per_second :: "int \<Rightarrow> 't \<Rightarrow> 't"
  le_type :: "exn \<Rightarrow> string"
  le_text :: "exn \<Rightarrow> string"
  le_order :: "int \<Rightarrow> int list \<Rightarrow> int list"

record load_error_sample =
  es_iteration :: int
  es_exception_type :: string
  es_message :: string

record 't load_result =
  ld_total :: int
  ld_errors :: int
  ld_latencies_ms :: "'t list"
  ld_duration_s :: 't
  ld_error_samples :: "load_error_sample list"

definition ld_ok :: "'t load_result \<Rightarrow> int" where
  "ld_ok r = ld_total r - ld_errors r"

definition error_rate :: "'t::zero load_env \<Rightarrow> 't load_result \<Rightarrow> 't" where
  "error_rate env r = (if ld_total r \<noteq> 0 then le_ratio env (ld_errors r) (ld_total r) else 0)"

definition attempted_throughput :: "'t::{zero,linorder} load_env \<Rightarrow> 't load_result \<Rightarrow> 't" where
  "attempted_throughput env r = (if ld_duration_s r > 0 then le_per_second env (ld_total r) (ld_duration_s r) else 0)"

definition successful_throughput :: "'t::{zero,linorder} load_env \<Rightarrow> 't load_result \<Rightarrow> 't" where
  "successful_throughput env r = (if ld_duration_s r > 0 then le_per_second env (ld_ok r) (ld_duration_s r) else 0)"

text \<open>
  The rank \<^verbatim>\<open>int(round((p / 100.0) * (n - 1)))\<close> in binary floating point: \<^verbatim>\<open>p / 100.0\<close> is \<open>m * 2 ^ e\<close>,
  the product is rounded to 53 bits, then to an integer, both to the nearest and in a tie to even.
\<close>

definition half_even :: "int \<Rightarrow> int \<Rightarrow> int" where
  "half_even m d = (let q = m div d; r = m mod d in if 2 * r > d \<or> 2 * r = d \<and> odd q then q + 1 else q)"

function bit_length :: "int \<Rightarrow> nat" where
  "bit_length n = (if n \<le> 0 then 0 else Suc (bit_length (n div 2)))"
  by pat_completeness auto
termination
  by (relation "measure nat") auto

declare bit_length.simps [simp del]

definition round_53 :: "int \<times> int \<Rightarrow> int \<times> int" where
  "round_53 x =
     (let (m, e) = x; k = bit_length m - 53 in if k = 0 then (m, e) else (half_even m (2 ^ k), e + int k))"

definition round_float :: "int \<times> int \<Rightarrow> int" where
  "round_float x = (let (m, e) = x in if e \<ge> 0 then m * 2 ^ nat e else half_even m (2 ^ nat (- e)))"

definition fraction_50 :: "int \<times> int" where
  "fraction_50 = (1, -1)"

definition fraction_95 :: "int \<times> int" where
  "fraction_95 = (8556839292003942, -53)"

definition rank :: "int \<times> int \<Rightarrow> int \<Rightarrow> int" where
  "rank p n = min (n - 1) (round_float (round_53 (fst p * (n - 1), snd p)))"

definition load_pct :: "int \<times> int \<Rightarrow> 't::{zero,linorder} load_result \<Rightarrow> 't" where
  "load_pct p r =
     (if ld_latencies_ms r = [] then 0
      else sort (ld_latencies_ms r) ! nat (rank p (int (length (ld_latencies_ms r)))))"

definition max_ms :: "'t::{zero,linorder} load_result \<Rightarrow> 't" where
  "max_ms r = (case ld_latencies_ms r of [] \<Rightarrow> 0 | x # xs \<Rightarrow> fold max xs x)"

definition sample_dict :: "load_error_sample \<Rightarrow> pydict" where
  "sample_dict s = obj
     [(''iteration'', PInt (es_iteration s)), (''type'', PStr (es_exception_type s)), (''message'', PStr (es_message s))]"

definition load_dict :: "'t::{zero,linorder} load_env \<Rightarrow> ('t \<Rightarrow> pyval) \<Rightarrow> 't load_result \<Rightarrow> pydict" where
  "load_dict env fl r = obj
     [(''attempted'', PInt (ld_total r)), (''successful'', PInt (ld_ok r)), (''errors'', PInt (ld_errors r)),
      (''errorRate'', fl (error_rate env r)), (''durationSeconds'', fl (ld_duration_s r)),
      (''attemptedThroughputPerSecond'', fl (attempted_throughput env r)),
      (''successfulThroughputPerSecond'', fl (successful_throughput env r)),
      (''latencyMilliseconds'', PDict (obj
         [(''p50'', fl (load_pct fraction_50 r)), (''p95'', fl (load_pct fraction_95 r)), (''max'', fl (max_ms r))])),
      (''errorSamples'', PList (map (\<lambda>s. PDict (sample_dict s)) (ld_error_samples r)))]"

section \<open>Running a stage\<close>

fun split_words :: "string \<Rightarrow> string \<Rightarrow> string list" where
  "split_words cur [] = (if cur = [] then [] else [rev cur])"
| "split_words cur (c # cs) =
     (if py_isspace c then (if cur = [] then split_words [] cs else rev cur # split_words [] cs)
      else split_words (c # cur) cs)"

fun join_words :: "string list \<Rightarrow> string" where
  "join_words [] = []"
| "join_words [w] = w"
| "join_words (w # ws) = w @ CHR '' '' # join_words ws"

definition sample_of :: "'t load_env \<Rightarrow> int \<Rightarrow> exn + 't \<Rightarrow> load_error_sample + 't" where
  "sample_of env i outcome =
     (case outcome of
        Inl e \<Rightarrow> Inl \<lparr>es_iteration = i, es_exception_type = le_type env e,
                     es_message = take 512 (join_words (split_words [] (le_text env e)))\<rparr>
      | Inr ms \<Rightarrow> Inr ms)"

definition run_one :: "'t load_env \<Rightarrow> (int \<Rightarrow> ('w, 't) op) \<Rightarrow> int \<Rightarrow> 'w \<Rightarrow> (load_error_sample + 't) \<times> 'w" where
  "run_one env task i w = (case task i w of (outcome, w') \<Rightarrow> (sample_of env i outcome, w'))"

text \<open>The invocations in the order they are made, each result with its id.\<close>

fun run_in_order :: "(int \<Rightarrow> 'w \<Rightarrow> 'r \<times> 'w) \<Rightarrow> int list \<Rightarrow> 'w \<Rightarrow> (int \<times> 'r) list \<times> 'w" where
  "run_in_order run [] w = ([], w)"
| "run_in_order run (i # is) w =
     (case run i w of (r, w1) \<Rightarrow> case run_in_order run is w1 of (rs, w2) \<Rightarrow> ((i, r) # rs, w2))"

definition tally ::
  "int \<Rightarrow> load_error_sample + 't \<Rightarrow> int \<times> 't list \<times> load_error_sample list \<Rightarrow> int \<times> 't list \<times> load_error_sample list" where
  "tally max_error_samples result acc =
     (let (errors, latencies, samples) = acc in
      case result of
        Inl s \<Rightarrow> (errors + 1, latencies, if int (length samples) < max_error_samples then samples @ [s] else samples)
      | Inr ms \<Rightarrow> (errors, latencies @ [ms], samples))"

definition run_profile ::
  "'t load_env \<Rightarrow> (int \<Rightarrow> ('w, 't) op) \<Rightarrow> 't \<Rightarrow> int \<Rightarrow> int \<Rightarrow> int \<Rightarrow> ('w, 't load_result) op" where
  "run_profile env task duration iterations concurrency max_error_samples =
     (if iterations \<le> 0 then raiseS (ValueError ''iterations must be > 0'')
      else if concurrency \<le> 0 then raiseS (ValueError ''concurrency must be > 0'')
      else if max_error_samples < 0 then raiseS (ValueError ''max_error_samples must be >= 0'')
      else (\<lambda>w.
        let ids = [0..iterations - 1];
            (finished, w') = run_in_order (run_one env task)
              (if concurrency = 1 then ids else le_order env concurrency ids) w;
            results = map (\<lambda>i. the (map_of finished i)) ids;
            (errors, latencies, samples) = fold (tally max_error_samples) results (0, [], [])
        in (Inr \<lparr>ld_total = iterations, ld_errors = errors, ld_latencies_ms = latencies, ld_duration_s = duration,
                 ld_error_samples = samples\<rparr>, w')))"

section \<open>Stages\<close>

record load_stage =
  st_name :: string
  st_iterations :: int
  st_concurrency :: int

type_synonym 't staged_result = "(load_stage \<times> 't load_result) list"

definition staged_total :: "'t staged_result \<Rightarrow> int" where
  "staged_total s = sum_list (map (\<lambda>(_, r). ld_total r) s)"

definition staged_errors :: "'t staged_result \<Rightarrow> int" where
  "staged_errors s = sum_list (map (\<lambda>(_, r). ld_errors r) s)"

definition staged_ok :: "'t staged_result \<Rightarrow> int" where
  "staged_ok s = staged_total s - staged_errors s"

definition recovered :: "'t staged_result \<Rightarrow> bool" where
  "recovered s \<longleftrightarrow> s \<noteq> [] \<and> st_name (fst (last s)) = ''recovery'' \<and> ld_errors (snd (last s)) = 0"

definition staged_dict :: "'t::{zero,linorder} load_env \<Rightarrow> ('t \<Rightarrow> pyval) \<Rightarrow> 't staged_result \<Rightarrow> pydict" where
  "staged_dict env fl s = obj
     [(''recovered'', PBool (recovered s)),
      (''correctness'', PDict (obj [(''attempted'', PInt (staged_total s)), (''successful'', PInt (staged_ok s)),
         (''errors'', PInt (staged_errors s))])),
      (''stages'', PList (map (\<lambda>(st, r).
         PDict (obj [(''name'', PStr (st_name st)), (''concurrency'', PInt (st_concurrency st))] @ load_dict env fl r)) s))]"

definition with_offset :: "(int \<Rightarrow> 'a) \<Rightarrow> int \<Rightarrow> int \<Rightarrow> 'a" where
  "with_offset task offset = (\<lambda>index. task (offset + index))"

text \<open>The durations are those the clock gave for the stages, in order.\<close>

fun run_stages ::
  "'t load_env \<Rightarrow> (int \<Rightarrow> ('w, 't) op) \<Rightarrow> (nat \<Rightarrow> 't) \<Rightarrow> int \<Rightarrow> int \<Rightarrow> load_stage list \<Rightarrow> ('w, 't staged_result) op" where
  "run_stages env task durations max_error_samples offset [] = retS []"
| "run_stages env task durations max_error_samples offset (stage # stages) =
     (if \<forall>c\<in>set (st_name stage). py_isspace c then raiseS (ValueError ''load stage name must not be empty'')
      else
      bindS (run_profile env (with_offset task offset) (durations (length stages)) (st_iterations stage)
               (st_concurrency stage) max_error_samples) (\<lambda>result.
      bindS (run_stages env task durations max_error_samples (offset + st_iterations stage) stages) (\<lambda>results.
      retS ((stage, result) # results))))"

definition run_staged_profile ::
  "'t load_env \<Rightarrow> (int \<Rightarrow> ('w, 't) op) \<Rightarrow> (nat \<Rightarrow> 't) \<Rightarrow> int \<Rightarrow> load_stage list \<Rightarrow> ('w, 't staged_result) op" where
  "run_staged_profile env task durations max_error_samples stages =
     (if stages = [] then raiseS (ValueError ''at least one load stage is required'')
      else run_stages env task durations max_error_samples 0 stages)"

definition standard_profile :: "int \<Rightarrow> int \<Rightarrow> load_stage list result" where
  "standard_profile scale peak_concurrency =
     (if scale \<le> 0 then Inl (ValueError ''scale must be > 0'')
      else if peak_concurrency \<le> 1 then Inl (ValueError ''peak_concurrency must be > 1'')
      else Inr
        [\<lparr>st_name = ''ramp'', st_iterations = scale, st_concurrency = max 1 (peak_concurrency div 2)\<rparr>,
         \<lparr>st_name = ''spike'', st_iterations = scale, st_concurrency = peak_concurrency\<rparr>,
         \<lparr>st_name = ''soak'', st_iterations = scale * 5, st_concurrency = max 1 (peak_concurrency div 2)\<rparr>,
         \<lparr>st_name = ''breakpoint'', st_iterations = scale, st_concurrency = peak_concurrency * 2\<rparr>,
         \<lparr>st_name = ''recovery'', st_iterations = scale, st_concurrency = 1\<rparr>])"

text \<open>\<^verbatim>\<open>FacilitatorTaskPool\<close>: its workers, checked at construction, and the routing of an id.\<close>

definition task_pool :: "(int \<Rightarrow> 'a) list \<Rightarrow> (int \<Rightarrow> 'a) list result" where
  "task_pool workers = (if workers = [] then Inl (ValueError ''at least one facilitator worker is required'') else Inr workers)"

definition pool_call :: "(int \<Rightarrow> 'a) list \<Rightarrow> int \<Rightarrow> 'a" where
  "pool_call workers iteration = (workers ! nat (iteration mod int (length workers))) iteration"

section \<open>What a run did\<close>

text \<open>
  A task that keeps a record of its invocations: the ids in the order of the invocations, each with its
  outcome.
\<close>

type_synonym 't invocations = "(int \<times> (exn + 't)) list"

definition observed :: "(int \<Rightarrow> ('w, 't) op) \<Rightarrow> int \<Rightarrow> ('w \<times> 't invocations, 't) op" where
  "observed task i = (\<lambda>(w, tr). case task i w of (r, w') \<Rightarrow> (r, (w', tr @ [(i, r)])))"

abbreviation failed :: "int \<times> (exn + 't) \<Rightarrow> bool" where
  "failed e \<equiv> isl (snd e)"

text \<open>Observing changes nothing, and the results of a sequence are the outcomes of its invocations.\<close>

lemma run_in_order_observed:
  assumes "run_in_order (run_one env (with_offset task offset)) is w = (rs, w')"
  shows "\<exists>new. run_in_order (run_one env (with_offset (observed task) offset)) is (w, tr) = (rs, (w', tr @ new)) \<and>
    map fst new = map (\<lambda>i. offset + i) is \<and> rs = map (\<lambda>(i, r). (i - offset, sample_of env (i - offset) r)) new"
  using assms
proof (induction "is" arbitrary: w tr rs)
  case (Cons i "is")
  obtain r w1 where t: "task (offset + i) w = (r, w1)" by fastforce
  then have one: "run_one env (with_offset task offset) i w = (sample_of env i r, w1)"
    "run_one env (with_offset (observed task) offset) i (w, tr) = (sample_of env i r, (w1, tr @ [(offset + i, r)]))"
    by (simp_all add: run_one_def with_offset_def observed_def)
  obtain qs where q: "run_in_order (run_one env (with_offset task offset)) is w1 = (qs, w')" "rs = (i, sample_of env i r) # qs"
    using Cons.prems by (cases "run_in_order (run_one env (with_offset task offset)) is w1") (simp add: one)
  obtain new where n: "run_in_order (run_one env (with_offset (observed task) offset)) is (w1, tr @ [(offset + i, r)]) =
      (qs, (w', (tr @ [(offset + i, r)]) @ new))" "map fst new = map (\<lambda>i. offset + i) is"
    "qs = map (\<lambda>(i, r). (i - offset, sample_of env (i - offset) r)) new"
    using Cons.IH[OF q(1), of "tr @ [(offset + i, r)]"] by blast
  have "run_in_order (run_one env (with_offset (observed task) offset)) (i # is) (w, tr) = (rs, (w', tr @ (offset + i, r) # new))"
    using n(1) q(2) by (simp add: one)
  then show ?case using n q(2) by (intro exI[of _ "(offset + i, r) # new"]) simp
qed simp

lemma tally_fold:
  "fst (fold (tally k) rs (n, ls, ss)) = n + int (length (filter isl rs))"
  "fst (snd (fold (tally k) rs (n, ls, ss))) = ls @ map projr (filter (\<lambda>r. \<not> isl r) rs)"
  by (induction rs arbitrary: n ls ss) (auto simp: tally_def Let_def split: sum.splits)

text \<open>Looking results up by id only changes their order.\<close>

lemma lookup_permutes:
  assumes "mset (map fst rs) = mset ids" "distinct ids"
  shows "mset (map (\<lambda>i. the (map_of rs i)) ids) = mset (map snd rs)"
proof -
  have d: "distinct (map fst rs)" using assms by (metis mset_eq_imp_distinct_iff)
  then have "map snd rs = map (\<lambda>i. the (map_of rs i)) (map fst rs)" by (auto simp: comp_def)
  then show ?thesis using assms(1) by (metis mset_map)
qed

definition stage_trace :: "int \<Rightarrow> load_stage \<Rightarrow> 't load_result \<Rightarrow> 't invocations \<Rightarrow> bool" where
  "stage_trace offset stage r tr \<longleftrightarrow>
     mset (map fst tr) = mset [offset..offset + st_iterations stage - 1] \<and>
     ld_total r = int (length tr) \<and> ld_errors r = int (length (filter failed tr)) \<and>
     mset (ld_latencies_ms r) = mset (map (\<lambda>e. projr (snd e)) (filter (\<lambda>e. \<not> failed e) tr))"

text \<open>The stages of a result with their invocations, one stage after the other.\<close>

fun stage_traces :: "int \<Rightarrow> 't staged_result \<Rightarrow> 't invocations list \<Rightarrow> bool" where
  "stage_traces offset [] [] = True"
| "stage_traces offset ((stage, r) # s) (tr # trs) \<longleftrightarrow>
     stage_trace offset stage r tr \<and> stage_traces (offset + st_iterations stage) s trs"
| "stage_traces offset _ _ = False"

text \<open>What \<^verbatim>\<open>Executor.map\<close> promises: every id once.\<close>

definition each_once :: "'t load_env \<Rightarrow> bool" where
  "each_once env \<longleftrightarrow> (\<forall>workers ids. mset (le_order env workers ids) = mset ids)"

lemma upto_offset: "map (\<lambda>i. offset + i) [0..n - 1] = [offset..offset + n - 1]" for offset n :: int
proof (rule nth_equalityI)
  fix k assume "k < length (map (\<lambda>i. offset + i) [0..n - 1])"
  then show "map (\<lambda>i. offset + i) [0..n - 1] ! k = [offset..offset + n - 1] ! k" by (simp add: nth_upto)
qed simp

lemma run_profile_observed:
  assumes run: "run_profile env (with_offset task offset) dur (st_iterations stage) (st_concurrency stage) k w = (Inr r, w')"
    and pool: "each_once env"
  shows "\<exists>new. run_profile env (with_offset (observed task) offset) dur (st_iterations stage) (st_concurrency stage) k (w, tr) =
      (Inr r, (w', tr @ new)) \<and> stage_trace offset stage r new \<and> 0 < st_iterations stage"
proof -
  let ?n = "st_iterations stage" and ?c = "st_concurrency stage"
  let ?ids = "[0..?n - 1]"
  define order where "order = (if ?c = 1 then ?ids else le_order env ?c ?ids)"
  have ok: "0 < ?n" "0 < ?c" "0 \<le> k" using run by (auto simp: run_profile_def split: if_splits)
  obtain rs w1 where o: "run_in_order (run_one env (with_offset task offset)) order w = (rs, w1)" by fastforce
  from run_in_order_observed[OF o, of tr] obtain new
    where new: "run_in_order (run_one env (with_offset (observed task) offset)) order (w, tr) = (rs, (w1, tr @ new))"
      "map fst new = map (\<lambda>i. offset + i) order" "rs = map (\<lambda>(i, r). (i - offset, sample_of env (i - offset) r)) new"
    by blast
  define results where "results = map (\<lambda>i. the (map_of rs i)) ?ids"
  have perm: "mset order = mset ?ids" using pool by (simp add: order_def each_once_def)
  have "map fst rs = order"
  proof -
    have "map fst rs = map (\<lambda>i. i - offset) (map fst new)" using new(3) by (simp add: split_def)
    then show ?thesis by (simp add: new(2) comp_def)
  qed
  then have res: "mset results = mset (map snd rs)"
    unfolding results_def using perm by (intro lookup_permutes) simp_all
  have isl: "isl (sample_of env i x) \<longleftrightarrow> isl x" "\<not> isl x \<Longrightarrow> projr (sample_of env i x) = projr x" for i x
    by (cases x; simp add: sample_of_def)+
  have len: "length (filter P results) = length (filter P (map snd rs))" for P
    using res by (metis mset_filter size_mset)
  have errs: "length (filter isl results) = length (filter failed new)"
    unfolding len by (simp add: new(3) filter_map comp_def split_def isl)
  have lats: "mset (map projr (filter (\<lambda>r. \<not> isl r) results)) = mset (map (\<lambda>e. projr (snd e)) (filter (\<lambda>e. \<not> failed e) new))"
  proof -
    have "mset (map projr (filter (\<lambda>r. \<not> isl r) results)) = mset (map projr (filter (\<lambda>r. \<not> isl r) (map snd rs)))"
      using res by (metis mset_filter mset_map)
    moreover have "map projr (filter (\<lambda>r. \<not> isl r) (map snd rs)) = map (\<lambda>e. projr (snd e)) (filter (\<lambda>e. \<not> failed e) new)"
      unfolding new(3) by (induction new) (auto simp: isl)
    ultimately show ?thesis by simp
  qed
  have ids: "mset (map fst new) = mset [offset..offset + ?n - 1]"
    unfolding new(2) upto_offset[symmetric] by (simp add: perm)
  have "length new = length (map fst new)" by simp
  also have "\<dots> = nat ?n" using arg_cong[OF ids, of size] by simp
  finally have "int (length new) = ?n" using ok by simp
  obtain errors latencies samples where f: "fold (tally k) results (0, [], []) = (errors, latencies, samples)"
    by (metis prod_cases3)
  have prof: "run_profile env f dur ?n ?c k v =
      (case run_in_order (run_one env f) order v of (finished, v') \<Rightarrow>
         case fold (tally k) (map (\<lambda>i. the (map_of finished i)) ?ids) (0, [], []) of (errors, latencies, samples) \<Rightarrow>
           (Inr \<lparr>ld_total = ?n, ld_errors = errors, ld_latencies_ms = latencies, ld_duration_s = dur, ld_error_samples = samples\<rparr>, v'))" for f v
    using ok by (simp add: run_profile_def order_def Let_def split_def)
  have r: "r = \<lparr>ld_total = ?n, ld_errors = errors, ld_latencies_ms = latencies, ld_duration_s = dur, ld_error_samples = samples\<rparr>"
    "w' = w1" using run o f by (auto simp: prof results_def[symmetric])
  have "run_profile env (with_offset (observed task) offset) dur ?n ?c k (w, tr) = (Inr r, (w', tr @ new))"
    using new(1) f r by (simp add: prof results_def[symmetric])
  moreover have "errors = int (length (filter isl results))" "latencies = map projr (filter (\<lambda>r. \<not> isl r) results)"
    using tally_fold[of k results 0 "[]" "[]"] f by simp_all
  ultimately show ?thesis
    using errs lats ids ok r \<open>int (length new) = ?n\<close> by (auto simp: stage_trace_def)
qed

lemma run_stages_observed:
  assumes "run_stages env task durations k offset stages w = (Inr s, w')" "each_once env"
  shows "map fst s = stages \<and> (\<forall>stage\<in>set stages. 0 < st_iterations stage) \<and>
    (\<exists>trs. run_stages env (observed task) durations k offset stages (w, tr) = (Inr s, (w', tr @ concat trs)) \<and> stage_traces offset s trs)"
  using assms(1)
proof (induction stages arbitrary: offset w tr s)
  case Nil
  then show ?case by (auto intro: exI[of _ "[]"])
next
  case (Cons stage stages)
  from Cons.prems obtain r w1 q where name: "\<not> (\<forall>c\<in>set (st_name stage). py_isspace c)"
    and r: "run_profile env (with_offset task offset) (durations (length stages)) (st_iterations stage) (st_concurrency stage) k w = (Inr r, w1)"
    and q: "run_stages env task durations k (offset + st_iterations stage) stages w1 = (Inr q, w')" and s: "s = (stage, r) # q"
    by (simp split: if_splits) (auto simp: bindS_ok)
  from run_profile_observed[OF r assms(2), of tr] obtain new
    where new: "run_profile env (with_offset (observed task) offset) (durations (length stages)) (st_iterations stage) (st_concurrency stage) k (w, tr) =
        (Inr r, (w1, tr @ new))" "stage_trace offset stage r new" "0 < st_iterations stage" by blast
  from Cons.IH[OF q, of "tr @ new"] obtain trs
    where trs: "run_stages env (observed task) durations k (offset + st_iterations stage) stages (w1, tr @ new) =
        (Inr q, (w', (tr @ new) @ concat trs))" "stage_traces (offset + st_iterations stage) q trs"
      "map fst q = stages" "\<forall>stage\<in>set stages. 0 < st_iterations stage" by blast
  have "run_stages env (observed task) durations k offset (stage # stages) (w, tr) = (Inr s, (w', tr @ concat (new # trs)))"
    using name new(1) trs(1) s unfolding run_stages.simps if_not_P[OF name] by (simp add: bindS_def)
  moreover have "stage_traces offset s (new # trs)" using new(2) trs(2) s by simp
  moreover have "map fst s = stage # stages" "\<forall>x\<in>set (stage # stages). 0 < st_iterations x" using s trs(3,4) new(3) by simp_all
  ultimately show ?case by blast
qed

abbreviation stage_ids :: "load_stage list \<Rightarrow> int" where
  "stage_ids stages \<equiv> sum_list (map st_iterations stages)"

text \<open>The ids of consecutive stages are consecutive, and the sums count the invocations.\<close>

lemma stage_traces_sums:
  assumes "stage_traces offset s trs" "\<forall>x\<in>set s. 0 < st_iterations (fst x)"
  shows "mset (map fst (concat trs)) = mset [offset..offset + stage_ids (map fst s) - 1] \<and>
    staged_total s = int (length (concat trs)) \<and> staged_errors s = int (length (filter failed (concat trs)))"
  using assms
proof (induction offset s trs rule: stage_traces.induct)
  case (2 offset stage r s tr trs)
  let ?n = "st_iterations stage" and ?m = "stage_ids (map fst s)"
  have "0 \<le> ?m" using "2.prems"(2) by (intro sum_list_nonneg) (force intro: less_imp_le)
  then have "[offset..offset + (?n + ?m) - 1] = [offset..offset + ?n - 1] @ [offset + ?n..offset + ?n + ?m - 1]"
    using "2.prems"(2) upto_split1[of offset "offset + ?n - 1" "offset + (?n + ?m) - 1"] upto_split2[of offset "offset + ?n - 1" "offset + (?n + ?m) - 1"]
    by (simp add: add.assoc)
  then show ?case using 2 by (simp add: stage_trace_def staged_total_def staged_errors_def)
qed (simp_all add: staged_total_def staged_errors_def)

lemma stage_traces_last:
  "stage_traces offset s trs \<Longrightarrow> s \<noteq> [] \<Longrightarrow> trs \<noteq> [] \<and> ld_errors (snd (last s)) = int (length (filter failed (last trs)))"
proof (induction offset s trs rule: stage_traces.induct)
  case (2 offset stage r s tr trs)
  then show ?case by (cases "s = []"; cases trs) (auto simp: stage_trace_def)
qed simp_all

text \<open>
  C24: A staged load run calls every id once, in its stage, and loses no outcome.  Take any task with any state, any order
  in which the workers take the ids of a stage that calls each id once (which \<^verbatim>\<open>Executor.map\<close> documents), and a run
  that returns a result \<open>s\<close>.  The stages of \<open>s\<close> are the given ones in order, and the same run with a task
  that notes each invocation with its outcome gives the same result and state and shows: the
  invocations fall into one block per stage, one after the other; the ids of a block are, each once, those of
  its stage, which follow those of the stage before; a stage's result has as many attempts
  as its block has invocations, as many errors as exceptions, and the latencies of the others.
  So every id below the sum of the iterations is invoked exactly once in the run, the totals count
  invocations, exceptions and the rest, and the run counts as recovered iff its last stage is named
  \<^verbatim>\<open>recovery\<close> and none of that stage's invocations raised.
\<close>

theorem staged_run_accounts:
  assumes "run_staged_profile env task durations k stages w = (Inr s, w')" "each_once env"
  shows "map fst s = stages \<and>
    (\<exists>trs. run_staged_profile env (observed task) durations k stages (w, []) = (Inr s, (w', concat trs)) \<and>
       stage_traces 0 s trs \<and>
       mset (map fst (concat trs)) = mset [0..stage_ids stages - 1] \<and>
       staged_total s = int (length (concat trs)) \<and>
       staged_errors s = int (length (filter failed (concat trs))) \<and>
       staged_ok s = int (length (filter (\<lambda>e. \<not> failed e) (concat trs))) \<and>
       (recovered s \<longleftrightarrow> st_name (last stages) = ''recovery'' \<and> \<not> (\<exists>e\<in>set (last trs). failed e)))"
proof -
  have ne: "stages \<noteq> []" and run: "run_stages env task durations k 0 stages w = (Inr s, w')"
    using assms(1) by (auto simp: run_staged_profile_def split: if_splits)
  from run_stages_observed[OF run assms(2), of "[]"] obtain trs
    where o: "run_stages env (observed task) durations k 0 stages (w, []) = (Inr s, (w', concat trs))"
      and t: "stage_traces 0 s trs" and s: "map fst s = stages" "\<forall>stage\<in>set stages. 0 < st_iterations stage" by auto
  have pos: "\<forall>x\<in>set s. 0 < st_iterations (fst x)" using s(2) unfolding s(1)[symmetric] by simp
  note sums = stage_traces_sums[OF t pos, unfolded s(1)]
  have "int (length (filter failed es)) + int (length (filter (\<lambda>e. \<not> failed e) es)) = int (length es)" for es :: "'a invocations"
    using sum_length_filter_compl[of failed es] by linarith
  from this[of "concat trs"] have "staged_ok s = int (length (filter (\<lambda>e. \<not> failed e) (concat trs)))"
    using sums by (simp add: staged_ok_def)
  moreover have "recovered s \<longleftrightarrow> st_name (last stages) = ''recovery'' \<and> \<not> (\<exists>e\<in>set (last trs). failed e)"
  proof -
    have "s \<noteq> []" using ne s(1) by auto
    moreover have "fst (last s) = last stages" using \<open>s \<noteq> []\<close> s(1) by (metis last_map)
    ultimately show ?thesis using stage_traces_last[OF t] by (auto simp: recovered_def filter_empty_conv)
  qed
  ultimately show ?thesis using o t sums s(1) ne by (auto simp: run_staged_profile_def)
qed

text \<open>
  Two stages of a task that counts its calls and fails on the second of them, the first stage on two workers that take
  its ids in reverse.
\<close>

definition demo_task :: "int \<Rightarrow> (int, int) op" where
  "demo_task i = (\<lambda>calls. (if calls = 1 then Inl (ValueError ''boom'') else Inr (i * 10), calls + 1))"

definition demo_stages :: "load_stage list" where
  "demo_stages = [\<lparr>st_name = ''ramp'', st_iterations = 3, st_concurrency = 2\<rparr>,
     \<lparr>st_name = ''recovery'', st_iterations = 2, st_concurrency = 1\<rparr>]"

definition demo_load :: "int load_env" where
  "demo_load = \<lparr>le_ratio = \<lambda>a b. 0, le_per_second = \<lambda>n t. 0, le_type = \<lambda>e. ''ValueError'', le_text = \<lambda>e. ''boom'',
     le_order = \<lambda>workers ids. rev ids\<rparr>"

theorem staged_run_accounts_witness:
  "case run_staged_profile demo_load demo_task (\<lambda>i. 0) 10 demo_stages 0 of
     (Inl e, calls) \<Rightarrow> False
   | (Inr s, calls) \<Rightarrow> staged_total s = 5 \<and> staged_errors s = 1 \<and> calls = 5 \<and> recovered s \<and>
       (\<exists>tr. run_staged_profile demo_load (observed demo_task) (\<lambda>i. 0) 10 demo_stages (0, []) = (Inr s, (calls, tr)) \<and>
          mset (map fst tr) = mset [0, 1, 2, 3, 4])"
proof -
  obtain s calls where r: "run_staged_profile demo_load demo_task (\<lambda>i. 0) 10 demo_stages 0 = (Inr s, calls)"
    "calls = 5" "staged_total s = 5" "staged_errors s = 1" "recovered s"
  proof -
    have "case run_staged_profile demo_load demo_task (\<lambda>i. 0) 10 demo_stages 0 of
        (Inl e, calls) \<Rightarrow> False | (Inr s, calls) \<Rightarrow> calls = 5 \<and> staged_total s = 5 \<and> staged_errors s = 1 \<and> recovered s"
      by code_simp
    then show thesis using that by (auto split: prod.splits sum.splits)
  qed
  moreover have "each_once demo_load" by (simp add: each_once_def demo_load_def)
  moreover have "[0..stage_ids demo_stages - 1] = [0, 1, 2, 3, 4]" by code_simp
  ultimately show ?thesis using staged_run_accounts[of demo_load demo_task "\<lambda>i. 0" 10 demo_stages 0 s calls] by auto
qed

end
