(* ===== verification/Pqc_Receipts.thy ===== *)
theory Pqc_Receipts
  imports Report Json_Strict
begin

text \<open>
  \<^verbatim>\<open>psv/pqc\<close>: hybrid verification of facilitator receipts, and the choice of the cryptographic
  backend.

  Parameters: the two signature checks of the cryptographic libraries, what the libraries report about
  themselves (record \<open>crypto_lib\<close>), the decoding of JSON bytes in UTF-16, UTF-32 or with a byte order
  mark, the reading of floats and the depth of the decoder's stack (record \<open>receipt_env\<close>).  Keys and
  signatures are byte lists; a mapping of keys is an association list.
\<close>

section \<open>Backends\<close>

type_synonym bytes = "int list"

record verifier =
  vf_available :: bool
  vf_reason :: string
  vf_ecdsa :: "bytes \<Rightarrow> bytes \<Rightarrow> bytes \<Rightarrow> bool"
  vf_mldsa :: "bytes \<Rightarrow> bytes \<Rightarrow> bytes \<Rightarrow> bytes \<Rightarrow> bool"

text \<open>
  \<open>cl_runtime\<close>: version and text of the OpenSSL behind pyca, \<open>None\<close> if an import fails.  The checks
  \<open>cl_ecdsa\<close>, \<open>cl_mldsa\<close> and \<open>cl_oqs\<close> are \<open>None\<close> where the library raises \<^verbatim>\<open>InvalidSignature\<close>,
  \<^verbatim>\<open>ValueError\<close> or (liboqs) \<^verbatim>\<open>RuntimeError\<close>, the exceptions it documents; \<open>cl_import_oqs\<close> says
  whether the import of \<^verbatim>\<open>oqs\<close> succeeds, \<open>cl_find\<close> what \<^verbatim>\<open>find_library\<close> finds, \<open>cl_is_file\<close> which
  files exist.
\<close>

record crypto_lib =
  cl_runtime :: "(int \<times> string) option"
  cl_from_public_bytes :: bool
  cl_ecdsa :: "bytes \<Rightarrow> bytes \<Rightarrow> bytes \<Rightarrow> unit option"
  cl_mldsa :: "bytes \<Rightarrow> bytes \<Rightarrow> bytes \<Rightarrow> bytes \<Rightarrow> unit option"
  cl_find :: "string \<Rightarrow> bool"
  cl_install_path :: "string option"
  cl_is_file :: "string \<Rightarrow> bool"
  cl_import_oqs :: bool
  cl_oqs :: "bytes \<Rightarrow> bytes \<Rightarrow> bytes \<Rightarrow> bool option"

definition detect_unavailability :: "crypto_lib \<Rightarrow> string" where
  "detect_unavailability lib =
     (case cl_runtime lib of
        None \<Rightarrow> ''ML-DSA-65 is unavailable in pyca/cryptography; install a build exposing '' @ ''the OpenSSL 3.5 ML-DSA API''
      | Some (version, version_text) \<Rightarrow>
          if version < 810549248 then ''ML-DSA-65 requires OpenSSL 3.5 or newer; runtime is '' @ version_text
          else if \<not> cl_from_public_bytes lib then ''pyca/cryptography does not expose ML-DSA-65 public-key loading''
          else [])"

definition cryptography_provider :: "crypto_lib \<Rightarrow> verifier" where
  "cryptography_provider lib =
     (let reason = detect_unavailability lib in
      \<lparr>vf_available = (reason = []), vf_reason = reason,
       vf_ecdsa = (\<lambda>key m sig. reason = [] \<and> cl_ecdsa lib key m sig \<noteq> None),
       vf_mldsa = (\<lambda>key m sig context. reason = [] \<and> cl_mldsa lib key m sig context \<noteq> None)\<rparr>)"

definition native_library_present :: "crypto_lib \<Rightarrow> bool" where
  "native_library_present lib \<longleftrightarrow>
     (if cl_find lib ''oqs'' \<or> cl_find lib ''liboqs'' then True
      else case cl_install_path lib of
        None \<Rightarrow> False
      | Some p \<Rightarrow> p \<noteq> [] \<and>
          (\<exists>d\<in>set [''lib'', ''lib64'']. \<exists>f\<in>set [''liboqs.so'', ''liboqs.dylib'']. cl_is_file lib (p @ ''/'' @ d @ ''/'' @ f)))"

definition oqs_provider :: "crypto_lib \<Rightarrow> verifier" where
  "oqs_provider lib =
     (let loaded = native_library_present lib \<and> cl_import_oqs lib in
      \<lparr>vf_available = loaded,
       vf_reason = (if \<not> native_library_present lib
         then ''oqs backend unavailable; install psv[pqc-oqs] and the native liboqs library''
         else if loaded then [] else ''oqs backend unavailable; native liboqs could not be loaded''),
       vf_ecdsa = vf_ecdsa (cryptography_provider lib),
       vf_mldsa = (\<lambda>key m sig context. loaded \<and> context = [] \<and> cl_oqs lib m sig key = Some True)\<rparr>)"

definition load_provider :: "crypto_lib \<Rightarrow> string \<Rightarrow> verifier result" where
  "load_provider lib name =
     bindR (if name = ''cryptography'' then Inr (cryptography_provider lib)
            else if name = ''oqs'' then Inr (oqs_provider lib)
            else Inl (ProviderUnavailableError ''unknown PQC provider'')) (\<lambda>provider.
     if \<not> vf_available provider then Inl (ProviderUnavailableError (vf_reason provider)) else Inr provider)"

section \<open>The canonical payload\<close>

definition receipt_domain :: bytes where
  "receipt_domain = utf8_encode (''PSV-RECEIPT-V2'' @ [CHR 0x00])"

definition blank_signature :: "pydict \<Rightarrow> string \<Rightarrow> pydict result" where
  "blank_signature sig_v2 name =
     (case dict_get sig_v2 name of
        PDict entry \<Rightarrow> Inr (AList.update (PStr name) (PDict (AList.update (PStr ''signature'') (PStr []) entry)) sig_v2)
      | _ \<Rightarrow> Inl (ValueError (''sig_v2.'' @ name @ '' must be an object'')))"

definition unsigned_receipt :: "pydict \<Rightarrow> pydict result" where
  "unsigned_receipt receipt =
     (case dict_get receipt ''sig_v2'' of
        PDict sig_v2 \<Rightarrow>
          bindR (blank_signature sig_v2 ''classical'') (\<lambda>s1.
          bindR (blank_signature s1 ''pqc'') (\<lambda>s2.
          Inr (AList.update (PStr ''sig_v2'') (PDict s2) receipt)))
      | _ \<Rightarrow> Inl (ValueError ''sig_v2 must be an object''))"

fun json_profile :: "pyval \<Rightarrow> unit result"
  and profile_items :: "pyval list \<Rightarrow> unit result"
  and profile_fields :: "pydict \<Rightarrow> unit result" where
  "json_profile v =
     (case v of
        PDict d \<Rightarrow> profile_fields d
      | PList xs \<Rightarrow> profile_items xs
      | PFloat f \<Rightarrow> Inl (ValueError ''receipt numbers must be integers; decimal amounts use strings'')
      | POther t \<Rightarrow> Inl (ValueError ''receipt contains a non-JSON value'')
      | _ \<Rightarrow> Inr ())"
| "profile_items [] = Inr ()"
| "profile_items (x # xs) = bindR (json_profile x) (\<lambda>_. profile_items xs)"
| "profile_fields [] = Inr ()"
| "profile_fields ((k, x) # kvs) =
     (if \<not> (is_str k \<and> py_isascii (str_of k)) then Inl (ValueError ''receipt object keys must be ASCII strings'')
      else bindR (json_profile x) (\<lambda>_. profile_fields kvs))"

definition canonical_style :: json_style where
  "canonical_style = compact_style\<lparr>js_ascii := False, js_nan := False\<rparr>"

definition canonical_receipt_payload :: "(pyfloat \<Rightarrow> string) \<Rightarrow> pydict \<Rightarrow> bytes result" where
  "canonical_receipt_payload ft receipt =
     bindR (unsigned_receipt receipt) (\<lambda>unsigned.
     bindR (json_profile (PDict unsigned)) (\<lambda>_.
     bindR (mapErrR (\<lambda>e. ValueError ''receipt is not canonicalizable JSON'')
              (dumps canonical_style ft (PDict unsigned))) (\<lambda>t.
     Inr (receipt_domain @ utf8_encode t))))"

section \<open>Signature entries\<close>

definition unique_object :: "(string \<times> pyval) list \<Rightarrow> pydict result" where
  "unique_object pairs = unique_members (ValueError ''duplicate JSON member'') [] pairs"

text \<open>
  \<^verbatim>\<open>b64decode\<close> of a text without padding: the alternative characters are mapped to \<open>+\<close> and \<open>/\<close>,
  which the decoder accepts, too; a single last character is refused, the bits left over are dropped.
\<close>

definition base64_val :: "char \<Rightarrow> int option" where
  "base64_val c =
     (if 65 \<le> code c \<and> code c \<le> 90 then Some (code c - 65)
      else if 97 \<le> code c \<and> code c \<le> 122 then Some (code c - 71)
      else if is_dec c then Some (code c + 4)
      else if c = CHR ''+'' \<or> c = CHR ''-'' then Some 62
      else if c = CHR ''/'' \<or> c = CHR ''_'' then Some 63
      else None)"

fun base64_bytes :: "int list \<Rightarrow> bytes option" where
  "base64_bytes (a # b # c # d # vs) =
     map_option (\<lambda>bs. (a * 4 + b div 16) # (b mod 16 * 16 + c div 4) # (c mod 4 * 64 + d) # bs) (base64_bytes vs)"
| "base64_bytes [a, b, c] = Some [a * 4 + b div 16, b mod 16 * 16 + c div 4]"
| "base64_bytes [a, b] = Some [a * 4 + b div 16]"
| "base64_bytes [a] = None"
| "base64_bytes [] = Some []"

definition decode_signature :: "pyval \<Rightarrow> bytes result" where
  "decode_signature v =
     (case v of
        PStr s \<Rightarrow>
          if s = [] \<or> CHR ''='' \<in> set s then Inl (ValueError ''signature must be non-empty unpadded base64url'')
          else (case those (map base64_val s) of
              None \<Rightarrow> Inl (ValueError ''signature is not valid base64url'')
            | Some vs \<Rightarrow>
                (case base64_bytes vs of
                   None \<Rightarrow> Inl (ValueError ''signature is not valid base64url'')
                 | Some bs \<Rightarrow> Inr bs))
      | _ \<Rightarrow> Inl (ValueError ''signature must be non-empty unpadded base64url''))"

definition signature_entry :: "pydict \<Rightarrow> string \<Rightarrow> string \<Rightarrow> (string \<times> bytes) result" where
  "signature_entry sig_v2 name algorithm =
     (case dict_get sig_v2 name of
        PDict entry \<Rightarrow>
          if set (map fst entry) \<noteq> {PStr ''alg'', PStr ''kid'', PStr ''signature''}
          then Inl (ValueError (''sig_v2.'' @ name @ '' has an invalid structure''))
          else if \<not> py_eq (dict_get entry ''alg'') (PStr algorithm)
          then Inl (ValueError (''sig_v2.'' @ name @ ''.alg is not registered for receipt v2''))
          else (case dict_get entry ''kid'' of
              PStr kid \<Rightarrow>
                if kid = [] \<or> 128 < length kid then Inl (ValueError (''sig_v2.'' @ name @ ''.kid is invalid''))
                else bindR (decode_signature (dict_get entry ''signature'')) (\<lambda>sig. Inr (kid, sig))
            | _ \<Rightarrow> Inl (ValueError (''sig_v2.'' @ name @ ''.kid is invalid'')))
      | _ \<Rightarrow> Inl (ValueError (''sig_v2.'' @ name @ '' has an invalid structure'')))"

section \<open>Verification\<close>

datatype finding_kind = UNVERIFIABLE_RECEIPT | NAKED_RECEIPT

datatype verification_status = DISABLED | VERIFIED | FAILED

record pqc_config =
  pq_enabled :: bool
  pq_provider :: string

definition pqc_from_env :: "(string \<Rightarrow> string option) \<Rightarrow> pqc_config" where
  "pqc_from_env getenv =
     \<lparr>pq_enabled = (lower (py_strip (case getenv ''PSV_PQC'' of None \<Rightarrow> [] | Some v \<Rightarrow> v)) \<in> {''1'', ''true'', ''yes'', ''on''}),
      pq_provider = ''cryptography''\<rparr>"

record receipt_verification =
  rv_status :: verification_status
  rv_receipt_bytes :: bytes
  rv_finding :: "finding_kind option"
  rv_detail :: string

record receipt_env =
  rc_lib :: crypto_lib
  rc_other_encoding :: "bytes \<Rightarrow> bool"
  rc_decode_other :: "bytes \<Rightarrow> string result"
  rc_float :: "string \<Rightarrow> pyfloat"
  rc_float_text :: "pyfloat \<Rightarrow> string"
  rc_depth :: nat
  rc_exn_text :: "exn \<Rightarrow> string"

definition receipt_reader :: "receipt_env \<Rightarrow> json_reader" where
  "receipt_reader env = \<lparr>jr_object = unique_object, jr_constant = float_constant, jr_float = rc_float env\<rparr>"

definition receipt_text :: "receipt_env \<Rightarrow> bytes \<Rightarrow> string result" where
  "receipt_text env b = (if rc_other_encoding env b then rc_decode_other env b else utf8_decode b)"

definition key_for :: "(string \<times> bytes) list \<Rightarrow> string \<Rightarrow> bytes result" where
  "key_for keys kid = (case map_of keys kid of None \<Rightarrow> Inl (KeyError kid) | Some k \<Rightarrow> Inr k)"

text \<open>The part of the \<^verbatim>\<open>try\<close> for a document with \<^verbatim>\<open>sig_v2\<close>: it returns, or raises what is wrong.\<close>

definition check_signatures ::
  "receipt_env \<Rightarrow> (string \<times> bytes) list \<Rightarrow> (string \<times> bytes) list \<Rightarrow> pqc_config \<Rightarrow> verifier option \<Rightarrow> pydict \<Rightarrow> pydict \<Rightarrow>
     unit result" where
  "check_signatures env classical_keys pqc_keys policy provider doc sig_v2 =
     (if set (map fst sig_v2) \<noteq> {PStr ''version'', PStr ''classical'', PStr ''pqc''}
      then Inl (ValueError ''sig_v2 has an invalid structure'')
      else if \<not> py_eq (dict_get sig_v2 ''version'') (PInt 2) then Inl (ValueError ''sig_v2.version must be 2'')
      else
      bindR (signature_entry sig_v2 ''classical'' ''ECDSA-P256-SHA256'') (\<lambda>(classical_kid, classical_signature).
      bindR (signature_entry sig_v2 ''pqc'' ''ML-DSA-65'') (\<lambda>(pqc_kid, pqc_signature).
      bindR (key_for classical_keys classical_kid) (\<lambda>classical_key.
      bindR (key_for pqc_keys pqc_kid) (\<lambda>pqc_key.
      if length classical_key \<noteq> 65 \<or> length pqc_key \<noteq> 1952 \<or> length pqc_signature \<noteq> 3309
      then Inl (ValueError ''hybrid key or ML-DSA-65 signature has an invalid length'')
      else
      bindR (canonical_receipt_payload (rc_float_text env) doc) (\<lambda>payload.
      bindR (case provider of None \<Rightarrow> load_provider (rc_lib env) (pq_provider policy) | Some p \<Rightarrow> Inr p) (\<lambda>checker.
      let classical_valid = vf_ecdsa checker classical_key payload classical_signature;
          pqc_valid = vf_mldsa checker pqc_key payload pqc_signature []
      in
      if \<not> (classical_valid \<and> pqc_valid)
      then Inl (ValueError ''hybrid verification requires both signatures to be valid'')
      else Inr ())))))))"

text \<open>The whole \<^verbatim>\<open>try\<close>: \<open>False\<close> stands for the early return of a naked receipt.\<close>

definition check_receipt ::
  "receipt_env \<Rightarrow> bytes \<Rightarrow> (string \<times> bytes) list \<Rightarrow> (string \<times> bytes) list \<Rightarrow> pqc_config \<Rightarrow> verifier option \<Rightarrow> bool result" where
  "check_receipt env receipt_bytes classical_keys pqc_keys policy provider =
     bindR (bindR (receipt_text env receipt_bytes) (loads (receipt_reader env) (rc_depth env))) (\<lambda>decoded.
     case decoded of
       PDict doc \<Rightarrow>
         (case dict_get doc ''sig_v2'' of
            PNone \<Rightarrow> Inr False
          | PDict sig_v2 \<Rightarrow>
              bindR (check_signatures env classical_keys pqc_keys policy provider doc sig_v2) (\<lambda>_. Inr True)
          | _ \<Rightarrow> Inl (ValueError ''sig_v2 has an invalid structure''))
     | _ \<Rightarrow> Inl (ValueError ''receipt must be a JSON object''))"

fun receipt_error :: "exn \<Rightarrow> bool" where
  "receipt_error (KeyError k) = True"
| "receipt_error (ProviderUnavailableError m) = True"
| "receipt_error e = is_value_error e"

definition verify_receipt ::
  "receipt_env \<Rightarrow> bytes \<Rightarrow> (string \<times> bytes) list \<Rightarrow> (string \<times> bytes) list \<Rightarrow> pqc_config \<Rightarrow> verifier option \<Rightarrow>
     receipt_verification result" where
  "verify_receipt env receipt_bytes classical_keys pqc_keys policy provider =
     (if \<not> pq_enabled policy
      then Inr \<lparr>rv_status = DISABLED, rv_receipt_bytes = receipt_bytes, rv_finding = None, rv_detail = []\<rparr>
      else case check_receipt env receipt_bytes classical_keys pqc_keys policy provider of
        Inl e \<Rightarrow>
          if receipt_error e
          then Inr \<lparr>rv_status = FAILED, rv_receipt_bytes = receipt_bytes, rv_finding = Some UNVERIFIABLE_RECEIPT,
                    rv_detail = rc_exn_text env e\<rparr>
          else Inl e
      | Inr b \<Rightarrow>
          if b then Inr \<lparr>rv_status = VERIFIED, rv_receipt_bytes = receipt_bytes, rv_finding = None, rv_detail = []\<rparr>
          else Inr \<lparr>rv_status = FAILED, rv_receipt_bytes = receipt_bytes, rv_finding = Some NAKED_RECEIPT,
                    rv_detail = ''PQC policy requires sig_v2''\<rparr>)"

section \<open>Decoded documents have unique keys\<close>

interpretation receipt_object: object_hook unique_object "ValueError ''duplicate JSON member''"
proof
  fix kvs d
  show "unique_object kvs = Inr d \<longleftrightarrow> distinct (map fst kvs) \<and> d = obj kvs"
    by (simp add: unique_object_def unique_members_ok has_key_def)
next
  fix kvs e
  have "unique_members x r kvs = Inl e \<Longrightarrow> e = x" for x r
    by (induction x r kvs rule: unique_members.induct) (auto split: if_splits)
  then show "unique_object kvs = Inl e \<Longrightarrow> e = ValueError ''duplicate JSON member''"
    by (simp add: unique_object_def)
qed

text \<open>No object of the value has two members of the same name.\<close>

abbreviation keyed :: "pyval \<Rightarrow> bool" where
  "keyed \<equiv> well_read (\<lambda>f. True)"

lemma decoded_keyed: "loads (receipt_reader env) dep s = Inr v \<Longrightarrow> keyed v"
  by (rule loads_well_read)
    (auto simp: strict_hooks_def receipt_reader_def receipt_object.hook_ok float_constant_def)

section \<open>What the payload determines\<close>

declare json_profile.simps [simp del]

lemma profile_simps [simp]:
  "json_profile (PDict d) = profile_fields d" "json_profile (PList xs) = profile_items xs"
  "json_profile PNone = Inr ()" "json_profile (PBool b) = Inr ()" "json_profile (PInt n) = Inr ()"
  "json_profile (PStr t) = Inr ()" "json_profile (PFloat f) \<noteq> Inr ()" "json_profile (POther t) \<noteq> Inr ()"
  by (subst json_profile.simps, simp)+

lemma check_fields_iff: "json_check_fields nan kvs = Inr () \<longleftrightarrow> (\<forall>(k, x)\<in>set kvs. is_str k \<and> json_check nan x = Inr ())"
  by (induction kvs) (auto simp: ok_iff simp del: json_check.simps)

lemma check_sorted:
  "json_check nan (sort_keys v) = Inr () \<longleftrightarrow> json_check nan v = Inr ()"
  "json_check_items nan (sort_items xs) = Inr () \<longleftrightarrow> json_check_items nan xs = Inr ()"
  "json_check_fields nan (sort_fields kvs) = Inr () \<longleftrightarrow> json_check_fields nan kvs = Inr ()"
proof (induction v and xs and kvs rule: sort_keys_sort_items_sort_fields.induct)
  case (1 v)
  show ?case
  proof (cases v)
    case (PDict kvs)
    let ?s = "sort_key (\<lambda>(k, x). str_of k) (sort_fields kvs)"
    have "json_check_fields nan ?s = Inr () \<longleftrightarrow> json_check_fields nan (sort_fields kvs) = Inr ()"
      unfolding check_fields_iff set_sort ..
    then show ?thesis using "1.IH"(2)[OF PDict] PDict by simp
  qed (use 1 in simp_all)
qed (auto simp: ok_iff simp del: json_check.simps sort_keys.simps)

lemma profile_plain:
  "keyed v \<Longrightarrow> json_profile v = Inr () \<Longrightarrow> json_check nan v = Inr () \<Longrightarrow> size v \<le> dep \<Longrightarrow> json_plain ft pf dep v"
  "\<forall>x\<in>set xs. keyed x \<Longrightarrow> profile_items xs = Inr () \<Longrightarrow> json_check_items nan xs = Inr () \<Longrightarrow>
     size_list size xs \<le> dep \<Longrightarrow> plain_items ft pf dep xs"
  "\<forall>kx\<in>set kvs. keyed (snd kx) \<Longrightarrow> profile_fields kvs = Inr () \<Longrightarrow> json_check_fields nan kvs = Inr () \<Longrightarrow>
     size_list (size_prod size size) kvs \<le> dep \<Longrightarrow> plain_fields ft pf dep kvs"
proof (induction v and xs and kvs arbitrary: dep and dep and dep rule: json_profile_profile_items_profile_fields.induct)
  case (1 v)
  then show ?case by (cases v) (auto split: if_splits)
qed (auto simp: ok_iff simp del: json_check.simps json_plain.simps split: if_splits)

lemma update_set: "set (AList.update k v kvs) \<subseteq> insert (k, v) (set kvs)"
  by (induction kvs) auto

lemma update_keyed: "keyed (PDict d) \<Longrightarrow> keyed v \<Longrightarrow> keyed (PDict (AList.update k v d))"
  using update_set[of k v d] distinct_update[of d k v] by auto

lemma get_keyed: "keyed (PDict d) \<Longrightarrow> dict_get d k = v \<Longrightarrow> keyed v"
  by (auto simp: dict_get_def split: option.splits dest!: map_of_SomeD)

lemma unsigned_keyed:
  assumes "unsigned_receipt r = Inr u" "keyed (PDict r)"
  shows "keyed (PDict u)"
proof -
  have blank: "keyed (PDict s')" if "blank_signature s n = Inr s'" "keyed (PDict s)" for s n s'
  proof -
    from that(1) obtain e where e: "dict_get s n = PDict e"
      and s': "s' = AList.update (PStr n) (PDict (AList.update (PStr ''signature'') (PStr []) e)) s"
      by (auto simp: blank_signature_def split: pyval.splits)
    have "keyed (PDict (AList.update (PStr ''signature'') (PStr []) e))"
      by (rule update_keyed[OF get_keyed[OF that(2) e]]) simp
    then show ?thesis unfolding s' by (rule update_keyed[OF that(2)])
  qed
  from assms(1) obtain sig s1 s2 where s: "dict_get r ''sig_v2'' = PDict sig" "blank_signature sig ''classical'' = Inr s1"
    "blank_signature s1 ''pqc'' = Inr s2" "u = AList.update (PStr ''sig_v2'') (PDict s2) r"
    by (auto simp: unsigned_receipt_def ok_iff split: pyval.splits)
  then show ?thesis using blank get_keyed assms(2) update_keyed by metis
qed

lemma canonical_good: "good_style canonical_style" "js_sort canonical_style"
  by code_simp+

lemma payload_ok:
  assumes "canonical_receipt_payload ft r = Inr p" "keyed (PDict r)"
  shows "\<exists>u t. unsigned_receipt r = Inr u \<and> dumps canonical_style ft (PDict u) = Inr t \<and>
    p = receipt_domain @ utf8_encode t \<and> (\<forall>dep pf. size (PDict u) \<le> dep \<longrightarrow> json_plain ft pf dep (PDict u))"
proof -
  from assms(1) obtain u t where u: "unsigned_receipt r = Inr u" "json_profile (PDict u) = Inr ()"
    "dumps canonical_style ft (PDict u) = Inr t" "p = receipt_domain @ utf8_encode t"
    by (auto simp: canonical_receipt_payload_def ok_iff simp del: profile_simps)
  have chk: "json_check (js_nan canonical_style) (PDict u) = Inr ()"
    using u(3) canonical_good(2)
    by (auto simp: dumps_def ok_iff check_sorted Let_def simp del: sort_keys.simps json_check.simps json_text.simps)
  have "\<forall>dep pf. size (PDict u) \<le> dep \<longrightarrow> json_plain ft pf dep (PDict u)"
    by (intro allI impI) (rule profile_plain(1)[OF unsigned_keyed[OF u(1) assms(2)] u(2) chk])
  then show ?thesis using u(1,3,4) by blast
qed

lemma payload_determines:
  assumes "canonical_receipt_payload ft r = Inr p" "canonical_receipt_payload ft r' = Inr p" "keyed (PDict r)" "keyed (PDict r')"
  shows "\<exists>u u'. unsigned_receipt r = Inr u \<and> unsigned_receipt r' = Inr u' \<and> sort_keys (PDict u) = sort_keys (PDict u')"
proof -
  obtain u t where u: "unsigned_receipt r = Inr u" "dumps canonical_style ft (PDict u) = Inr t"
    "p = receipt_domain @ utf8_encode t" "\<forall>dep pf. size (PDict u) \<le> dep \<longrightarrow> json_plain ft pf dep (PDict u)"
    using payload_ok[OF assms(1,3)] by blast
  obtain u' t' where u': "unsigned_receipt r' = Inr u'" "dumps canonical_style ft (PDict u') = Inr t'"
    "p = receipt_domain @ utf8_encode t'" "\<forall>dep pf. size (PDict u') \<le> dep \<longrightarrow> json_plain ft pf dep (PDict u')"
    using payload_ok[OF assms(2,4)] by blast
  have "(Inr t :: string result) = Inr t'" using utf8_roundtrip[of t] utf8_roundtrip[of t'] u(3) u'(3) by simp
  then have "dumps canonical_style ft (PDict u) = dumps canonical_style ft (PDict u')" using u(2) u'(2) by simp
  from dumps_determines[OF canonical_good u(4)[rule_format] u'(4)[rule_format] this, of "size (PDict u) + size (PDict u')"] u(1) u'(1)
  show ?thesis by (simp del: sort_keys.simps)
qed

section \<open>Verified receipts\<close>

text \<open>The backend that checks the signatures: the given one, or the configured one if it can be loaded.\<close>

definition chosen_verifier :: "receipt_env \<Rightarrow> pqc_config \<Rightarrow> verifier option \<Rightarrow> verifier result" where
  "chosen_verifier env policy provider =
     (case provider of None \<Rightarrow> load_provider (rc_lib env) (pq_provider policy) | Some p \<Rightarrow> Inr p)"

lemma verified_steps:
  assumes "verify_receipt env b ck pk policy provider = Inr rv" "rv_status rv = VERIFIED"
  shows "pq_enabled policy \<and> rv_receipt_bytes rv = b \<and> rv_finding rv = None \<and>
    (\<exists>t doc chk p kid key sig kid' key' sig'.
       receipt_text env b = Inr t \<and> loads (receipt_reader env) (rc_depth env) t = Inr (PDict doc) \<and>
       chosen_verifier env policy provider = Inr chk \<and> canonical_receipt_payload (rc_float_text env) doc = Inr p \<and>
       map_of ck kid = Some key \<and> vf_ecdsa chk key p sig \<and> map_of pk kid' = Some key' \<and> vf_mldsa chk key' p sig' [])"
proof -
  from assms have en: "pq_enabled policy" and chk: "check_receipt env b ck pk policy provider = Inr True"
    and rv: "rv_receipt_bytes rv = b" "rv_finding rv = None"
    by (auto simp: verify_receipt_def split: if_splits sum.splits)
  from chk obtain t v where t: "receipt_text env b = Inr t" "loads (receipt_reader env) (rc_depth env) t = Inr v"
    by (auto simp: check_receipt_def ok_iff)
  obtain doc where v: "v = PDict doc" using chk t by (cases v) (auto simp: check_receipt_def)
  obtain s where sig: "check_signatures env ck pk policy provider doc s = Inr ()"
    using chk t by (cases "dict_get doc ''sig_v2''") (auto simp: check_receipt_def v ok_iff)
  note doc = t[unfolded v]
  from sig have "\<exists>chk p kid key sig kid' key' sig'. chosen_verifier env policy provider = Inr chk \<and>
      canonical_receipt_payload (rc_float_text env) doc = Inr p \<and>
      map_of ck kid = Some key \<and> vf_ecdsa chk key p sig \<and> map_of pk kid' = Some key' \<and> vf_mldsa chk key' p sig' []"
    by (auto simp: check_signatures_def chosen_verifier_def key_for_def ok_iff Let_def simp del: py_eq.simps split: if_splits option.splits) (blast 6)+
  then show ?thesis using doc en rv by blast
qed

text \<open>
  C19: A verified receipt was issued.  If the post-quantum signature scheme is unforgeable, that is the
  backend accepts under a trusted key only payloads of receipts the key's holder issued, then whatever
  bytes verify decode to a JSON document that is one of the issued receipts, up to the two signature
  values and the order of object members; the classical signature under a trusted key holds for
  the same payload; and the verdict carries the input bytes unchanged.
\<close>

theorem verified_receipt_was_issued:
  assumes verified: "verify_receipt env b ck pk policy provider = Inr rv" "rv_status rv = VERIFIED"
    and unforgeable: "\<forall>chk kid key p sig. chosen_verifier env policy provider = Inr chk \<and> map_of pk kid = Some key \<and>
      vf_mldsa chk key p sig [] \<longrightarrow> (\<exists>r\<in>issued. keyed (PDict r) \<and> canonical_receipt_payload (rc_float_text env) r = Inr p)"
  shows "rv_receipt_bytes rv = b \<and>
    (\<exists>t doc r u u' p. receipt_text env b = Inr t \<and>
       loads (receipt_reader env) (rc_depth env) t = Inr (PDict doc) \<and> r \<in> issued \<and>
       unsigned_receipt doc = Inr u \<and> unsigned_receipt r = Inr u' \<and> sort_keys (PDict u) = sort_keys (PDict u') \<and>
       canonical_receipt_payload (rc_float_text env) doc = Inr p \<and>
       (\<exists>chk kid key sig. chosen_verifier env policy provider = Inr chk \<and> map_of ck kid = Some key \<and> vf_ecdsa chk key p sig))"
proof -
  from verified_steps[OF verified] obtain t doc chk p kid key sig kid' key' sig' where
    doc: "receipt_text env b = Inr t" "loads (receipt_reader env) (rc_depth env) t = Inr (PDict doc)"
    and p: "chosen_verifier env policy provider = Inr chk" "canonical_receipt_payload (rc_float_text env) doc = Inr p"
    and c: "map_of ck kid = Some key" "vf_ecdsa chk key p sig" and q: "map_of pk kid' = Some key'" "vf_mldsa chk key' p sig' []"
    and b: "rv_receipt_bytes rv = b" by blast
  obtain r where r: "r \<in> issued" "keyed (PDict r)" "canonical_receipt_payload (rc_float_text env) r = Inr p"
    using unforgeable p(1) q by blast
  from payload_determines[OF p(2) r(3) decoded_keyed[OF doc(2)] r(2)] doc p c b r(1) show ?thesis by blast
qed

text \<open>A receipt whose issuer is the only one the backend accepts.\<close>

definition signature_text :: "nat \<Rightarrow> string" where
  "signature_text n = replicate (4 * n) (CHR ''A'')"

definition demo_key :: "nat \<Rightarrow> bytes" where
  "demo_key n = replicate n 0"

definition demo_entry :: "string \<Rightarrow> string \<Rightarrow> nat \<Rightarrow> pyval" where
  "demo_entry alg kid n = PDict (obj [(''alg'', PStr alg), (''kid'', PStr kid), (''signature'', PStr (signature_text n))])"

definition demo_sig :: pydict where
  "demo_sig = obj [(''version'', PInt 2), (''classical'', demo_entry ''ECDSA-P256-SHA256'' ''c'' 1),
     (''pqc'', demo_entry ''ML-DSA-65'' ''q'' 1103)]"

definition issued_receipt :: pydict where
  "issued_receipt = obj [(''amount'', PStr ''1000''), (''sig_v2'', PDict demo_sig)]"

abbreviation "demo_float \<equiv> (\<lambda>f :: pyfloat. ''0.0'')"

definition no_crypto :: crypto_lib where
  "no_crypto = \<lparr>cl_runtime = None, cl_from_public_bytes = False, cl_ecdsa = (\<lambda>k m s. None), cl_mldsa = (\<lambda>k m s c. None),
     cl_find = (\<lambda>n. False), cl_install_path = None, cl_is_file = (\<lambda>p. False), cl_import_oqs = False, cl_oqs = (\<lambda>m s k. None)\<rparr>"

definition demo_receipt_env :: receipt_env where
  "demo_receipt_env = \<lparr>rc_lib = no_crypto, rc_other_encoding = (\<lambda>b. False), rc_decode_other = (\<lambda>b. Inr []),
     rc_float = (\<lambda>s. Finite 0 0), rc_float_text = demo_float, rc_depth = 10, rc_exn_text = (\<lambda>e. [])\<rparr>"

definition demo_verifier :: verifier where
  "demo_verifier = \<lparr>vf_available = True, vf_reason = [], vf_ecdsa = (\<lambda>key m sig. True),
     vf_mldsa = (\<lambda>key m sig context. canonical_receipt_payload demo_float issued_receipt = Inr m)\<rparr>"

definition demo_bytes :: bytes where
  "demo_bytes = utf8_encode (json_text default_style demo_float 0 (PDict issued_receipt))"

lemma base64_zeros: "base64_bytes (replicate (4 * n) 0) = Some (replicate (3 * n) 0)"
proof (induction n)
  case (Suc n)
  have "replicate (4 * Suc n) 0 = 0 # 0 # 0 # 0 # replicate (4 * n) (0 :: int)"
    "replicate (3 * Suc n) 0 = 0 # 0 # 0 # replicate (3 * n) (0 :: int)" by (simp_all add: numeral_eq_Suc)
  then show ?case using Suc by simp
qed simp

lemma signature_zeros:
  assumes "0 < n"
  shows "decode_signature (PStr (signature_text n)) = Inr (replicate (3 * n) 0)"
proof -
  have "base64_val (CHR ''A'') = Some 0" by code_simp
  then have "those (map base64_val (replicate k (CHR ''A''))) = Some (replicate k 0)" for k
    by (induction k) simp_all
  then show ?thesis using assms by (auto simp: decode_signature_def signature_text_def base64_zeros)
qed

lemma demo_entries:
  "signature_entry demo_sig ''classical'' ''ECDSA-P256-SHA256'' = Inr (''c'', replicate (3 * 1) 0)"
  "signature_entry demo_sig ''pqc'' ''ML-DSA-65'' = Inr (''q'', replicate (3 * 1103) 0)"
  using signature_zeros[of 1] signature_zeros[of 1103]
  by (auto simp: signature_entry_def demo_sig_def demo_entry_def obj_def dict_get_def)

lemma demo_plain: "json_plain demo_float (\<lambda>s. Finite 0 0) 10 (PDict issued_receipt)"
proof -
  have "length (digits_of 10 \<bar>2\<bar>) \<le> 4300" by code_simp
  then show ?thesis by (simp add: issued_receipt_def demo_sig_def demo_entry_def obj_def is_str_def)
qed

lemma demo_payload: "\<exists>p. canonical_receipt_payload demo_float issued_receipt = Inr p"
proof -
  have "\<exists>u. unsigned_receipt issued_receipt = Inr u \<and> json_profile (PDict u) = Inr () \<and>
      json_plain demo_float (\<lambda>s. Finite 0 0) 10 (PDict u)"
  proof -
    have "length (digits_of 10 \<bar>2\<bar>) \<le> 4300" by code_simp
    moreover have "py_isascii ''amount''" "py_isascii ''sig_v2''" "py_isascii ''version''" "py_isascii ''classical''" "py_isascii ''pqc''"
      "py_isascii ''alg''" "py_isascii ''kid''" "py_isascii ''signature''" by code_simp+
    ultimately show ?thesis
      by (simp add: unsigned_receipt_def blank_signature_def issued_receipt_def demo_sig_def demo_entry_def obj_def dict_get_def is_str_def
          str_of_def)
  qed
  then obtain u where u: "unsigned_receipt issued_receipt = Inr u" "json_profile (PDict u) = Inr ()"
    "json_plain demo_float (\<lambda>s. Finite 0 0) 10 (PDict u)" by blast
  then show ?thesis
    by (simp add: canonical_receipt_payload_def dumps_plain[OF u(3)] del: profile_simps json_text.simps sort_keys.simps)
qed

lemma demo_decodes:
  "receipt_text demo_receipt_env demo_bytes = Inr (json_text default_style demo_float 0 (PDict issued_receipt))"
  "loads (receipt_reader demo_receipt_env) (rc_depth demo_receipt_env) (json_text default_style demo_float 0 (PDict issued_receipt)) =
     Inr (PDict issued_receipt)"
proof -
  show "receipt_text demo_receipt_env demo_bytes = Inr (json_text default_style demo_float 0 (PDict issued_receipt))"
    by (simp add: receipt_text_def demo_receipt_env_def demo_bytes_def utf8_roundtrip del: json_text.simps)
  have "faithful_reader (receipt_reader demo_receipt_env) (\<lambda>s. Finite 0 0)"
    by (simp add: faithful_reader_def receipt_reader_def demo_receipt_env_def receipt_object.hook_ok)
  from loads_text(1)[OF good_styles(1) this demo_plain]
  show "loads (receipt_reader demo_receipt_env) (rc_depth demo_receipt_env)
      (json_text default_style demo_float 0 (PDict issued_receipt)) = Inr (PDict issued_receipt)"
    by (simp add: demo_receipt_env_def del: json_text.simps)
qed

theorem verified_receipt_was_issued_witness:
  "\<exists>rv u. verify_receipt demo_receipt_env demo_bytes [(''c'', demo_key 65)] [(''q'', demo_key 1952)]
      \<lparr>pq_enabled = True, pq_provider = ''cryptography''\<rparr> (Some demo_verifier) = Inr rv \<and>
    rv_status rv = VERIFIED \<and> rv_receipt_bytes rv = demo_bytes \<and> unsigned_receipt issued_receipt = Inr u"
proof -
  let ?policy = "\<lparr>pq_enabled = True, pq_provider = ''cryptography''\<rparr>"
  let ?run = "verify_receipt demo_receipt_env demo_bytes [(''c'', demo_key 65)] [(''q'', demo_key 1952)] ?policy (Some demo_verifier)"
  obtain p where p: "canonical_receipt_payload demo_float issued_receipt = Inr p" using demo_payload by blast
  have keys: "length (demo_key 65) = 65" "length (demo_key 1952) = 1952" by (simp_all add: demo_key_def)
  have len: "length (replicate (3 * 1103) (0 :: int)) = 3309" by simp
  have sig: "dict_get issued_receipt ''sig_v2'' = PDict demo_sig" by (simp add: issued_receipt_def obj_def dict_get_def)
  have shape: "set (map fst demo_sig) = {PStr ''version'', PStr ''classical'', PStr ''pqc''}"
    "py_eq (dict_get demo_sig ''version'') (PInt 2)" by (simp_all add: demo_sig_def obj_def dict_get_def num_eq_def)
  have "check_signatures demo_receipt_env [(''c'', demo_key 65)] [(''q'', demo_key 1952)] ?policy (Some demo_verifier) issued_receipt demo_sig = Inr ()"
    using p shape keys len
    by (simp add: check_signatures_def demo_entries key_for_def demo_receipt_env_def demo_verifier_def del: py_eq.simps length_replicate)
  then have "check_receipt demo_receipt_env demo_bytes [(''c'', demo_key 65)] [(''q'', demo_key 1952)] ?policy (Some demo_verifier) = Inr True"
    unfolding check_receipt_def demo_decodes(1) by (simp add: demo_decodes(2) sig del: json_text.simps)
  then obtain rv where rv: "?run = Inr rv" "rv_status rv = VERIFIED" by (simp add: verify_receipt_def)
  have "keyed (PDict issued_receipt)" using decoded_keyed[OF demo_decodes(2)] .
  then have "\<forall>chk kid key m s. chosen_verifier demo_receipt_env ?policy (Some demo_verifier) = Inr chk \<and>
      map_of [(''q'', demo_key 1952)] kid = Some key \<and> vf_mldsa chk key m s [] \<longrightarrow>
      (\<exists>r\<in>{issued_receipt}. keyed (PDict r) \<and> canonical_receipt_payload (rc_float_text demo_receipt_env) r = Inr m)"
    by (auto simp: chosen_verifier_def demo_verifier_def demo_receipt_env_def)
  from verified_receipt_was_issued[OF rv this] rv show ?thesis by blast
qed

text \<open>
  A document nested deeper than the decoder's stack is not an unverifiable receipt: the \<^verbatim>\<open>RecursionError\<close>
  leaves \<^verbatim>\<open>verify_receipt\<close>.  And the decoding of signatures is not strict: standard Base64 letters pass.
\<close>

lemma deep_receipt_raises:
  "verify_receipt (demo_receipt_env\<lparr>rc_depth := 2\<rparr>) (utf8_encode ''[[[0]]]'') [] [] \<lparr>pq_enabled = True, pq_provider = ''cryptography''\<rparr>
     None = Inl (RuntimeError ''maximum recursion depth exceeded'')"
  by code_simp

lemma signature_not_strict:
  "decode_signature (PStr ''+/B'') = decode_signature (PStr ''-_A'')"
  by code_simp

end
