(* ===== verification/Http_Error_Detail.thy ===== *)
theory Http_Error_Detail
  imports Http_Transport
begin

text \<open>
  \<^verbatim>\<open>_http_error_detail\<close> of \<^verbatim>\<open>psv/anvil.py\<close>: what of the body of an HTTP error is shown, and what of the
  endpoint it may show.

  Parameters: the body (\<open>None\<close> if reading it raises) and the decoding of UTF-8 with replacement
  characters.  The two literals above Latin-1, a long dash and an ellipsis, are their UTF-8 bytes.
\<close>

section \<open>The detail\<close>

function replace_all :: "string \<Rightarrow> string \<Rightarrow> string \<Rightarrow> string" where
  "replace_all old new [] = []"
| "replace_all old new (c # cs) =
     (if old \<noteq> [] \<and> startswith (c # cs) old then new @ replace_all old new (drop (length old) (c # cs))
      else c # replace_all old new cs)"
  by pat_completeness auto
termination by (relation "measure (\<lambda>(old, new, s). length s)") auto

definition control_char :: "char \<Rightarrow> bool" where
  "control_char c \<longleftrightarrow> code c < 32 \<or> code c = 127"

text \<open>A run of control characters becomes one space; the flag says whether the run has begun.\<close>

fun blank_controls :: "bool \<Rightarrow> string \<Rightarrow> string" where
  "blank_controls run [] = []"
| "blank_controls run (c # cs) =
     (if control_char c then (if run then [] else '' '') @ blank_controls True cs else c # blank_controls False cs)"

fun after_first :: "string \<Rightarrow> string \<Rightarrow> string option" where
  "after_first t [] = (if t = [] then Some [] else None)"
| "after_first t (c # cs) = (if startswith (c # cs) t then Some (drop (length t) (c # cs)) else after_first t cs)"

definition pruned_state :: "string \<Rightarrow> bool" where
  "pruned_state s \<longleftrightarrow>
     (let t = lower s in
      contains ''behind head'' t \<or> contains ''missing trie node'' t \<or> contains ''pruned'' t \<or> contains ''archive'' t \<or>
      contains ''header not found'' t \<or>
      (case after_first ''state'' t of None \<Rightarrow> False | Some r \<Rightarrow> contains ''not available'' r))"

definition error_text :: "string \<Rightarrow> pyval option \<Rightarrow> string" where
  "error_text body_text doc =
     (case doc of
        Some (PDict d) \<Rightarrow>
          let error = dict_get d ''error'';
              nested = (case error of PDict e \<Rightarrow> dict_get e ''message'' | _ \<Rightarrow> PNone) in
          if is_str nested then str_of nested
          else if is_str error then str_of error
          else if is_str (dict_get d ''message'') then str_of (dict_get d ''message'')
          else body_text
      | _ \<Rightarrow> body_text)"

definition scrub :: "string list \<Rightarrow> string \<Rightarrow> string" where
  "scrub secrets message =
     fold (\<lambda>secret m. if secret \<noteq> [] \<and> secret \<noteq> ''/'' then replace_all secret ''<redacted>'' m else m) secrets message"

definition shown_message :: "string \<Rightarrow> string" where
  "shown_message message =
     (let m = py_strip (blank_controls False message) in
      if 300 < length m then take 300 m @ [CHR 0xE2, CHR 0x80, CHR 0xA6] else m)"

definition detail_of :: "string \<Rightarrow> string" where
  "detail_of message =
     (if message = [] then []
      else [CHR '' '', CHR 0xE2, CHR 0x80, CHR 0x94] @ '' RPC said: '' @ message @
        (if pruned_state message
         then '' (this node does not serve historical state; reads pinned to a reviewed '' @
              ''block, such as rail-drift, need an archive RPC)''
         else []))"

definition http_error_detail :: "rpc_http \<Rightarrow> (int list \<Rightarrow> string) \<Rightarrow> int list option \<Rightarrow> string \<Rightarrow> string result" where
  "http_error_detail h decode body endpoint =
     (case body of
        None \<Rightarrow> Inr []
      | Some b \<Rightarrow>
          let raw = read_bytes 4096 b; content = decode raw in
          if raw = [] then Inr []
          else
            bindR (case loads \<lparr>jr_object = plain_object, jr_constant = float_constant, jr_float = rh_float h\<rparr> (rh_depth h) content of
                     Inr v \<Rightarrow> Inr (Some v)
                   | Inl e \<Rightarrow> if is_value_error e then Inr None else Inl e) (\<lambda>doc.
            bindR (urlsplit (rh_ip6 h) endpoint) (\<lambda>parsed.
            Inr (detail_of (shown_message (scrub [endpoint, up_path parsed, up_query parsed] (error_text content doc)))))))"

section \<open>Occurrences\<close>

lemma contains_iff: "contains t s \<longleftrightarrow> (\<exists>u v. s = u @ t @ v)"
proof (induction s)
  case (Cons c cs)
  have "(\<exists>u v. c # cs = u @ t @ v) \<longleftrightarrow> (\<exists>v. c # cs = t @ v) \<or> (\<exists>u v. cs = u @ t @ v)"
  proof (intro iffI; elim exE disjE)
    fix u v assume "c # cs = u @ t @ v"
    then show "(\<exists>v. c # cs = t @ v) \<or> (\<exists>u v. cs = u @ t @ v)" by (cases u) auto
  next
    fix v assume "c # cs = t @ v"
    then have "c # cs = [] @ t @ v" by simp
    then show "\<exists>u v. c # cs = u @ t @ v" by blast
  next
    fix u v assume "cs = u @ t @ v"
    then have "c # cs = (c # u) @ t @ v" by simp
    then show "\<exists>u v. c # cs = u @ t @ v" by blast
  qed
  then show ?case using Cons by (simp add: startswith_append)
qed simp

lemma contains_chars: "contains t s \<Longrightarrow> set t \<subseteq> set s"
  by (auto simp: contains_iff)

lemma contains_inside: "contains t s \<Longrightarrow> contains t (u @ s @ v)"
  unfolding contains_iff by (metis append.assoc)

text \<open>A text without the character \<open>d\<close> lies on one side of it.\<close>

lemma contains_split:
  assumes "d \<notin> set t" "t \<noteq> []"
  shows "contains t (x @ d # y) \<longleftrightarrow> contains t x \<or> contains t y"
proof
  assume "contains t (x @ d # y)"
  then obtain u v where uv: "x @ d # y = u @ t @ v" by (auto simp: contains_iff)
  then consider w where "x = u @ w" "w @ d # y = t @ v" | w where "x @ w = u" "d # y = w @ t @ v"
    by (auto simp: append_eq_append_conv2)
  then show "contains t x \<or> contains t y"
  proof cases
    case 1
    from 1(2) consider z where "w = t @ z" | z where "w @ z = t" "d # y = z @ v" "z \<noteq> []"
      unfolding append_eq_append_conv2 by (metis append.right_neutral)
    then show ?thesis
    proof cases
      case 1
      then have "x = u @ t @ z" using \<open>x = u @ w\<close> by simp
      then show ?thesis unfolding contains_iff by blast
    next
      case 2
      then have "d \<in> set t" by (cases z) auto
      then show ?thesis using assms by simp
    qed
  next
    case 2
    show ?thesis
    proof (cases w)
      case Nil
      then have "hd t = d" "t \<noteq> []" using 2 assms by (cases t; simp)+
      then show ?thesis using assms by (metis hd_in_set)
    next
      case (Cons e w')
      then have "y = w' @ t @ v" using 2 by simp
      then show ?thesis unfolding contains_iff by blast
    qed
  qed
next
  assume "contains t x \<or> contains t y"
  then show "contains t (x @ d # y)"
    using contains_inside[of t x "[]" "d # y"] contains_inside[of t y "x @ [d]" "[]"] by auto
qed

section \<open>Scrubbing\<close>

text \<open>A secret that the mask cannot contain or extend: printable ASCII with a slash and without angle brackets.\<close>

definition maskable :: "string \<Rightarrow> bool" where
  "maskable t \<longleftrightarrow> CHR ''/'' \<in> set t \<and> CHR ''<'' \<notin> set t \<and> CHR ''>'' \<notin> set t \<and> (\<forall>c\<in>set t. 32 < code c \<and> code c < 127)"

lemma maskable_ne: "maskable t \<Longrightarrow> t \<noteq> []"
  by (auto simp: maskable_def)

lemma mask_apart:
  assumes "maskable t"
  shows "contains t (''<redacted>'' @ r) \<longleftrightarrow> contains t r"
proof -
  have "contains t (''<redacted'' @ CHR ''>'' # r) \<longleftrightarrow> contains t ''<redacted'' \<or> contains t r"
    using assms maskable_ne by (intro contains_split) (auto simp: maskable_def)
  moreover have "\<not> contains t ''<redacted''"
    using assms contains_chars[of t "''<redacted''"] by (auto simp: maskable_def)
  ultimately show ?thesis by simp
qed

lemma replaced_prefix:
  "startswith (replace_all old ''<redacted>'' s) t \<Longrightarrow> CHR ''<'' \<notin> set t \<Longrightarrow> startswith s t"
proof (induction t arbitrary: s)
  case (Cons d t)
  show ?case
  proof (cases s)
    case Nil
    then show ?thesis using Cons.prems by simp
  next
    case (Cons e s')
    have no: "\<not> (old \<noteq> [] \<and> startswith s old)"
    proof
      assume "old \<noteq> [] \<and> startswith s old"
      then have "startswith (CHR ''<'' # ''redacted>'' @ replace_all old ''<redacted>'' (drop (length old) s)) (d # t)"
        using Cons.prems(1) Cons by simp
      then show False using Cons.prems(2) unfolding startswith_simps(3) by auto
    qed
    have "startswith (e # replace_all old ''<redacted>'' s') (d # t)"
      using Cons.prems(1) no unfolding Cons replace_all.simps(2) by (simp only: if_False)
    then show ?thesis using Cons.IH[of s'] Cons.prems(2) Cons by simp
  qed
qed simp

lemma replace_hides:
  assumes "maskable old"
  shows "\<not> contains old (replace_all old ''<redacted>'' s)"
proof (induction s rule: measure_induct_rule[of length])
  case (less s)
  show ?case
  proof (cases s)
    case Nil
    then show ?thesis using assms maskable_ne by simp
  next
    case (Cons c cs)
    show ?thesis
    proof (cases "startswith s old")
      case True
      have "length (drop (length old) s) < length s" using maskable_ne[OF assms] Cons by simp
      from less[OF this] have "\<not> contains old (''<redacted>'' @ replace_all old ''<redacted>'' (drop (length old) s))"
        unfolding mask_apart[OF assms] .
      then show ?thesis using True Cons maskable_ne[OF assms] by simp
    next
      case False
      have "\<not> startswith (c # replace_all old ''<redacted>'' cs) old"
      proof
        assume st: "startswith (c # replace_all old ''<redacted>'' cs) old"
        obtain d t where t: "old = d # t" using maskable_ne[OF assms] by (cases old) auto
        have "startswith cs t"
          by (rule replaced_prefix[of old]) (use st t assms in \<open>auto simp: maskable_def\<close>)
        then show False using st t False Cons by simp
      qed
      then show ?thesis using less[of cs] False Cons by simp
    qed
  qed
qed

lemma replace_keeps_hidden:
  assumes "maskable t" "\<not> contains t s"
  shows "\<not> contains t (replace_all old ''<redacted>'' s)"
  using assms(2)
proof (induction s rule: measure_induct_rule[of length])
  case (less s)
  show ?case
  proof (cases s)
    case Nil
    then show ?thesis using assms(1) maskable_ne by simp
  next
    case (Cons c cs)
    show ?thesis
    proof (cases "old \<noteq> [] \<and> startswith s old")
      case True
      let ?r = "drop (length old) s"
      have "\<not> contains t ?r"
        using less.prems contains_inside[of t ?r "take (length old) s" "[]"] by auto
      moreover have "length ?r < length s" using True Cons by (cases old) auto
      ultimately have "\<not> contains t (''<redacted>'' @ replace_all old ''<redacted>'' ?r)"
        unfolding mask_apart[OF assms(1)] using less.IH by blast
      then show ?thesis using True Cons by simp
    next
      case False
      have "\<not> startswith (c # replace_all old ''<redacted>'' cs) t"
      proof
        assume st: "startswith (c # replace_all old ''<redacted>'' cs) t"
        obtain d u where t: "t = d # u" using maskable_ne[OF assms(1)] by (cases t) auto
        have "startswith cs u"
          by (rule replaced_prefix[of old]) (use st t assms(1) in \<open>auto simp: maskable_def\<close>)
        then show False using st t less.prems Cons by simp
      qed
      then show ?thesis using less.IH[of cs] less.prems False Cons by auto
    qed
  qed
qed

lemma scrub_keeps: "maskable t \<Longrightarrow> \<not> contains t m \<Longrightarrow> \<not> contains t (scrub secrets m)"
  unfolding scrub_def by (induction secrets arbitrary: m) (auto simp: replace_keeps_hidden)

lemma scrub_hides: "maskable t \<Longrightarrow> t \<noteq> ''/'' \<Longrightarrow> t \<in> set secrets \<Longrightarrow> \<not> contains t (scrub secrets m)"
proof (induction secrets arbitrary: m)
  case (Cons s secrets)
  show ?case
  proof (cases "t = s")
    case True
    have "\<not> contains t (scrub secrets (replace_all t ''<redacted>'' m))"
      by (rule scrub_keeps[OF Cons.prems(1) replace_hides[OF Cons.prems(1)]])
    then show ?thesis using True Cons.prems maskable_ne by (simp add: scrub_def)
  next
    case False
    then show ?thesis using Cons by (simp add: scrub_def)
  qed
qed simp

section \<open>What is shown\<close>

lemma blanked_prefix:
  "startswith (blank_controls run s) t \<Longrightarrow> CHR '' '' \<notin> set t \<Longrightarrow> \<not> run \<Longrightarrow> startswith s t"
proof (induction t arbitrary: s run)
  case (Cons d t)
  then show ?case by (cases s) (auto split: if_splits)
qed simp

lemma blank_keeps:
  assumes "maskable t"
  shows "contains t (blank_controls run s) \<Longrightarrow> contains t s"
proof (induction s arbitrary: run)
  case (Cons c cs)
  have sp: "CHR '' '' \<notin> set t" using assms by (auto simp: maskable_def code_def)
  show ?case
  proof (cases "control_char c")
    case True
    have "contains t ('' '' @ x) \<longleftrightarrow> contains t x" for x
      using contains_split[of "CHR '' ''" t "[]" x] sp maskable_ne[OF assms] by simp
    then show ?thesis using Cons True by (auto split: if_splits)
  next
    case False
    from Cons.prems False consider "startswith (c # blank_controls False cs) t" | "contains t (blank_controls False cs)" by auto
    then show ?thesis
    proof cases
      case 1
      obtain d u where t: "t = d # u" using maskable_ne[OF assms] by (cases t) auto
      then have "startswith cs u" using 1 sp blanked_prefix[of False cs u] by auto
      then show ?thesis using 1 t by simp
    qed (use Cons.IH in auto)
  qed
qed simp

lemma strip_keeps: "contains t (py_strip s) \<Longrightarrow> contains t s"
proof -
  obtain u where u: "s = u @ dropWhile py_isspace s" by (metis takeWhile_dropWhile_id)
  obtain v where "rev (dropWhile py_isspace s) = v @ dropWhile py_isspace (rev (dropWhile py_isspace s))"
    by (metis takeWhile_dropWhile_id)
  then have "dropWhile py_isspace s = py_strip s @ rev v"
    unfolding py_strip_def by (metis rev_append rev_rev_ident)
  then have "s = u @ py_strip s @ rev v" using u by simp
  then show "contains t (py_strip s) \<Longrightarrow> contains t s" by (metis contains_inside)
qed

lemma shown_keeps:
  assumes "maskable t" "contains t (shown_message m)"
  shows "contains t m"
proof -
  let ?m = "py_strip (blank_controls False m)"
  have e: "CHR 0xE2 \<notin> set t" using assms(1) by (auto simp: maskable_def code_def)
  have "\<not> contains t [CHR 0x80, CHR 0xA6]"
    using assms(1) contains_chars[of t "[CHR 0x80, CHR 0xA6]"] by (auto simp: maskable_def)
  then have "contains t (take 300 ?m @ CHR 0xE2 # [CHR 0x80, CHR 0xA6]) \<Longrightarrow> contains t (take 300 ?m)"
    using contains_split[OF e maskable_ne[OF assms(1)]] by blast
  moreover have "contains t (take 300 ?m) \<Longrightarrow> contains t ?m"
    using contains_inside[of t "take 300 ?m" "[]" "drop 300 ?m"] by simp
  ultimately have "contains t ?m" using assms(2) by (auto simp: shown_message_def Let_def split: if_splits)
  then show ?thesis using strip_keeps blank_keeps[OF assms(1)] by blast
qed

lemma detail_keeps:
  assumes "maskable t" "contains t (detail_of m)"
  shows "contains t m"
proof -
  have sp: "CHR '' '' \<notin> set t" "CHR ''/'' \<in> set t" using assms(1) by (auto simp: maskable_def code_def)
  note split = contains_split[OF sp(1) maskable_ne[OF assms(1)]]
  have "CHR ''/'' \<notin> set ([CHR '' '', CHR 0xE2, CHR 0x80, CHR 0x94] @ '' RPC said:'')"
    "CHR ''/'' \<notin> set (''(this node does not serve historical state; reads pinned to a reviewed '' @
      ''block, such as rail-drift, need an archive RPC)'')" by simp_all
  then have pre: "\<not> contains t ([CHR '' '', CHR 0xE2, CHR 0x80, CHR 0x94] @ '' RPC said:'')"
    and suf: "\<not> contains t (''(this node does not serve historical state; reads pinned to a reviewed '' @
              ''block, such as rail-drift, need an archive RPC)'')"
    using sp(2) contains_chars by blast+
  from assms(2) have "contains t (([CHR '' '', CHR 0xE2, CHR 0x80, CHR 0x94] @ '' RPC said:'') @ CHR '' '' # (m @
      (if pruned_state m then CHR '' '' # (''(this node does not serve historical state; reads pinned to a reviewed '' @
              ''block, such as rail-drift, need an archive RPC)'') else [])))"
    by (cases "m = []") (use maskable_ne[OF assms(1)] in \<open>auto simp: detail_of_def\<close>)
  then show ?thesis using pre suf by (auto simp only: split append_Nil2 split: if_splits)
qed

text \<open>
  C23: The detail of an HTTP error never shows the endpoint or its path.  Whatever body the server sends
  (it may echo the request), the text added to the error message contains neither the configured
  endpoint nor its path, which may carry an API key; for an endpoint or path in printable ASCII with a
  slash, other than the root path, and without angle brackets.
\<close>

theorem error_detail_hides_path:
  assumes "http_error_detail h decode body endpoint = Inr detail"
    and "urlsplit (rh_ip6 h) endpoint = Inr parsed" "t = endpoint \<or> t = up_path parsed" "t \<noteq> ''/''" "maskable t"
  shows "\<not> contains t detail"
proof
  assume c: "contains t detail"
  then have "detail \<noteq> []" using maskable_ne[OF assms(5)] by auto
  then obtain m where "detail = detail_of (shown_message (scrub [endpoint, up_path parsed, up_query parsed] m))"
    using assms(1,2) by (auto simp: http_error_detail_def Let_def ok_iff split: option.splits if_splits)
  then have "contains t (scrub [endpoint, up_path parsed, up_query parsed] m)"
    using c detail_keeps shown_keeps assms(5) by blast
  then show False using scrub_hides[OF assms(5,4), of "[endpoint, up_path parsed, up_query parsed]" m] assms(3) by auto
qed

text \<open>A server that echoes the bare key, without the path before it, has it shown.\<close>

definition echo_body :: string where
  "echo_body = ''{''  @ [CHR 0x22] @ ''error'' @ [CHR 0x22] @ '':'' @ [CHR 0x22] @ ''bad /v3/K1 key K1'' @ [CHR 0x22] @ ''}''"

abbreviation "demo_detail \<equiv> http_error_detail demo_http (map (\<lambda>b. char_of b)) (Some (utf8_encode echo_body)) ''https://n.io/v3/K1''"

lemma bare_key_shown:
  "demo_detail = Inr ([CHR '' '', CHR 0xE2, CHR 0x80, CHR 0x94] @ '' RPC said: bad <redacted> key K1'')"
  by code_simp

theorem error_detail_hides_path_witness:
  "\<exists>detail. demo_detail = Inr detail \<and> \<not> contains ''/v3/K1'' detail \<and> \<not> contains ''https://n.io/v3/K1'' detail"
proof -
  have u: "urlsplit (rh_ip6 demo_http) ''https://n.io/v3/K1'' =
    Inr \<lparr>up_scheme = ''https'', up_netloc = ''n.io'', up_path = ''/v3/K1'', up_query = [], up_fragment = []\<rparr>" by code_simp
  have m: "maskable ''/v3/K1''" "maskable ''https://n.io/v3/K1''" by code_simp+
  from error_detail_hides_path[OF bare_key_shown u _ _ m(1)] error_detail_hides_path[OF bare_key_shown u _ _ m(2)]
  show ?thesis using bare_key_shown by auto
qed

end
