(* ===== verification/Anvil_Process.thy ===== *)
theory Anvil_Process
  imports Http_Transport
begin

text \<open>
  \<^verbatim>\<open>AnvilProcess\<close> of \<^verbatim>\<open>psv/anvil.py\<close>: starting a local node, waiting until it answers, stopping it.

  Parameters (record \<open>anvil_env\<close>): whether the operating system can run the command and the id of the
  process, whether a terminated process exits within the five seconds of \<^verbatim>\<open>wait\<close>, the readings of the
  clock in milliseconds, the HTTP library.  The answers of \<^verbatim>\<open>Popen\<close> and of the clock may differ from one call to the
  next: \<open>ap_ticks\<close> counts these calls.  The calls that start and end processes are the list
  \<open>ap_calls\<close>, in order.  The loop of \<^verbatim>\<open>start\<close> runs until the clock passes the deadline, so it is a
  partial function: \<open>None\<close> is a run that never ends.
\<close>

section \<open>The process\<close>

datatype process_call =
    Spawned nat "string list"
  | Terminated nat
  | Killed nat

record anvil_process =
  ap_chain_id :: int
  ap_port :: int
  ap_host :: string
  ap_extra_args :: "string list"
  ap_proc :: "nat option"
  ap_calls :: "process_call list"
  ap_ticks :: nat

record anvil_env =
  ae_spawn :: "nat \<Rightarrow> string list \<Rightarrow> nat result"
  ae_exits :: "nat \<Rightarrow> bool"
  ae_clock :: "nat \<Rightarrow> int"
  ae_http :: rpc_http

definition process_endpoint :: "anvil_process \<Rightarrow> string" where
  "process_endpoint p = ''http://'' @ ap_host p @ '':'' @ py_str_int (ap_port p)"

definition process_command :: "anvil_process \<Rightarrow> string list" where
  "process_command p =
     [''anvil'', ''--chain-id'', py_str_int (ap_chain_id p), ''--port'', py_str_int (ap_port p), ''--host'', ap_host p] @
     ap_extra_args p"

definition stop_process :: "anvil_env \<Rightarrow> anvil_process \<Rightarrow> anvil_process" where
  "stop_process env p =
     (case ap_proc p of
        None \<Rightarrow> p
      | Some pid \<Rightarrow>
          p\<lparr>ap_proc := None,
            ap_calls := ap_calls p @ Terminated pid # (if ae_exits env pid then [] else [Killed pid])\<rparr>)"

text \<open>One round reads the clock, asks for the block number and, after any exception, sleeps.\<close>

partial_function (option) wait_ready :: "anvil_env \<Rightarrow> int \<Rightarrow> nat \<Rightarrow> rpc_client \<Rightarrow> (bool \<times> nat) option" where
  "wait_ready env deadline k client =
     (if ae_clock env k < deadline then
        (case block_number client of
           (Inr n, c) \<Rightarrow> Some (True, Suc k)
         | (Inl e, c) \<Rightarrow> wait_ready env deadline (Suc k) c)
      else Some (False, Suc k))"

definition probe_client :: "anvil_env \<Rightarrow> anvil_process \<Rightarrow> rpc_client" where
  "probe_client env p = http_client (ae_http env) (process_endpoint p) (Finite 1 0)"

definition start_process :: "anvil_env \<Rightarrow> int \<Rightarrow> anvil_process \<Rightarrow> (unit result \<times> anvil_process) option" where
  "start_process env ready_timeout p =
     (case ae_spawn env (ap_ticks p) (process_command p) of
        Inl e \<Rightarrow> Some (Inl e, p\<lparr>ap_ticks := ap_ticks p + 1\<rparr>)
      | Inr pid \<Rightarrow>
          let p1 = p\<lparr>ap_proc := Some pid, ap_calls := ap_calls p @ [Spawned pid (process_command p)]\<rparr> in
          map_option (\<lambda>(ready, k).
            if ready then (Inr (), p1\<lparr>ap_ticks := k\<rparr>)
            else (Inl (RuntimeError ''anvil did not become ready''), stop_process env (p1\<lparr>ap_ticks := k\<rparr>)))
          (wait_ready env (ae_clock env (ap_ticks p + 1) + ready_timeout) (ap_ticks p + 2) (probe_client env p)))"

definition process_client :: "anvil_env \<Rightarrow> anvil_process \<Rightarrow> rpc_client" where
  "process_client env p = http_client (ae_http env) (process_endpoint p) (Finite 10 0)"

text \<open>
  The \<^verbatim>\<open>with\<close> statement: the body is run on the object if \<^verbatim>\<open>__enter__\<close> succeeds, and \<^verbatim>\<open>__exit__\<close>
  runs after it whether it raised or not, on the object as the body left it.  A body may not return (\<open>None\<close>).
\<close>

definition with_anvil ::
  "anvil_env \<Rightarrow> (anvil_process \<Rightarrow> ('a result \<times> anvil_process) option) \<Rightarrow> anvil_process \<Rightarrow> ('a result \<times> anvil_process) option" where
  "with_anvil env body p =
     (case start_process env 15000 p of
        None \<Rightarrow> None
      | Some (Inl e, p1) \<Rightarrow> Some (Inl e, p1)
      | Some (Inr u, p1) \<Rightarrow> map_option (\<lambda>(r, p2). (r, stop_process env p2)) (body p1))"

section \<open>What is left running\<close>

text \<open>Every process that was spawned was asked to exit afterwards, and killed if it did not exit.\<close>

fun all_ended :: "anvil_env \<Rightarrow> process_call list \<Rightarrow> bool" where
  "all_ended env [] = True"
| "all_ended env (Spawned pid args # later) \<longleftrightarrow>
     Terminated pid \<in> set later \<and> (ae_exits env pid \<or> Killed pid \<in> set later) \<and> all_ended env later"
| "all_ended env (_ # later) = all_ended env later"

definition nothing_left :: "anvil_env \<Rightarrow> anvil_process \<Rightarrow> bool" where
  "nothing_left env p \<longleftrightarrow> ap_proc p = None \<and> all_ended env (ap_calls p)"

text \<open>The object holds the one process that may still run.\<close>

definition in_hand :: "anvil_env \<Rightarrow> anvil_process \<Rightarrow> bool" where
  "in_hand env p \<longleftrightarrow>
     nothing_left env p \<or>
     (\<exists>pid args calls. ap_proc p = Some pid \<and> ap_calls p = calls @ [Spawned pid args] \<and> all_ended env calls)"

lemma all_ended_append: "all_ended env xs \<Longrightarrow> all_ended env ys \<Longrightarrow> all_ended env (xs @ ys)"
  by (induction env xs rule: all_ended.induct) auto

lemma stop_leaves_nothing: "in_hand env p \<Longrightarrow> nothing_left env (stop_process env p)"
  unfolding in_hand_def
proof (elim disjE exE conjE)
  fix pid args calls
  assume p: "ap_proc p = Some pid" "ap_calls p = calls @ [Spawned pid args]" "all_ended env calls"
  have "all_ended env (calls @ Spawned pid args # Terminated pid # (if ae_exits env pid then [] else [Killed pid]))"
    using p(3) by (intro all_ended_append) auto
  then show ?thesis using p by (simp add: nothing_left_def stop_process_def)
qed (simp add: nothing_left_def stop_process_def)

text \<open>
  What a body may do to the object: stop it, start it while it holds no process, change its configuration; and time
  passes.
\<close>

inductive process_step :: "anvil_env \<Rightarrow> anvil_process \<Rightarrow> anvil_process \<Rightarrow> bool" for env where
  stopped: "process_step env p (stop_process env p)"
| started: "ap_proc p = None \<Longrightarrow> start_process env t p = Some (r, p') \<Longrightarrow> process_step env p p'"
| configured: "process_step env p (p\<lparr>ap_chain_id := c, ap_port := n, ap_host := h, ap_extra_args := xs\<rparr>)"
| waited: "process_step env p (p\<lparr>ap_ticks := ap_ticks p + k\<rparr>)"

text \<open>What \<^verbatim>\<open>start\<close> does on an object that holds no process.\<close>

lemma start_in_hand:
  assumes "nothing_left env p" "start_process env t p = Some (r, p')"
  shows "in_hand env p' \<and> (\<forall>e. r = Inl e \<longrightarrow> nothing_left env p')"
proof (cases "ae_spawn env (ap_ticks p) (process_command p)")
  case (Inl e)
  then show ?thesis using assms by (auto simp: start_process_def nothing_left_def in_hand_def)
next
  case (Inr pid)
  let ?p = "\<lambda>k. p\<lparr>ap_proc := Some pid, ap_calls := ap_calls p @ [Spawned pid (process_command p)], ap_ticks := k\<rparr>"
  have hand: "in_hand env (?p k)" for k using assms(1) by (auto simp: in_hand_def nothing_left_def)
  obtain k where "r = Inr () \<and> p' = ?p k \<or> p' = stop_process env (?p k) \<and> (\<exists>e. r = Inl e)"
    using assms(2) Inr by (auto simp: start_process_def Let_def split: if_splits)
  then show ?thesis using hand stop_leaves_nothing[OF hand] by (auto simp: in_hand_def)
qed

lemma step_in_hand: "process_step env p p' \<Longrightarrow> in_hand env p \<Longrightarrow> in_hand env p'"
proof (induction rule: process_step.induct)
  case (stopped p)
  then show ?case using stop_leaves_nothing by (simp add: in_hand_def)
next
  case (started p t r p')
  then have "nothing_left env p" by (auto simp: in_hand_def)
  then show ?case using start_in_hand started by blast
qed (auto simp: in_hand_def nothing_left_def)

lemma steps_in_hand: "(process_step env)\<^sup>*\<^sup>* p p' \<Longrightarrow> in_hand env p \<Longrightarrow> in_hand env p'"
  by (induction rule: rtranclp_induct) (auto intro: step_in_hand)

section \<open>Termination\<close>

text \<open>
  A clock that passes every time, as it does when each round sleeps: the loop ends, and if it ends well, the node
  answered before the deadline.
\<close>

definition clock_advances :: "anvil_env \<Rightarrow> bool" where
  "clock_advances env \<longleftrightarrow> (\<forall>t. \<exists>j. \<forall>i\<ge>j. t \<le> ae_clock env i)"

definition answered_before :: "anvil_env \<Rightarrow> string \<Rightarrow> nat \<Rightarrow> int \<Rightarrow> bool" where
  "answered_before env endpoint k deadline \<longleftrightarrow>
     (\<exists>j c n c'. k \<le> j \<and> ae_clock env j < deadline \<and>
        rpc_transport c = urllib_send (ae_http env) endpoint (Finite 1 0) \<and> block_number c = (Inr n, c'))"

lemma wait_ready_decides:
  assumes "clock_advances env"
  shows "\<exists>b m. wait_ready env deadline k c = Some (b, m) \<and>
    (b \<longrightarrow> (\<exists>j c1 n c2. k \<le> j \<and> ae_clock env j < deadline \<and> rpc_transport c1 = rpc_transport c \<and> block_number c1 = (Inr n, c2)))"
proof -
  obtain late_tick where late: "\<forall>i\<ge>late_tick. deadline \<le> ae_clock env i" using assms unfolding clock_advances_def by blast
  show ?thesis
  proof (induction "late_tick - k" arbitrary: k c rule: less_induct)
    case less
    show ?case
    proof (cases "ae_clock env k < deadline")
      case True
      then have k: "k < late_tick" using late by (meson not_less)
      obtain r c' where b: "block_number c = (r, c')" by fastforce
      show ?thesis
      proof (cases r)
        case (Inl e)
        have t: "rpc_transport c' = rpc_transport c" using keepsS_D[OF client_keeps(4) b] by (simp add: rpc_mono_def)
        have step: "wait_ready env deadline k c = wait_ready env deadline (Suc k) c'"
          using True b Inl by (simp add: wait_ready.simps[of env deadline k c])
        have "late_tick - Suc k < late_tick - k" using k by simp
        from less[OF this, of c'] obtain b m where w: "wait_ready env deadline (Suc k) c' = Some (b, m)"
          and a: "b \<longrightarrow> (\<exists>j c1 n c2. Suc k \<le> j \<and> ae_clock env j < deadline \<and> rpc_transport c1 = rpc_transport c \<and> block_number c1 = (Inr n, c2))"
          unfolding t by (elim exE conjE)
        have "b \<longrightarrow> (\<exists>j c1 n c2. k \<le> j \<and> ae_clock env j < deadline \<and> rpc_transport c1 = rpc_transport c \<and> block_number c1 = (Inr n, c2))"
          using a Suc_leD by blast
        then show ?thesis using w unfolding step by blast
      next
        case (Inr n)
        then have "wait_ready env deadline k c = Some (True, Suc k)" using True b by (simp add: wait_ready.simps[of env deadline k c])
        then show ?thesis using True b[unfolded Inr] by blast
      qed
    qed (intro exI[of _ False] exI[of _ "Suc k"], simp add: wait_ready.simps)
  qed
qed

lemma start_returns:
  assumes "clock_advances env"
  obtains r p' where "start_process env t p = Some (r, p')"
    "\<And>u. r = Inr u \<Longrightarrow> ap_proc p' \<noteq> None \<and>
       answered_before env (process_endpoint p) (ap_ticks p + 2) (ae_clock env (ap_ticks p + 1) + t)"
proof (cases "ae_spawn env (ap_ticks p) (process_command p)")
  case (Inl e)
  then show ?thesis using that by (simp add: start_process_def)
next
  case (Inr pid)
  obtain b m where "wait_ready env (ae_clock env (ap_ticks p + 1) + t) (ap_ticks p + 2) (probe_client env p) = Some (b, m)"
    "b \<Longrightarrow> answered_before env (process_endpoint p) (ap_ticks p + 2) (ae_clock env (ap_ticks p + 1) + t)"
  proof -
    have "rpc_transport (probe_client env p) = urllib_send (ae_http env) (process_endpoint p) (Finite 1 0)"
      by (simp add: probe_client_def http_client_def)
    from wait_ready_decides[OF assms, of "ae_clock env (ap_ticks p + 1) + t" "ap_ticks p + 2" "probe_client env p", unfolded this]
    show thesis using that unfolding answered_before_def by blast
  qed
  then show ?thesis using that Inr by (cases b) (auto simp: start_process_def Let_def)
qed

text \<open>
  C25: No node outlives the \<^verbatim>\<open>with\<close> statement that started it.  Assume that the clock passes every time (each round of the
  waiting loop sleeps), that the object holds no process when the statement is entered and every process it
  started before has been ended (a fresh or a stopped object), and that the body returns or
  raises and does nothing with the object but stop it, start it while it holds no process and
  configure it, in any order and number.  Then the statement returns, and afterwards every process that
  the object ever started was, after it was started, asked to exit, and killed if it did not
  within five seconds, and the object holds none.  If \<^verbatim>\<open>start\<close> failed, the body did not run and the statement raised the
  error of \<^verbatim>\<open>start\<close>.  Otherwise the node had answered a block number before the deadline of 15 seconds, and the outcome of the
  statement is the outcome of the body, be it a value or an exception.
\<close>

theorem no_node_left_behind:
  assumes "clock_advances env" "nothing_left env p"
    and "\<And>q. ap_proc q \<noteq> None \<Longrightarrow> \<exists>x q'. body q = Some (x, q') \<and> (process_step env)\<^sup>*\<^sup>* q q'"
  shows "\<exists>r p' s q. with_anvil env body p = Some (r, p') \<and> ap_proc p' = None \<and> all_ended env (ap_calls p') \<and>
    start_process env 15000 p = Some (s, q) \<and>
    (case s of
       Inl e \<Rightarrow> r = Inl e \<and> p' = q
     | Inr u \<Rightarrow>
         (\<exists>q'. body q = Some (r, q')) \<and>
         (\<exists>j c n c'. ap_ticks p + 2 \<le> j \<and> ae_clock env j < ae_clock env (ap_ticks p + 1) + 15000 \<and>
            rpc_transport c = urllib_send (ae_http env) (process_endpoint p) (Finite 1 0) \<and> block_number c = (Inr n, c')))"
proof -
  obtain s q where s: "start_process env 15000 p = Some (s, q)"
    and ready: "\<And>u. s = Inr u \<Longrightarrow> ap_proc q \<noteq> None \<and>
       answered_before env (process_endpoint p) (ap_ticks p + 2) (ae_clock env (ap_ticks p + 1) + 15000)"
    using start_returns[OF assms(1)] by metis
  note hand = start_in_hand[OF assms(2) s]
  show ?thesis
  proof (cases s)
    case (Inl e)
    then have "with_anvil env body p = Some (Inl e, q)" "nothing_left env q" using s hand by (simp_all add: with_anvil_def)
    then show ?thesis using s Inl by (auto simp: nothing_left_def)
  next
    case (Inr u)
    then obtain x q' where b: "body q = Some (x, q')" "(process_step env)\<^sup>*\<^sup>* q q'" using assms(3) ready by blast
    then have "nothing_left env (stop_process env q')" using steps_in_hand hand stop_leaves_nothing by blast
    moreover have "with_anvil env body p = Some (x, stop_process env q')" using s Inr b(1) by (simp add: with_anvil_def)
    moreover have "answered_before env (process_endpoint p) (ap_ticks p + 2) (ae_clock env (ap_ticks p + 1) + 15000)"
      using ready Inr by blast
    ultimately show ?thesis using s Inr b(1) unfolding nothing_left_def answered_before_def by simp
  qed
qed

text \<open>A node that ignores the request to exit, and a body that restarts it and then raises.\<close>

definition process_env :: anvil_env where
  "process_env = \<lparr>ae_spawn = (\<lambda>k args. Inr (k + 7)), ae_exits = (\<lambda>pid. False), ae_clock = (\<lambda>k. 200 * int k), ae_http = demo_http\<rparr>"

definition demo_process :: anvil_process where
  "demo_process = \<lparr>ap_chain_id = 84532, ap_port = 8545, ap_host = ''127.0.0.1'', ap_extra_args = [], ap_proc = None, ap_calls = [],
     ap_ticks = 0\<rparr>"

definition demo_body :: "anvil_process \<Rightarrow> (unit result \<times> anvil_process) option" where
  "demo_body q = map_option (\<lambda>(r, q'). (Inl (RuntimeError ''test failed''), q')) (start_process process_env 1000 (stop_process process_env q))"

lemma demo_clock: "clock_advances process_env"
  unfolding clock_advances_def
proof (intro allI exI[of _ "nat t" for t] impI)
  fix t :: int and i assume "nat t \<le> i"
  then show "t \<le> ae_clock process_env i" by (simp add: process_env_def)
qed

lemma demo_body_steps: "\<exists>x q'. demo_body q = Some (x, q') \<and> (process_step process_env)\<^sup>*\<^sup>* q q'"
proof -
  let ?q = "stop_process process_env q"
  obtain r q' where r: "start_process process_env 1000 ?q = Some (r, q')" using start_returns[OF demo_clock] by blast
  have "ap_proc ?q = None" by (simp add: stop_process_def split: option.splits)
  then have "process_step process_env ?q q'" using r by (rule process_step.started)
  then have "(process_step process_env)\<^sup>*\<^sup>* q q'" using process_step.stopped[of process_env q] by (meson converse_rtranclp_into_rtranclp r_into_rtranclp)
  then show ?thesis using r by (simp add: demo_body_def)
qed

lemma demo_ready: "\<exists>q. start_process process_env 15000 demo_process = Some (Inr (), q)"
proof -
  have "fst (block_number (probe_client process_env demo_process)) = Inr 1" by code_simp
  then have "wait_ready process_env 15200 2 (probe_client process_env demo_process) = Some (True, 3)"
    by (subst wait_ready.simps) (auto simp: process_env_def split: prod.splits)
  moreover have "ae_clock process_env 1 = 200" "ap_ticks demo_process = 0" "ae_spawn process_env k args = Inr (k + 7)" for k args
    by (simp_all add: process_env_def demo_process_def)
  ultimately show ?thesis by (simp add: start_process_def Let_def numeral_2_eq_2)
qed

theorem no_node_left_behind_witness:
  "\<exists>p'. with_anvil process_env demo_body demo_process = Some (Inl (RuntimeError ''test failed''), p') \<and>
     ap_proc p' = None \<and> all_ended process_env (ap_calls p')"
proof -
  have left: "nothing_left process_env demo_process" by (simp add: nothing_left_def demo_process_def)
  obtain r p' q q' where "with_anvil process_env demo_body demo_process = Some (r, p')" "ap_proc p' = None"
    "all_ended process_env (ap_calls p')" "demo_body q = Some (r, q')"
    using no_node_left_behind[OF demo_clock left, of demo_body] demo_body_steps demo_ready by auto
  then show ?thesis by (auto simp: demo_body_def)
qed

text \<open>
  The restriction on the body is needed: a second \<^verbatim>\<open>start\<close> on an object that holds a process forgets that process, and \<^verbatim>\<open>stop\<close> does
  not reach it any more.
\<close>

lemma second_start_forgets:
  assumes "start_process env t p = Some (Inr u, p1)" "ap_proc p = Some old" "ae_spawn env (ap_ticks p) (process_command p) = Inr new" "new \<noteq> old"
  shows "Terminated old \<in> set (ap_calls (stop_process env p1)) \<longleftrightarrow> Terminated old \<in> set (ap_calls p)"
  using assms by (auto simp: start_process_def stop_process_def Let_def split: if_splits)

end
