(* ===== verification/Support_Matrix.thy ===== *)
theory Support_Matrix
  imports Report
begin

text \<open>
  \<^verbatim>\<open>tools/validate_support_matrix.py\<close>: the validator of the support matrix.

  Parameters (record \<open>matrix_env\<close>): which paths of the repository are files, the names of the top-level
  functions of a test file or the exception of reading and parsing it, \<^verbatim>\<open>str\<close> and \<^verbatim>\<open>repr\<close> of a value.
\<close>

section \<open>The validator\<close>

record matrix_env =
  mx_is_file :: "string \<Rightarrow> bool"
  mx_functions :: "string \<Rightarrow> string list result"
  mx_str :: "pyval \<Rightarrow> string"
  mx_repr :: "pyval \<Rightarrow> string"

definition required_fields :: "string list" where
  "required_fields = [''id'', ''phase'', ''severity'', ''test'', ''environment'', ''status'']"

definition matrix_statuses :: "string list" where
  "matrix_statuses = [''implemented'', ''passive'', ''planned'', ''out-of-scope'']"

text \<open>\<^verbatim>\<open>selector.split("::", maxsplit=1)\<close>: the two parts, if the separator occurs.\<close>

fun split_selector :: "string \<Rightarrow> string \<Rightarrow> (string \<times> string) option" where
  "split_selector cur (a # b # s) =
     (if a = CHR '':'' \<and> b = CHR '':'' then Some (rev cur, s) else split_selector (a # cur) (b # s))"
| "split_selector cur s = None"

definition test_exists :: "matrix_env \<Rightarrow> string \<Rightarrow> bool result" where
  "test_exists env selector =
     (case split_selector [] selector of
        None \<Rightarrow> Inr False
      | Some (relative, function) \<Rightarrow>
          if \<not> startswith relative ''tests/'' \<or> \<not> mx_is_file env relative \<or> \<not> startswith function ''test_''
          then Inr False
          else bindR (mx_functions env relative) (\<lambda>names. Inr (function \<in> set names)))"

text \<open>\<^verbatim>\<open>x in s\<close> for a set of strings raises on a list or a dict, which have no hash.\<close>

definition in_strings :: "pyval \<Rightarrow> string list \<Rightarrow> bool result" where
  "in_strings v s =
     (case v of
        PList xs \<Rightarrow> Inl (TypeError ''unhashable type'')
      | PDict d \<Rightarrow> Inl (TypeError ''unhashable type'')
      | PStr t \<Rightarrow> Inr (t \<in> set s)
      | _ \<Rightarrow> Inr False)"

definition text_form :: "matrix_env \<Rightarrow> pyval \<Rightarrow> string" where
  "text_form env v = (case v of PStr s \<Rightarrow> s | _ \<Rightarrow> mx_str env v)"

definition id_errors :: "int \<Rightarrow> string list \<Rightarrow> pyval \<Rightarrow> string list \<times> string list" where
  "id_errors index seen v =
     (case v of
        PStr s \<Rightarrow>
          if s = [] then ([''scenario '' @ py_str_int index @ '' has invalid id''], seen)
          else if s \<in> set seen then ([''duplicate scenario id: '' @ s], seen)
          else ([], s # seen)
      | _ \<Rightarrow> ([''scenario '' @ py_str_int index @ '' has invalid id''], seen))"

definition selector_errors :: "matrix_env \<Rightarrow> pyval \<Rightarrow> pyval \<Rightarrow> pyval \<Rightarrow> string list result" where
  "selector_errors env scenario_id status sel =
     bindR (in_strings status [''implemented'', ''passive'']) (\<lambda>shipped.
     if shipped then
       bindR (case sel of PStr s \<Rightarrow> test_exists env s | _ \<Rightarrow> Inr False) (\<lambda>found.
       Inr (if found then []
            else [text_form env scenario_id @ '': registered test does not exist: '' @ mx_repr env sel]))
     else Inr (if sel = PNone then [] else [text_form env scenario_id @ '': non-shipped scenarios must use a null test'']))"

definition scenario_errors :: "matrix_env \<Rightarrow> int \<Rightarrow> string list \<Rightarrow> pyval \<Rightarrow> (string list \<times> string list) result" where
  "scenario_errors env index seen raw =
     (case raw of
        PDict d \<Rightarrow>
          let missing = filter (\<lambda>f. \<not> has_key d f) required_fields in
          if missing \<noteq> []
          then Inr ([''scenario '' @ py_str_int index @ '' is missing '' @ mx_repr env (PList (map PStr (sort missing)))], seen)
          else
            let (errs, seen') = id_errors index seen (dict_get d ''id'') in
            bindR (in_strings (dict_get d ''status'') matrix_statuses) (\<lambda>known.
            bindR (selector_errors env (dict_get d ''id'') (dict_get d ''status'') (dict_get d ''test'')) (\<lambda>more.
            Inr (errs @
                 (if known then []
                  else [text_form env (dict_get d ''id'') @ '': unsupported status '' @ mx_repr env (dict_get d ''status'')]) @
                 more, seen')))
      | _ \<Rightarrow> Inr ([''scenario '' @ py_str_int index @ '' must be an object''], seen))"

fun scenarios_errors :: "matrix_env \<Rightarrow> int \<Rightarrow> string list \<Rightarrow> pyval list \<Rightarrow> string list result" where
  "scenarios_errors env index seen [] = Inr []"
| "scenarios_errors env index seen (raw # raws) =
     bindR (scenario_errors env index seen raw) (\<lambda>(errs, seen').
     bindR (scenarios_errors env (index + 1) seen' raws) (\<lambda>more. Inr (errs @ more)))"

definition validate_registry :: "matrix_env \<Rightarrow> pydict \<Rightarrow> string list result" where
  "validate_registry env registry =
     (let version_errors = (if dict_get registry ''schemaVersion'' = PStr ''1.0'' then [] else [''unsupported schemaVersion'']) in
      case dict_get registry ''scenarios'' of
        PList scenarios \<Rightarrow> bindR (scenarios_errors env 0 [] scenarios) (\<lambda>errs. Inr (version_errors @ errs))
      | _ \<Rightarrow> Inr (version_errors @ [''scenarios must be a list'']))"

text \<open>The status and the lines printed, for a document that is a JSON object.\<close>

definition matrix_main :: "matrix_env \<Rightarrow> pydict \<Rightarrow> (int \<times> string list) result" where
  "matrix_main env registry =
     bindR (validate_registry env registry) (\<lambda>errors.
     Inr (if errors = [] then (0, [''Support-matrix validation passed.''])
          else (1, ''Support-matrix validation failed:'' # map (\<lambda>e. ''- '' @ e) errors)))"

section \<open>Properties\<close>

text \<open>A scenario as the support matrix promises it.\<close>

definition shipped_test :: "matrix_env \<Rightarrow> pyval \<Rightarrow> bool" where
  "shipped_test env sel \<longleftrightarrow>
     (\<exists>s path name names. sel = PStr s \<and> split_selector [] s = Some (path, name) \<and> startswith path ''tests/'' \<and>
        mx_is_file env path \<and> startswith name ''test_'' \<and> mx_functions env path = Inr names \<and> name \<in> set names)"

definition shipped_status :: "string \<Rightarrow> bool" where
  "shipped_status st \<longleftrightarrow> st = ''implemented'' \<or> st = ''passive''"

definition good_scenario :: "matrix_env \<Rightarrow> pyval \<Rightarrow> bool" where
  "good_scenario env raw \<longleftrightarrow>
     (\<exists>d i st. raw = PDict d \<and> (\<forall>f\<in>set required_fields. has_key d f) \<and> dict_get d ''id'' = PStr i \<and> i \<noteq> [] \<and>
        dict_get d ''status'' = PStr st \<and> st \<in> set matrix_statuses \<and>
        (if shipped_status st then shipped_test env (dict_get d ''test'') else dict_get d ''test'' = PNone))"

definition scenario_id :: "pyval \<Rightarrow> string" where
  "scenario_id raw = (case raw of PDict d \<Rightarrow> str_of (dict_get d ''id'') | _ \<Rightarrow> [])"

lemma test_exists_ok:
  "(case sel of PStr s \<Rightarrow> test_exists env s | _ \<Rightarrow> Inr False) = Inr True \<longleftrightarrow> shipped_test env sel"
  by (cases sel) (auto simp: test_exists_def shipped_test_def ok_iff split: option.splits)

lemma in_strings_ok: "in_strings v s = Inr True \<longleftrightarrow> (\<exists>t. v = PStr t \<and> t \<in> set s)"
  by (cases v) (auto simp: in_strings_def)

lemma id_errors_ok:
  "id_errors index seen v = ([], seen') \<longleftrightarrow> (\<exists>s. v = PStr s \<and> s \<noteq> [] \<and> s \<notin> set seen \<and> seen' = s # seen)"
  by (cases v) (auto simp: id_errors_def)

lemma selector_errors_ok:
  "selector_errors env i (PStr st) sel = Inr [] \<longleftrightarrow>
     (if shipped_status st then shipped_test env sel else sel = PNone)"
proof -
  have "in_strings (PStr st) [''implemented'', ''passive''] = Inr (shipped_status st)"
    by (simp add: in_strings_def shipped_status_def)
  then show ?thesis by (auto simp: selector_errors_def ok_iff test_exists_ok[symmetric] split: if_splits)
qed

lemma status_ok:
  "in_strings v matrix_statuses = Inr True \<and> selector_errors env i v sel = Inr [] \<longleftrightarrow>
     (\<exists>st. v = PStr st \<and> st \<in> set matrix_statuses \<and>
        (if shipped_status st then shipped_test env sel else sel = PNone))"
  by (cases v) (simp_all add: in_strings_ok selector_errors_ok)

lemma step_ok:
  "bindR k (\<lambda>known. bindR m (\<lambda>more. Inr (errs @ (if known then [] else [t]) @ more, seen1))) = Inr ([], seen') \<longleftrightarrow>
     (errs, seen1) = ([], seen') \<and> (k = Inr True \<and> m = Inr [])"
  by (cases k; cases m) auto

lemma scenario_ok:
  "scenario_errors env index seen raw = Inr ([], seen') \<longleftrightarrow>
     good_scenario env raw \<and> scenario_id raw \<notin> set seen \<and> seen' = scenario_id raw # seen"
proof (cases "\<exists>d. raw = PDict d \<and> (\<forall>f\<in>set required_fields. has_key d f)")
  case True
  then obtain d where d: "raw = PDict d" "\<forall>f\<in>set required_fields. has_key d f" by blast
  obtain errs seen1 where i: "id_errors index seen (dict_get d ''id'') = (errs, seen1)" by fastforce
  let ?sel = "selector_errors env (dict_get d ''id'') (dict_get d ''status'') (dict_get d ''test'')"
  let ?known = "in_strings (dict_get d ''status'') matrix_statuses"
  have none: "filter (\<lambda>f. \<not> has_key d f) required_fields = []" using d(2) by simp
  have "scenario_errors env index seen raw = bindR ?known (\<lambda>known. bindR ?sel (\<lambda>more.
      Inr (errs @ (if known then []
        else [text_form env (dict_get d ''id'') @ '': unsupported status '' @ mx_repr env (dict_get d ''status'')]) @ more, seen1)))"
    by (simp add: scenario_errors_def d(1) none i)
  then have "scenario_errors env index seen raw = Inr ([], seen') \<longleftrightarrow>
      (errs, seen1) = ([], seen') \<and> (?known = Inr True \<and> ?sel = Inr [])"
    by (simp add: step_ok)
  also have "\<dots> \<longleftrightarrow> (\<exists>s. dict_get d ''id'' = PStr s \<and> s \<noteq> [] \<and> s \<notin> set seen \<and> seen' = s # seen) \<and>
      (\<exists>st. dict_get d ''status'' = PStr st \<and> st \<in> set matrix_statuses \<and>
         (if shipped_status st then shipped_test env (dict_get d ''test'') else dict_get d ''test'' = PNone))"
    unfolding i[symmetric] id_errors_ok status_ok ..
  finally show ?thesis using d by (auto simp: good_scenario_def scenario_id_def str_of_def)
next
  case False
  then have "\<not> good_scenario env raw" by (auto simp: good_scenario_def)
  moreover have "scenario_errors env index seen raw \<noteq> Inr ([], seen')"
    using False by (cases raw) (auto simp: scenario_errors_def filter_empty_conv Let_def)
  ultimately show ?thesis by blast
qed

lemma scenarios_ok:
  "scenarios_errors env index seen raws = Inr [] \<longleftrightarrow>
     (\<forall>raw\<in>set raws. good_scenario env raw) \<and> distinct (map scenario_id raws) \<and>
     (\<forall>raw\<in>set raws. scenario_id raw \<notin> set seen)"
proof (induction raws arbitrary: index seen)
  case (Cons raw raws)
  have "scenarios_errors env index seen (raw # raws) = Inr [] \<longleftrightarrow>
      (\<exists>seen'. scenario_errors env index seen raw = Inr ([], seen') \<and> scenarios_errors env (index + 1) seen' raws = Inr [])"
    by (auto simp: ok_iff)
  also have "\<dots> \<longleftrightarrow> good_scenario env raw \<and> scenario_id raw \<notin> set seen \<and>
      scenarios_errors env (index + 1) (scenario_id raw # seen) raws = Inr []"
    by (auto simp: scenario_ok)
  also have "\<dots> \<longleftrightarrow> good_scenario env raw \<and> scenario_id raw \<notin> set seen \<and>
      (\<forall>x\<in>set raws. good_scenario env x) \<and> distinct (map scenario_id raws) \<and>
      (\<forall>x\<in>set raws. scenario_id x \<noteq> scenario_id raw \<and> scenario_id x \<notin> set seen)"
    by (simp add: Cons.IH)
  moreover have "scenario_id raw \<in> scenario_id ` set raws \<longleftrightarrow> (\<exists>x\<in>set raws. scenario_id x = scenario_id raw)"
    by (metis image_iff)
  ultimately show ?case by (simp del: scenarios_errors.simps) blast
qed simp

text \<open>
  C26: The validator of the support matrix passes exactly the well-formed ones.  Its status is 0
  exactly if the document has schema version 1.0 and a list of scenarios, each an object with all
  required fields, a non-empty id and a known status; shipped scenarios (implemented or passive) name
  a top-level test function of an existing file under \<^verbatim>\<open>tests/\<close>, the others a null test; and no two
  scenarios share an id.
\<close>

theorem matrix_passes_exactly:
  "(\<exists>out. matrix_main env registry = Inr (0, out)) \<longleftrightarrow>
     dict_get registry ''schemaVersion'' = PStr ''1.0'' \<and>
     (\<exists>scenarios. dict_get registry ''scenarios'' = PList scenarios \<and>
        list_all (good_scenario env) scenarios \<and> distinct (map scenario_id scenarios))"
proof -
  have "(\<exists>out. matrix_main env registry = Inr (0, out)) \<longleftrightarrow> validate_registry env registry = Inr []"
    by (auto simp: matrix_main_def ok_iff split: if_splits)
  also have "\<dots> \<longleftrightarrow> dict_get registry ''schemaVersion'' = PStr ''1.0'' \<and>
     (\<exists>scenarios. dict_get registry ''scenarios'' = PList scenarios \<and> scenarios_errors env 0 [] scenarios = Inr [])"
    by (auto simp: validate_registry_def ok_iff Let_def split: pyval.splits)
  finally show ?thesis by (simp add: scenarios_ok list_all_iff)
qed

text \<open>A status that is a list is not reported: the membership test raises.\<close>

lemma list_status_escapes:
  "validate_registry env (obj [(''schemaVersion'', PStr ''1.0''),
     (''scenarios'', PList [PDict (obj [(''id'', PStr ''A''), (''phase'', PNone), (''severity'', PNone), (''test'', PNone),
        (''environment'', PNone), (''status'', PList [])])])]) = Inl (TypeError ''unhashable type'')"
  by (simp add: validate_registry_def obj_def dict_get_def scenario_errors_def required_fields_def has_key_def Let_def
      id_errors_def in_strings_def)

end
