(* ===== verification/Capture.thy ===== *)
theory Capture
  imports Cli Sample_Node
begin

text \<open>
  \<^verbatim>\<open>tools/capture_rail_attestation.py\<close>: reading the identity of a token so that a rail can be calibrated.

  Parameters (record \<open>capture_env\<close>): SHA-256, Keccak-256, \<^verbatim>\<open>repr\<close> of a string, the text of an exception
  and of a float.  A name that is no Latin-1 text is outside the model, as everywhere: it raises
  \<open>beyond_model\<close>.
\<close>

section \<open>Scalars\<close>

record capture_env =
  cp_sha256 :: hash_fun
  cp_keccak :: "int list \<Rightarrow> int list"
  cp_repr :: "string \<Rightarrow> string"
  cp_exn_text :: "exn \<Rightarrow> string"
  cp_float_text :: "pyfloat \<Rightarrow> string"

definition hex_bytes :: "int list \<Rightarrow> string" where
  "hex_bytes bs = concat (map (\<lambda>b. [digit_char (b div 16), digit_char (b mod 16)]) bs)"

definition from_bytes :: "int list \<Rightarrow> int" where
  "from_bytes bs = foldl (\<lambda>n b. n * 256 + b) 0 bs"

definition to_bytes_32 :: "int \<Rightarrow> int list result" where
  "to_bytes_32 n =
     (if 0 \<le> n \<and> n < 2 ^ 256 then Inr (map (\<lambda>k. n div 256 ^ (31 - k) mod 256) [0..<32])
      else Inl (OtherException ''OverflowError''))"

definition keccak_text :: "capture_env \<Rightarrow> string \<Rightarrow> int list" where
  "keccak_text env s = cp_keccak env (utf8_encode s)"

definition selector :: "capture_env \<Rightarrow> string \<Rightarrow> string" where
  "selector env signature = hex_bytes (take 4 (keccak_text env signature))"

definition domain_typehash :: "capture_env \<Rightarrow> int list" where
  "domain_typehash env =
     keccak_text env ''EIP712Domain(string name,string version,uint256 chainId,address verifyingContract)''"

definition name_candidates :: "string list" where
  "name_candidates = [''USD Coin'', ''USDC'', ''USD Coin (PoS)'', ''USDC.e'']"

definition version_candidates :: "string list" where
  "version_candidates = [''1'', ''2'']"

definition capture_hash :: "string \<Rightarrow> pyval \<Rightarrow> string result" where
  "capture_hash what v =
     (case v of
        PStr s \<Rightarrow> if match_hex 64 s then Inr (lower s) else Inl (CaptureError (what @ '' is not an exact 32-byte hash''))
      | _ \<Rightarrow> Inl (CaptureError (what @ '' is not an exact 32-byte hash'')))"

definition capture_quantity :: "string \<Rightarrow> pyval \<Rightarrow> int result" where
  "capture_quantity what v =
     (case v of
        PStr s \<Rightarrow>
          if startswith s ''0x'' \<and> 2 < length s \<and> (\<forall>c\<in>set (drop 2 s). is_hex c) then Inr (hex_num s)
          else Inl (CaptureError (what @ '' is not a hex quantity''))
      | _ \<Rightarrow> Inl (CaptureError (what @ '' is not a hex quantity'')))"

definition capture_code_sha256 :: "capture_env \<Rightarrow> string \<Rightarrow> string \<Rightarrow> string result" where
  "capture_code_sha256 env what bytecode =
     (if \<not> startswith bytecode ''0x'' \<or> bytecode = ''0x''
      then Inl (CaptureError (what @ '' has no deployed runtime bytecode''))
      else case bytes_fromhex (drop 2 bytecode) of
        None \<Rightarrow> Inl (CaptureError (what @ '' returned malformed runtime bytecode''))
      | Some raw \<Rightarrow>
          if raw = [] then Inl (CaptureError (what @ '' has no deployed runtime bytecode''))
          else Inr (cp_sha256 env raw))"

definition decode_string :: "string \<Rightarrow> string option result" where
  "decode_string result =
     (case bytes_fromhex (if startswith result ''0x'' then drop 2 result else result) of
        None \<Rightarrow> Inr None
      | Some raw \<Rightarrow>
          if length raw < 64 then Inr None
          else
            let offset = from_bytes (take 32 raw) in
            if int (length raw) < offset + 32 then Inr None
            else
              let len = from_bytes (take 32 (drop (nat offset) raw)); start = offset + 32 in
              if int (length raw) - start < len then Inr None
              else (case utf8_decode (take (nat len) (drop (nat start) raw)) of
                  Inr s \<Rightarrow> Inr (Some s)
                | Inl e \<Rightarrow> if e = beyond_model then Inl e else Inr None))"

section \<open>The EIP-712 domain\<close>

definition domain_separator_for :: "capture_env \<Rightarrow> string \<Rightarrow> string \<Rightarrow> int \<Rightarrow> string \<Rightarrow> string result" where
  "domain_separator_for env name version cid verifying =
     bindR (to_bytes_32 cid) (\<lambda>chain_bytes.
     case bytes_fromhex (drop 2 verifying) of
       None \<Rightarrow> Inl (ValueError ''non-hexadecimal number found in fromhex()'')
     | Some address_bytes \<Rightarrow>
         Inr (''0x'' @ hex_bytes (cp_keccak env
           (domain_typehash env @ keccak_text env name @ keccak_text env version @ chain_bytes @ replicate 12 0 @
            address_bytes))))"

fun first_match :: "('a \<Rightarrow> string result) \<Rightarrow> string \<Rightarrow> 'a list \<Rightarrow> 'a option result" where
  "first_match f target [] = Inr None"
| "first_match f target (x # xs) = bindR (f x) (\<lambda>s. if s = target then Inr (Some x) else first_match f target xs)"

definition solve_domain :: "capture_env \<Rightarrow> string \<Rightarrow> int \<Rightarrow> string \<Rightarrow> string option \<Rightarrow> (string \<times> string) option result" where
  "solve_domain env observed cid verifying reported_name =
     (let names = (case reported_name of
          Some n \<Rightarrow> if n \<noteq> [] \<and> n \<notin> set name_candidates then n # name_candidates else name_candidates
        | None \<Rightarrow> name_candidates) in
      first_match (\<lambda>(name, version). domain_separator_for env name version cid verifying) (lower observed)
        (concat (map (\<lambda>name. map (\<lambda>version. (name, version)) version_candidates) names)))"

section \<open>The capture\<close>

record captured =
  ca_chain_id :: int
  ca_block_number :: int
  ca_block_hash :: string
  ca_token_address :: string
  ca_code_sha256 :: string
  ca_reported_name :: "string option"
  ca_reported_version :: "string option"
  ca_decimals :: int
  ca_domain_separator :: "string option"
  ca_domain_solution :: "(string \<times> string) option"
  ca_state_readable :: bool
  ca_implementation_address :: "string option"
  ca_implementation_code_sha256 :: "string option"
  ca_notes :: "string list"

text \<open>Any exception of the call is \<open>None\<close>.\<close>

definition try_call :: "string \<Rightarrow> string \<Rightarrow> int \<Rightarrow> string option rpc" where
  "try_call target sel block = (\<lambda>c.
     case eth_call target (''0x'' @ sel) (BlockNumber block) c of
       (Inl e, c') \<Rightarrow> (Inr None, c')
     | (Inr s, c') \<Rightarrow> (Inr (Some s), c'))"

definition text_or_empty :: "string option \<Rightarrow> string" where
  "text_or_empty s = (case s of None \<Rightarrow> [] | Some t \<Rightarrow> t)"

definition read_proxy :: "capture_env \<Rightarrow> string \<Rightarrow> string \<Rightarrow> int \<Rightarrow> (string \<times> string) rpc" where
  "read_proxy env tok slot block =
     bindS (call ''eth_getStorageAt'' [PStr tok, PStr slot, PStr (py_hex block)]) (\<lambda>v.
     case v of
       PStr word \<Rightarrow>
         if \<not> match_hex 64 word then raiseS (CaptureError ''proxy implementation slot returned a malformed word'')
         else if take 24 (drop 2 word) \<noteq> replicate 24 (CHR ''0'')
         then raiseS (CaptureError ''proxy implementation slot does not hold an address word'')
         else
           let address = ''0x'' @ lower (last_chars 40 word) in
           if address = zero_address then raiseS (CaptureError ''proxy implementation slot is empty'')
           else
             bindS (get_code address (BlockNumber block)) (\<lambda>bytecode.
             bindS (liftS (capture_code_sha256 env ''proxy implementation'' bytecode)) (\<lambda>h.
             retS (address, h)))
     | _ \<Rightarrow> raiseS (CaptureError ''proxy implementation slot returned a malformed word''))"

definition domain_notes ::
  "capture_env \<Rightarrow> string option \<Rightarrow> string option \<Rightarrow> (string \<times> string) option \<Rightarrow> string list" where
  "domain_notes env separator name solution =
     (if separator = None
      then [''DOMAIN_SEPARATOR() is not exposed. The EIP-712 domain cannot be confirmed '' @
            ''from the chain; do not calibrate this rail from a block explorer instead.'']
      else case solution of
        None \<Rightarrow>
          [''No candidate name/version reproduces the observed DOMAIN_SEPARATOR. '' @
           ''The domain is something else '' @ [CHR 0xE2, CHR 0x80, CHR 0x94] @ '' extend the candidate list rather than '' @
           ''attesting to name()/version(), which would be a domain the contract does not use.'']
      | Some (sn, sv) \<Rightarrow>
          (case name of
             None \<Rightarrow> []
           | Some n \<Rightarrow>
               if sn = n then []
               else [''The EIP-712 domain name ('' @ cp_repr env sn @ '') differs from name() ('' @ cp_repr env n @ ''). '' @
                     ''This is the case the tool exists for: attest to the domain, not the label.'']))"

definition state_note :: "string list" where
  "state_note = [''authorizationState(address,bytes32) did not answer. This token may not '' @
     ''implement EIP-3009; psv rails attest to that interface explicitly.'']"

text \<open>The stages of \<^verbatim>\<open>capture\<close>: a reported text, the decimals, the domain, the state probe, the proxy.\<close>

definition capture_text :: "capture_env \<Rightarrow> string \<Rightarrow> string \<Rightarrow> int \<Rightarrow> string option rpc" where
  "capture_text env tok signature number =
     bindS (try_call tok (selector env signature) number) (\<lambda>raw. liftS (decode_string (text_or_empty raw)))"

definition capture_decimals :: "capture_env \<Rightarrow> string \<Rightarrow> int \<Rightarrow> int rpc" where
  "capture_decimals env tok number =
     bindS (try_call tok (selector env ''decimals()'') number) (\<lambda>raw.
     liftS (case raw of
       None \<Rightarrow> Inl (CaptureError ''token does not expose decimals()'')
     | Some w \<Rightarrow> capture_quantity ''decimals'' (PStr w)))"

definition capture_domain ::
  "capture_env \<Rightarrow> string \<Rightarrow> int \<Rightarrow> int \<Rightarrow> string option \<Rightarrow> (string option \<times> (string \<times> string) option) rpc" where
  "capture_domain env tok cid number name =
     bindS (try_call tok (selector env ''DOMAIN_SEPARATOR()'') number) (\<lambda>raw.
     case raw of
       None \<Rightarrow> retS (None, None)
     | Some w \<Rightarrow>
         if \<not> match_hex 64 w then retS (None, None)
         else bindS (liftS (solve_domain env (lower w) cid tok name)) (\<lambda>solution. retS (Some (lower w), solution)))"

definition capture_probe :: "capture_env \<Rightarrow> string \<Rightarrow> int \<Rightarrow> bool rpc" where
  "capture_probe env tok number =
     bindS (try_call tok (selector env ''authorizationState(address,bytes32)'' @ replicate 128 (CHR ''0'')) number) (\<lambda>raw.
     retS (case raw of None \<Rightarrow> False | Some w \<Rightarrow> w \<noteq> ''0x'' \<and> w \<noteq> []))"

definition capture_proxy :: "capture_env \<Rightarrow> string \<Rightarrow> string option \<Rightarrow> int \<Rightarrow> (string option \<times> string option) rpc" where
  "capture_proxy env tok proxy_slot number =
     (case proxy_slot of
        None \<Rightarrow> retS (None, None)
      | Some slot \<Rightarrow> bindS (read_proxy env tok slot number) (\<lambda>(a, h). retS (Some a, Some h)))"

definition capture :: "capture_env \<Rightarrow> string \<Rightarrow> int \<Rightarrow> string \<Rightarrow> string option \<Rightarrow> captured rpc" where
  "capture env tok expect_chain_id block_tag proxy_slot =
     bindS chain_id (\<lambda>cid.
     if cid \<noteq> expect_chain_id then raiseS (CaptureError ''chain mismatch'')
     else
     bindS (get_block (BlockTag block_tag) False) (\<lambda>block.
     bindS (liftS (capture_quantity ''block number'' (dict_get block ''number''))) (\<lambda>number.
     bindS (liftS (capture_hash ''block hash'' (dict_get block ''hash''))) (\<lambda>block_hash.
     bindS (get_code tok (BlockNumber number)) (\<lambda>bytecode.
     bindS (liftS (capture_code_sha256 env ''token'' bytecode)) (\<lambda>code_sha.
     bindS (capture_text env tok ''name()'' number) (\<lambda>name.
     bindS (capture_text env tok ''version()'' number) (\<lambda>version.
     bindS (capture_decimals env tok number) (\<lambda>decimals.
     bindS (capture_domain env tok cid number name) (\<lambda>(separator, solution).
     bindS (capture_probe env tok number) (\<lambda>readable.
     bindS (capture_proxy env tok proxy_slot number) (\<lambda>(ia, ih).
     retS \<lparr>ca_chain_id = cid, ca_block_number = number, ca_block_hash = block_hash, ca_token_address = tok,
        ca_code_sha256 = code_sha, ca_reported_name = name, ca_reported_version = version, ca_decimals = decimals,
        ca_domain_separator = separator, ca_domain_solution = solution, ca_state_readable = readable,
        ca_implementation_address = ia, ca_implementation_code_sha256 = ih,
        ca_notes = domain_notes env separator name solution @ (if readable then [] else state_note)\<rparr>))))))))))))"

section \<open>The report\<close>

definition repr_opt :: "capture_env \<Rightarrow> string option \<Rightarrow> string" where
  "repr_opt env s = (case s of None \<Rightarrow> ''None'' | Some t \<Rightarrow> cp_repr env t)"

definition str_opt :: "string option \<Rightarrow> string" where
  "str_opt s = (case s of None \<Rightarrow> ''None'' | Some t \<Rightarrow> t)"

definition repr_pair :: "capture_env \<Rightarrow> (string \<times> string) option \<Rightarrow> string" where
  "repr_pair env p = (case p of None \<Rightarrow> ''None'' | Some (a, b) \<Rightarrow> ''('' @ cp_repr env a @ '', '' @ cp_repr env b @ '')'')"

fun group_three :: "string \<Rightarrow> string" where
  "group_three (a # b # c # d # s) = a # b # c # CHR ''_'' # group_three (d # s)"
| "group_three s = s"

definition underscored :: "string \<Rightarrow> string" where
  "underscored s = rev (group_three (rev s))"

definition render_capture :: "capture_env \<Rightarrow> captured \<Rightarrow> string result" where
  "render_capture env c =
     bindR (format_int (ca_chain_id c)) (\<lambda>chain.
     bindR (format_int (ca_block_number c)) (\<lambda>block.
     bindR (format_int (ca_decimals c)) (\<lambda>decimals.
     Inr (join_lines (
       [''=== observed ==='',
        ''chain_id                     '' @ chain,
        ''block                        '' @ block,
        ''block_hash                   '' @ ca_block_hash c,
        ''token                        '' @ ca_token_address c,
        ''name()                       '' @ repr_opt env (ca_reported_name c),
        ''version()                    '' @ repr_opt env (ca_reported_version c),
        ''decimals()                   '' @ decimals,
        ''DOMAIN_SEPARATOR()           '' @ str_opt (ca_domain_separator c),
        ''EIP-712 domain solved as     '' @ repr_pair env (ca_domain_solution c),
        ''EIP-3009 state readable      '' @ (if ca_state_readable c then ''True'' else ''False''),
        ''code sha256                  '' @ ca_code_sha256 c,
        ''implementation               '' @ str_opt (ca_implementation_address c),
        ''implementation code sha256   '' @ str_opt (ca_implementation_code_sha256 c)] @
       (if ca_notes c = [] then []
        else [[], ''=== read this before calibrating ===''] @ map (\<lambda>note. ''- '' @ note) (ca_notes c)) @
       [[], ''=== attestation fields ===''] @
       (case ca_domain_solution c of
          Some (name, version) \<Rightarrow>
            [''    domain_name='' @ cp_repr env name @ '','', ''    domain_version='' @ cp_repr env version @ '','']
        | None \<Rightarrow> [''    domain_name=<UNRESOLVED>,'', ''    domain_version=<UNRESOLVED>,'']) @
       [''    decimals='' @ decimals @ '','',
        ''    calibrated=True,'',
        ''    reviewed_block_number='' @ underscored block @ '','',
        ''    reviewed_block_hash=\"'' @ ca_block_hash c @ ''\",'',
        ''    expected_code_sha256=\"'' @ ca_code_sha256 c @ ''\",''] @
       (case ca_implementation_address c of
          None \<Rightarrow> []
        | Some a \<Rightarrow>
            [''    implementation_address=\"'' @ a @ ''\",'',
             ''    implementation_code_sha256=\"'' @ str_opt (ca_implementation_code_sha256 c) @ ''\",'']))))))"

definition text_or_null :: "string option \<Rightarrow> pyval" where
  "text_or_null s = (case s of None \<Rightarrow> PNone | Some t \<Rightarrow> PStr t)"

definition capture_payload :: "captured \<Rightarrow> pydict" where
  "capture_payload c = obj
     [(''chain_id'', PInt (ca_chain_id c)), (''block_number'', PInt (ca_block_number c)),
      (''block_hash'', PStr (ca_block_hash c)), (''token_address'', PStr (ca_token_address c)),
      (''code_sha256'', PStr (ca_code_sha256 c)), (''reported_name'', text_or_null (ca_reported_name c)),
      (''reported_version'', text_or_null (ca_reported_version c)), (''decimals'', PInt (ca_decimals c)),
      (''domain_separator'', text_or_null (ca_domain_separator c)),
      (''domain_solution'', (case ca_domain_solution c of None \<Rightarrow> PNone | Some (n, v) \<Rightarrow> PList [PStr n, PStr v])),
      (''eip3009_state_readable'', PBool (ca_state_readable c)),
      (''implementation_address'', text_or_null (ca_implementation_address c)),
      (''implementation_code_sha256'', text_or_null (ca_implementation_code_sha256 c)),
      (''notes'', PList (map PStr (ca_notes c)))]"

section \<open>The command\<close>

record capture_args =
  cg_rpc :: string
  cg_token :: string
  cg_expect_chain_id :: int
  cg_proxy_slot :: "string option"
  cg_block_tag :: string
  cg_json :: bool

definition capture_option :: "string \<times> string \<Rightarrow> (capture_args \<Rightarrow> capture_args) result" where
  "capture_option ov =
     (let (opt, v) = ov in
      if opt = ''--rpc'' then store (Inr v) (\<lambda>x. cg_rpc_update (\<lambda>_. x))
      else if opt = ''--token'' then store (Inr v) (\<lambda>x. cg_token_update (\<lambda>_. x))
      else if opt = ''--expect-chain-id'' then store (int_base 10 v) (\<lambda>x. cg_expect_chain_id_update (\<lambda>_. x))
      else if opt = ''--proxy-slot'' then store (Inr v) (\<lambda>x. cg_proxy_slot_update (\<lambda>_. Some x))
      else if opt = ''--block-tag'' then store (Inr v) (\<lambda>x. cg_block_tag_update (\<lambda>_. x))
      else if opt = ''--json'' then Inr (cg_json_update (\<lambda>_. True))
      else Inl (ArgumentTypeError ''unrecognized arguments''))"

definition parse_capture :: "(string \<times> string) list \<Rightarrow> capture_args result" where
  "parse_capture opts =
     bindR (traverseR capture_option opts) (\<lambda>upds.
     if \<not> {''--rpc'', ''--token'', ''--expect-chain-id''} \<subseteq> set (map fst opts)
     then Inl (ArgumentTypeError ''the following arguments are required'')
     else
       let a = fold (\<lambda>u a. u a) upds \<lparr>cg_rpc = [], cg_token = [], cg_expect_chain_id = 0, cg_proxy_slot = None,
                 cg_block_tag = ''finalized'', cg_json = False\<rparr> in
       if \<not> match_hex 40 (cg_token a) then Inl (ArgumentTypeError ''--token must be an exact EVM address'')
       else if cg_proxy_slot a \<noteq> None \<and> \<not> match_hex 64 (the (cg_proxy_slot a))
       then Inl (ArgumentTypeError ''--proxy-slot must be an exact bytes32 slot'')
       else Inr a)"

text \<open>
  The exit status, or the exception nothing catches (the interpreter exits with status 1 then), with the
  lines printed to the standard output and to the standard error.  An error of \<^verbatim>\<open>argparse\<close> exits with
  status 2.
\<close>

definition capture_main ::
  "capture_env \<Rightarrow> (string \<Rightarrow> rpc_client) \<Rightarrow> (string \<times> string) list \<Rightarrow> int result \<times> string list \<times> string list" where
  "capture_main env client opts =
     (case parse_capture opts of
        Inl e \<Rightarrow> (Inr 2, [], [cp_exn_text env e])
      | Inr a \<Rightarrow>
          (case fst (capture env (cg_token a) (cg_expect_chain_id a) (cg_block_tag a) (cg_proxy_slot a) (client (cg_rpc a))) of
             Inl e \<Rightarrow>
               (case e of
                  CaptureError m \<Rightarrow> (Inr 2, [], [''capture failed: '' @ cp_exn_text env e])
                | _ \<Rightarrow> if is_rpc_error e then (Inr 3, [], [''capture failed: '' @ cp_exn_text env e]) else (Inl e, [], []))
           | Inr r \<Rightarrow>
               (case if cg_json a
                     then dumps (indented_style\<lparr>js_sort := True\<rparr>) (cp_float_text env) (PDict (capture_payload r))
                     else render_capture env r of
                  Inl e \<Rightarrow> (Inl e, [], [])
                | Inr t \<Rightarrow> (Inr (if ca_domain_solution r \<noteq> None then 0 else 1), [t], []))))"

end
