(* ===== verification/Capture_Properties.thy ===== *)
theory Capture_Properties
  imports Capture Live_Evidence
begin

text \<open>
  What a captured identity is worth: on a node that keeps its answers, a rail calibrated from a
  capture passes the drift check of \<^verbatim>\<open>psv.rails\<close>; and what exit status 0 of the tool says.
\<close>

section \<open>Nodes that keep their answers\<close>

text \<open>
  On a \<open>steady\<close> client a call does not depend on the request id.  An operation is \<open>timeless\<close> if there
  its outcome is a function of the node alone; such operations compose like pure code.
\<close>

definition steady :: "rpc_client \<Rightarrow> bool" where
  "steady c \<longleftrightarrow> (\<forall>meth params i j. fst (call meth params (c\<lparr>rpc_id := i\<rparr>)) = fst (call meth params (c\<lparr>rpc_id := j\<rparr>)))"

definition timeless :: "'a rpc \<Rightarrow> bool" where
  "timeless m \<longleftrightarrow>
     (\<forall>c i. steady c \<longrightarrow> fst (m (c\<lparr>rpc_id := i\<rparr>)) = fst (m c) \<and> (\<exists>j. snd (m c) = c\<lparr>rpc_id := j\<rparr>))"

lemma steady_id [simp]: "steady (c\<lparr>rpc_id := i\<rparr>) = steady c"
  by (simp add: steady_def)

lemma timeless_call [simp]: "timeless (call meth params)"
proof -
  have "fst (call meth params (c\<lparr>rpc_id := i\<rparr>)) = fst (call meth params c)" if "steady c" for c i
  proof -
    have "c\<lparr>rpc_id := rpc_id c\<rparr> = c" by simp
    then show ?thesis using that unfolding steady_def by metis
  qed
  moreover have "snd (call meth params c) = c\<lparr>rpc_id := rpc_id c + 1\<rparr>" for c
    by (simp add: call_def Let_def)
  ultimately show ?thesis unfolding timeless_def by blast
qed

lemma timeless_pure [simp]: "timeless (retS x)" "timeless (raiseS e)" "timeless (liftS r)"
proof -
  have "\<exists>j. c = c\<lparr>rpc_id := j\<rparr>" for c :: rpc_client by (rule exI[of _ "rpc_id c"]) simp
  then show "timeless (retS x)" "timeless (raiseS e)" "timeless (liftS r)" by (simp_all add: timeless_def)
qed

lemma timeless_run:
  assumes "timeless m" "steady c"
  shows "fst (bindS m f c) = bindR (fst (m c)) (\<lambda>x. fst (f x (snd (m c))))" "\<exists>j. snd (m c) = c\<lparr>rpc_id := j\<rparr>"
proof -
  show "fst (bindS m f c) = bindR (fst (m c)) (\<lambda>x. fst (f x (snd (m c))))"
    by (cases "m c"; cases "fst (m c)") (auto simp: bindS_def)
  show "\<exists>j. snd (m c) = c\<lparr>rpc_id := j\<rparr>" using assms by (simp add: timeless_def)
qed

lemma fst_bind:
  assumes "timeless m" "\<And>x. timeless (f x)" "steady c"
  shows "fst (bindS m f c) = bindR (fst (m c)) (\<lambda>x. fst (f x c))"
proof -
  obtain j where "snd (m c) = c\<lparr>rpc_id := j\<rparr>" using timeless_run(2)[OF assms(1,3)] by blast
  then show ?thesis using timeless_run(1)[OF assms(1,3)] assms(2,3) by (cases "fst (m c)") (auto simp: timeless_def)
qed

lemma timeless_bind [simp]:
  assumes "timeless m" "\<And>x. timeless (f x)"
  shows "timeless (bindS m f)"
  unfolding timeless_def
proof (intro allI impI conjI)
  fix c :: rpc_client and i
  assume c: "steady c"
  then show "fst (bindS m f (c\<lparr>rpc_id := i\<rparr>)) = fst (bindS m f c)"
    using assms by (simp add: fst_bind) (simp add: timeless_def)
  obtain j where j: "snd (m c) = c\<lparr>rpc_id := j\<rparr>" using timeless_run(2)[OF assms(1) c] by blast
  show "\<exists>j. snd (bindS m f c) = c\<lparr>rpc_id := j\<rparr>"
  proof (cases "fst (m c)")
    case (Inl e)
    then show ?thesis using j by (cases "m c") (auto simp: bindS_def)
  next
    case (Inr x)
    then have "bindS m f c = f x (c\<lparr>rpc_id := j\<rparr>)" using j by (cases "m c") (auto simp: bindS_def)
    moreover obtain k where "snd (f x (c\<lparr>rpc_id := j\<rparr>)) = c\<lparr>rpc_id := j, rpc_id := k\<rparr>"
      using assms(2)[of x] c unfolding timeless_def by (metis steady_id)
    ultimately show ?thesis by auto
  qed
qed

lemma timeless_if [simp]: "timeless m \<Longrightarrow> timeless n \<Longrightarrow> timeless (if b then m else n)"
  by simp

lemma timeless_cases [simp]:
  "(\<And>a b. timeless (g a b)) \<Longrightarrow> timeless (case p of (a, b) \<Rightarrow> g a b)"
  "timeless n \<Longrightarrow> (\<And>x. timeless (k x)) \<Longrightarrow> timeless (case v of None \<Rightarrow> n | Some x \<Rightarrow> k x)"
  "(\<And>s. timeless (h s)) \<Longrightarrow> timeless n \<Longrightarrow> timeless (case w of PStr s \<Rightarrow> h s | _ \<Rightarrow> n)"
  by (simp_all split: prod.splits option.splits pyval.splits)

lemma fst_pure [simp]: "fst (retS x c) = Inr x" "fst (raiseS e c) = Inl e" "fst (liftS r c) = r"
  by simp_all

lemma client_timeless [simp]:
  "timeless chain_id" "timeless (get_block b full)" "timeless (eth_call to data b)" "timeless (get_code a b)"
  by (simp_all add: chain_id_def get_block_def eth_call_def get_code_def)

lemma token_timeless [simp]: "timeless (balance_of t w b)" "timeless (authorization_used t w n b)"
  by (simp_all add: balance_of_def authorization_used_def)

lemma try_call_timeless [simp]: "timeless (try_call target sel n)"
proof -
  have "try_call target sel n c = (case eth_call target (''0x'' @ sel) (BlockNumber n) c of (r, c') \<Rightarrow>
      (Inr (case r of Inl e \<Rightarrow> None | Inr s \<Rightarrow> Some s), c'))" for c
    by (auto simp: try_call_def split: prod.splits sum.splits)
  then show ?thesis
    using client_timeless(3)[of target "''0x'' @ sel" "BlockNumber n"]
    by (simp add: timeless_def split_beta)
qed

lemma implementation_timeless [simp]: "timeless (implementation_identity sha rc n)"
  by (auto simp: implementation_identity_def Let_def split: option.splits pyval.splits)

lemma anchor_timeless [simp]: "timeless (verify_review_anchor rc)"
  by (auto simp: verify_review_anchor_def Let_def split: option.splits)

lemma read_proxy_timeless [simp]: "timeless (read_proxy env tok slot n)"
  by (auto simp: read_proxy_def Let_def split: pyval.splits)

section \<open>The two fingerprints\<close>

lemma fingerprint_same:
  "capture_code_sha256 env what b = Inr h \<longleftrightarrow> code_fingerprint (cp_sha256 env) b = Inr h"
  by (auto simp: capture_code_sha256_def code_fingerprint_def split: option.splits)

lemma read_proxy_identity:
  assumes "fst (read_proxy env (rail_token_address rc) slot n c) = Inr (a, h)" "steady c"
    and "at_proxy_kind (rail_attestation rc) \<noteq> ''none''" "at_proxy_implementation_slot (rail_attestation rc) = Some slot"
    "at_implementation_address (rail_attestation rc) = Some a" "at_implementation_code_sha256 (rail_attestation rc) = Some h"
  shows "fst (implementation_identity (cp_sha256 env) rc n c) = Inr (Some a, Some h)"
proof -
  from assms(1,2) obtain v where v: "fst (call ''eth_getStorageAt'' [PStr (rail_token_address rc), PStr slot, PStr (py_hex n)] c) = Inr v"
    and rest: "fst ((case v of PStr word \<Rightarrow>
         if \<not> match_hex 64 word then raiseS (CaptureError ''proxy implementation slot returned a malformed word'')
         else if take 24 (drop 2 word) \<noteq> replicate 24 (CHR ''0'')
         then raiseS (CaptureError ''proxy implementation slot does not hold an address word'')
         else if ''0x'' @ lower (last_chars 40 word) = zero_address then raiseS (CaptureError ''proxy implementation slot is empty'')
         else bindS (get_code (''0x'' @ lower (last_chars 40 word)) (BlockNumber n)) (\<lambda>bytecode.
           bindS (liftS (capture_code_sha256 env ''proxy implementation'' bytecode)) (\<lambda>h. retS (''0x'' @ lower (last_chars 40 word), h)))
       | _ \<Rightarrow> raiseS (CaptureError ''proxy implementation slot returned a malformed word'')) c) = Inr (a, h)"
    unfolding read_proxy_def Let_def by (subst (asm) fst_bind) (auto simp: ok_iff)
  from rest assms(2) obtain word bytecode where
    w: "v = PStr word" "match_hex 64 word" "take 24 (drop 2 word) = replicate 24 (CHR ''0'')" "a = ''0x'' @ lower (last_chars 40 word)"
    and code: "fst (get_code a (BlockNumber n) c) = Inr bytecode" "code_fingerprint (cp_sha256 env) bytecode = Inr h"
    by (cases v) (auto simp: fst_bind ok_iff fingerprint_same simp del: append.simps split: if_splits)
  have "lower a = a" by (simp add: w(4) lower_0x)
  then show ?thesis using v w code assms(2-) by (simp add: implementation_identity_def fst_bind Let_def)
qed

section \<open>What a capture has read\<close>

lemma first_match_ok: "first_match f t xs = Inr (Some x) \<Longrightarrow> f x = Inr t \<and> x \<in> set xs"
  by (induction xs) (auto simp: ok_iff split: if_splits)

lemma solve_domain_ok:
  "solve_domain env observed cid tok reported = Inr (Some (name, version)) \<Longrightarrow>
     domain_separator_for env name version cid tok = Inr (lower observed)"
  by (auto simp: solve_domain_def Let_def dest!: first_match_ok)

lemma stages_timeless [simp]:
  "timeless (capture_text env tok sg n)" "timeless (capture_decimals env tok n)" "timeless (capture_domain env tok cid n name)"
  "timeless (capture_probe env tok n)" "timeless (capture_proxy env tok slot n)"
  by (simp_all add: capture_text_def capture_decimals_def capture_domain_def capture_probe_def capture_proxy_def)

lemma at_id: "timeless m \<Longrightarrow> steady c \<Longrightarrow> fst (m (c\<lparr>rpc_id := i\<rparr>)) = fst (m c)"
  by (simp add: timeless_def)

lemma step:
  assumes "fst (bindS m f (c\<lparr>rpc_id := i\<rparr>)) = Inr r" "timeless m" "steady c"
  shows "\<exists>x j. fst (m c) = Inr x \<and> fst (f x (c\<lparr>rpc_id := j\<rparr>)) = Inr r"
proof -
  have s: "steady (c\<lparr>rpc_id := i\<rparr>)" using assms(3) by simp
  obtain x where x: "fst (m c) = Inr x" "fst (f x (snd (m (c\<lparr>rpc_id := i\<rparr>)))) = Inr r"
    using assms(1) unfolding timeless_run(1)[OF assms(2) s] at_id[OF assms(2,3)] bindR_ok by blast
  obtain j where "snd (m (c\<lparr>rpc_id := i\<rparr>)) = c\<lparr>rpc_id := j\<rparr>"
    using timeless_run(2)[OF assms(2), of "c\<lparr>rpc_id := i\<rparr>"] assms(3) by auto
  then show ?thesis using x by auto
qed

lemma capture_steps:
  assumes "fst (capture env tok cid tag slot (c\<lparr>rpc_id := i\<rparr>)) = Inr r" "steady c"
  shows "\<exists>block bytecode. fst (chain_id c) = Inr cid \<and> ca_chain_id r = cid \<and> ca_token_address r = tok \<and>
    fst (get_block (BlockTag tag) False c) = Inr block \<and>
    capture_quantity ''block number'' (dict_get block ''number'') = Inr (ca_block_number r) \<and>
    capture_hash ''block hash'' (dict_get block ''hash'') = Inr (ca_block_hash r) \<and>
    fst (get_code tok (BlockNumber (ca_block_number r)) c) = Inr bytecode \<and>
    capture_code_sha256 env ''token'' bytecode = Inr (ca_code_sha256 r) \<and>
    fst (capture_domain env tok cid (ca_block_number r) (ca_reported_name r) c) =
      Inr (ca_domain_separator r, ca_domain_solution r) \<and>
    fst (capture_proxy env tok slot (ca_block_number r) c) = Inr (ca_implementation_address r, ca_implementation_code_sha256 r)"
  using assms(1) unfolding capture_def
  by (auto dest!: step[OF _ _ assms(2)] split: if_splits prod.splits)

lemma capture_timeless [simp]: "timeless (capture env tok cid tag slot)"
  by (simp add: capture_def)

lemma drift_timeless [simp]: "timeless (check_rail_drift sha rc)"
  by (simp add: check_rail_drift_def Let_def case_prod_beta)

lemma block_numbers:
  assumes "fst (get_block b False c) = Inr d" "capture_quantity w (dict_get d ''number'') = Inr n" "capture_hash w' (dict_get d ''hash'') = Inr h"
  shows "block_identity what d = Inr (n, h)"
proof -
  obtain c' where "get_block b False c = (Inr d, c')" using assms(1) by (cases "get_block b False c") auto
  then obtain v where "check_block False v = Inr d" by (auto simp: get_block_def bindS_ok)
  then have "quantity_field d ''number''" "hash_field d ''hash''" using check_block_shape by blast+
  then show ?thesis
    using assms(2,3)
    by (auto simp: block_identity_ok quantity_field_def hash_field_def quantity_is_def hash_is_def capture_quantity_def
        capture_hash_def split: if_splits)
qed

section \<open>Calibrating from a capture\<close>

definition calibrated_from :: "captured \<Rightarrow> string \<Rightarrow> string option \<Rightarrow> rail_config \<Rightarrow> bool" where
  "calibrated_from r tag slot rc \<longleftrightarrow>
     (let a = rail_attestation rc in
      rail_chain_id rc = ca_chain_id r \<and> rail_token_address rc = ca_token_address r \<and>
      fp_block_tag (rail_finality rc) = tag \<and> at_calibrated a \<and>
      at_reviewed_block_number a = Some (ca_block_number r) \<and> at_reviewed_block_hash a = Some (ca_block_hash r) \<and>
      at_expected_code_sha256 a = Some (ca_code_sha256 r) \<and>
      (case slot of
         None \<Rightarrow> at_proxy_kind a = ''none''
       | Some s \<Rightarrow> at_proxy_kind a \<noteq> ''none'' \<and> at_proxy_implementation_slot a = Some s \<and>
           at_implementation_address a = ca_implementation_address r \<and>
           at_implementation_code_sha256 a = ca_implementation_code_sha256 r))"

text \<open>
  C20: A rail calibrated from a capture passes the drift check.  On a node that keeps its answers, that
  returns the same block by its number as by the tag, and whose token answers the two view calls of
  the check, the drift check of a rail with the captured chain, token, block, code hash and
  implementation finds a match, and reports exactly the captured identity.
\<close>

theorem captured_rail_passes_drift_check:
  assumes cap: "capture env tok cid tag slot c = (Inr r, c')" and st: "steady c" and rc: "calibrated_from r tag slot rc"
    and same: "fst (get_block (BlockNumber (ca_block_number r)) False c) = fst (get_block (BlockTag tag) False c)"
    and view: "token_view_init tok = Inr v"
    and balance: "fst (balance_of v zero_address (BlockNumber (ca_block_number r)) c) = Inr b"
    and state: "fst (authorization_used v zero_address zero_bytes32 (BlockNumber (ca_block_number r)) c) = Inr u"
  shows "\<exists>d. fst (check_rail_drift (cp_sha256 env) rc c') = Inr d \<and> dc_matches d \<and> dc_chain_id d = ca_chain_id r \<and>
    dc_block_number d = ca_block_number r \<and> dc_block_hash d = ca_block_hash r \<and> dc_code_sha256 d = ca_code_sha256 r \<and>
    dc_implementation_address d = ca_implementation_address r \<and>
    dc_implementation_code_sha256 d = ca_implementation_code_sha256 r"
proof -
  have "fst (capture env tok cid tag slot (c\<lparr>rpc_id := rpc_id c\<rparr>)) = Inr r" using cap by simp
  from capture_steps[OF this st] obtain block bytecode where
    r: "fst (chain_id c) = Inr cid" "ca_chain_id r = cid" "ca_token_address r = tok"
      "fst (get_block (BlockTag tag) False c) = Inr block"
    and n: "capture_quantity ''block number'' (dict_get block ''number'') = Inr (ca_block_number r)"
      "capture_hash ''block hash'' (dict_get block ''hash'') = Inr (ca_block_hash r)"
    and code: "fst (get_code tok (BlockNumber (ca_block_number r)) c) = Inr bytecode"
      "capture_code_sha256 env ''token'' bytecode = Inr (ca_code_sha256 r)"
    and proxy: "fst (capture_proxy env tok slot (ca_block_number r) c) = Inr (ca_implementation_address r, ca_implementation_code_sha256 r)"
    by blast
  note id = block_numbers[OF r(4) n]
  have rail: "rail_chain_id rc = cid" "rail_token_address rc = tok" "fp_block_tag (rail_finality rc) = tag"
    "at_calibrated (rail_attestation rc)" "at_reviewed_block_number (rail_attestation rc) = Some (ca_block_number r)"
    "at_reviewed_block_hash (rail_attestation rc) = Some (ca_block_hash r)"
    "at_expected_code_sha256 (rail_attestation rc) = Some (ca_code_sha256 r)"
    using rc r by (simp_all add: calibrated_from_def Let_def)
  have anchor: "fst (verify_review_anchor rc c) = Inr ()"
    using rail same r st id by (simp add: verify_review_anchor_def fst_bind)
  have impl: "fst (implementation_identity (cp_sha256 env) rc (ca_block_number r) c) =
      Inr (ca_implementation_address r, ca_implementation_code_sha256 r)"
  proof (cases slot)
    case None
    then show ?thesis using proxy rc by (simp add: capture_proxy_def calibrated_from_def implementation_identity_def Let_def)
  next
    case (Some s)
    then obtain a h where "fst (read_proxy env tok s (ca_block_number r) c) = Inr (a, h)"
      "ca_implementation_address r = Some a" "ca_implementation_code_sha256 r = Some h"
      using proxy st by (auto simp: capture_proxy_def fst_bind ok_iff)
    then show ?thesis using Some rc rail(2) st by (simp add: read_proxy_identity calibrated_from_def Let_def)
  qed
  have sha: "code_fingerprint (cp_sha256 env) bytecode = Inr (ca_code_sha256 r)" using code(2) by (simp add: fingerprint_same)
  obtain d where d: "fst (check_rail_drift (cp_sha256 env) rc c) = Inr d" and facts: "dc_matches d" "dc_chain_id d = ca_chain_id r"
    "dc_block_number d = ca_block_number r" "dc_block_hash d = ca_block_hash r" "dc_code_sha256 d = ca_code_sha256 r"
    "dc_implementation_address d = ca_implementation_address r" "dc_implementation_code_sha256 d = ca_implementation_code_sha256 r"
    using rail r st id code(1) anchor impl sha view balance state
    by (simp add: check_rail_drift_def fst_bind case_prod_beta Let_def drift_verdict_def)
  obtain j where "c' = c\<lparr>rpc_id := j\<rparr>" using timeless_run(2)[OF capture_timeless st, of env tok cid tag slot] cap by auto
  then show ?thesis using d facts at_id[OF drift_timeless st] by simp
qed

definition demo_capture :: capture_env where
  "demo_capture = \<lparr>cp_sha256 = sample_sha256, cp_keccak = (\<lambda>bs. replicate 32 0), cp_repr = (\<lambda>s. s), cp_exn_text = (\<lambda>e. []),
     cp_float_text = (\<lambda>f. [])\<rparr>"

definition demo_rail :: rail_config where
  "demo_rail = sample_rail\<lparr>rail_attestation := (rail_attestation sample_rail)
     \<lparr>at_reviewed_block_number := Some 20, at_reviewed_block_hash := Some (sample_hash (CHR ''f''))\<rparr>\<rparr>"

lemma sample_steady: "steady (sample_client status)"
proof -
  have leaf: "bounded_json w 1 (PStr ''2.0'') = Inr ()" "bounded_json w 1 (PInt i) = Inr ()" for w i
    by (subst bounded_json.simps, simp)+
  have unit: "bindR m Inr = m" for m :: "unit result" by (cases m) simp_all
  have walk: "bounded_json w 0 (PDict [(PStr ''jsonrpc'', PStr ''2.0''), (PStr ''id'', PInt i), (PStr ''result'', v)]) = bounded_json w 1 v"
    for w i v
    by (subst bounded_json.simps) (simp add: leaf unit is_str_def del: bounded_json.simps)
  have "fst (call meth params ((sample_client status)\<lparr>rpc_id := i\<rparr>)) =
      bindR (bounded_json (meth @ '' response'') 1 (sample_answer status meth params)) (\<lambda>_.
        Inr (sample_answer status meth params))" for meth params i
    by (simp add: call_def sample_client_def sample_node_def rpc_request_def check_envelope_def walk dict_get_def has_key_def
        str_of_def Let_def)
  then show ?thesis by (simp add: steady_def)
qed

theorem captured_rail_passes_drift_check_witness:
  "\<exists>r c' d. capture demo_capture (sample_address (CHR ''A'')) 8453 ''latest'' (Some (sample_hash (CHR ''5''))) (sample_client ''0x1'') =
     (Inr r, c') \<and> fst (check_rail_drift sample_sha256 demo_rail c') = Inr d \<and> dc_matches d"
proof -
  let ?tok = "sample_address (CHR ''A'')" and ?c = "sample_client ''0x1''" and ?slot = "Some (sample_hash (CHR ''5''))"
  let ?run = "capture demo_capture ?tok 8453 ''latest'' ?slot ?c"
  have "case fst ?run of Inl e \<Rightarrow> False
    | Inr r \<Rightarrow> calibrated_from r ''latest'' ?slot demo_rail \<and> ca_block_number r = 20" by code_simp
  then obtain r where r: "fst ?run = Inr r" "calibrated_from r ''latest'' ?slot demo_rail" "ca_block_number r = 20"
    by (auto split: sum.splits)
  then obtain c' where run: "?run = (Inr r, c')" by (cases ?run) auto
  have same: "fst (get_block (BlockNumber 20) False ?c) = fst (get_block (BlockTag ''latest'') False ?c)" by code_simp
  have view: "token_view_init ?tok = Inr \<lparr>address = ?tok\<rparr>" by code_simp
  have b: "fst (balance_of \<lparr>address = ?tok\<rparr> zero_address (BlockNumber 20) ?c) = Inr 0"
    "fst (authorization_used \<lparr>address = ?tok\<rparr> zero_address zero_bytes32 (BlockNumber 20) ?c) = Inr False"
    by code_simp+
  from captured_rail_passes_drift_check[OF run sample_steady r(2), unfolded r(3), OF same view b] run
  show ?thesis by (auto simp: demo_capture_def)
qed

section \<open>The exit status\<close>

text \<open>Status 0 is a printed capture whose domain is solved: its separator is that of the reported pair.\<close>

lemma capture_status_zero:
  assumes "fst (capture_main env client opts) = Inr 0"
  shows "\<exists>a r name version. parse_capture opts = Inr a \<and>
    fst (capture env (cg_token a) (cg_expect_chain_id a) (cg_block_tag a) (cg_proxy_slot a) (client (cg_rpc a))) = Inr r \<and>
    ca_domain_solution r = Some (name, version)"
  using assms by (auto simp: capture_main_def split: sum.splits exn.splits if_splits)

text \<open>An unknown block tag raises a \<^verbatim>\<open>ValueError\<close> nothing catches, whose exit status is that of an unsolved domain.\<close>

lemma unknown_tag_escapes:
  "fst (capture_main demo_capture (\<lambda>url. sample_client ''0x1'') [(''--rpc'', ''http://n''), (''--token'', sample_address (CHR ''A'')),
     (''--expect-chain-id'', ''8453''), (''--block-tag'', ''finalised'')]) = Inl (ValueError ''invalid block selector'')"
  by code_simp

end
