(* ===== verification/Spec2Isabelle.thy ===== *)
theory Spec2Isabelle
  imports Live_Properties Known_Rails Differential Reorg Sut_Properties Token_Quirks Sut_Wire Log_Directory Mcp_Server Svm_Chain Payloads Load Pqc_Receipts Http_Error_Detail Anvil_Process Support_Matrix Capture_Properties
begin

text \<open>
  Verification of psv, a harness that checks payment systems against the chain they settle on.

  \<^bold>\<open>The program.\<close>  psv reads a settlement from a chain through a strict JSON-RPC client
  (\<^verbatim>\<open>src/src/psv/anvil.py\<close>), encodes and decodes ABI words and calldata (\<^verbatim>\<open>chain.py\<close>), decodes
  \<open>Transfer\<close> logs and reconciles them with a ledger (\<^verbatim>\<open>reconciliation.py\<close>), proves one settlement
  from a pinned snapshot of a reviewed rail (\<^verbatim>\<open>rails.py\<close>), and grades the belief of a system
  under test against that truth (\<^verbatim>\<open>divergence.py\<close>, \<^verbatim>\<open>differential.py\<close>, \<^verbatim>\<open>reorg.py\<close>,
  \<^verbatim>\<open>quote_option.py\<close>).  A reference system under test with switchable weaknesses
  (\<^verbatim>\<open>reference_sut/server.py\<close>, \<^verbatim>\<open>reference_sut/confirmer.py\<close>) quotes, submits, confirms and
  unlocks, behind a safety policy (\<^verbatim>\<open>safety.py\<close>).  Systems under test are reached through an HTTP
  adapter (\<^verbatim>\<open>sut.py\<close>); results leave as reports (\<^verbatim>\<open>report.py\<close>) and audit records
  (\<^verbatim>\<open>run_record.py\<close>), through the command line (\<^verbatim>\<open>cli.py\<close>) or an MCP server
  (\<^verbatim>\<open>mcp_server.py\<close>).  Beside these stand the Solana truth (\<^verbatim>\<open>svm_chain.py\<close>), signing and security
  checks (\<^verbatim>\<open>payloads.py\<close>, \<^verbatim>\<open>security_checks.py\<close>), load profiles (\<^verbatim>\<open>load.py\<close>), receipts with
  post-quantum signatures (\<^verbatim>\<open>pqc\<close>) and two tools: the capture of a rail's identity and the
  validator of the support matrix.

  \<^bold>\<open>The theories.\<close>
  \<^item> \<open>Prelude\<close>: exceptions, code that may raise (\<open>'a result\<close>), methods of an object with state
    (\<open>('s, 'a) op\<close>), the collections \<open>ok_iff\<close> and \<open>err_iff\<close>, and the interfaces \<open>codec\<close> and
    \<open>canonical_codec\<close>.
  \<^item> \<open>Py_Strings\<close>, \<open>Py_Values\<close>: the Python operations psv uses: hex and decimal text, \<^verbatim>\<open>int\<close> with
    a base (signs, separators, prefixes, the digit limit), \<^verbatim>\<open>bytes.fromhex\<close>, dicts, JSON values; the
    interface \<open>object_hook\<close>.
  \<^item> \<open>Anvil\<close>: \<^verbatim>\<open>RpcClient\<close>, its validators and methods.  State: the request counter and the
    transport, which is a parameter.  Interpretations: quantities are a canonical codec, the
    duplicate-key hook is an object hook.  \<open>answered\<close> says what a node answered, \<open>reads_only\<close>
    that an operation calls no method that changes a chain.
  \<^item> \<open>Chain\<close>: ABI words, \<^verbatim>\<open>TokenView\<close>, calldata, \<^verbatim>\<open>SettlementTruth\<close>.
  \<^item> \<open>Divergence\<close>, \<open>Differential\<close>: the detectors and the interface \<open>divergence_detector\<close> that both
    schemes interpret; runs over several systems.
  \<^item> \<open>Reconciliation\<close>: identities with their order, the log decoder, \<^verbatim>\<open>find_unreconciled\<close> and
    \<^verbatim>\<open>reconcile_asset_scoped\<close>, both interpretations of the interface \<open>reconciler\<close>, on which the
    merchant's recovery job rests.
  \<^item> \<open>Rails\<close>, \<open>Known_Rails\<close>: the dataclasses with their validation, the drift check, \<^verbatim>\<open>reconcile_live\<close>
    in five stages, and the registry.  \<open>Live_Evidence\<close> holds what each stage establishes,
    \<open>Live_Properties\<close> the properties, \<open>Sample_Node\<close> the concrete node they are instantiated on.
  \<^item> \<open>Reorg\<close>, \<open>Quote_Option\<close>, \<open>Safety\<close>, \<open>Confirmer\<close>: one theory per source file.
  \<^item> \<open>Reference_Sut\<close>: the server; state: orders, fair price and RPC client.  \<open>Sut_Invariant\<close>: its
    step relation with backups, and the ledger invariant.  \<open>Sut_Properties\<close>: its properties.
  \<^item> \<open>Py_Json\<close>, \<open>Json_Roundtrip\<close>, \<open>Json_Errors\<close>, \<open>Json_Strict\<close>: \<^verbatim>\<open>json.dumps\<close>, \<^verbatim>\<open>json.loads\<close> and UTF-8 as psv
    uses them, their round trip, that a sorting layout determines the value, what reading and printing raise, what
    a reader with strict hooks accepts.
  \<^item> \<open>Http_Transport\<close>: \<^verbatim>\<open>_urllib_transport\<close> with its redirect and size limits; \<open>Http_Error_Detail\<close>: what of
    an HTTP error is shown (\<^verbatim>\<open>_http_error_detail\<close>); \<open>Anvil_Process\<close>:
    \<^verbatim>\<open>AnvilProcess\<close>, whose state is the configuration, the process handle and the calls on the operating system; the
    body of its \<^verbatim>\<open>with\<close> statement is a parameter that gets the object and may change it.
  \<^item> \<open>Sut_Adapter\<close>: the wire types and the HTTP adapter of \<^verbatim>\<open>sut.py\<close>; \<open>Sut_Wire\<close>: the reference system
    behind it, in every reachable state.  \<open>Token_Quirks\<close>: \<^verbatim>\<open>token_quirks.py\<close>.
  \<^item> \<open>Urls\<close>, \<open>Run_Record\<close>: URL splitting, redaction, records and the journal on a disk whose calls
    may fail; \<open>Run_Journal\<close>, \<open>Log_Directory\<close>: their properties.
  \<^item> \<open>Report\<close>, \<open>Cli\<close>, \<open>Mcp_Server\<close>: reports, the two commands with files, prints, records and exit
    codes, the three tools for agents.  \<open>Cli_Errors\<close>: which exceptions each part of the command raises and what has happened when one
    escapes.  \<open>Cli_Properties\<close>, \<open>Cli_Sample\<close>: properties and a sample run.
  \<^item> \<open>Svm_Chain\<close>, \<open>Payloads\<close> (with the security checks), \<open>Load\<close>, \<open>Pqc_Receipts\<close>: one theory per
    subsystem with its properties.  A load task is an operation on a state of any type, so that its invocations
    can be observed.
  \<^item> \<open>Capture\<close>, \<open>Capture_Properties\<close>: \<^verbatim>\<open>tools/capture_rail_attestation.py\<close> and its agreement with the
    drift check; \<open>Support_Matrix\<close>: \<^verbatim>\<open>tools/validate_support_matrix.py\<close>.

  \<^bold>\<open>Conventions.\<close>  A Python \<^verbatim>\<open>str\<close> is a \<open>string\<close> with one character per code point below 256; a
  literal outside that range is written as its UTF-8 bytes.  A Python int is an \<open>int\<close>, with the
  uint256 bounds of the source written out.  An argument whose annotation is a concrete type has
  that type, so the source's type tests on it hold by construction; what is annotated \<^verbatim>\<open>object\<close> or
  \<^verbatim>\<open>Any\<close> is a \<open>pyval\<close>.  A dict is an association list in insertion order.  A raised exception
  is a value with its class and the fixed part of its message, and a method that raises keeps
  the changes it made.  Loops are structural recursion: receipt polling and mining recurse on
  the number of tries given.  The JSON parser alone has fuel, \<open>2 * length s + 2\<close> for a text \<open>s\<close>: no
  text exhausts it (\<open>loads_total\<close>).
  The wait for a starting node may go on forever, so it is a partial function, and that it returns on an
  advancing clock is proved.

  \<^bold>\<open>Parameters.\<close>  The transport (so every node, also one that changes its answers, since each
  request has a fresh id), SHA-256, the signer, random order ids, the clock, the text Python gives
  to floats and containers, and the confirmer's log fetcher; the HTTP library (what \<^verbatim>\<open>urllib\<close> or
  \<^verbatim>\<open>httpx\<close> answers), the reading of floats, the interpreter's recursion depth, the test of IPv6
  hosts, which system calls of a disk or terminal fail, the environment variables; \<^verbatim>\<open>eth_account\<close>,
  Keccak and the signature libraries; the load task, and the order in which worker threads take its ids.  Where a property assumes something
  of a parameter, it is a hypothesis of the theorem and an instance shows that it can hold.

  \<^bold>\<open>What is shown.\<close>  Live verdicts rest on exact chain evidence, are accounted for by pinned
  balances, are rechecked after the reads and come from reading only; a matching drift check
  means the attested code; the registry validates.  Reconciliation is sound, complete, fails
  closed, is independent of order and heals.  The detectors follow their tables and a
  disagreement always gives a finding.  The client accepts exact envelopes, within its bounds, and
  raises two classes of exceptions.  Calldata is injective and scalars are canonical codecs.
  The reference system unlocks on evidence only, signs only what the policy accepts, never
  rebroadcasts a pending settlement when idempotent, keeps its ledger coherent in every
  reachable state, and recovers what a restore lost; its confirmer is blind to a changed event
  signature, which the detector reports as a silent loss (below).  Over the wire the client and
  the adapter see what the node and the system said, or raise; an error message hides the endpoint's path.  An exit code that the command
  returns and the agent's answer are the verdict, and an exception that escapes from the command leaves no report and no record; the path of
  the endpoint reaches no record, no report and no output; records are never overwritten and verify; reports round trip.  A Solana
  verdict rests on exact balances, an authorization is bound to its chain, a verified receipt was
  issued, a staged load run accounts for every invocation, no started node is left behind, a captured
  identity is the one the drift check demands, and the support matrix passes exactly if well formed.

  \<^bold>\<open>Not modelled.\<close>  The FastAPI and MCP wiring and the cutting of command lines by \<^verbatim>\<open>argparse\<close>;
  package files and JSON schemas; \<^verbatim>\<open>tools/check_function_docs.py\<close> and \<^verbatim>\<open>tools/check_public_repo.py\<close>, which walk
  Python syntax trees and scan the git index with library calls.  Text with code points above 255 is
  outside the model, and so is the failure of a terminal that cannot encode a text.  The pauses of \<^verbatim>\<open>time.sleep\<close> between two tries are
  left out, with the errors it raises for a delay that is no time.  \<^verbatim>\<open>terminate\<close> and \<^verbatim>\<open>kill\<close> on a process of one's own do
  not fail.  The threads of a load run interleave by whole invocations.
\<close>

section \<open>The drift of an event becomes a silent loss\<close>

definition watched_log_free :: "pydict \<Rightarrow> bool" where
  "watched_log_free receipt \<longleftrightarrow>
     (case dict_get receipt ''logs'' of
        PList logs \<Rightarrow> (\<forall>log\<in>set (mappings logs).
          case log_topics log of [] \<Rightarrow> True | t # ts \<Rightarrow> \<not> same_hex t topic_transfer)
      | _ \<Rightarrow> True)"

lemma watched_log_free_no_evidence:
  assumes "watched_log_free receipt"
  shows "\<not> settlement_evidence topic_transfer token payer payee v nonce tx receipt fetched i"
proof
  assume "settlement_evidence topic_transfer token payer payee v nonce tx receipt fetched i"
  from evidence_watched_topic[OF this] assms show False
    by (fastforce simp: watched_log_free_def split: list.splits)
qed

text \<open>
  C9: When the token stops emitting the event that the reference system watches, the harness
  sees it.  If no receipt of the node carries a log with the watched signature, then whatever
  path \<open>pay\<close> takes the order stays unpaid; so for a settlement that moved funds on the chain
  the detector, asked with the system's own belief, reports a silent loss.
\<close>

theorem event_drift_is_silent_loss:
  assumes "pay env cfg now oid authorization s = (r, t)"
    and "map_of (orders s) oid = Some ord" "\<not> paid ord" "map_of (orders t) oid = Some ord'"
    and drift: "\<And>c tx receipt. receipt_answer (sut_rpc s) c tx receipt \<Longrightarrow> watched_log_free receipt"
    and "funds_moved truth"
  shows "\<not> paid ord' \<and> kind (detect_payment_divergence truth (paid ord') required) = SILENT_LOSS
    \<and> is_failure (detect_payment_divergence truth (paid ord') required)"
proof -
  have "\<not> paid ord'"
  proof
    assume "paid ord'"
    with assms(1-4) show False
      using pay_unlocks[of env cfg now oid authorization s r t ord ord'] drift watched_log_free_no_evidence
      by metis
  qed
  then show ?thesis
    using exact.grade_kind[OF refl, of truth "paid ord'" required] assms(6)
      exact.failure_iff[OF refl, of truth "paid ord'" required] by simp
qed

definition drifted_receipt :: pydict where
  "drifted_receipt = dict_set (sample_receipt ''0x0'') ''status'' (PStr ''0x1'')"

definition drifted_node :: transport where
  "drifted_node req =
     (case req of
        PDict d \<Rightarrow> Inr (PDict [(PStr ''jsonrpc'', PStr ''2.0''), (PStr ''id'', dict_get d ''id''),
          (PStr ''result'', PDict drifted_receipt)])
      | _ \<Rightarrow> Inl (RpcError ''no object''))"

definition drifted_sut :: sut where
  "drifted_sut = \<lparr>orders = [(''ord_1'', pending_order)], fair_price = 1000,
     sut_rpc = \<lparr>rpc_id = 0, rpc_transport = drifted_node\<rparr>\<rparr>"

theorem event_drift_is_silent_loss_witness:
  "\<exists>ord'. map_of (orders (snd (pay demo_env (demo_cfg 31337) 10 ''ord_1'' demo_authorization drifted_sut))) ''ord_1'' =
       Some ord' \<and>
     kind (detect_payment_divergence \<lparr>nonce_consumed = True, payer_balance_after = 4000,
       payee_balance_after = 1000, payer_delta = - 1000, payee_delta = 1000\<rparr> (paid ord') (Some 1000)) = SILENT_LOSS"
proof -
  obtain r t where run: "pay demo_env (demo_cfg 31337) 10 ''ord_1'' demo_authorization drifted_sut = (r, t)" by fastforce
  have "map_of (orders (snd (pay demo_env (demo_cfg 31337) 10 ''ord_1'' demo_authorization drifted_sut))) ''ord_1'' =
    Some demo_order" by code_simp
  then have t: "map_of (orders t) ''ord_1'' = Some demo_order" using run by simp
  have free: "watched_log_free drifted_receipt" by code_simp
  have drift: "watched_log_free receipt" if "receipt_answer (sut_rpc drifted_sut) c tx receipt" for c tx receipt
    using that free by (auto simp: receipt_answer_def answered_def drifted_sut_def drifted_node_def rpc_request_def)
  have "map_of (orders drifted_sut) ''ord_1'' = Some pending_order" "\<not> paid pending_order"
    by (simp_all add: drifted_sut_def pending_order_def set_pending_def demo_order_def new_order_def)
  from event_drift_is_silent_loss[OF run this t drift] run t show ?thesis by (simp add: funds_moved_def)
qed

end
